(* ===== verification/Prelude.thy ===== *)
theory Prelude
  imports Complex_Main "HOL-Library.Sublist" "HOL-Library.Char_ord" "HOL-Library.List_Lexorder"
begin

text \<open>
  Shared vocabulary of the development.

  \<^item> Python strings are \<^typ>\<open>string\<close>; the program compares and slices ASCII names, so one
    character stands for one code point below 128.  \<open>str_lower\<close>, \<open>rstrip_dots\<close>, \<open>py_strip\<close>,
    \<open>startswith\<close>, \<open>endswith\<close>, \<open>contains\<close> and \<open>split_on\<close> are the string methods the sources call.
  \<^item> JSON documents (connector configuration, payloads, claims) are the datatype \<open>json\<close>;
    an object is its list of items, read with \<open>jget\<close> (\<open>dict.get\<close>).  Floats are exact
    rationals together with the three non-finite values that \<open>json.loads\<close> accepts.
  \<^item> A fallible operation returns \<open>'e + 'a\<close>: \<open>Inl\<close> is the exception raised.
  \<^item> Timestamps and durations are rational seconds, and UUIDs are their canonical text.
\<close>

named_theorems record_simps "unfolding rules for constructors of stored rows"
named_theorems step_defs "definitions of the operations of a component"

type_synonym time = rat
type_synonym uuid = string

section \<open>Strings\<close>

definition char_lower :: "char \<Rightarrow> char" where
  "char_lower c =
     (if 65 \<le> (of_char c :: nat) \<and> (of_char c :: nat) \<le> 90
      then char_of ((of_char c :: nat) + 32) else c)"

definition str_lower :: "string \<Rightarrow> string" where
  "str_lower s = map char_lower s"

definition rstrip_char :: "char \<Rightarrow> string \<Rightarrow> string" where
  "rstrip_char c s = rev (dropWhile (\<lambda>x. x = c) (rev s))"

abbreviation rstrip_dots :: "string \<Rightarrow> string" where
  "rstrip_dots \<equiv> rstrip_char (CHR ''.'')"

definition is_space :: "char \<Rightarrow> bool" where
  "is_space c \<longleftrightarrow> (let n = (of_char c :: nat) in 9 \<le> n \<and> n \<le> 13 \<or> 28 \<le> n \<and> n \<le> 32)"

definition py_strip :: "string \<Rightarrow> string" where
  "py_strip s = rev (dropWhile is_space (rev (dropWhile is_space s)))"

definition startswith :: "string \<Rightarrow> string \<Rightarrow> bool" where
  "startswith s p = prefix p s"

definition endswith :: "string \<Rightarrow> string \<Rightarrow> bool" where
  "endswith s p = suffix p s"

fun contains :: "string \<Rightarrow> string \<Rightarrow> bool" where
  "contains [] p = (p = [])"
| "contains (c # s) p = (prefix p (c # s) \<or> contains s p)"

fun split_on :: "char \<Rightarrow> string \<Rightarrow> string list" where
  "split_on d [] = [[]]"
| "split_on d (c # s) =
     (if c = d then [] # split_on d s
      else (case split_on d s of [] \<Rightarrow> [[c]] | w # ws \<Rightarrow> (c # w) # ws))"

definition quoted :: "string \<Rightarrow> string" where
  "quoted s = CHR 0x27 # s @ [CHR 0x27]"

lemma split_on_append: "d \<notin> set s \<Longrightarrow> split_on d (s @ d # t) = s # split_on d t"
  by (induction s) auto

lemma split_on_none: "d \<notin> set s \<Longrightarrow> split_on d s = [s]"
  by (induction s) auto

lemma split_on_not_Nil [simp]: "split_on d s \<noteq> []"
  by (induction s) (auto split: list.splits)

text \<open>Joining the parts with the separator gives the string back.\<close>

fun join_on :: "char \<Rightarrow> string list \<Rightarrow> string" where
  "join_on d [] = []"
| "join_on d [w] = w"
| "join_on d (w # v # ws) = w @ d # join_on d (v # ws)"

lemma join_split_on [simp]: "join_on d (split_on d s) = s"
proof (induction s)
  case Nil
  then show ?case by simp
next
  case (Cons c s)
  then show ?case
    by (cases "split_on d s" rule: remdups_adj.cases) auto
qed

lemma char_lower_idem [simp]: "char_lower (char_lower c) = char_lower c"
  by (auto simp: char_lower_def)

lemma str_lower_idem [simp]: "str_lower (str_lower s) = str_lower s"
  by (simp add: str_lower_def)

lemma str_lower_append [simp]: "str_lower (s @ t) = str_lower s @ str_lower t"
  by (simp add: str_lower_def)

lemma str_lower_Nil [simp]: "str_lower [] = []"
  by (simp add: str_lower_def)

lemma length_str_lower [simp]: "length (str_lower s) = length s"
  by (simp add: str_lower_def)

lemma rstrip_char_append:
  "\<exists>x \<in> set t. x \<noteq> c \<Longrightarrow> rstrip_char c (s @ t) = s @ rstrip_char c t"
  by (auto simp: rstrip_char_def)

lemma rstrip_char_id: "s \<noteq> [] \<Longrightarrow> last s \<noteq> c \<Longrightarrow> rstrip_char c s = s"
  by (cases s rule: rev_cases) (auto simp: rstrip_char_def)

lemma rstrip_char_idem [simp]: "rstrip_char c (rstrip_char c s) = rstrip_char c s"
  by (simp add: rstrip_char_def)

lemma endswith_append: "endswith s p \<longleftrightarrow> (\<exists>t. s = t @ p)"
  by (auto simp: endswith_def suffix_def)

lemma startswith_append: "startswith s p \<longleftrightarrow> (\<exists>t. s = p @ t)"
  by (auto simp: startswith_def prefix_def)

lemma endswith_trans: "endswith s p \<Longrightarrow> endswith p q \<Longrightarrow> endswith s q"
  by (auto simp: endswith_append)

section \<open>JSON values\<close>

datatype pyfloat = Fin rat | PosInf | NegInf | NaN

datatype json =
    JNull
  | JBool bool
  | JInt int
  | JFloat pyfloat
  | JStr string
  | JList "json list"
  | JObj "(string \<times> json) list"

type_synonym jobj = "(string \<times> json) list"

definition jget :: "string \<Rightarrow> jobj \<Rightarrow> json option" where
  "jget k d = map_of d k"

definition jhas :: "string \<Rightarrow> jobj \<Rightarrow> bool" where
  "jhas k d = (k \<in> set (map fst d))"

fun truthy :: "json \<Rightarrow> bool" where
  "truthy JNull = False"
| "truthy (JBool b) = b"
| "truthy (JInt n) = (n \<noteq> 0)"
| "truthy (JFloat (Fin q)) = (q \<noteq> 0)"
| "truthy (JFloat f) = True"
| "truthy (JStr s) = (s \<noteq> [])"
| "truthy (JList xs) = (xs \<noteq> [])"
| "truthy (JObj d) = (d \<noteq> [])"

fun truthy_opt :: "json option \<Rightarrow> bool" where
  "truthy_opt None = False"
| "truthy_opt (Some j) = truthy j"

section \<open>Tables\<close>

text \<open>
  A database table is the list of its rows, in insertion order.  \<open>find_row\<close> is a primary-key
  lookup, \<open>update_row\<close> the write-back of a changed row.
\<close>

definition find_row :: "('r \<Rightarrow> uuid) \<Rightarrow> uuid \<Rightarrow> 'r list \<Rightarrow> 'r option" where
  "find_row key i rows = List.find (\<lambda>r. key r = i) rows"

definition update_row :: "('r \<Rightarrow> uuid) \<Rightarrow> 'r \<Rightarrow> 'r list \<Rightarrow> 'r list" where
  "update_row key r rows = map (\<lambda>x. if key x = key r then r else x) rows"

lemma find_row_Some:
  "find_row key i rows = Some r \<Longrightarrow> r \<in> set rows \<and> key r = i"
  by (auto simp: find_row_def find_Some_iff)

lemma find_row_None: "find_row key i rows = None \<longleftrightarrow> i \<notin> key ` set rows"
  by (auto simp: find_row_def find_None_iff)

lemma find_row_distinct:
  "distinct (map key rows) \<Longrightarrow> r \<in> set rows \<Longrightarrow> find_row key (key r) rows = Some r"
  by (induction rows) (auto simp: find_row_def)

lemma find_row_append:
  "find_row key i (rows @ rows') =
     (case find_row key i rows of Some r \<Rightarrow> Some r | None \<Rightarrow> find_row key i rows')"
  by (induction rows) (auto simp: find_row_def)

lemma find_row_update_row [simp]:
  "find_row key i (update_row key r rows) =
     (if i = key r then (if i \<in> key ` set rows then Some r else None)
      else find_row key i rows)"
  by (induction rows) (auto simp: find_row_def update_row_def)

lemma map_key_update_row [simp]: "map key (update_row key r rows) = map key rows"
  by (induction rows) (auto simp: update_row_def)

lemma keys_update_row [simp]: "key ` set (update_row key r rows) = key ` set rows"
  by (metis map_key_update_row set_map)

lemma set_update_row:
  "x \<in> set (update_row key r rows) \<Longrightarrow>
     x = r \<and> key r \<in> key ` set rows \<or> x \<in> set rows \<and> key x \<noteq> key r"
  unfolding update_row_def by (auto split: if_splits) (metis image_eqI)+

lemma length_update_row [simp]: "length (update_row key r rows) = length rows"
  by (simp add: update_row_def)

lemma map_update_row_same:
  assumes "distinct (map key rows)" and "find_row key (key r) rows = Some r0" and "f r = f r0"
  shows "map f (update_row key r rows) = map f rows"
proof -
  have "f (if key x = key r then r else x) = f x" if "x \<in> set rows" for x
    using that assms find_row_distinct [OF assms(1) that] by auto
  then show ?thesis
    by (simp add: update_row_def)
qed

lemma update_row_mem: "key r \<in> key ` set rows \<Longrightarrow> r \<in> set (update_row key r rows)"
  by (auto simp: update_row_def image_iff)

text \<open>Writing back a batch of rows, each changed without touching its key.\<close>

lemma fold_update_row:
  assumes key: "\<And>r. key (f r) = key r" and dist: "distinct (map key rows)"
  shows "set cs \<subseteq> set rows \<Longrightarrow> distinct (map key cs) \<Longrightarrow>
    fold (\<lambda>c. update_row key (f c)) cs rows = map (\<lambda>r. if r \<in> set cs then f r else r) rows"
proof (induction cs rule: rev_induct)
  case Nil
  then show ?case by simp
next
  case (snoc c cs)
  have same: "x = r" if "x \<in> set rows" "r \<in> set rows" "key x = key r" for x r
    using that dist by (metis distinct_map inj_onD)
  have "update_row key (f c) (map (\<lambda>r. if r \<in> set cs then f r else r) rows) =
        map (\<lambda>r. if r \<in> set (cs @ [c]) then f r else r) rows"
    unfolding update_row_def map_map
    using snoc.prems by (intro map_cong refl) (auto simp: key dest: same)
  with snoc show ?case by simp
qed

lemma set_map_if:
  "r' \<in> set (map (\<lambda>r. if P r then f r else r) rows) \<longleftrightarrow>
     (\<exists>r \<in> set rows. P r \<and> r' = f r \<or> \<not> P r \<and> r' = r)"
  by auto

end
