(* ===== verification/Lifecycle.thy ===== *)
theory Lifecycle
  imports Prelude
begin

text \<open>
  \<open>services/connector-registry/app/lifecycle.py\<close>: the ten connector states, the transition
  table, and the five lookups over it.  States cross the API and the database as strings, so
  \<open>is_executable\<close>, \<open>find_transition\<close>, \<open>permitted_targets\<close> and \<open>idempotent_repeat\<close> take strings, as
  the code does; \<open>ConnectorState\<close> is the enum's value lookup, which fails on an unknown string.
\<close>

datatype connector_state =
    DRAFT | INSTALLED | CONFIGURED | VALIDATED | ENABLED
  | DISABLED | REVOKED | DELETION_REQUESTED | ARCHIVED | DELETED

fun state_value :: "connector_state \<Rightarrow> string" where
  "state_value DRAFT = ''draft''"
| "state_value INSTALLED = ''installed''"
| "state_value CONFIGURED = ''configured''"
| "state_value VALIDATED = ''validated''"
| "state_value ENABLED = ''enabled''"
| "state_value DISABLED = ''disabled''"
| "state_value REVOKED = ''revoked''"
| "state_value DELETION_REQUESTED = ''deletion_requested''"
| "state_value ARCHIVED = ''archived''"
| "state_value DELETED = ''deleted''"

lemma UNIV_connector_state:
  "UNIV = {DRAFT, INSTALLED, CONFIGURED, VALIDATED, ENABLED,
           DISABLED, REVOKED, DELETION_REQUESTED, ARCHIVED, DELETED}"
  by (auto intro: connector_state.exhaust)

text \<open>The states as an enumeration, so that statements about every state are computable.\<close>

instantiation connector_state :: enum
begin

definition
  "enum_connector_state =
     [DRAFT, INSTALLED, CONFIGURED, VALIDATED, ENABLED,
      DISABLED, REVOKED, DELETION_REQUESTED, ARCHIVED, DELETED]"

definition
  "enum_all_connector_state P \<longleftrightarrow>
     P DRAFT \<and> P INSTALLED \<and> P CONFIGURED \<and> P VALIDATED \<and> P ENABLED \<and>
     P DISABLED \<and> P REVOKED \<and> P DELETION_REQUESTED \<and> P ARCHIVED \<and> P DELETED"

definition
  "enum_ex_connector_state P \<longleftrightarrow>
     P DRAFT \<or> P INSTALLED \<or> P CONFIGURED \<or> P VALIDATED \<or> P ENABLED \<or>
     P DISABLED \<or> P REVOKED \<or> P DELETION_REQUESTED \<or> P ARCHIVED \<or> P DELETED"

instance
proof
  show "(UNIV :: connector_state set) = set enum_class.enum"
    by (simp add: enum_connector_state_def UNIV_connector_state)
  show "distinct (enum_class.enum :: connector_state list)"
    by (simp add: enum_connector_state_def)
  show "enum_class.enum_all P \<longleftrightarrow> Ball UNIV P" for P :: "connector_state \<Rightarrow> bool"
    by (simp add: enum_all_connector_state_def UNIV_connector_state)
  show "enum_class.enum_ex P \<longleftrightarrow> Bex UNIV P" for P :: "connector_state \<Rightarrow> bool"
    by (simp add: enum_ex_connector_state_def UNIV_connector_state)
qed

end

definition ConnectorState :: "string \<Rightarrow> connector_state option" where
  "ConnectorState v = List.find (\<lambda>s. state_value s = v) enum_class.enum"

definition EXECUTABLE_STATES :: "connector_state set" where
  "EXECUTABLE_STATES = {ENABLED}"

definition TERMINAL_STATES :: "connector_state set" where
  "TERMINAL_STATES = {DELETED}"

definition ONE_WAY_INTO :: "connector_state set" where
  "ONE_WAY_INTO = {REVOKED, ARCHIVED, DELETED}"

definition CREATABLE_STATES :: "connector_state set" where
  "CREATABLE_STATES = {DRAFT, INSTALLED, CONFIGURED, VALIDATED, ENABLED, DISABLED}"

record transition =
  t_source :: connector_state
  t_target :: connector_state
  t_event :: string
  t_idempotent :: bool
  t_requires_reason :: bool
  t_privileged :: bool

definition Transition :: "connector_state \<Rightarrow> connector_state \<Rightarrow> string \<Rightarrow> bool \<Rightarrow> bool \<Rightarrow> bool \<Rightarrow> transition" where
  "Transition s t e idem reason priv =
     \<lparr>t_source = s, t_target = t, t_event = e, t_idempotent = idem,
      t_requires_reason = reason, t_privileged = priv\<rparr>"

definition TRANSITIONS :: "transition list" where
  "TRANSITIONS =
     [Transition DRAFT INSTALLED ''connector.installed'' False False False,
      Transition INSTALLED CONFIGURED ''connector.configured'' False False False,
      Transition CONFIGURED CONFIGURED ''connector.configured'' False False False,
      Transition VALIDATED CONFIGURED ''connector.configured'' False False False,
      Transition DISABLED CONFIGURED ''connector.configured'' False False False,
      Transition CONFIGURED VALIDATED ''connector.validation_succeeded'' False False False,
      Transition CONFIGURED CONFIGURED ''connector.validation_failed'' False False False,
      Transition VALIDATED ENABLED ''connector.enabled'' False False False,
      Transition DISABLED ENABLED ''connector.enabled'' False False False,
      Transition ENABLED DISABLED ''connector.disabled'' True True False,
      Transition ENABLED ENABLED ''connector.credentials_rotated'' False False False,
      Transition DISABLED DISABLED ''connector.credentials_rotated'' False False False]
     @ map (\<lambda>source. Transition source REVOKED ''connector.revoked'' True True False)
         [DRAFT, INSTALLED, CONFIGURED, VALIDATED, ENABLED, DISABLED]
     @ [Transition DISABLED DELETION_REQUESTED ''connector.deletion_requested'' True True False,
        Transition REVOKED DELETION_REQUESTED ''connector.deletion_requested'' True True False,
        Transition DELETION_REQUESTED ARCHIVED ''connector.archived'' True False False,
        Transition REVOKED ARCHIVED ''connector.archived'' True False False,
        Transition ARCHIVED DELETED ''connector.deleted'' False True True]"

definition by_edge :: "connector_state \<Rightarrow> connector_state \<Rightarrow> transition list" where
  "by_edge f t = filter (\<lambda>tr. t_source tr = f \<and> t_target tr = t) TRANSITIONS"

definition is_executable :: "string \<Rightarrow> bool" where
  "is_executable state =
     (case ConnectorState state of Some s \<Rightarrow> s \<in> EXECUTABLE_STATES | None \<Rightarrow> False)"

datatype transition_error =
    UnknownState string
  | IsTerminal connector_state
  | NotPermitted

definition find_transition :: "string \<Rightarrow> string \<Rightarrow> string option \<Rightarrow> transition_error + transition" where
  "find_transition source target event =
     (case ConnectorState source of
        None \<Rightarrow> Inl (UnknownState source)
      | Some frm \<Rightarrow>
        (case ConnectorState target of
           None \<Rightarrow> Inl (UnknownState target)
         | Some to \<Rightarrow>
             if frm \<in> TERMINAL_STATES \<and> frm \<noteq> to then Inl (IsTerminal frm)
             else
               (let candidates = by_edge frm to;
                    candidates =
                      (case event of
                         None \<Rightarrow> candidates
                       | Some e \<Rightarrow> filter (\<lambda>c. t_event c = e) candidates)
                in case candidates of [] \<Rightarrow> Inl NotPermitted | c # _ \<Rightarrow> Inr c)))"

definition permitted_targets :: "string \<Rightarrow> string list" where
  "permitted_targets source =
     (case ConnectorState source of
        None \<Rightarrow> []
      | Some frm \<Rightarrow>
          sort (remdups (map (\<lambda>t. state_value (t_target t))
                           (filter (\<lambda>t. t_source t = frm) TRANSITIONS))))"

definition idempotent_repeat :: "string \<Rightarrow> string \<Rightarrow> transition option" where
  "idempotent_repeat current target =
     (if current \<noteq> target then None
      else List.find (\<lambda>t. state_value (t_target t) = target \<and> t_idempotent t) TRANSITIONS)"

definition is_idempotent_repeat :: "string \<Rightarrow> string \<Rightarrow> bool" where
  "is_idempotent_repeat current target = (idempotent_repeat current target \<noteq> None)"

section \<open>The enum and its values\<close>

lemma ConnectorState_value [simp]: "ConnectorState (state_value s) = Some s"
  by (cases s) (simp_all add: ConnectorState_def enum_connector_state_def)

lemma ConnectorState_Some: "ConnectorState v = Some s \<longleftrightarrow> v = state_value s"
  by (auto simp: ConnectorState_def find_Some_iff) (metis ConnectorState_value ConnectorState_def find_Some_iff)

lemma state_value_inject [simp]: "state_value s = state_value t \<longleftrightarrow> s = t"
  by (metis ConnectorState_value option.inject)

lemma by_edge_iff: "tr \<in> set (by_edge f t) \<longleftrightarrow> tr \<in> set TRANSITIONS \<and> t_source tr = f \<and> t_target tr = t"
  by (auto simp: by_edge_def)


section \<open>Lookups\<close>

lemma state_value_neq [simp]: "state_value s \<noteq> []"
  by (cases s) simp_all

lemma is_executable_value [simp]: "is_executable (state_value s) \<longleftrightarrow> s = ENABLED"
  by (simp add: is_executable_def EXECUTABLE_STATES_def)

lemma is_executable_ConnectorState: "is_executable v \<longleftrightarrow> ConnectorState v = Some ENABLED"
  by (auto simp: is_executable_def EXECUTABLE_STATES_def split: option.splits)

lemma no_exit_from_terminal:
  "tr \<in> set TRANSITIONS \<Longrightarrow> t_source tr \<notin> TERMINAL_STATES"
  by (auto simp: TRANSITIONS_def Transition_def TERMINAL_STATES_def)

lemma by_edge_Cons:
  "by_edge f t = tr # trs \<Longrightarrow> tr \<in> set TRANSITIONS \<and> t_source tr = f \<and> t_target tr = t"
  using by_edge_iff [of tr f t] by simp

lemma filter_by_edge_Cons:
  "filter P (by_edge f t) = tr # trs \<Longrightarrow>
     tr \<in> set TRANSITIONS \<and> t_source tr = f \<and> t_target tr = t \<and> P tr"
  using by_edge_iff [of tr f t] filter_set [of P "by_edge f t"] by auto

lemma find_transition_value:
  "find_transition (state_value s) (state_value t) event = Inr tr \<Longrightarrow>
     tr \<in> set TRANSITIONS \<and> t_source tr = s \<and> t_target tr = t \<and>
     (event = None \<or> event = Some (t_event tr))"
  unfolding find_transition_def
  by (auto simp: Let_def dest!: by_edge_Cons filter_by_edge_Cons
           split: if_splits list.splits option.splits)

lemma find_transition_Inr:
  "find_transition source target event = Inr tr \<Longrightarrow>
     tr \<in> set TRANSITIONS \<and> source = state_value (t_source tr) \<and>
     target = state_value (t_target tr) \<and> (event = None \<or> event = Some (t_event tr))"
  using find_transition_value
  by (fastforce simp: find_transition_def ConnectorState_Some split: option.splits)

lemma find_transition_complete:
  assumes "tr \<in> set TRANSITIONS" and "event = None \<or> event = Some (t_event tr)"
  shows "\<exists>tr'. find_transition (state_value (t_source tr)) (state_value (t_target tr)) event = Inr tr'"
proof -
  let ?cs = "case event of None \<Rightarrow> by_edge (t_source tr) (t_target tr)
             | Some e \<Rightarrow> filter (\<lambda>c. t_event c = e) (by_edge (t_source tr) (t_target tr))"
  have "tr \<in> set ?cs"
    using assms by (auto simp: by_edge_def split: option.splits)
  then obtain c cs where "?cs = c # cs"
    by (cases ?cs) auto
  then show ?thesis
    using no_exit_from_terminal [OF assms(1)] by (simp add: find_transition_def)
qed

lemma find_transition_iff:
  "(\<exists>tr. find_transition source target event = Inr tr) \<longleftrightarrow>
     (\<exists>tr \<in> set TRANSITIONS. state_value (t_source tr) = source \<and> state_value (t_target tr) = target \<and>
        (event = None \<or> event = Some (t_event tr)))"
  by (auto dest!: find_transition_Inr intro: find_transition_complete)

lemma is_idempotent_repeat_iff:
  "is_idempotent_repeat current target \<longleftrightarrow>
     current = target \<and> current \<in> state_value ` {DISABLED, REVOKED, DELETION_REQUESTED, ARCHIVED}"
  by (auto simp: is_idempotent_repeat_def idempotent_repeat_def find_None_iff
                 TRANSITIONS_def Transition_def)

section \<open>Edges and runs\<close>

definition edge :: "connector_state \<Rightarrow> connector_state \<Rightarrow> bool" where
  "edge s t \<longleftrightarrow> (\<exists>tr \<in> set TRANSITIONS. t_source tr = s \<and> t_target tr = t)"

lemma edge_image: "edge s t \<longleftrightarrow> (s, t) \<in> set (map (\<lambda>tr. (t_source tr, t_target tr)) TRANSITIONS)"
  by (auto simp: edge_def)

lemma edge_pairs:
  "map (\<lambda>tr. (t_source tr, t_target tr)) TRANSITIONS =
     [(DRAFT, INSTALLED), (INSTALLED, CONFIGURED), (CONFIGURED, CONFIGURED),
      (VALIDATED, CONFIGURED), (DISABLED, CONFIGURED), (CONFIGURED, VALIDATED),
      (CONFIGURED, CONFIGURED), (VALIDATED, ENABLED), (DISABLED, ENABLED), (ENABLED, DISABLED),
      (ENABLED, ENABLED), (DISABLED, DISABLED),
      (DRAFT, REVOKED), (INSTALLED, REVOKED), (CONFIGURED, REVOKED),
      (VALIDATED, REVOKED), (ENABLED, REVOKED), (DISABLED, REVOKED),
      (DISABLED, DELETION_REQUESTED), (REVOKED, DELETION_REQUESTED),
      (DELETION_REQUESTED, ARCHIVED), (REVOKED, ARCHIVED), (ARCHIVED, DELETED)]"
  by (simp add: TRANSITIONS_def Transition_def)

lemmas edge_iff = edge_image [unfolded edge_pairs]

lemma edgeI: "tr \<in> set TRANSITIONS \<Longrightarrow> edge (t_source tr) (t_target tr)"
  by (auto simp: edge_def)

text \<open>\<open>run s vs t\<close>: the machine can move from \<open>s\<close> to \<open>t\<close>, visiting the states \<open>vs\<close> in order.\<close>

inductive run :: "connector_state \<Rightarrow> connector_state list \<Rightarrow> connector_state \<Rightarrow> bool" where
  here: "run s [s] s"
| move: "run s vs t \<Longrightarrow> edge t u \<Longrightarrow> run s (vs @ [u]) u"

inductive_cases run_singletonE: "run s [v] t"

lemma run_last: "run s vs t \<Longrightarrow> vs \<noteq> [] \<and> last vs = t"
  by (induction rule: run.induct) auto

lemma run_closed:
  assumes "run s vs t" and "s \<in> S" and "\<And>a b. a \<in> S \<Longrightarrow> edge a b \<Longrightarrow> b \<in> S"
  shows "t \<in> S"
  using assms by (induction rule: run.induct) auto

text \<open>The states that no transition leads out of: once retired, a connector stays retired.\<close>

definition RETIRED :: "connector_state set" where
  "RETIRED = {REVOKED, DELETION_REQUESTED, ARCHIVED, DELETED}"

lemma RETIRED_closed: "s \<in> RETIRED \<Longrightarrow> edge s t \<Longrightarrow> t \<in> RETIRED"
  by (auto simp: RETIRED_def edge_iff)

lemma RETIRED_not_executable: "s \<in> RETIRED \<Longrightarrow> \<not> is_executable (state_value s)"
  by (auto simp: RETIRED_def)

text \<open>After a reconfiguration with no later validation, only these states can be held.\<close>

definition UNVALIDATED :: "connector_state set" where
  "UNVALIDATED = insert CONFIGURED RETIRED"

lemma UNVALIDATED_closed:
  "s \<in> UNVALIDATED \<Longrightarrow> edge s t \<Longrightarrow> t \<noteq> VALIDATED \<Longrightarrow> t \<in> UNVALIDATED"
  by (auto simp: UNVALIDATED_def RETIRED_def edge_iff)

lemma run_unvalidated:
  "run s vs t \<Longrightarrow> vs = as @ CONFIGURED # bs \<Longrightarrow> VALIDATED \<notin> set bs \<Longrightarrow> t \<in> UNVALIDATED"
proof (induction arbitrary: bs rule: run.induct)
  case (here s)
  then show ?case by (cases as) (auto simp: UNVALIDATED_def)
next
  case (move s vs t u)
  show ?case
  proof (cases bs rule: rev_cases)
    case Nil
    with move.prems show ?thesis by (simp add: UNVALIDATED_def)
  next
    case (snoc cs c)
    with move.prems have "vs = as @ CONFIGURED # cs" "u = c" by simp_all
    with move.IH [of cs] move.hyps(2) move.prems(2) snoc show ?thesis
      by (auto intro: UNVALIDATED_closed)
  qed
qed

lemma run_DRAFT: "\<exists>vs. run DRAFT vs s"
proof -
  note step = run.move [where s = DRAFT]
  have inst: "run DRAFT [DRAFT, INSTALLED] INSTALLED"
    using step [OF run.here] by (simp add: edge_iff)
  have conf: "run DRAFT [DRAFT, INSTALLED, CONFIGURED] CONFIGURED"
    using step [OF inst] by (simp add: edge_iff)
  have val: "run DRAFT [DRAFT, INSTALLED, CONFIGURED, VALIDATED] VALIDATED"
    using step [OF conf] by (simp add: edge_iff)
  have en: "run DRAFT [DRAFT, INSTALLED, CONFIGURED, VALIDATED, ENABLED] ENABLED"
    using step [OF val] by (simp add: edge_iff)
  have dis: "run DRAFT [DRAFT, INSTALLED, CONFIGURED, VALIDATED, ENABLED, DISABLED] DISABLED"
    using step [OF en] by (simp add: edge_iff)
  have rev: "run DRAFT [DRAFT, REVOKED] REVOKED"
    using step [OF run.here] by (simp add: edge_iff)
  have del: "run DRAFT [DRAFT, REVOKED, DELETION_REQUESTED] DELETION_REQUESTED"
    using step [OF rev] by (simp add: edge_iff)
  have arc: "run DRAFT [DRAFT, REVOKED, ARCHIVED] ARCHIVED"
    using step [OF rev] by (simp add: edge_iff)
  have gone: "run DRAFT [DRAFT, REVOKED, ARCHIVED, DELETED] DELETED"
    using step [OF arc] by (simp add: edge_iff)
  show ?thesis
    by (cases s) (use run.here inst conf val en dis rev del arc gone in blast)+
qed

section \<open>Properties\<close>

text \<open>
  The executability gate admits exactly one string.  Every other value of the status column,
  a future or misspelt state included, is refused.
\<close>

theorem is_executable_only_enabled: "is_executable v \<longleftrightarrow> v = ''enabled''"
  by (simp add: is_executable_ConnectorState ConnectorState_Some)

text \<open>
  \<open>find\<close> returns a transition exactly when the table holds an edge between the two named
  states with the requested event, and what it returns is such a table entry.
\<close>

theorem find_transition_table:
  "(\<exists>tr. find_transition source target event = Inr tr) \<longleftrightarrow>
     (\<exists>tr \<in> set TRANSITIONS. state_value (t_source tr) = source \<and> state_value (t_target tr) = target \<and>
        (event = None \<or> event = Some (t_event tr)))"
  by (rule find_transition_iff)

text \<open>
  The targets offered in a 409 are exactly the states some request could move to, in
  ascending order and without repetition.
\<close>

theorem permitted_targets_exact:
  "set (permitted_targets source) = {target. \<exists>event tr. find_transition source target event = Inr tr} \<and>
   sorted (permitted_targets source) \<and> distinct (permitted_targets source)"
proof -
  have "target \<in> set (permitted_targets source) \<longleftrightarrow>
        (\<exists>event tr. find_transition source target event = Inr tr)" for target
    unfolding find_transition_iff
    by (fastforce simp: permitted_targets_def ConnectorState_Some split: option.splits
          dest: sym [of "Some _"])
  then show ?thesis
    by (auto simp: permitted_targets_def split: option.splits)
qed

text \<open>
  Re-requesting a held state succeeds silently for the four states an operator may retry
  into, and for no other: a repeated enable is never swallowed.
\<close>

theorem idempotent_repeat_states:
  "is_idempotent_repeat current target \<longleftrightarrow>
     current = target \<and> current \<in> {''disabled'', ''revoked'', ''deletion_requested'', ''archived''}"
  using is_idempotent_repeat_iff [of current target] by auto

text \<open>
  Nothing unvalidated is ever enabled: on every run of the machine, between a configuration
  and a later arrival in \<open>ENABLED\<close> lies a validation.
\<close>

theorem enabled_only_after_validation:
  assumes "run s (as @ CONFIGURED # bs) ENABLED"
  shows "VALIDATED \<in> set bs"
proof (rule ccontr)
  assume "VALIDATED \<notin> set bs"
  then have "ENABLED \<in> UNVALIDATED" using run_unvalidated [OF assms refl] by blast
  then show False by (simp add: UNVALIDATED_def RETIRED_def)
qed

theorem enabled_only_after_validation_witness:
  "VALIDATED \<in> set [VALIDATED, ENABLED]"
proof -
  have c: "run CONFIGURED [CONFIGURED, VALIDATED] VALIDATED"
    using run.move [OF run.here, of CONFIGURED VALIDATED] by (simp add: edge_iff)
  have "run CONFIGURED ([] @ CONFIGURED # [VALIDATED, ENABLED]) ENABLED"
    using run.move [OF c, of ENABLED] by (simp add: edge_iff)
  then show ?thesis by (rule enabled_only_after_validation)
qed

end
