(* ===== verification/Timing.thy ===== *)
theory Timing
  imports Prelude
begin

text \<open>
  \<open>packages/favl-outbox/favl_outbox/timing.py\<close>, the startup gate of \<open>config.py\<close> and the backoff
  of \<open>publisher.py\<close>.  Seconds are exact rationals: the rounding of binary floats is not
  modelled, and neither are non-finite settings.  Environment variables are read through
  \<open>getenv\<close>, with Python's \<open>int\<close> and \<open>float\<close> on strings as the arguments \<open>to_int\<close> and \<open>to_float\<close>
  (\<open>None\<close> is the ValueError).  The draw of the jitter generator is the argument \<open>u\<close> of
  \<open>compute_backoff\<close>; \<open>random.uniform(-j, j)\<close> documents \<open>\<bar>u\<bar> \<le> j\<close>.
\<close>

record retry_policy =
  rp_max_attempts :: int
  rp_base_seconds :: rat
  rp_cap_seconds :: rat
  rp_jitter_ratio :: rat

record operational_delays =
  od_db_lock_wait_seconds :: rat
  od_broker_connect_timeout_seconds :: rat
  od_publish_timeout_seconds :: rat
  od_process_restart_seconds :: rat
  od_poll_interval_seconds :: rat

definition DEFAULT_RETRY_POLICY :: retry_policy where
  "DEFAULT_RETRY_POLICY =
     \<lparr>rp_max_attempts = 8, rp_base_seconds = 1, rp_cap_seconds = 300, rp_jitter_ratio = 1 / 4\<rparr>"

definition raw_backoff :: "retry_policy \<Rightarrow> int \<Rightarrow> rat" where
  "raw_backoff p attempt =
     min (rp_base_seconds p * 2 ^ nat (max (attempt - 1) 0)) (rp_cap_seconds p)"

definition backoff_for :: "retry_policy \<Rightarrow> int \<Rightarrow> rat" where
  "backoff_for p attempt = raw_backoff p attempt * (1 + rp_jitter_ratio p)"

definition per_attempt_seconds :: "operational_delays \<Rightarrow> rat" where
  "per_attempt_seconds d =
     od_db_lock_wait_seconds d + od_broker_connect_timeout_seconds d
     + od_publish_timeout_seconds d + od_process_restart_seconds d + od_poll_interval_seconds d"

definition worst_case_retry_horizon :: "retry_policy \<Rightarrow> operational_delays \<Rightarrow> rat" where
  "worst_case_retry_horizon p d =
     fold (\<lambda>attempt total. total + backoff_for p attempt) [1..rp_max_attempts p - 1]
       (of_int (rp_max_attempts p) * per_attempt_seconds d)"

definition window_utilisation :: "retry_policy \<Rightarrow> operational_delays \<Rightarrow> rat \<Rightarrow> pyfloat" where
  "window_utilisation p d window =
     (if window \<le> 0 then PosInf else Fin (worst_case_retry_horizon p d / window))"

datatype gate_error =
    DuplicateWindowTooSmall
  | ZeroDivisionError
  | ValueError string

definition validate_duplicate_window ::
  "retry_policy \<Rightarrow> operational_delays \<Rightarrow> rat \<Rightarrow> rat \<Rightarrow> gate_error + rat" where
  "validate_duplicate_window p d window safety_margin =
     (let horizon = worst_case_retry_horizon p d;
          limit = window * safety_margin
      in if horizon > limit then Inl DuplicateWindowTooSmall
         else if window = 0 then Inl ZeroDivisionError
         else Inr (horizon / window))"

definition compute_backoff :: "int \<Rightarrow> rat \<Rightarrow> retry_policy \<Rightarrow> rat" where
  "compute_backoff attempts u p = max (1 / 10) (raw_backoff p attempts + u)"

section \<open>Configuration from the environment\<close>

type_synonym getenv = "string \<Rightarrow> string option"

definition env_read ::
  "getenv \<Rightarrow> (string \<Rightarrow> 'a option) \<Rightarrow> string \<Rightarrow> 'a \<Rightarrow> gate_error + 'a" where
  "env_read getenv convert name dflt =
     (case getenv name of
        None \<Rightarrow> Inr dflt
      | Some s \<Rightarrow> (case convert s of None \<Rightarrow> Inl (ValueError name) | Some v \<Rightarrow> Inr v))"

definition retry_policy_from_env ::
  "getenv \<Rightarrow> (string \<Rightarrow> int option) \<Rightarrow> (string \<Rightarrow> rat option) \<Rightarrow> gate_error + retry_policy" where
  "retry_policy_from_env getenv to_int to_float =
     (case env_read getenv to_int ''OUTBOX_MAX_ATTEMPTS'' (rp_max_attempts DEFAULT_RETRY_POLICY) of
        Inl e \<Rightarrow> Inl e | Inr n \<Rightarrow>
      case env_read getenv to_float ''OUTBOX_BACKOFF_BASE'' (rp_base_seconds DEFAULT_RETRY_POLICY) of
        Inl e \<Rightarrow> Inl e | Inr b \<Rightarrow>
      case env_read getenv to_float ''OUTBOX_BACKOFF_CAP'' (rp_cap_seconds DEFAULT_RETRY_POLICY) of
        Inl e \<Rightarrow> Inl e | Inr c \<Rightarrow>
      case env_read getenv to_float ''OUTBOX_JITTER_RATIO'' (rp_jitter_ratio DEFAULT_RETRY_POLICY) of
        Inl e \<Rightarrow> Inl e | Inr j \<Rightarrow>
      Inr \<lparr>rp_max_attempts = n, rp_base_seconds = b, rp_cap_seconds = c, rp_jitter_ratio = j\<rparr>)"

text \<open>
  \<open>jetstream.py\<close> reads the connect and publish timeouts and the duplicate window at import, before
  anything else of the package runs; \<open>config.py\<close> reads the margin at import.
\<close>

record broker_settings =
  bs_connect_timeout :: rat
  bs_publish_timeout :: rat
  bs_duplicate_window :: rat
  bs_safety_margin :: rat

definition broker_settings_from_env ::
  "getenv \<Rightarrow> (string \<Rightarrow> rat option) \<Rightarrow> gate_error + broker_settings" where
  "broker_settings_from_env getenv to_float =
     (case env_read getenv to_float ''OUTBOX_DUPLICATE_WINDOW_SECONDS'' (2 * 3600) of
        Inl e \<Rightarrow> Inl e | Inr w \<Rightarrow>
      case env_read getenv to_float ''OUTBOX_PUBLISH_TIMEOUT'' 5 of
        Inl e \<Rightarrow> Inl e | Inr p \<Rightarrow>
      case env_read getenv to_float ''OUTBOX_CONNECT_TIMEOUT'' 5 of
        Inl e \<Rightarrow> Inl e | Inr c \<Rightarrow>
      case env_read getenv to_float ''OUTBOX_WINDOW_SAFETY_MARGIN'' (3 / 4) of
        Inl e \<Rightarrow> Inl e | Inr m \<Rightarrow>
      Inr \<lparr>bs_connect_timeout = c, bs_publish_timeout = p, bs_duplicate_window = w,
           bs_safety_margin = m\<rparr>)"

definition operational_delays_from_env ::
  "getenv \<Rightarrow> (string \<Rightarrow> rat option) \<Rightarrow> broker_settings \<Rightarrow> gate_error + operational_delays" where
  "operational_delays_from_env getenv to_float bs =
     (case env_read getenv to_float ''OUTBOX_DB_LOCK_WAIT'' 5 of
        Inl e \<Rightarrow> Inl e | Inr l \<Rightarrow>
      case env_read getenv to_float ''OUTBOX_RESTART_BUDGET'' 60 of
        Inl e \<Rightarrow> Inl e | Inr r \<Rightarrow>
      case env_read getenv to_float ''OUTBOX_IDLE_INTERVAL'' 1 of
        Inl e \<Rightarrow> Inl e | Inr i \<Rightarrow>
      Inr \<lparr>od_db_lock_wait_seconds = l,
           od_broker_connect_timeout_seconds = bs_connect_timeout bs,
           od_publish_timeout_seconds = bs_publish_timeout bs,
           od_process_restart_seconds = r,
           od_poll_interval_seconds = i\<rparr>)"

definition enforce_duplicate_window_invariant ::
  "getenv \<Rightarrow> (string \<Rightarrow> int option) \<Rightarrow> (string \<Rightarrow> rat option) \<Rightarrow> broker_settings \<Rightarrow> gate_error + rat" where
  "enforce_duplicate_window_invariant getenv to_int to_float bs =
     (case retry_policy_from_env getenv to_int to_float of Inl e \<Rightarrow> Inl e | Inr policy \<Rightarrow>
      case operational_delays_from_env getenv to_float bs of Inl e \<Rightarrow> Inl e | Inr delays \<Rightarrow>
      validate_duplicate_window policy delays (bs_duplicate_window bs) (bs_safety_margin bs))"

section \<open>Arithmetic of the horizon\<close>

text \<open>Settings under which the arithmetic of the horizon means what it says.\<close>

definition sane_policy :: "retry_policy \<Rightarrow> bool" where
  "sane_policy p \<longleftrightarrow> 0 \<le> rp_base_seconds p \<and> 0 \<le> rp_cap_seconds p \<and> 0 \<le> rp_jitter_ratio p"

lemma horizon_sum:
  "worst_case_retry_horizon p d =
     of_int (rp_max_attempts p) * per_attempt_seconds d
     + sum_list (map (backoff_for p) [1..rp_max_attempts p - 1])"
proof -
  have "fold (\<lambda>a total. total + f a) xs z = z + sum_list (map f xs)"
    for f :: "int \<Rightarrow> rat" and xs z
    by (induction xs arbitrary: z) (auto simp: algebra_simps)
  then show ?thesis by (simp add: worst_case_retry_horizon_def)
qed

lemma raw_backoff_nonneg: "sane_policy p \<Longrightarrow> 0 \<le> raw_backoff p a"
  by (auto simp: sane_policy_def raw_backoff_def)

lemma backoff_for_nonneg: "sane_policy p \<Longrightarrow> 0 \<le> backoff_for p a"
  using raw_backoff_nonneg [of p a] by (auto simp: sane_policy_def backoff_for_def)

lemma raw_backoff_mono: "sane_policy p \<Longrightarrow> a \<le> b \<Longrightarrow> raw_backoff p a \<le> raw_backoff p b"
  unfolding raw_backoff_def sane_policy_def
  by (intro min.mono mult_left_mono power_increasing nat_mono) auto

lemma backoff_for_mono: "sane_policy p \<Longrightarrow> a \<le> b \<Longrightarrow> backoff_for p a \<le> backoff_for p b"
  using raw_backoff_mono [of p a b] by (auto simp: backoff_for_def sane_policy_def mult_right_mono)

lemma backoff_for_cap: "sane_policy p \<Longrightarrow> backoff_for p a \<le> rp_cap_seconds p * (1 + rp_jitter_ratio p)"
  by (auto simp: backoff_for_def raw_backoff_def sane_policy_def intro!: mult_right_mono)

lemma compute_backoff_le:
  assumes "\<bar>u\<bar> \<le> raw_backoff p a * rp_jitter_ratio p" and "1 / 10 \<le> backoff_for p a"
  shows "compute_backoff a u p \<le> backoff_for p a"
  using assms by (auto simp: compute_backoff_def backoff_for_def algebra_simps)

lemma compute_backoff_pos: "0 < compute_backoff a u p"
  by (simp add: compute_backoff_def)

text \<open>The delay owed after the first \<open>n\<close> failures, and the horizon as the last of these sums.\<close>

definition span_bound :: "retry_policy \<Rightarrow> operational_delays \<Rightarrow> nat \<Rightarrow> rat" where
  "span_bound p d n =
     of_nat n * per_attempt_seconds d + sum_list (map (backoff_for p) [1..int n - 1])"

lemma span_bound_1: "span_bound p d (Suc 0) = per_attempt_seconds d"
  by (simp add: span_bound_def)

lemma span_bound_Suc:
  "0 < n \<Longrightarrow> span_bound p d (Suc n) = span_bound p d n + backoff_for p (int n) + per_attempt_seconds d"
  using upto_rec2 [of 1 "int n"] by (simp add: span_bound_def algebra_simps)

lemma span_bound_horizon: "0 \<le> rp_max_attempts p \<Longrightarrow> span_bound p d (nat (rp_max_attempts p)) = worst_case_retry_horizon p d"
  by (simp add: span_bound_def horizon_sum of_nat_nat)

lemma span_bound_mono:
  assumes "sane_policy p" "0 \<le> per_attempt_seconds d" "m \<le> n"
  shows "span_bound p d m \<le> span_bound p d n"
proof -
  have "span_bound p d k \<le> span_bound p d (Suc k)" for k
    using assms(1,2) backoff_for_nonneg [of p "int k"]
    by (cases k) (auto simp: span_bound_1 span_bound_Suc, simp add: span_bound_def)
  then show ?thesis using assms(3) by (rule lift_Suc_mono_le)
qed

section \<open>Properties\<close>

text \<open>
  The scheduled delay never exceeds the bound the horizon counts, for every draw of the
  jitter, as long as that bound is at least the 0.1 s floor of \<open>compute_backoff\<close>; and both are
  capped.
\<close>

theorem backoff_within_counted_bound:
  assumes "sane_policy p" and "\<bar>u\<bar> \<le> raw_backoff p a * rp_jitter_ratio p"
    and "1 / 10 \<le> backoff_for p a"
  shows "1 / 10 \<le> compute_backoff a u p \<and> compute_backoff a u p \<le> backoff_for p a \<and>
    backoff_for p a \<le> rp_cap_seconds p * (1 + rp_jitter_ratio p)"
  using compute_backoff_le [OF assms(2,3)] backoff_for_cap [OF assms(1)]
  by (auto simp: compute_backoff_def)

theorem backoff_within_counted_bound_witness:
  "compute_backoff 3 (1 / 2) DEFAULT_RETRY_POLICY \<le> backoff_for DEFAULT_RETRY_POLICY 3"
  using backoff_within_counted_bound [of DEFAULT_RETRY_POLICY "1 / 2" 3]
  by (simp add: sane_policy_def DEFAULT_RETRY_POLICY_def raw_backoff_def backoff_for_def)

text \<open>
  The floor breaks that bound for a very small base: with a base and cap of 10 ms, every retry
  waits at least 0.1 s while the horizon counts 0.0125 s for it.
\<close>

theorem backoff_floor_not_counted:
  "\<exists>p. sane_policy p \<and> (\<forall>a u. backoff_for p a < compute_backoff a u p)"
proof -
  let ?p = "\<lparr>rp_max_attempts = 8, rp_base_seconds = 1 / 100, rp_cap_seconds = 1 / 100,
             rp_jitter_ratio = 1 / 4\<rparr>"
  have s: "sane_policy ?p" by (simp add: sane_policy_def)
  have "backoff_for ?p a < compute_backoff a u ?p" for a u
    using backoff_for_cap [OF s, of a] by (simp add: compute_backoff_def max_def)
  with s show ?thesis by blast
qed

text \<open>
  The gate admits a configuration exactly when the worst-case horizon fits into the safe share
  of a non-zero window, and then returns the utilisation.  With a margin of at most one, an
  admitted configuration has its whole horizon inside the window.
\<close>

theorem gate_decides_horizon:
  "(validate_duplicate_window p d window margin = Inr u \<longleftrightarrow>
     worst_case_retry_horizon p d \<le> window * margin \<and> window \<noteq> 0 \<and>
     u = worst_case_retry_horizon p d / window) \<and>
   (validate_duplicate_window p d window margin = Inr u \<and> 0 \<le> window \<and> margin \<le> 1 \<longrightarrow>
     worst_case_retry_horizon p d \<le> window \<and> u \<le> 1)"
proof -
  have "h \<le> window" if "0 \<le> window" "margin \<le> 1" "h \<le> window * margin" for h
    using mult_left_mono [OF that(2,1)] that(3) by simp
  then show ?thesis
    by (auto simp: validate_duplicate_window_def Let_def divide_le_eq not_less)
qed

theorem gate_decides_horizon_witness:
  "validate_duplicate_window DEFAULT_RETRY_POLICY \<lparr>od_db_lock_wait_seconds = 5,
      od_broker_connect_timeout_seconds = 5, od_publish_timeout_seconds = 5,
      od_process_restart_seconds = 60, od_poll_interval_seconds = 1\<rparr> 7200 (3 / 4)
    = Inr (3067 / 28800)"
proof -
  let ?d = "\<lparr>od_db_lock_wait_seconds = 5,
      od_broker_connect_timeout_seconds = 5, od_publish_timeout_seconds = 5,
      od_process_restart_seconds = 60, od_poll_interval_seconds = 1\<rparr> :: operational_delays"
  have "worst_case_retry_horizon DEFAULT_RETRY_POLICY ?d = 3067 / 4"
    by (simp add: worst_case_retry_horizon_def DEFAULT_RETRY_POLICY_def backoff_for_def
                  raw_backoff_def per_attempt_seconds_def upto.simps)
  then show ?thesis
    by (simp add: gate_decides_horizon [THEN conjunct1])
qed

text \<open>
  The configuration deployed by default, with no variable set, passes the gate: its horizon
  takes 766.75 of the 7200 seconds.
\<close>

theorem default_configuration_admitted:
  "(case broker_settings_from_env (\<lambda>_. None) to_float of
      Inl e \<Rightarrow> Inl e
    | Inr bs \<Rightarrow> enforce_duplicate_window_invariant (\<lambda>_. None) to_int to_float bs)
   = Inr (3067 / 28800)"
  by (simp add: broker_settings_from_env_def enforce_duplicate_window_invariant_def env_read_def
        retry_policy_from_env_def operational_delays_from_env_def validate_duplicate_window_def
        worst_case_retry_horizon_def DEFAULT_RETRY_POLICY_def backoff_for_def
        raw_backoff_def per_attempt_seconds_def upto.simps)

end
