(* ===== verification/Envelope.thy ===== *)
theory Envelope
  imports Prelude
begin

text \<open>
  The outbox row of \<open>favl_outbox/models.py\<close>, \<open>enqueue\<close> of \<open>repository.py\<close> and the wire envelope
  of \<open>envelope.py\<close>.  A row carries the column defaults of the model.  \<open>enqueue\<close> stages its row on
  the caller's session; a session's staged rows reach the table when the caller commits, so here
  it returns the table the commit leaves.  The new UUID and the current time are arguments;
  \<open>isoformat\<close> is \<open>datetime.isoformat\<close> of a UTC timestamp.
\<close>

definition SCHEMA_VERSION :: int where
  "SCHEMA_VERSION = 1"

definition STATUS_PENDING :: string where "STATUS_PENDING = ''pending''"
definition STATUS_PUBLISHED :: string where "STATUS_PUBLISHED = ''published''"
definition STATUS_DEAD :: string where "STATUS_DEAD = ''dead''"

definition ALL_STATUSES :: "string list" where
  "ALL_STATUSES = [STATUS_PENDING, STATUS_PUBLISHED, STATUS_DEAD]"

definition DEFAULT_MAX_ATTEMPTS :: int where
  "DEFAULT_MAX_ATTEMPTS = 8"

lemmas status_defs = STATUS_PENDING_def STATUS_PUBLISHED_def STATUS_DEAD_def

lemma status_distinct [simp]:
  "STATUS_PENDING \<noteq> STATUS_PUBLISHED" "STATUS_PENDING \<noteq> STATUS_DEAD"
  "STATUS_PUBLISHED \<noteq> STATUS_PENDING" "STATUS_PUBLISHED \<noteq> STATUS_DEAD"
  "STATUS_DEAD \<noteq> STATUS_PENDING" "STATUS_DEAD \<noteq> STATUS_PUBLISHED"
  by (simp_all add: status_defs)

record outbox_row =
  o_id :: uuid
  o_aggregate_type :: string
  o_aggregate_id :: "string option"
  o_aggregate_version :: int
  o_subject :: string
  o_schema_version :: int
  o_payload :: jobj
  o_status :: string
  o_attempts :: int
  o_max_attempts :: int
  o_next_attempt_at :: time
  o_last_error :: "string option"
  o_created_at :: time
  o_published_at :: "time option"
  o_stream_seq :: "int option"

definition new_event ::
  "uuid \<Rightarrow> time \<Rightarrow> string \<Rightarrow> jobj \<Rightarrow> string \<Rightarrow> string option \<Rightarrow> int \<Rightarrow> int \<Rightarrow> int option \<Rightarrow> outbox_row" where
  "new_event uuid4 now subject payload aggregate_type aggregate_id aggregate_version
     schema_version max_attempts =
     \<lparr>o_id = uuid4,
      o_aggregate_type = aggregate_type,
      o_aggregate_id = aggregate_id,
      o_aggregate_version = aggregate_version,
      o_subject = subject,
      o_schema_version = schema_version,
      o_payload = payload,
      o_status = STATUS_PENDING,
      o_attempts = 0,
      o_max_attempts = (case max_attempts of None \<Rightarrow> DEFAULT_MAX_ATTEMPTS | Some n \<Rightarrow> n),
      o_next_attempt_at = now,
      o_last_error = None,
      o_created_at = now,
      o_published_at = None,
      o_stream_seq = None\<rparr>"

definition enqueue ::
  "outbox_row list \<Rightarrow> uuid \<Rightarrow> time \<Rightarrow> string \<Rightarrow> jobj \<Rightarrow> string \<Rightarrow> string option \<Rightarrow> int \<Rightarrow> outbox_row list" where
  "enqueue rows uuid4 now subject payload aggregate_type aggregate_id aggregate_version =
     rows @ [new_event uuid4 now subject payload aggregate_type aggregate_id aggregate_version
               SCHEMA_VERSION None]"

definition build_envelope ::
  "(time \<Rightarrow> string) \<Rightarrow> string \<Rightarrow> string \<Rightarrow> string \<Rightarrow> string option \<Rightarrow> int \<Rightarrow> time \<Rightarrow> jobj \<Rightarrow> int \<Rightarrow> jobj" where
  "build_envelope isoformat event_id event_type aggregate_type aggregate_id aggregate_version
     occurred_at data schema_version =
     [(''event_id'', JStr event_id),
      (''event_type'', JStr event_type),
      (''aggregate_type'', JStr aggregate_type),
      (''aggregate_id'', (case aggregate_id of None \<Rightarrow> JNull | Some i \<Rightarrow> JStr i)),
      (''aggregate_version'', JInt aggregate_version),
      (''occurred_at'', JStr (isoformat occurred_at)),
      (''schema_version'', JInt schema_version),
      (''data'', JObj data)]"

definition envelope_from_row :: "(time \<Rightarrow> string) \<Rightarrow> outbox_row \<Rightarrow> jobj" where
  "envelope_from_row isoformat row =
     build_envelope isoformat (o_id row) (o_subject row) (o_aggregate_type row)
       (o_aggregate_id row) (o_aggregate_version row) (o_created_at row) (o_payload row)
       (o_schema_version row)"

lemma new_event_simps [simp, record_simps]:
  "o_id (new_event i t s p aty aid v sv m) = i"
  "o_aggregate_type (new_event i t s p aty aid v sv m) = aty"
  "o_aggregate_id (new_event i t s p aty aid v sv m) = aid"
  "o_aggregate_version (new_event i t s p aty aid v sv m) = v"
  "o_subject (new_event i t s p aty aid v sv m) = s"
  "o_schema_version (new_event i t s p aty aid v sv m) = sv"
  "o_payload (new_event i t s p aty aid v sv m) = p"
  "o_status (new_event i t s p aty aid v sv m) = STATUS_PENDING"
  "o_attempts (new_event i t s p aty aid v sv m) = 0"
  "o_created_at (new_event i t s p aty aid v sv m) = t"
  "o_next_attempt_at (new_event i t s p aty aid v sv m) = t"
  "o_published_at (new_event i t s p aty aid v sv m) = None"
  by (simp_all add: new_event_def)

text \<open>The columns that make up an event: nothing changes them after the row is staged.\<close>

definition event_of ::
  "outbox_row \<Rightarrow> string \<times> string \<times> string option \<times> int \<times> string \<times> int \<times> jobj \<times> time" where
  "event_of row =
     (o_id row, o_aggregate_type row, o_aggregate_id row, o_aggregate_version row,
      o_subject row, o_schema_version row, o_payload row, o_created_at row)"

lemma envelope_event_of: "event_of r = event_of r' \<Longrightarrow> envelope_from_row fmt r = envelope_from_row fmt r'"
  by (simp add: event_of_def envelope_from_row_def)

text \<open>The versions of the events one aggregate has emitted, in the order they were staged.\<close>

definition versions_of :: "string \<Rightarrow> string \<Rightarrow> outbox_row list \<Rightarrow> int list" where
  "versions_of aggregate_type aggregate_id rows =
     map o_aggregate_version
       (filter (\<lambda>r. o_aggregate_type r = aggregate_type \<and> o_aggregate_id r = Some aggregate_id) rows)"

lemma versions_of_Nil [simp]: "versions_of t i [] = []"
  by (simp add: versions_of_def)

lemma versions_of_append [simp]: "versions_of t i (xs @ ys) = versions_of t i xs @ versions_of t i ys"
  by (simp add: versions_of_def)

lemma versions_of_enqueue [simp]:
  "versions_of t i (enqueue rows u now s p t' i' v) =
     versions_of t i rows @ (if t' = t \<and> i' = Some i then [v] else [])"
  by (simp add: enqueue_def versions_of_def)

end
