(* ===== verification/Consumer.thy ===== *)
theory Consumer
  imports Envelope
begin

text \<open>
  \<open>favl_outbox/consumer.py\<close>: parsing of a delivered event into the normalised \<open>DomainEvent\<close>, and
  the ordering rule of a consumer that projects an aggregate.  The parser checks nothing about
  the JSON types of the fields it copies, so they are \<open>json\<close> values here, with \<open>JNull\<close> for
  Python's \<open>None\<close>.  \<open>fromisoformat\<close> is \<open>datetime.fromisoformat\<close>: \<open>None\<close> is its ValueError, and a
  timestamp without an offset is \<open>Naive\<close>.
\<close>

definition LEGACY_SCHEMA_VERSION :: int where "LEGACY_SCHEMA_VERSION = 0"
definition CURRENT_SCHEMA_VERSION :: int where "CURRENT_SCHEMA_VERSION = 1"

datatype event_parse_error =
    UnsupportedSchemaVersion json
  | MalformedEnvelope string

datatype parsed_datetime = Aware time | Naive time

record domain_event =
  de_event_id :: json
  de_event_type :: json
  de_aggregate_type :: json
  de_aggregate_id :: json
  de_aggregate_version :: json
  de_occurred_at :: "time option"
  de_schema_version :: int
  de_data :: json

definition is_legacy :: "domain_event \<Rightarrow> bool" where
  "is_legacy e = (de_schema_version e = LEGACY_SCHEMA_VERSION)"

definition is_deduplicable :: "domain_event \<Rightarrow> bool" where
  "is_deduplicable e = (de_event_id e \<noteq> JNull)"

definition is_orderable :: "domain_event \<Rightarrow> bool" where
  "is_orderable e = (de_aggregate_version e \<noteq> JNull)"

text \<open>\<open>payload.get(k)\<close>, and Python's \<open>or\<close> on values.\<close>

definition get_or_none :: "string \<Rightarrow> jobj \<Rightarrow> json" where
  "get_or_none k d = (case jget k d of None \<Rightarrow> JNull | Some v \<Rightarrow> v)"

definition py_or :: "json \<Rightarrow> json \<Rightarrow> json" where
  "py_or a b = (if truthy a then a else b)"

definition replace_Z :: "string \<Rightarrow> string" where
  "replace_Z s = concat (map (\<lambda>c. if c = CHR ''Z'' then ''+00:00'' else [c]) s)"

definition parse_timestamp :: "(string \<Rightarrow> parsed_datetime option) \<Rightarrow> json \<Rightarrow> time option" where
  "parse_timestamp fromisoformat v =
     (case v of
        JStr s \<Rightarrow>
          (case fromisoformat (replace_Z s) of
             None \<Rightarrow> None
           | Some (Aware t) \<Rightarrow> Some t
           | Some (Naive t) \<Rightarrow> Some t)
      | _ \<Rightarrow> None)"

definition parse_legacy_event ::
  "(string \<Rightarrow> parsed_datetime option) \<Rightarrow> jobj \<Rightarrow> string option \<Rightarrow> domain_event" where
  "parse_legacy_event fromisoformat payload subject =
     \<lparr>de_event_id = JNull,
      de_event_type =
        JStr (case subject of None \<Rightarrow> ''unknown'' | Some s \<Rightarrow> if s = [] then ''unknown'' else s),
      de_aggregate_type = JNull,
      de_aggregate_id =
        py_or (py_or (get_or_none ''agent_id'' payload) (get_or_none ''connector_id'' payload))
          (get_or_none ''id'' payload),
      de_aggregate_version = JNull,
      de_occurred_at = parse_timestamp fromisoformat (get_or_none ''created_at'' payload),
      de_schema_version = LEGACY_SCHEMA_VERSION,
      de_data = JObj payload\<rparr>"

definition parse_v1_event ::
  "(string \<Rightarrow> parsed_datetime option) \<Rightarrow> jobj \<Rightarrow> event_parse_error + domain_event" where
  "parse_v1_event fromisoformat payload =
     (case List.find (\<lambda>required. \<not> truthy (get_or_none required payload)) [''event_id'', ''event_type''] of
        Some missing \<Rightarrow> Inl (MalformedEnvelope missing)
      | None \<Rightarrow>
          Inr \<lparr>de_event_id = get_or_none ''event_id'' payload,
               de_event_type = get_or_none ''event_type'' payload,
               de_aggregate_type = get_or_none ''aggregate_type'' payload,
               de_aggregate_id = get_or_none ''aggregate_id'' payload,
               de_aggregate_version = get_or_none ''aggregate_version'' payload,
               de_occurred_at = parse_timestamp fromisoformat (get_or_none ''occurred_at'' payload),
               de_schema_version = CURRENT_SCHEMA_VERSION,
               de_data = (case jget ''data'' payload of None \<Rightarrow> JObj [] | Some v \<Rightarrow> v)\<rparr>)"

text \<open>\<open>schema_version == 1\<close>: in Python \<open>True\<close> and \<open>1.0\<close> compare equal to \<open>1\<close> as well.\<close>

definition equals_int :: "json \<Rightarrow> int \<Rightarrow> bool" where
  "equals_int v n =
     (case v of
        JInt m \<Rightarrow> m = n
      | JBool b \<Rightarrow> (if b then 1 else 0) = n
      | JFloat (Fin q) \<Rightarrow> q = of_int n
      | _ \<Rightarrow> False)"

definition parse_event ::
  "(string \<Rightarrow> parsed_datetime option) \<Rightarrow> jobj \<Rightarrow> string option \<Rightarrow> event_parse_error + domain_event" where
  "parse_event fromisoformat payload subject =
     (let schema_version = get_or_none ''schema_version'' payload
      in if schema_version = JNull then Inr (parse_legacy_event fromisoformat payload subject)
         else if equals_int schema_version CURRENT_SCHEMA_VERSION
         then parse_v1_event fromisoformat payload
         else Inl (UnsupportedSchemaVersion schema_version))"

datatype version_verdict = APPLY | IGNORE | QUARANTINE

definition version_decision :: "int option \<Rightarrow> int option \<Rightarrow> version_verdict" where
  "version_decision incoming last_applied =
     (case incoming of
        None \<Rightarrow> QUARANTINE
      | Some i \<Rightarrow>
          (case last_applied of
             None \<Rightarrow> if i = 1 then APPLY else QUARANTINE
           | Some l \<Rightarrow> if i \<le> l then IGNORE else if i = l + 1 then APPLY else QUARANTINE))"

section \<open>A projecting consumer\<close>

text \<open>
  The specification a consumer built on \<open>version_decision\<close> follows: it keeps the last version it
  applied and advances it on \<open>APPLY\<close> only.
\<close>

fun project :: "int option \<Rightarrow> int list \<Rightarrow> version_verdict list \<times> int option" where
  "project last_applied [] = ([], last_applied)"
| "project last_applied (v # vs) =
     (let d = version_decision (Some v) last_applied;
          (ds, l) = project (if d = APPLY then Some v else last_applied) vs
      in (d # ds, l))"

text \<open>The position a consumer is at: the number of versions it has applied.\<close>

definition applied_upto :: "int \<Rightarrow> int option" where
  "applied_upto n = (if n = 0 then None else Some n)"

lemma version_decision_next: "0 \<le> n \<Longrightarrow> version_decision (Some (n + 1)) (applied_upto n) = APPLY"
  by (simp add: version_decision_def applied_upto_def)

lemma version_decision_applied:
  "version_decision (Some i) (applied_upto n) = APPLY \<Longrightarrow> 0 \<le> n \<Longrightarrow> i = n + 1"
  by (auto simp: version_decision_def applied_upto_def split: if_splits)

lemma project_append:
  "project l (xs @ ys) =
     (let (ds, l') = project l xs; (es, l'') = project l' ys in (ds @ es, l''))"
  by (induction xs arbitrary: l) (auto simp: Let_def split: prod.splits)

lemma project_consecutive:
  "0 \<le> n \<Longrightarrow> 0 \<le> k \<Longrightarrow>
     project (applied_upto n) [n + 1..n + k] = (replicate (nat k) APPLY, applied_upto (n + k))"
proof (induction "nat k" arbitrary: n k)
  case 0
  then show ?case by simp
next
  case (Suc m)
  then have k: "0 < k" and up: "[n + 1..n + k] = (n + 1) # [n + 1 + 1..n + 1 + (k - 1)]"
    using upto_rec1 [of "n + 1" "n + k"] by simp_all
  have rep: "replicate (nat k) APPLY = APPLY # replicate (nat (k - 1)) APPLY"
    using k by (cases "nat k") (simp_all add: nat_diff_distrib)
  have "project (applied_upto (n + 1)) [n + 1 + 1..n + 1 + (k - 1)] =
          (replicate (nat (k - 1)) APPLY, applied_upto (n + 1 + (k - 1)))"
    using Suc k by (intro Suc.hyps(1)) auto
  moreover have "applied_upto (n + 1) = Some (n + 1)"
    using Suc.prems by (simp add: applied_upto_def)
  ultimately show ?case
    using Suc.prems k version_decision_next [of n] unfolding up rep
    by (simp add: Let_def)
qed

text \<open>The consumer's position never moves except by one, whatever arrives.\<close>

lemma project_position:
  "0 \<le> n \<Longrightarrow> project (applied_upto n) vs = (ds, l) \<Longrightarrow>
     l = applied_upto (n + int (length (filter (\<lambda>d. d = APPLY) ds))) \<and>
     map fst (filter (\<lambda>(v, d). d = APPLY) (zip vs ds)) =
       [n + 1..n + int (length (filter (\<lambda>d. d = APPLY) ds))]"
proof (induction vs arbitrary: n ds)
  case Nil
  then show ?case by simp
next
  case (Cons v vs)
  obtain ds' where ds': "ds = version_decision (Some v) (applied_upto n) # ds'"
    using Cons.prems(2) by (auto simp: Let_def split: prod.splits)
  show ?case
  proof (cases "version_decision (Some v) (applied_upto n) = APPLY")
    case True
    then have v: "v = n + 1" using Cons.prems(1) by (rule version_decision_applied)
    have some: "Some (n + 1) = applied_upto (n + 1)"
      using Cons.prems(1) by (simp add: applied_upto_def)
    have "project (applied_upto (n + 1)) vs = (ds', l)"
      using Cons.prems(2) True ds' v some by (auto simp: Let_def split: prod.splits)
    from Cons.IH [OF _ this] Cons.prems(1) ds' True v show ?thesis
      using upto_rec1 [of "n + 1" "n + 1 + int (length (filter (\<lambda>d. d = APPLY) ds'))"]
      by (simp add: algebra_simps)
  next
    case False
    then have "project (applied_upto n) vs = (ds', l)"
      using Cons.prems(2) ds' by (auto simp: Let_def split: prod.splits)
    from Cons.IH [OF Cons.prems(1) this] ds' False show ?thesis by simp
  qed
qed

section \<open>Properties\<close>

text \<open>
  Every outcome of the parser is classified: a body without a schema version is a legacy event
  that claims no identity and no order, version 1 yields an event with a usable identifier and
  type, and everything else is one of the two parse errors.
\<close>

theorem parse_event_classifies:
  "case parse_event fmt payload subject of
     Inl (UnsupportedSchemaVersion v) \<Rightarrow>
       get_or_none ''schema_version'' payload = v \<and> v \<noteq> JNull \<and> \<not> equals_int v 1
   | Inl (MalformedEnvelope f) \<Rightarrow>
       equals_int (get_or_none ''schema_version'' payload) 1 \<and>
       f \<in> {''event_id'', ''event_type''} \<and> \<not> truthy (get_or_none f payload)
   | Inr e \<Rightarrow>
       (if get_or_none ''schema_version'' payload = JNull
        then is_legacy e \<and> \<not> is_deduplicable e \<and> \<not> is_orderable e \<and> de_data e = JObj payload
        else equals_int (get_or_none ''schema_version'' payload) 1 \<and> \<not> is_legacy e \<and>
             is_deduplicable e \<and> truthy (de_event_type e))"
  by (auto simp: parse_event_def parse_v1_event_def parse_legacy_event_def Let_def is_legacy_def
        is_deduplicable_def is_orderable_def LEGACY_SCHEMA_VERSION_def CURRENT_SCHEMA_VERSION_def
        find_Some_iff find_None_iff split: sum.splits event_parse_error.splits option.splits if_splits)

text \<open>
  C40. Round trip: the envelope built from a stored row parses to an event with the row's
  identity, type, aggregate, version, time and data, given that \<open>fromisoformat\<close> reads back what
  \<open>isoformat\<close> writes.
\<close>

theorem envelope_roundtrip:
  assumes "o_schema_version row = SCHEMA_VERSION" and "o_id row \<noteq> []" and "o_subject row \<noteq> []"
    and "fromisoformat (replace_Z (isoformat (o_created_at row))) = Some (Aware (o_created_at row))"
  shows "parse_event fromisoformat (envelope_from_row isoformat row) subject =
    Inr \<lparr>de_event_id = JStr (o_id row), de_event_type = JStr (o_subject row),
         de_aggregate_type = JStr (o_aggregate_type row),
         de_aggregate_id = (case o_aggregate_id row of None \<Rightarrow> JNull | Some i \<Rightarrow> JStr i),
         de_aggregate_version = JInt (o_aggregate_version row),
         de_occurred_at = Some (o_created_at row),
         de_schema_version = CURRENT_SCHEMA_VERSION,
         de_data = JObj (o_payload row)\<rparr>"
  using assms
  by (simp add: parse_event_def parse_v1_event_def envelope_from_row_def build_envelope_def
        get_or_none_def jget_def equals_int_def SCHEMA_VERSION_def CURRENT_SCHEMA_VERSION_def
        parse_timestamp_def)

theorem envelope_roundtrip_witness:
  "\<exists>e. parse_event (\<lambda>s. if s = ''2026-01-01'' then Some (Aware 7) else None)
         (envelope_from_row (\<lambda>t. ''2026-01-01'')
           (new_event ''u1'' 7 ''agent.created'' [] ''agent'' (Some ''a1'') 1 SCHEMA_VERSION None))
         None = Inr e \<and> de_event_id e = JStr ''u1'' \<and> de_occurred_at e = Some 7"
  by (subst envelope_roundtrip) (simp_all add: replace_Z_def)

text \<open>
  A consumer that follows \<open>version_decision\<close> from the start never skips and never reorders:
  whatever sequence of versions arrives, the versions it applies are exactly 1, 2, up to its
  final position, and when the arrivals are already 1 to k it applies all of them.
\<close>

theorem consumer_applies_in_order:
  "(project None vs = (ds, l) \<longrightarrow>
     (\<exists>k \<ge> 0. map fst (filter (\<lambda>(v, d). d = APPLY) (zip vs ds)) = [1..k] \<and> l = applied_upto k)) \<and>
   (0 \<le> k \<longrightarrow> project None [1..k] = (replicate (nat k) APPLY, applied_upto k))"
  using project_position [of 0 vs ds l] project_consecutive [of 0 k]
  by (auto simp: applied_upto_def intro!: exI [of _ "int (length (filter (\<lambda>d. d = APPLY) ds))"])

theorem consumer_applies_in_order_witness:
  "project None [1, 2, 2, 4, 3] = ([APPLY, APPLY, IGNORE, QUARANTINE, APPLY], Some 3)
   \<and> project None [1..2] = ([APPLY, APPLY], Some 2)"
proof -
  have "project None [1..2] = (replicate (nat 2) APPLY, applied_upto 2)"
    by (rule consumer_applies_in_order [THEN conjunct2, rule_format]) simp
  then show ?thesis
    by (simp add: version_decision_def applied_upto_def numeral_2_eq_2)
qed

end
