(* ===== verification/Publisher.thy ===== *)
theory Publisher
  imports Timing Envelope
begin

text \<open>
  \<open>favl_outbox/publisher.py\<close> and the connection of \<open>jetstream.py\<close>.  One call of \<open>drain_once\<close> is
  one database transaction: it claims the due rows, publishes each while the transaction is open,
  and commits the updated rows.  What the outside world decides is an argument: the ids another
  replica holds locked (\<open>SKIP LOCKED\<close>), and \<open>publish_env\<close>, which gives for every row the outcome
  of the publish call, whether the broker stored a message whose publish raised (a lost ack), the
  clock when the outcome is recorded and the jitter draw.  \<open>drain_crash\<close> is the same batch cut by
  the death of the process before the commit: the table keeps its old rows, the broker keeps
  what it stored.  Metrics and log lines are not modelled.
\<close>

section \<open>The broker connection\<close>

record connection =
  cn_nc :: "bool option"  \<comment> \<open>the client, with its \<open>is_connected\<close> flag\<close>
  cn_js :: bool
  cn_last_error :: "string option"

datatype call_result = Returns | Raises string

datatype stream_info = StreamFound | StreamNotFound | StreamInfoRaises string

definition new_connection :: connection where
  "new_connection = \<lparr>cn_nc = None, cn_js = False, cn_last_error = None\<rparr>"

definition connected :: "connection \<Rightarrow> bool" where
  "connected c = (cn_nc c = Some True)"

definition ready :: "connection \<Rightarrow> bool" where
  "ready c = (connected c \<and> cn_js c)"

definition ensure_stream :: "stream_info \<Rightarrow> call_result \<Rightarrow> call_result \<Rightarrow> call_result" where
  "ensure_stream info add_stream update_stream =
     (case info of
        StreamInfoRaises m \<Rightarrow> Raises m
      | StreamNotFound \<Rightarrow> add_stream
      | StreamFound \<Rightarrow> update_stream)"

definition connect ::
  "call_result \<Rightarrow> stream_info \<Rightarrow> call_result \<Rightarrow> call_result \<Rightarrow> connection \<Rightarrow> connection" where
  "connect nats_connect info add_stream update_stream c =
     (let outcome =
        (case nats_connect of
           Raises m \<Rightarrow> Raises m
         | Returns \<Rightarrow> ensure_stream info add_stream update_stream)
      in case outcome of
           Returns \<Rightarrow> c\<lparr>cn_nc := Some True, cn_js := True, cn_last_error := None\<rparr>
         | Raises m \<Rightarrow>
             c\<lparr>cn_nc := None, cn_js := False, cn_last_error := Some (''connect failed: '' @ m)\<rparr>)"

definition close :: "connection \<Rightarrow> connection" where
  "close c = c\<lparr>cn_nc := None, cn_js := False\<rparr>"

record message =
  m_id :: string
  m_subject :: string
  m_body :: jobj

datatype publish_result =
    Ack "int option"
  | PublishRaises string string  \<comment> \<open>exception type, message\<close>

definition SUBJECT_PREFIX :: string where "SUBJECT_PREFIX = ''favl''"

definition connection_publish ::
  "connection \<Rightarrow> (message \<Rightarrow> publish_result) \<Rightarrow> string \<Rightarrow> jobj \<Rightarrow> string \<Rightarrow> publish_result" where
  "connection_publish c js_publish subject body msg_id =
     (if \<not> ready c then PublishRaises ''ConnectionError'' ''jetstream unavailable''
      else js_publish \<lparr>m_id = msg_id, m_subject = SUBJECT_PREFIX @ ''.'' @ subject, m_body = body\<rparr>)"

section \<open>One row\<close>

record drain_result =
  dr_claimed :: nat
  dr_published :: nat
  dr_failed :: nat
  dr_dead_lettered :: nat
  dr_subjects :: "string list"

definition no_result :: drain_result where
  "no_result = \<lparr>dr_claimed = 0, dr_published = 0, dr_failed = 0, dr_dead_lettered = 0, dr_subjects = []\<rparr>"

record publish_env =
  pe_connection :: connection
  pe_js_publish :: "message \<Rightarrow> publish_result"
  pe_stored :: "message \<Rightarrow> bool"
  pe_now :: "uuid \<Rightarrow> time"
  pe_jitter :: "uuid \<Rightarrow> rat"
  pe_isoformat :: "time \<Rightarrow> string"

definition message_of :: "(time \<Rightarrow> string) \<Rightarrow> outbox_row \<Rightarrow> message" where
  "message_of isoformat row =
     \<lparr>m_id = o_id row, m_subject = SUBJECT_PREFIX @ ''.'' @ o_subject row,
      m_body = envelope_from_row isoformat row\<rparr>"

definition publish_outcome :: "publish_env \<Rightarrow> outbox_row \<Rightarrow> publish_result" where
  "publish_outcome env row =
     connection_publish (pe_connection env) (pe_js_publish env) (o_subject row)
       (envelope_from_row (pe_isoformat env) row) (o_id row)"

definition record_failure :: "retry_policy \<Rightarrow> time \<Rightarrow> rat \<Rightarrow> string \<Rightarrow> outbox_row \<Rightarrow> outbox_row" where
  "record_failure policy now u error row =
     (let row = row\<lparr>o_attempts := o_attempts row + 1, o_last_error := Some (take 2000 error)\<rparr>;
          limit = min (rp_max_attempts policy) (o_max_attempts row)
      in if o_attempts row \<ge> limit then row\<lparr>o_status := STATUS_DEAD\<rparr>
         else row\<lparr>o_next_attempt_at := now + compute_backoff (o_attempts row) u policy\<rparr>)"

definition record_success :: "time \<Rightarrow> int option \<Rightarrow> outbox_row \<Rightarrow> outbox_row" where
  "record_success now seq row =
     row\<lparr>o_status := STATUS_PUBLISHED, o_published_at := Some now, o_stream_seq := seq,
         o_last_error := None\<rparr>"

definition settle_row :: "retry_policy \<Rightarrow> publish_env \<Rightarrow> outbox_row \<Rightarrow> outbox_row" where
  "settle_row policy env row =
     (case publish_outcome env row of
        Ack seq \<Rightarrow> record_success (pe_now env (o_id row)) seq row
      | PublishRaises ty msg \<Rightarrow>
          record_failure policy (pe_now env (o_id row)) (pe_jitter env (o_id row))
            (ty @ '': '' @ msg) row)"

definition stored_messages :: "publish_env \<Rightarrow> outbox_row \<Rightarrow> message list" where
  "stored_messages env row =
     (if \<not> ready (pe_connection env) then []
      else case publish_outcome env row of
             Ack seq \<Rightarrow> [message_of (pe_isoformat env) row]
           | PublishRaises ty msg \<Rightarrow>
               if pe_stored env (message_of (pe_isoformat env) row)
               then [message_of (pe_isoformat env) row] else [])"

record drain_state =
  ds_table :: "outbox_row list"
  ds_result :: drain_result
  ds_last_error :: "string option"
  ds_log :: "message list"

definition count_row :: "outbox_row \<Rightarrow> drain_result \<Rightarrow> drain_result" where
  "count_row row r =
     (if o_status row = STATUS_PUBLISHED
      then r\<lparr>dr_published := dr_published r + 1, dr_subjects := dr_subjects r @ [o_subject row]\<rparr>
      else if o_status row = STATUS_DEAD
      then r\<lparr>dr_failed := dr_failed r + 1, dr_dead_lettered := dr_dead_lettered r + 1\<rparr>
      else r\<lparr>dr_failed := dr_failed r + 1\<rparr>)"

definition publish_row :: "retry_policy \<Rightarrow> publish_env \<Rightarrow> outbox_row \<Rightarrow> drain_state \<Rightarrow> drain_state" where
  "publish_row policy env row st =
     (let row' = settle_row policy env row
      in st\<lparr>ds_table := update_row o_id row' (ds_table st),
            ds_result := count_row row' (ds_result st),
            ds_last_error := o_last_error row',
            ds_log := ds_log st @ stored_messages env row\<rparr>)"

section \<open>One batch\<close>

definition due :: "time \<Rightarrow> uuid list \<Rightarrow> outbox_row \<Rightarrow> bool" where
  "due now locked row \<longleftrightarrow>
     o_status row = STATUS_PENDING \<and> o_next_attempt_at row \<le> now \<and> o_id row \<notin> set locked"

definition claim :: "time \<Rightarrow> uuid list \<Rightarrow> nat \<Rightarrow> outbox_row list \<Rightarrow> outbox_row list" where
  "claim now locked batch_size rows =
     take batch_size (sort_key o_created_at (filter (due now locked) rows))"

definition drain_once ::
  "retry_policy \<Rightarrow> publish_env \<Rightarrow> time \<Rightarrow> uuid list \<Rightarrow> nat \<Rightarrow> outbox_row list \<Rightarrow> string option \<Rightarrow> drain_state" where
  "drain_once policy env now locked batch_size rows last_error =
     (let claimed = claim now locked batch_size rows
      in fold (publish_row policy env) claimed
           \<lparr>ds_table = rows, ds_result = no_result\<lparr>dr_claimed := length claimed\<rparr>,
            ds_last_error = last_error, ds_log = []\<rparr>)"

definition drain_crash ::
  "publish_env \<Rightarrow> time \<Rightarrow> uuid list \<Rightarrow> nat \<Rightarrow> nat \<Rightarrow> outbox_row list \<Rightarrow> message list" where
  "drain_crash env now locked batch_size reached rows =
     concat (map (stored_messages env) (take reached (claim now locked batch_size rows)))"

text \<open>The pause of the polling loop: short while rows are claimed, long when idle or failing.\<close>

definition next_delay :: "rat \<Rightarrow> rat \<Rightarrow> string + drain_result \<Rightarrow> rat" where
  "next_delay poll_interval idle_interval outcome =
     (case outcome of
        Inl error \<Rightarrow> idle_interval
      | Inr result \<Rightarrow> if dr_claimed result \<noteq> 0 then poll_interval else idle_interval)"

record outbox_stats =
  os_pending :: nat
  os_dead :: nat
  os_published :: nat
  os_oldest_pending_age_seconds :: "rat option"

definition stats :: "time \<Rightarrow> outbox_row list \<Rightarrow> outbox_stats" where
  "stats now rows =
     (let count = (\<lambda>status. length (filter (\<lambda>r. o_status r = status) rows));
          pending = map o_created_at (filter (\<lambda>r. o_status r = STATUS_PENDING) rows)
      in \<lparr>os_pending = count STATUS_PENDING, os_dead = count STATUS_DEAD,
          os_published = count STATUS_PUBLISHED,
          os_oldest_pending_age_seconds =
            (case pending of [] \<Rightarrow> None | t # ts \<Rightarrow> Some (now - fold min ts t))\<rparr>)"

section \<open>Rows\<close>

lemma settle_row_cases:
  obtains (acked) seq where "publish_outcome env row = Ack seq"
      "settle_row p env row = record_success (pe_now env (o_id row)) seq row"
  | (failed) ty msg where "publish_outcome env row = PublishRaises ty msg"
      "settle_row p env row =
         record_failure p (pe_now env (o_id row)) (pe_jitter env (o_id row)) (ty @ '': '' @ msg) row"
  by (cases "publish_outcome env row") (auto simp: settle_row_def)

lemma record_failure_event [simp]: "event_of (record_failure p t u e row) = event_of row"
  by (simp add: record_failure_def Let_def event_of_def)

lemma record_success_event [simp]: "event_of (record_success t q row) = event_of row"
  by (simp add: record_success_def event_of_def)

lemma settle_row_event [simp]: "event_of (settle_row p env row) = event_of row"
  by (rule settle_row_cases [of env row p]) simp_all

lemma event_of_id: "event_of r = event_of r' \<Longrightarrow> o_id r = o_id r'"
  by (simp add: event_of_def)

lemma settle_row_id [simp]: "o_id (settle_row p env row) = o_id row"
  by (rule event_of_id) simp

lemma message_of_event: "event_of r = event_of r' \<Longrightarrow> message_of fmt r = message_of fmt r'"
  using envelope_event_of [of r r' fmt] by (simp add: message_of_def event_of_def)

lemma message_of_settle [simp]: "message_of fmt (settle_row p env row) = message_of fmt row"
  by (rule message_of_event) simp

lemma record_failure_attempts [simp]: "o_attempts (record_failure p t u e row) = o_attempts row + 1"
  by (simp add: record_failure_def Let_def)

lemma record_failure_max [simp]: "o_max_attempts (record_failure p t u e row) = o_max_attempts row"
  by (simp add: record_failure_def Let_def)

lemma record_failure_status:
  "o_status (record_failure p t u e row) =
     (if o_attempts row + 1 \<ge> min (rp_max_attempts p) (o_max_attempts row) then STATUS_DEAD
      else o_status row)"
  by (simp add: record_failure_def Let_def)

lemma record_failure_next:
  "\<not> o_attempts row + 1 \<ge> min (rp_max_attempts p) (o_max_attempts row) \<Longrightarrow>
     o_next_attempt_at (record_failure p t u e row) = t + compute_backoff (o_attempts row + 1) u p"
  by (simp add: record_failure_def Let_def)

lemma ack_is_stored:
  "publish_outcome env row = Ack seq \<Longrightarrow> stored_messages env row = [message_of (pe_isoformat env) row]"
  by (simp add: stored_messages_def publish_outcome_def connection_publish_def split: if_splits)

lemma stored_is_message:
  "m \<in> set (stored_messages env row) \<Longrightarrow> m = message_of (pe_isoformat env) row"
  by (auto simp: stored_messages_def split: if_splits publish_result.splits)

lemma settle_row_published:
  "o_status row = STATUS_PENDING \<Longrightarrow>
     o_status (settle_row p env row) = STATUS_PUBLISHED \<longleftrightarrow> (\<exists>seq. publish_outcome env row = Ack seq)"
  by (rule settle_row_cases [of env row p]) (auto simp: record_success_def record_failure_status)

lemma settle_row_status:
  "o_status row = STATUS_PENDING \<Longrightarrow>
     o_status (settle_row p env row) \<in> {STATUS_PENDING, STATUS_PUBLISHED, STATUS_DEAD}"
  by (rule settle_row_cases [of env row p]) (auto simp: record_success_def record_failure_status)

section \<open>Batches\<close>

lemma set_claim: "set (claim now locked n rows) \<subseteq> {r \<in> set rows. due now locked r}"
  using set_take_subset [of n "sort_key o_created_at (filter (due now locked) rows)"]
  by (auto simp: claim_def)

lemma distinct_claim:
  assumes "distinct (map o_id rows)"
  shows "distinct (map o_id (claim now locked n rows))"
proof -
  let ?due = "filter (due now locked) rows"
  have "distinct (map o_id ?due)"
    using assms by (rule distinct_map_filter)
  then have "inj_on o_id (set ?due)" and "distinct ?due"
    by (simp_all add: distinct_map)
  then have "distinct (map o_id (sort_key o_created_at ?due))"
    by (simp add: distinct_map)
  then show ?thesis
    unfolding claim_def take_map [symmetric] by (rule distinct_take)
qed

lemma length_claim: "length (claim now locked n rows) = min n (length (filter (due now locked) rows))"
  by (simp add: claim_def min.commute)

lemma fold_publish_row:
  "ds_log (fold (publish_row p env) cs st) = ds_log st @ concat (map (stored_messages env) cs)"
  "ds_result (fold (publish_row p env) cs st) = fold count_row (map (settle_row p env) cs) (ds_result st)"
  "ds_table (fold (publish_row p env) cs st) =
     fold (\<lambda>c. update_row o_id (settle_row p env c)) cs (ds_table st)"
  by (induction cs arbitrary: st) (simp_all add: publish_row_def Let_def)

lemma drain_log:
  "ds_log (drain_once p env now locked n rows le) =
     concat (map (stored_messages env) (claim now locked n rows))"
  by (simp add: drain_once_def fold_publish_row Let_def)

lemma drain_table:
  assumes "distinct (map o_id rows)"
  shows "ds_table (drain_once p env now locked n rows le) =
    map (\<lambda>r. if r \<in> set (claim now locked n rows) then settle_row p env r else r) rows"
proof -
  have "set (claim now locked n rows) \<subseteq> set rows"
    using set_claim by blast
  from fold_update_row [where f = "settle_row p env", OF settle_row_id assms this
      distinct_claim [OF assms]]
  show ?thesis
    by (simp add: drain_once_def fold_publish_row Let_def)
qed

lemma drain_events:
  "distinct (map o_id rows) \<Longrightarrow>
     map event_of (ds_table (drain_once p env now locked n rows le)) = map event_of rows"
  by (auto simp: drain_table)

lemma count_rows:
  fixes r :: drain_result and rows
  defines "r' \<equiv> fold count_row rows r"
  shows "dr_claimed r' = dr_claimed r"
    and "dr_published r' = dr_published r + length (filter (\<lambda>x. o_status x = STATUS_PUBLISHED) rows)"
    and "dr_failed r' = dr_failed r + length (filter (\<lambda>x. o_status x \<noteq> STATUS_PUBLISHED) rows)"
    and "dr_dead_lettered r' = dr_dead_lettered r + length (filter (\<lambda>x. o_status x = STATUS_DEAD) rows)"
    and "dr_subjects r' = dr_subjects r @ map o_subject (filter (\<lambda>x. o_status x = STATUS_PUBLISHED) rows)"
  unfolding r'_def
  by (induction rows arbitrary: r) (auto simp: count_row_def)

section \<open>Properties\<close>

text \<open>
  A batch takes the oldest due rows: never more than the batch size, never a locked, settled
  or not-yet-due row, and no due row that is left behind is older than one that is taken.
\<close>

theorem claim_oldest_due:
  "length (claim now locked n rows) = min n (length (filter (due now locked) rows)) \<and>
   set (claim now locked n rows) \<subseteq> {r \<in> set rows. due now locked r} \<and>
   (\<forall>r \<in> set (claim now locked n rows). \<forall>r' \<in> set rows.
      due now locked r' \<and> r' \<notin> set (claim now locked n rows) \<longrightarrow> o_created_at r \<le> o_created_at r')"
proof -
  let ?s = "sort_key o_created_at (filter (due now locked) rows)"
  have "o_created_at r \<le> o_created_at r'"
    if "r \<in> set (take n ?s)" "r' \<in> set ?s" "r' \<notin> set (take n ?s)" for r r'
  proof -
    have "r' \<in> set (drop n ?s)"
      using that(2,3) by (metis Un_iff append_take_drop_id set_append)
    moreover have "sorted (map o_created_at (take n ?s @ drop n ?s))"
      by simp
    ultimately show ?thesis
      using that(1) unfolding map_append sorted_append by auto
  qed
  then show ?thesis
    using set_claim [of now locked n rows] length_claim [of now locked n rows]
    by (auto simp: claim_def)
qed

theorem claim_oldest_due_witness:
  "o_created_at (new_event ''a'' 1 ''s'' [] ''t'' None 1 1 None) \<le>
     o_created_at (new_event ''b'' 2 ''s'' [] ''t'' None 1 1 None)"
proof -
  let ?a = "new_event ''a'' 1 ''s'' [] ''t'' None 1 1 None"
  let ?b = "new_event ''b'' 2 ''s'' [] ''t'' None 1 1 None"
  have ne: "?a \<noteq> ?b" by (simp add: new_event_def)
  have c: "claim 5 [] 1 [?b, ?a] = [?a]"
    by (simp add: claim_def due_def new_event_def)
  show ?thesis
    using claim_oldest_due [of 5 "[]" 1 "[?b, ?a]"] ne unfolding c
    by (simp add: due_def new_event_def)
qed

text \<open>
  The books of a batch balance: every claimed row is counted once, as published or as failed;
  dead letters are failures; one subject is reported per published row.
\<close>

theorem drain_accounting:
  "let r = ds_result (drain_once p env now locked n rows le)
   in dr_claimed r = length (claim now locked n rows) \<and>
      dr_published r + dr_failed r = dr_claimed r \<and>
      dr_dead_lettered r \<le> dr_failed r \<and>
      length (dr_subjects r) = dr_published r"
proof -
  let ?cs = "map (settle_row p env) (claim now locked n rows)"
  have r: "ds_result (drain_once p env now locked n rows le) =
      fold count_row ?cs (no_result\<lparr>dr_claimed := length (claim now locked n rows)\<rparr>)"
    by (simp add: drain_once_def fold_publish_row Let_def)
  have "length (filter ((\<lambda>x. o_status x = STATUS_DEAD) \<circ> f) xs) \<le>
        length (filter ((\<lambda>x. o_status x \<noteq> STATUS_PUBLISHED) \<circ> f) xs)"
    for f :: "outbox_row \<Rightarrow> outbox_row" and xs
    by (induction xs) auto
  from this [of "settle_row p env"] show ?thesis
    using sum_length_filter_compl [of "\<lambda>x. o_status x = STATUS_PUBLISHED" ?cs]
    by (simp add: r count_rows no_result_def del: map_map filter_map)
qed

text \<open>
  What a batch does to the table.  Rows outside the batch are untouched.  A claimed row becomes
  published exactly when the broker acknowledged it, and then its message is among the stored
  ones; otherwise its attempt is counted, and it is dead exactly when the smaller of the policy's
  and its own limit is reached, or else due again strictly after the failure.
\<close>

theorem drain_settles_claimed:
  assumes "distinct (map o_id rows)" and "r \<in> set rows"
  shows "let st = drain_once p env now locked n rows le;
             r' = settle_row p env r; f = o_attempts r + 1
         in if r \<notin> set (claim now locked n rows) then r \<in> set (ds_table st)
            else r' \<in> set (ds_table st) \<and>
              (case publish_outcome env r of
                 Ack seq \<Rightarrow>
                   o_status r' = STATUS_PUBLISHED \<and> o_stream_seq r' = seq \<and>
                   message_of (pe_isoformat env) r \<in> set (ds_log st)
               | PublishRaises ty msg \<Rightarrow>
                   o_attempts r' = f \<and>
                   (if f \<ge> min (rp_max_attempts p) (o_max_attempts r) then o_status r' = STATUS_DEAD
                    else o_status r' = STATUS_PENDING \<and>
                         pe_now env (o_id r) < o_next_attempt_at r'))"
proof (cases "r \<in> set (claim now locked n rows)")
  case False
  then show ?thesis
    using assms(2) by (auto simp: Let_def drain_table [OF assms(1)])
next
  case True
  then have pend: "o_status r = STATUS_PENDING"
    using set_claim by (fastforce simp: due_def)
  have tab: "settle_row p env r \<in> set (ds_table (drain_once p env now locked n rows le))"
    using assms(2) True by (auto simp: drain_table [OF assms(1)])
  have log: "message_of (pe_isoformat env) r \<in> set (ds_log (drain_once p env now locked n rows le))"
    if "publish_outcome env r = Ack seq" for seq
    unfolding drain_log using True ack_is_stored [OF that] by (auto intro!: bexI [of _ r])
  show ?thesis
    using True tab log pend
    by (auto simp: Let_def settle_row_def record_success_def record_failure_status
          record_failure_next compute_backoff_pos split: publish_result.splits)
qed

definition down_env :: publish_env where
  "down_env = \<lparr>pe_connection = new_connection, pe_js_publish = (\<lambda>_. Ack None), pe_stored = (\<lambda>_. False),
     pe_now = (\<lambda>_. 10), pe_jitter = (\<lambda>_. 0), pe_isoformat = (\<lambda>_. [])\<rparr>"

theorem drain_settles_claimed_witness:
  "o_attempts (settle_row DEFAULT_RETRY_POLICY down_env
     (new_event ''a'' 1 ''s'' [] ''t'' None 1 1 None)) = 1"
proof -
  let ?a = "new_event ''a'' 1 ''s'' [] ''t'' None 1 1 None"
  have c: "claim 5 [] 1 [?a] = [?a]"
    by (simp add: claim_def due_def)
  have o: "publish_outcome down_env ?a = PublishRaises ''ConnectionError'' ''jetstream unavailable''"
    by (simp add: publish_outcome_def connection_publish_def down_env_def ready_def connected_def
          new_connection_def)
  show ?thesis
    using drain_settles_claimed [of "[?a]" ?a DEFAULT_RETRY_POLICY down_env 5 "[]" 1 None]
    unfolding c o Let_def by simp
qed

end
