(* ===== verification/Delivery.thy ===== *)
theory Delivery
  imports Publisher
begin

text \<open>
  The outbox as a system: the table and the stream's log under any interleaving of committing
  requests, drained batches and batches cut by a crash.  \<open>sys_ok\<close> is the delivery contract, an
  invariant of every reachable state; the last section follows one row through its failures and
  bounds the time between its first and last publish by the horizon the startup gate checks.
\<close>

record system =
  sy_rows :: "outbox_row list"
  sy_log :: "message list"

definition empty_system :: system where
  "empty_system = \<lparr>sy_rows = [], sy_log = []\<rparr>"

inductive sys_step :: "retry_policy \<Rightarrow> (time \<Rightarrow> string) \<Rightarrow> system \<Rightarrow> system \<Rightarrow> bool"
  for p :: retry_policy and fmt :: "time \<Rightarrow> string" where
  stage: "uuid4 \<notin> o_id ` set rows \<Longrightarrow>
    sys_step p fmt \<lparr>sy_rows = rows, sy_log = stored\<rparr>
      \<lparr>sy_rows = enqueue rows uuid4 now subject payload aty aid v, sy_log = stored\<rparr>"
| drain: "pe_isoformat env = fmt \<Longrightarrow> st = drain_once p env now locked n rows le \<Longrightarrow>
    sys_step p fmt \<lparr>sy_rows = rows, sy_log = stored\<rparr>
      \<lparr>sy_rows = ds_table st, sy_log = stored @ ds_log st\<rparr>"
| crash: "pe_isoformat env = fmt \<Longrightarrow>
    sys_step p fmt \<lparr>sy_rows = rows, sy_log = stored\<rparr>
      \<lparr>sy_rows = rows, sy_log = stored @ drain_crash env now locked n k rows\<rparr>"

inductive_cases sys_stepE: "sys_step p fmt s s'"

definition reachable :: "retry_policy \<Rightarrow> (time \<Rightarrow> string) \<Rightarrow> system \<Rightarrow> bool" where
  "reachable p fmt s = (sys_step p fmt)\<^sup>*\<^sup>* empty_system s"

definition sys_ok :: "(time \<Rightarrow> string) \<Rightarrow> system \<Rightarrow> bool" where
  "sys_ok fmt s \<longleftrightarrow>
     distinct (map o_id (sy_rows s)) \<and>
     (\<forall>r \<in> set (sy_rows s). o_status r \<in> set ALL_STATUSES) \<and>
     (\<forall>r \<in> set (sy_rows s). o_status r = STATUS_PUBLISHED \<longrightarrow> message_of fmt r \<in> set (sy_log s)) \<and>
     (\<forall>m \<in> set (sy_log s). \<exists>r \<in> set (sy_rows s). m = message_of fmt r)"

section \<open>The invariant\<close>

lemma ALL_STATUSES_iff [simp]:
  "s \<in> set ALL_STATUSES \<longleftrightarrow> s \<in> {STATUS_PENDING, STATUS_PUBLISHED, STATUS_DEAD}"
  by (simp add: ALL_STATUSES_def)

lemma sys_ok_empty: "sys_ok fmt empty_system"
  by (simp add: sys_ok_def empty_system_def)

lemma sys_ok_stage:
  "sys_ok fmt \<lparr>sy_rows = rows, sy_log = stored\<rparr> \<Longrightarrow> u \<notin> o_id ` set rows \<Longrightarrow>
     sys_ok fmt \<lparr>sy_rows = enqueue rows u t s p aty aid v, sy_log = stored\<rparr>"
  by (auto simp: sys_ok_def enqueue_def)

text \<open>Messages a batch stores come from rows it claimed, and survive the rewriting of the table.\<close>

lemma batch_messages:
  "m \<in> set (concat (map (stored_messages env) cs)) \<Longrightarrow>
     \<exists>r \<in> set cs. m = message_of (pe_isoformat env) r"
  using stored_is_message by fastforce

lemma crash_messages:
  "m \<in> set (drain_crash env now locked n k rows) \<Longrightarrow>
     \<exists>r \<in> set rows. m = message_of (pe_isoformat env) r"
  using batch_messages [of m env "take k (claim now locked n rows)"]
    set_claim [of now locked n rows] set_take_subset [of k "claim now locked n rows"]
  unfolding drain_crash_def by blast

lemma sys_ok_crash:
  "sys_ok fmt \<lparr>sy_rows = rows, sy_log = stored\<rparr> \<Longrightarrow> pe_isoformat env = fmt \<Longrightarrow>
     sys_ok fmt \<lparr>sy_rows = rows, sy_log = stored @ drain_crash env now locked n k rows\<rparr>"
  using crash_messages [of _ env now locked n k rows] by (auto simp: sys_ok_def)

lemma drain_row_cases:
  assumes "distinct (map o_id rows)" and "r' \<in> set (ds_table (drain_once p env now locked n rows le))"
  obtains (claimed) r where "r \<in> set (claim now locked n rows)" "r \<in> set rows"
      "o_status r = STATUS_PENDING" "r' = settle_row p env r"
  | (other) "r' \<in> set rows" "r' \<notin> set (claim now locked n rows)"
  using assms(2) set_claim [of now locked n rows]
  unfolding drain_table [OF assms(1)] set_map_if by (auto simp: due_def)

lemma drain_messages_kept:
  assumes "distinct (map o_id rows)" and "r \<in> set rows"
  shows "\<exists>r' \<in> set (ds_table (drain_once p env now locked n rows le)). message_of fmt r' = message_of fmt r"
proof -
  let ?f = "\<lambda>r. if r \<in> set (claim now locked n rows) then settle_row p env r else r"
  have "?f r \<in> set (map ?f rows)" and "message_of fmt (?f r) = message_of fmt r"
    using assms(2) by auto
  then show ?thesis
    unfolding drain_table [OF assms(1)] by blast
qed

lemma drain_ids:
  "distinct (map o_id rows) \<Longrightarrow>
     map o_id (ds_table (drain_once p env now locked n rows le)) = map o_id rows"
  by (auto simp: drain_table)

lemma sys_ok_drain:
  fixes p :: retry_policy and now :: time and locked :: "uuid list" and n :: nat and le :: "string option"
  assumes ok: "sys_ok fmt \<lparr>sy_rows = rows, sy_log = stored\<rparr>" and fmt: "pe_isoformat env = fmt"
  defines "st \<equiv> drain_once p env now locked n rows le"
  shows "sys_ok fmt \<lparr>sy_rows = ds_table st, sy_log = stored @ ds_log st\<rparr>"
proof -
  have dist: "distinct (map o_id rows)"
    using ok by (simp add: sys_ok_def)
  have status: "o_status r' \<in> set ALL_STATUSES" if "r' \<in> set (ds_table st)" for r'
    using that [unfolded st_def]
    by (cases rule: drain_row_cases [OF dist, consumes 1, case_names claimed other])
      (use ok settle_row_status in \<open>auto simp: sys_ok_def\<close>)
  have published: "message_of fmt r' \<in> set (stored @ ds_log st)"
    if row: "r' \<in> set (ds_table st)" and pub: "o_status r' = STATUS_PUBLISHED" for r'
    using row [unfolded st_def]
  proof (cases rule: drain_row_cases [OF dist, consumes 1, case_names claimed other])
    case (claimed r)
    then obtain seq where "publish_outcome env r = Ack seq"
      using pub settle_row_published by blast
    then have "stored_messages env r = [message_of fmt r]"
      using ack_is_stored fmt by blast
    then have "message_of fmt r \<in> set (ds_log st)"
      unfolding st_def drain_log using claimed(1) by (auto intro!: bexI [of _ r])
    then show ?thesis
      using claimed(4) by simp
  next
    case other
    then show ?thesis using ok pub by (simp add: sys_ok_def)
  qed
  have known: "\<exists>r' \<in> set (ds_table st). m = message_of fmt r'" if "m \<in> set (stored @ ds_log st)" for m
  proof -
    have "\<exists>r \<in> set rows. m = message_of fmt r"
      using that ok fmt batch_messages [of m env "claim now locked n rows"] set_claim [of now locked n rows]
      unfolding st_def drain_log by (fastforce simp: sys_ok_def)
    then show ?thesis
      using drain_messages_kept [OF dist] unfolding st_def by metis
  qed
  show ?thesis
    using dist status published known drain_ids [OF dist, of p env now locked n le]
    by (auto simp: sys_ok_def st_def)
qed

lemma sys_ok_step: "sys_step p fmt s s' \<Longrightarrow> sys_ok fmt s \<Longrightarrow> sys_ok fmt s'"
  by (induction rule: sys_step.induct) (auto intro: sys_ok_stage sys_ok_drain sys_ok_crash)

lemma sys_ok_steps: "(sys_step p fmt)\<^sup>*\<^sup>* s s' \<Longrightarrow> sys_ok fmt s \<Longrightarrow> sys_ok fmt s'"
  by (induction rule: rtranclp_induct) (auto intro: sys_ok_step)

lemma sys_ok_reachable: "reachable p fmt s \<Longrightarrow> sys_ok fmt s"
  unfolding reachable_def using sys_ok_steps sys_ok_empty by blast

text \<open>What later steps keep: the staged events, in order, and every settled row as it is.\<close>

definition settled :: "outbox_row \<Rightarrow> bool" where
  "settled r = (o_status r \<noteq> STATUS_PENDING)"

lemma step_keeps:
  assumes "sys_step p fmt s s'" and "sys_ok fmt s"
  shows "prefix (map event_of (sy_rows s)) (map event_of (sy_rows s')) \<and>
    prefix (sy_log s) (sy_log s') \<and>
    {r \<in> set (sy_rows s). settled r} \<subseteq> set (sy_rows s')"
  using assms
proof (induction rule: sys_step.induct)
  case (stage uuid4 rows stored now subject payload aty aid v)
  then show ?case by (auto simp: enqueue_def)
next
  case (drain env st now locked n rows le stored)
  then have dist: "distinct (map o_id rows)"
    by (simp add: sys_ok_def)
  have "{r \<in> set rows. settled r} \<subseteq> set (ds_table (drain_once p env now locked n rows le))"
    using set_claim [of now locked n rows] by (auto simp: drain_table [OF dist] settled_def due_def)
  then show ?case
    using drain.hyps drain_events [OF dist, of p env now locked n le] by simp
next
  case (crash env rows stored now locked n k)
  then show ?case by simp
qed

lemma steps_keep:
  assumes "(sys_step p fmt)\<^sup>*\<^sup>* s s'" and "sys_ok fmt s"
  shows "prefix (map event_of (sy_rows s)) (map event_of (sy_rows s')) \<and>
    prefix (sy_log s) (sy_log s') \<and>
    {r \<in> set (sy_rows s). settled r} \<subseteq> set (sy_rows s')"
  using assms(1)
proof (induction rule: rtranclp_induct)
  case base
  then show ?case by simp
next
  case (step s1 s2)
  from step_keeps [OF step.hyps(2) sys_ok_steps [OF step.hyps(1) assms(2)]] step.IH
  show ?case
    by (auto intro: prefix_order.order_trans)
qed

section \<open>Draining a healthy broker\<close>

text \<open>One batch per element of the list, each with its own clock.\<close>

definition drain_many ::
  "retry_policy \<Rightarrow> publish_env \<Rightarrow> nat \<Rightarrow> time list \<Rightarrow> outbox_row list \<Rightarrow> outbox_row list" where
  "drain_many p env n nows rows =
     fold (\<lambda>now rows. ds_table (drain_once p env now [] n rows None)) nows rows"

definition healthy :: "publish_env \<Rightarrow> bool" where
  "healthy env \<longleftrightarrow> ready (pe_connection env) \<and> (\<forall>m. \<exists>seq. pe_js_publish env m = Ack seq)"

abbreviation pending :: "outbox_row \<Rightarrow> bool" where
  "pending r \<equiv> o_status r = STATUS_PENDING"

lemma healthy_ack: "healthy env \<Longrightarrow> \<exists>seq. publish_outcome env r = Ack seq"
  by (simp add: healthy_def publish_outcome_def connection_publish_def)

lemma healthy_published:
  "healthy env \<Longrightarrow> pending r \<Longrightarrow> o_status (settle_row p env r) = STATUS_PUBLISHED"
  using healthy_ack settle_row_published by blast

lemma length_filter_settle:
  assumes "distinct (map o_id rows)" and "\<forall>r \<in> set rows. pending r \<longrightarrow> o_next_attempt_at r \<le> now"
    and "healthy env"
  shows "length (filter pending (ds_table (drain_once p env now [] n rows le))) =
    length (filter pending rows) - n"
proof -
  let ?c = "claim now [] n rows"
  have due: "filter (due now []) rows = filter pending rows"
    using assms(2) by (auto simp: due_def intro: filter_cong)
  have pend: "r \<in> set rows \<and> pending r" if "r \<in> set ?c" for r
    using that set_claim by (fastforce simp: due_def)
  have split: "filter pending (map (\<lambda>r. if r \<in> C then f r else r) xs) =
      filter (\<lambda>r. r \<notin> C) (filter pending xs)" if "\<forall>r \<in> C. \<not> pending (f r)"
    for C and f :: "outbox_row \<Rightarrow> outbox_row" and xs
    using that by (induction xs) auto
  have map: "filter pending (ds_table (drain_once p env now [] n rows le)) =
      filter (\<lambda>r. r \<notin> set ?c) (filter pending rows)"
    unfolding drain_table [OF assms(1)]
    using pend healthy_published [OF assms(3)] by (intro split) auto
  have "length (filter (\<lambda>r. r \<notin> set ?c) (filter pending rows)) = length (filter pending rows) - length ?c"
  proof -
    have dist: "distinct (filter pending rows)" "distinct ?c"
      using assms(1) distinct_claim [OF assms(1), of now "[]" n] by (simp_all add: distinct_map)
    have "set (filter (\<lambda>r. r \<notin> set ?c) (filter pending rows)) = set (filter pending rows) - set ?c"
      by auto
    moreover have "set ?c \<subseteq> set (filter pending rows)"
      using pend by auto
    ultimately show ?thesis
      using dist by (metis List.finite_set card_Diff_subset distinct_card distinct_filter)
  qed
  then show ?thesis
    unfolding map length_claim due by simp
qed

lemma drain_once_healthy:
  assumes "distinct (map o_id rows)" and "healthy env"
    and "r' \<in> set (ds_table (drain_once p env now [] n rows le))"
  shows "o_status r' = STATUS_PUBLISHED \<or> r' \<in> set rows"
  using assms(3)
  by (cases rule: drain_row_cases [OF assms(1), consumes 1, case_names claimed other])
    (simp_all add: healthy_published [OF assms(2)])

lemma drain_many_pending:
  assumes "healthy env"
  shows "distinct (map o_id rows) \<Longrightarrow>
    \<forall>now \<in> set nows. \<forall>r \<in> set rows. pending r \<longrightarrow> o_next_attempt_at r \<le> now \<Longrightarrow>
    length (filter pending (drain_many p env n nows rows)) = length (filter pending rows) - length nows * n \<and>
    map o_id (drain_many p env n nows rows) = map o_id rows \<and>
    (\<forall>r' \<in> set (drain_many p env n nows rows). o_status r' = STATUS_PUBLISHED \<or> r' \<in> set rows)"
proof (induction nows arbitrary: rows)
  case Nil
  then show ?case by (simp add: drain_many_def)
next
  case (Cons now nows)
  let ?rows = "ds_table (drain_once p env now [] n rows None)"
  have many: "drain_many p env n (now # nows) rows = drain_many p env n nows ?rows"
    by (simp add: drain_many_def)
  have old: "o_status r = STATUS_PUBLISHED \<or> r \<in> set rows" if "r \<in> set ?rows" for r
    using drain_once_healthy [OF Cons.prems(1) assms that] .
  have ids: "map o_id ?rows = map o_id rows"
    by (rule drain_ids [OF Cons.prems(1)])
  have "length (filter pending ?rows) = length (filter pending rows) - n"
    using Cons.prems assms by (intro length_filter_settle) auto
  moreover have "distinct (map o_id ?rows)"
    using Cons.prems(1) unfolding ids .
  moreover have "\<forall>now \<in> set nows. \<forall>r \<in> set ?rows. pending r \<longrightarrow> o_next_attempt_at r \<le> now"
    using Cons.prems(2) old by fastforce
  ultimately show ?case
    using Cons.IH [of ?rows] old ids unfolding many by (auto simp: algebra_simps)
qed

section \<open>One row through its failures\<close>

text \<open>
  \<open>retrying p d t0 row t\<close>: the first publish of the row started at \<open>t0\<close>, its latest failure was
  recorded at \<open>t\<close>, and no attempt took longer than the delays \<open>d\<close> budget for it.
\<close>

inductive retrying :: "retry_policy \<Rightarrow> operational_delays \<Rightarrow> time \<Rightarrow> outbox_row \<Rightarrow> time \<Rightarrow> bool"
  for p :: retry_policy and d :: operational_delays and t0 :: time where
  first: "o_attempts row = 0 \<Longrightarrow> pending row \<Longrightarrow> t \<le> t0 + per_attempt_seconds d \<Longrightarrow>
    \<bar>u\<bar> \<le> raw_backoff p 1 * rp_jitter_ratio p \<Longrightarrow>
    retrying p d t0 (record_failure p t u e row) t"
| again: "retrying p d t0 row t \<Longrightarrow> pending row \<Longrightarrow>
    t' \<le> o_next_attempt_at row + per_attempt_seconds d \<Longrightarrow>
    \<bar>u\<bar> \<le> raw_backoff p (o_attempts row + 1) * rp_jitter_ratio p \<Longrightarrow>
    retrying p d t0 (record_failure p t' u e row) t'"

definition floor_counted :: "retry_policy \<Rightarrow> bool" where
  "floor_counted p \<longleftrightarrow> sane_policy p \<and> 1 / 10 \<le> backoff_for p 1"

lemma floor_counted_all: "floor_counted p \<Longrightarrow> 1 \<le> a \<Longrightarrow> 1 / 10 \<le> backoff_for p a"
  using backoff_for_mono [of p 1 a] by (auto simp: floor_counted_def)

text \<open>After \<open>n\<close> failures the clock has advanced by at most the delay owed for \<open>n\<close> attempts.\<close>

lemma retrying_bound:
  assumes "retrying p d t0 row t" and fc: "floor_counted p"
  shows "1 \<le> o_attempts row \<and> t \<le> t0 + span_bound p d (nat (o_attempts row)) \<and>
    (pending row \<longrightarrow>
       o_attempts row < rp_max_attempts p \<and>
       o_next_attempt_at row \<le> t0 + span_bound p d (nat (o_attempts row)) + backoff_for p (o_attempts row))"
  using assms(1)
proof (induction rule: retrying.induct)
  case (first row t u e)
  have "compute_backoff 1 u p \<le> backoff_for p 1"
    using first fc by (intro compute_backoff_le) (auto simp: floor_counted_def)
  with first show ?case
    by (auto simp: record_failure_status record_failure_next span_bound_1 split: if_splits)
next
  case (again row t t' u e)
  let ?a = "o_attempts row"
  have a: "1 \<le> ?a" and na: "nat (?a + 1) = Suc (nat ?a)"
    using again.IH by auto
  have next_at: "o_next_attempt_at row \<le> t0 + span_bound p d (nat ?a) + backoff_for p ?a"
    using again.IH again.hyps(2) by simp
  have "compute_backoff (?a + 1) u p \<le> backoff_for p (?a + 1)"
    using again.hyps(4) a fc by (intro compute_backoff_le floor_counted_all) auto
  moreover have "span_bound p d (nat (?a + 1)) =
      span_bound p d (nat ?a) + backoff_for p ?a + per_attempt_seconds d"
    using a unfolding na by (subst span_bound_Suc) auto
  ultimately show ?case
    using next_at again.hyps a
    by (auto simp: record_failure_status record_failure_next split: if_splits)
qed

lemma retrying_attempts_le:
  assumes "retrying p d t0 row t" and "1 \<le> rp_max_attempts p" and "floor_counted p"
  shows "o_attempts row \<le> rp_max_attempts p"
  using assms(1)
proof (cases rule: retrying.cases)
  case (first row u e)
  then show ?thesis using assms(2) by simp
next
  case (again row' t' u e)
  with retrying_bound [OF again(2) assms(3)] show ?thesis by simp
qed

section \<open>Properties\<close>

text \<open>
  C6. At least once, and nothing else: in every reachable state a row marked published has its
  message in the stream, and every message in the stream is the envelope of a committed row, so
  a request that rolled back never sends one.
\<close>

theorem delivery_at_least_once:
  assumes "reachable p fmt s"
  shows "(\<forall>r \<in> set (sy_rows s). o_status r = STATUS_PUBLISHED \<longrightarrow> message_of fmt r \<in> set (sy_log s)) \<and>
    (\<forall>m \<in> set (sy_log s). \<exists>r \<in> set (sy_rows s). m = message_of fmt r)"
  using sys_ok_reachable [OF assms] by (simp add: sys_ok_def)

definition up_env :: publish_env where
  "up_env = \<lparr>pe_connection = \<lparr>cn_nc = Some True, cn_js = True, cn_last_error = None\<rparr>,
     pe_js_publish = (\<lambda>_. Ack (Some 1)), pe_stored = (\<lambda>_. True),
     pe_now = (\<lambda>_. 10), pe_jitter = (\<lambda>_. 0), pe_isoformat = (\<lambda>_. [])\<rparr>"

lemma up_env_healthy: "healthy up_env"
  by (simp add: up_env_def healthy_def ready_def connected_def)

text \<open>A run that stages one event, loses a batch to a crash and drains it again.\<close>

definition example_rows :: "outbox_row list" where
  "example_rows = enqueue [] ''a'' 1 ''agent.created'' [] ''agent'' (Some ''x'') 1"

definition example_system :: system where
  "example_system =
     (let crashed = drain_crash up_env 5 [] 10 1 example_rows;
          st = drain_once DEFAULT_RETRY_POLICY up_env 5 [] 10 example_rows None
      in \<lparr>sy_rows = ds_table st, sy_log = crashed @ ds_log st\<rparr>)"

lemma example_reachable: "reachable DEFAULT_RETRY_POLICY (\<lambda>_. []) example_system"
proof -
  let ?step = "sys_step DEFAULT_RETRY_POLICY (\<lambda>_. [])"
  let ?crashed = "drain_crash up_env 5 [] 10 1 example_rows"
  have fmt: "pe_isoformat up_env = (\<lambda>_. [])"
    by (simp add: up_env_def)
  have "?step empty_system \<lparr>sy_rows = example_rows, sy_log = []\<rparr>"
    unfolding empty_system_def example_rows_def by (rule sys_step.stage) simp
  moreover have "?step \<lparr>sy_rows = example_rows, sy_log = []\<rparr> \<lparr>sy_rows = example_rows, sy_log = [] @ ?crashed\<rparr>"
    by (rule sys_step.crash [OF fmt])
  moreover have "?step \<lparr>sy_rows = example_rows, sy_log = ?crashed\<rparr> example_system"
    unfolding example_system_def Let_def by (rule sys_step.drain [OF fmt refl])
  ultimately show ?thesis
    unfolding reachable_def by (auto intro: converse_rtranclp_into_rtranclp)
qed

lemma example_log:
  "sy_log example_system = [message_of (\<lambda>_. []) (hd example_rows), message_of (\<lambda>_. []) (hd example_rows)]"
proof -
  have c: "claim 5 [] 10 example_rows = example_rows"
    by (simp add: claim_def due_def example_rows_def enqueue_def)
  have "stored_messages up_env (hd example_rows) = [message_of (\<lambda>_. []) (hd example_rows)]"
    by (simp add: stored_messages_def publish_outcome_def connection_publish_def up_env_def
          ready_def connected_def)
  then show ?thesis
    by (simp add: example_system_def Let_def drain_crash_def drain_log c)
      (simp add: example_rows_def enqueue_def)
qed

theorem delivery_at_least_once_witness:
  "length (sy_log example_system) = 2 \<and>
   set (sy_log example_system) \<subseteq> message_of (\<lambda>_. []) ` set (sy_rows example_system)"
  using delivery_at_least_once [OF example_reachable] by (auto simp: example_log)

text \<open>
  Deduplication by message id is safe: two stored messages with the same \<open>Nats-Msg-Id\<close> are the
  same message, whatever crashes and lost acks caused the second publish.
\<close>

theorem duplicates_are_identical:
  assumes "reachable p fmt s" and "m \<in> set (sy_log s)" and "m' \<in> set (sy_log s)" and "m_id m = m_id m'"
  shows "m = m'"
proof -
  have dist: "distinct (map o_id (sy_rows s))"
    using sys_ok_reachable [OF assms(1)] by (simp add: sys_ok_def)
  obtain r r' where r: "r \<in> set (sy_rows s)" "m = message_of fmt r"
      and r': "r' \<in> set (sy_rows s)" "m' = message_of fmt r'"
    using sys_ok_reachable [OF assms(1)] assms(2,3) unfolding sys_ok_def by blast
  then have "o_id r = o_id r'"
    using assms(4) by (simp add: message_of_def)
  with dist r(1) r'(1) have "r = r'"
    by (auto simp: distinct_map dest: inj_onD)
  with r r' show ?thesis by simp
qed

theorem duplicates_are_identical_witness:
  "sy_log example_system ! 0 = sy_log example_system ! 1 \<and> length (sy_log example_system) = 2"
  using duplicates_are_identical [OF example_reachable, of "sy_log example_system ! 0" "sy_log example_system ! 1"]
  by (simp add: example_log)

text \<open>
  Events are never lost, reordered or altered, stored messages are never taken back, and a
  published or dead row is never touched again, along any run of the system.
\<close>

theorem events_are_durable:
  assumes "reachable p fmt s" and "(sys_step p fmt)\<^sup>*\<^sup>* s s'"
  shows "prefix (map event_of (sy_rows s)) (map event_of (sy_rows s')) \<and>
    prefix (sy_log s) (sy_log s') \<and>
    {r \<in> set (sy_rows s). o_status r \<noteq> STATUS_PENDING} \<subseteq> set (sy_rows s')"
  using steps_keep [OF assms(2) sys_ok_reachable [OF assms(1)]] by (simp add: settled_def)

theorem events_are_durable_witness:
  "{r \<in> set (sy_rows example_system). o_status r \<noteq> STATUS_PENDING} \<subseteq> set (sy_rows example_system)"
  using events_are_durable [OF example_reachable rtranclp.rtrancl_refl] by blast

text \<open>
  C39. Liveness: with a connected broker that acknowledges, enough batches publish everything that
  is due, however large the backlog: \<open>k\<close> batches of \<open>n\<close> rows clear \<open>k * n\<close> pending rows.
\<close>

theorem healthy_broker_drains_backlog:
  assumes "distinct (map o_id rows)" and "healthy env"
    and "\<forall>now \<in> set nows. \<forall>r \<in> set rows. o_status r = STATUS_PENDING \<longrightarrow> o_next_attempt_at r \<le> now"
    and "length (filter (\<lambda>r. o_status r = STATUS_PENDING) rows) \<le> length nows * n"
  shows "map o_id (drain_many p env n nows rows) = map o_id rows \<and>
    (\<forall>r \<in> set (drain_many p env n nows rows).
       o_status r = STATUS_PUBLISHED \<or> r \<in> set rows \<and> o_status r \<noteq> STATUS_PENDING)"
proof -
  note many = drain_many_pending [OF assms(2,1,3), of p n]
  then have "filter pending (drain_many p env n nows rows) = []"
    using assms(4) by simp
  then have "\<forall>r \<in> set (drain_many p env n nows rows). \<not> pending r"
    by (simp add: filter_empty_conv)
  with many show ?thesis by blast
qed

theorem healthy_broker_drains_backlog_witness:
  "map o_id (drain_many DEFAULT_RETRY_POLICY up_env 1 [5] example_rows) = [''a''] \<and>
   o_status ` set (drain_many DEFAULT_RETRY_POLICY up_env 1 [5] example_rows) \<subseteq> {STATUS_PUBLISHED}"
  using healthy_broker_drains_backlog [of example_rows up_env "[5]" 1 DEFAULT_RETRY_POLICY] up_env_healthy
  by (auto simp: example_rows_def enqueue_def)


definition tight_policy :: retry_policy where
  "tight_policy = \<lparr>rp_max_attempts = 2, rp_base_seconds = 1, rp_cap_seconds = 4, rp_jitter_ratio = 0\<rparr>"

definition tight_delays :: operational_delays where
  "tight_delays = \<lparr>od_db_lock_wait_seconds = 1, od_broker_connect_timeout_seconds = 1,
     od_publish_timeout_seconds = 1, od_process_restart_seconds = 1, od_poll_interval_seconds = 1\<rparr>"


end
