(* ===== verification/EventLog.thy ===== *)
theory EventLog
  imports Consumer
begin

text \<open>
  The contract between a table of versioned rows and its outbox.  Every operation of the services
  that touches an aggregate either creates its row at version 1, advances the row by one version,
  removes the row, or leaves versions alone, and stages exactly the event that says so in the
  same commit.  \<open>evolves\<close> states one such step; the locale \<open>versioned_aggregate\<close> is the interface
  for a component whose steps all have this form, and proves once what consumers rely on: the
  versions of an aggregate's events are 1, 2, 3, without gap or repetition, and the last one is
  the version of the row.
\<close>

definition aggregate_event :: "string \<Rightarrow> uuid \<Rightarrow> int \<Rightarrow> outbox_row \<Rightarrow> bool" where
  "aggregate_event aty i v e \<longleftrightarrow>
     o_aggregate_type e = aty \<and> o_aggregate_id e = Some i \<and> o_aggregate_version e = v"

text \<open>Identifiers a transaction draws afresh.\<close>

definition event_unused :: "uuid \<Rightarrow> outbox_row list \<Rightarrow> bool" where
  "event_unused u rows \<longleftrightarrow> u \<notin> o_id ` set rows"

definition aggregate_unused :: "string \<Rightarrow> uuid \<Rightarrow> outbox_row list \<Rightarrow> bool" where
  "aggregate_unused aty u rows \<longleftrightarrow> (\<forall>e \<in> set rows. o_aggregate_type e = aty \<longrightarrow> o_aggregate_id e \<noteq> Some u)"

inductive evolves ::
  "('r \<Rightarrow> uuid) \<Rightarrow> ('r \<Rightarrow> int) \<Rightarrow> string \<Rightarrow> 'r list \<Rightarrow> outbox_row list \<Rightarrow> 'r list \<Rightarrow> outbox_row list \<Rightarrow> bool"
  for key :: "'r \<Rightarrow> uuid" and version :: "'r \<Rightarrow> int" and aty :: string where
  silent: "map key rows' = map key rows \<Longrightarrow> map version rows' = map version rows \<Longrightarrow>
    \<forall>e \<in> set evs. o_aggregate_type e \<noteq> aty \<Longrightarrow>
    map event_of out' = map event_of out @ map event_of evs \<Longrightarrow>
    evolves key version aty rows out rows' out'"
| created: "key r \<notin> key ` set rows \<Longrightarrow>
    \<forall>e \<in> set out. o_aggregate_type e = aty \<longrightarrow> o_aggregate_id e \<noteq> Some (key r) \<Longrightarrow>
    version r = 1 \<Longrightarrow> aggregate_event aty (key r) 1 e \<Longrightarrow>
    evolves key version aty rows out (rows @ [r]) (out @ [e])"
| advanced: "find_row key (key r) rows = Some r0 \<Longrightarrow> version r = version r0 + 1 \<Longrightarrow>
    aggregate_event aty (key r) (version r) e \<Longrightarrow>
    evolves key version aty rows out (update_row key r rows) (out @ [e])"
| removed: "find_row key (key r) rows = Some r \<Longrightarrow>
    aggregate_event aty (key r) (version r + 1) e \<Longrightarrow>
    evolves key version aty rows out (filter (\<lambda>x. key x \<noteq> key r) rows) (out @ [e])"

text \<open>The invariant: an aggregate's events are numbered from 1, and its row carries the last number.\<close>

definition versions_ok ::
  "('r \<Rightarrow> uuid) \<Rightarrow> ('r \<Rightarrow> int) \<Rightarrow> string \<Rightarrow> 'r list \<Rightarrow> outbox_row list \<Rightarrow> bool" where
  "versions_ok key version aty rows out \<longleftrightarrow>
     distinct (map key rows) \<and>
     (\<forall>i. \<exists>n \<ge> 0. versions_of aty i out = [1..n] \<and> (\<forall>r \<in> set rows. key r = i \<longrightarrow> version r = n))"

lemma versions_of_alt:
  "versions_of aty i out =
     map (\<lambda>(_, _, _, v, _). v) (filter (\<lambda>(_, t, j, _). t = aty \<and> j = Some i) (map event_of out))"
  by (induction out) (auto simp: versions_of_def event_of_def)

lemma versions_of_event_of:
  "map event_of out = map event_of out' \<Longrightarrow> versions_of aty i out = versions_of aty i out'"
  by (simp only: versions_of_alt)

lemma versions_of_other:
  "\<forall>e \<in> set evs. o_aggregate_type e \<noteq> aty \<Longrightarrow> versions_of aty i evs = []"
  by (auto simp: versions_of_def filter_empty_conv)

lemma versions_of_event:
  "aggregate_event aty k v e \<Longrightarrow> versions_of aty i [e] = (if i = k then [v] else [])"
  by (auto simp: versions_of_def aggregate_event_def)

lemma versions_of_fresh:
  "\<forall>e \<in> set out. o_aggregate_type e = aty \<longrightarrow> o_aggregate_id e \<noteq> Some i \<Longrightarrow> versions_of aty i out = []"
  by (auto simp: versions_of_def filter_empty_conv)

lemma upto_snoc: "0 \<le> n \<Longrightarrow> [1..n] @ [n + 1] = [1..n + (1 :: int)]"
  using upto_rec2 [of 1 "n + 1"] by simp

lemma versions_okI:
  assumes "distinct (map key rows)"
    and "\<And>i. \<exists>n \<ge> 0. versions_of aty i out = [1..n] \<and> (\<forall>r \<in> set rows. key r = i \<longrightarrow> version r = n)"
  shows "versions_ok key version aty rows out"
  using assms by (simp add: versions_ok_def)

lemma versions_ok_at:
  "versions_ok key version aty rows out \<Longrightarrow>
     \<exists>n \<ge> 0. versions_of aty i out = [1..n] \<and> (\<forall>r \<in> set rows. key r = i \<longrightarrow> version r = n)"
  by (simp add: versions_ok_def)

lemma versions_ok_row:
  assumes "versions_ok key version aty rows out" and "r \<in> set rows"
  shows "0 \<le> version r \<and> versions_of aty (key r) out = [1..version r]"
  using versions_ok_at [OF assms(1), of "key r"] assms(2) by auto

text \<open>The silent case compares rows position by position.\<close>

lemma same_versions:
  "map key rows' = map key rows \<Longrightarrow> map version rows' = map version rows \<Longrightarrow> r \<in> set rows' \<Longrightarrow>
     \<exists>r0 \<in> set rows. key r0 = key r \<and> version r0 = version r"
proof (induction rows' arbitrary: rows)
  case Nil
  then show ?case by simp
next
  case (Cons x xs)
  then show ?case by (cases rows) auto
qed

lemma evolves_ok:
  assumes "evolves key version aty rows out rows' out'" and "versions_ok key version aty rows out"
  shows "versions_ok key version aty rows' out'"
  using assms
proof (induction rule: evolves.induct)
  case (silent rows' rows evs out' out)
  have "versions_of aty i out' = versions_of aty i out" for i
    using versions_of_event_of [of out' "out @ evs" aty i] versions_of_other [OF silent(3), of i] silent(4)
    by simp
  with silent same_versions [OF silent(1,2)] show ?case
    unfolding versions_ok_def by metis
next
  case (created r rows out e)
  show ?case
  proof (rule versions_okI)
    show "distinct (map key (rows @ [r]))"
      using created by (simp add: versions_ok_def)
    fix i
    from versions_ok_at [OF created.prems, of i] obtain n where
      n: "0 \<le> n" "versions_of aty i out = [1..n]" "\<forall>r \<in> set rows. key r = i \<longrightarrow> version r = n" by blast
    show "\<exists>n \<ge> 0. versions_of aty i (out @ [e]) = [1..n] \<and> (\<forall>r' \<in> set (rows @ [r]). key r' = i \<longrightarrow> version r' = n)"
    proof (cases "i = key r")
      case True
      have "key r' \<noteq> key r" if "r' \<in> set rows" for r'
        using created.hyps(1) that by (metis image_eqI)
      with True created versions_of_fresh [OF created.hyps(2)] versions_of_event [OF created.hyps(4), of i] show ?thesis
        by (intro exI [of _ 1]) auto
    next
      case False
      with n versions_of_event [OF created.hyps(4), of i] show ?thesis
        by (intro exI [of _ n]) auto
    qed
  qed
next
  case (advanced r rows r0 e out)
  have r0: "r0 \<in> set rows" "key r0 = key r"
    using find_row_Some [OF advanced.hyps(1)] by auto
  show ?case
  proof (rule versions_okI)
    show "distinct (map key (update_row key r rows))"
      using advanced.prems by (simp add: versions_ok_def)
    fix i
    from versions_ok_at [OF advanced.prems, of i] obtain n where
      n: "0 \<le> n" "versions_of aty i out = [1..n]" "\<forall>r \<in> set rows. key r = i \<longrightarrow> version r = n" by blast
    show "\<exists>n \<ge> 0. versions_of aty i (out @ [e]) = [1..n] \<and>
        (\<forall>r' \<in> set (update_row key r rows). key r' = i \<longrightarrow> version r' = n)"
    proof (cases "i = key r")
      case True
      with n r0 advanced.hyps versions_of_event [OF advanced.hyps(3), of i] show ?thesis
        by (intro exI [of _ "n + 1"]) (auto simp: upto_snoc update_row_def)
    next
      case False
      with n versions_of_event [OF advanced.hyps(3), of i] show ?thesis
        by (intro exI [of _ n]) (auto simp: update_row_def)
    qed
  qed
next
  case (removed r rows e out)
  have r: "r \<in> set rows"
    using find_row_Some [OF removed.hyps(1)] by auto
  show ?case
  proof (rule versions_okI)
    show "distinct (map key (filter (\<lambda>x. key x \<noteq> key r) rows))"
      using removed.prems by (simp add: versions_ok_def distinct_map_filter)
    fix i
    from versions_ok_at [OF removed.prems, of i] obtain n where
      n: "0 \<le> n" "versions_of aty i out = [1..n]" "\<forall>r \<in> set rows. key r = i \<longrightarrow> version r = n" by blast
    show "\<exists>n \<ge> 0. versions_of aty i (out @ [e]) = [1..n] \<and>
        (\<forall>r' \<in> set (filter (\<lambda>x. key x \<noteq> key r) rows). key r' = i \<longrightarrow> version r' = n)"
    proof (cases "i = key r")
      case True
      with n r versions_of_event [OF removed.hyps(2), of i] show ?thesis
        by (intro exI [of _ "n + 1"]) (auto simp: upto_snoc)
    next
      case False
      with n versions_of_event [OF removed.hyps(2), of i] show ?thesis
        by (intro exI [of _ n]) auto
    qed
  qed
qed

section \<open>The interface\<close>

locale versioned_aggregate =
  fixes step :: "'s \<Rightarrow> 's \<Rightarrow> bool"
    and start :: "'s"
    and rows_of :: "'s \<Rightarrow> 'r list"
    and outbox_of :: "'s \<Rightarrow> outbox_row list"
    and key :: "'r \<Rightarrow> uuid"
    and version :: "'r \<Rightarrow> int"
    and aty :: string
    and ok :: "'s \<Rightarrow> bool"
  assumes start_ok: "ok start"
    and step_ok: "ok s \<Longrightarrow> step s s' \<Longrightarrow> ok s'"
    and start_empty: "rows_of start = []" "outbox_of start = []"
    and step_evolves: "ok s \<Longrightarrow> step s s' \<Longrightarrow> evolves key version aty (rows_of s) (outbox_of s) (rows_of s') (outbox_of s')"
begin

lemma reachable_ok: "step\<^sup>*\<^sup>* start s \<Longrightarrow> ok s"
  by (induction rule: rtranclp_induct) (auto intro: start_ok step_ok)

lemma reachable_versions_ok:
  "step\<^sup>*\<^sup>* start s \<Longrightarrow> versions_ok key version aty (rows_of s) (outbox_of s)"
proof (induction rule: rtranclp_induct)
  case base
  show ?case
    unfolding start_empty by (rule versions_okI) (auto intro: exI [of _ 0])
next
  case (step s s')
  then show ?case
    using evolves_ok step_evolves reachable_ok by blast
qed

text \<open>The row of an aggregate carries the number of its events.\<close>

lemma row_version:
  assumes "step\<^sup>*\<^sup>* start s" and "r \<in> set (rows_of s)"
  shows "0 \<le> version r \<and> versions_of aty (key r) (outbox_of s) = [1..version r]"
  using versions_ok_row [OF reachable_versions_ok [OF assms(1)] assms(2)] .

text \<open>A consumer that starts from nothing applies every event of every aggregate.\<close>

lemma consumer_applies_all:
  assumes "step\<^sup>*\<^sup>* start s"
  shows "\<forall>d \<in> set (fst (project None (versions_of aty i (outbox_of s)))). d = APPLY"
proof -
  from versions_ok_at [OF reachable_versions_ok [OF assms], of i] obtain n where
    n: "0 \<le> n" "versions_of aty i (outbox_of s) = [1..n]" by blast
  then have "project None (versions_of aty i (outbox_of s)) = (replicate (nat n) APPLY, applied_upto n)"
    using project_consecutive [of 0 n] by (simp add: applied_upto_def)
  then show ?thesis by simp
qed

end

end
