(* ===== verification/Connectors.thy ===== *)
theory Connectors
  imports Lifecycle EventLog
begin

text \<open>
  The tables of \<open>connector-registry/app/models.py\<close> and \<open>transitions.py\<close>.  \<open>registry_db\<close> is the
  database of the service.  A handler runs in one transaction: it returns the database its commit
  leaves, and an exception rolls everything back, so a failing operation returns no database.
  \<open>apply_transition\<close> is \<open>transitions.apply\<close>; the row lock it takes is what makes its read,
  check and write one step.  UUID draws and the clock are fields of \<open>world\<close>; the clock is read
  once per operation.  The uniqueness of audit rows per connector version, a constraint of the
  database, is an invariant here (\<open>audit_ok\<close>), so the commit is never refused for it.
\<close>

record connector =
  c_id :: uuid
  c_tenant_id :: string
  c_name :: string
  c_kind :: string
  c_base_url :: "string option"
  c_scopes :: "string list"
  c_config :: jobj
  c_status :: string
  c_version :: int
  c_supports_idempotency :: bool
  c_idempotency_mode :: string
  c_deletion_requested_at :: "time option"
  c_deleted_at :: "time option"
  c_deleted_by :: "string option"
  c_revoked_at :: "time option"
  c_archived_at :: "time option"
  c_credentials_rotated_at :: "time option"
  c_state_reason :: "string option"
  c_created_at :: time

definition executable :: "connector \<Rightarrow> bool" where
  "executable c = is_executable (c_status c)"

record invocation =
  i_id :: uuid
  i_connector_id :: uuid
  i_connector_version :: int
  i_adapter_kind :: string
  i_idempotency_key :: string
  i_actor_id :: string
  i_tenant_id :: string
  i_operation :: string
  i_status :: string
  i_attempt :: int
  i_aggregate_version :: int
  i_deadline_at :: time
  i_started_at :: "time option"
  i_completed_at :: "time option"
  i_provider_request_id :: "string option"
  i_error_code :: "string option"
  i_error_detail :: "string option"
  i_retryable :: "bool option"
  i_trace_id :: "string option"
  i_output :: "jobj option"
  i_audit_metadata :: jobj
  i_created_at :: time

record audit_entry =
  a_id :: uuid
  a_connector_id :: uuid
  a_tenant_id :: string
  a_from_state :: string
  a_to_state :: string
  a_event :: string
  a_actor_id :: string
  a_reason :: "string option"
  a_aggregate_version :: int
  a_idempotency_key :: "string option"
  a_recorded_at :: time

record registry_db =
  db_connectors :: "connector list"
  db_invocations :: "invocation list"
  db_audit :: "audit_entry list"
  db_outbox :: "outbox_row list"

record world =
  w_now :: time
  w_row_id :: uuid
  w_audit_id :: uuid
  w_event_id :: uuid

section \<open>transitions.py\<close>

datatype apply_error =
    LookupError
  | ReasonRequired string
  | TransitionRejected transition_error string "string list"

record transition_result =
  tres_connector :: connector
  tres_event :: string
  tres_repeated :: bool

datatype timestamp_column = REVOKED_AT | ARCHIVED_AT | DELETION_REQUESTED_AT

fun TIMESTAMP_COLUMN :: "connector_state \<Rightarrow> timestamp_column option" where
  "TIMESTAMP_COLUMN REVOKED = Some REVOKED_AT"
| "TIMESTAMP_COLUMN ARCHIVED = Some ARCHIVED_AT"
| "TIMESTAMP_COLUMN DELETION_REQUESTED = Some DELETION_REQUESTED_AT"
| "TIMESTAMP_COLUMN _ = None"

definition stamp :: "timestamp_column option \<Rightarrow> time \<Rightarrow> connector \<Rightarrow> connector" where
  "stamp column now c =
     (case column of
        None \<Rightarrow> c
      | Some REVOKED_AT \<Rightarrow> c\<lparr>c_revoked_at := Some now\<rparr>
      | Some ARCHIVED_AT \<Rightarrow> c\<lparr>c_archived_at := Some now\<rparr>
      | Some DELETION_REQUESTED_AT \<Rightarrow> c\<lparr>c_deletion_requested_at := Some now\<rparr>)"

definition blank :: "string option \<Rightarrow> bool" where
  "blank reason = (py_strip (case reason of None \<Rightarrow> [] | Some r \<Rightarrow> r) = [])"

definition json_opt :: "string option \<Rightarrow> json" where
  "json_opt v = (case v of None \<Rightarrow> JNull | Some s \<Rightarrow> JStr s)"

definition transition_payload ::
  "connector \<Rightarrow> string \<Rightarrow> string \<Rightarrow> string \<Rightarrow> string option \<Rightarrow> jobj" where
  "transition_payload c tenant_id previous actor_id reason =
     [(''connector_id'', JStr (c_id c)),
      (''name'', JStr (c_name c)),
      (''tenant_id'', JStr tenant_id),
      (''from_state'', JStr previous),
      (''to_state'', JStr (c_status c)),
      (''actor_id'', JStr actor_id),
      (''reason'', json_opt reason)]"

definition move_connector :: "world \<Rightarrow> transition \<Rightarrow> string option \<Rightarrow> connector \<Rightarrow> connector" where
  "move_connector w tr reason c =
     (let c = c\<lparr>c_status := state_value (t_target tr), c_version := c_version c + 1,
                c_state_reason := reason\<rparr>;
          c = stamp (TIMESTAMP_COLUMN (t_target tr)) (w_now w) c
      in if t_event tr = ''connector.credentials_rotated''
         then c\<lparr>c_credentials_rotated_at := Some (w_now w)\<rparr> else c)"

definition audit_row ::
  "world \<Rightarrow> transition \<Rightarrow> string \<Rightarrow> string \<Rightarrow> string option \<Rightarrow> string option \<Rightarrow> string \<Rightarrow> connector \<Rightarrow> audit_entry" where
  "audit_row w tr actor_id tenant_id reason idempotency_key previous c =
     \<lparr>a_id = w_audit_id w, a_connector_id = c_id c, a_tenant_id = tenant_id,
      a_from_state = previous, a_to_state = c_status c, a_event = t_event tr,
      a_actor_id = actor_id, a_reason = reason, a_aggregate_version = c_version c,
      a_idempotency_key = idempotency_key, a_recorded_at = w_now w\<rparr>"

definition commit_transition ::
  "registry_db \<Rightarrow> world \<Rightarrow> transition \<Rightarrow> string \<Rightarrow> string \<Rightarrow> string option \<Rightarrow> string option \<Rightarrow> connector \<Rightarrow> registry_db" where
  "commit_transition db w tr actor_id tenant_id reason idempotency_key record =
     (let previous = c_status record;
          record' = move_connector w tr reason record
      in db\<lparr>db_connectors := update_row c_id record' (db_connectors db),
            db_audit := db_audit db @
              [audit_row w tr actor_id tenant_id reason idempotency_key previous record'],
            db_outbox := enqueue (db_outbox db) (w_event_id w) (w_now w) (t_event tr)
              (transition_payload record' tenant_id previous actor_id reason)
              ''connector'' (Some (c_id record')) (c_version record')\<rparr>)"

definition apply_transition ::
  "registry_db \<Rightarrow> world \<Rightarrow> uuid \<Rightarrow> connector_state \<Rightarrow> string option \<Rightarrow> string \<Rightarrow> string \<Rightarrow>
   string option \<Rightarrow> string option \<Rightarrow> apply_error + registry_db \<times> transition_result" where
  "apply_transition db w connector_id target event actor_id tenant_id reason idempotency_key =
     (case find_row c_id connector_id (db_connectors db) of
        None \<Rightarrow> Inl LookupError
      | Some record \<Rightarrow>
        if c_tenant_id record \<noteq> tenant_id then Inl LookupError
        else
          (let current = c_status record
           in case find_transition current (state_value target) event of
                Inl exc \<Rightarrow>
                  (case idempotent_repeat current (state_value target) of
                     Some repeat \<Rightarrow>
                       Inr (db, \<lparr>tres_connector = record, tres_event = t_event repeat, tres_repeated = True\<rparr>)
                   | None \<Rightarrow> Inl (TransitionRejected exc current (permitted_targets current)))
              | Inr tr \<Rightarrow>
                  if t_requires_reason tr \<and> blank reason then Inl (ReasonRequired (t_event tr))
                  else Inr (commit_transition db w tr actor_id tenant_id reason idempotency_key record,
                            \<lparr>tres_connector = move_connector w tr reason record,
                             tres_event = t_event tr, tres_repeated = False\<rparr>)))"

definition audit_trail :: "registry_db \<Rightarrow> uuid \<Rightarrow> string \<Rightarrow> audit_entry list" where
  "audit_trail db connector_id tenant_id =
     sort_key a_aggregate_version
       (filter (\<lambda>a. a_connector_id a = connector_id \<and> a_tenant_id a = tenant_id) (db_audit db))"

section \<open>Moving one connector\<close>

lemma stamp_keeps [simp]:
  "c_id (stamp col t c) = c_id c" "c_tenant_id (stamp col t c) = c_tenant_id c"
  "c_name (stamp col t c) = c_name c" "c_status (stamp col t c) = c_status c"
  "c_version (stamp col t c) = c_version c" "c_config (stamp col t c) = c_config c"
  "c_kind (stamp col t c) = c_kind c" "c_state_reason (stamp col t c) = c_state_reason c"
  by (auto simp: stamp_def split: option.split timestamp_column.split)

lemma move_connector_simps [simp]:
  "c_id (move_connector w tr r c) = c_id c"
  "c_tenant_id (move_connector w tr r c) = c_tenant_id c"
  "c_name (move_connector w tr r c) = c_name c"
  "c_kind (move_connector w tr r c) = c_kind c"
  "c_config (move_connector w tr r c) = c_config c"
  "c_status (move_connector w tr r c) = state_value (t_target tr)"
  "c_version (move_connector w tr r c) = c_version c + 1"
  "c_state_reason (move_connector w tr r c) = r"
  by (simp_all add: move_connector_def Let_def)

lemma move_connector_stamps:
  "t_target tr = REVOKED \<Longrightarrow> c_revoked_at (move_connector w tr r c) = Some (w_now w)"
  "t_target tr = ARCHIVED \<Longrightarrow> c_archived_at (move_connector w tr r c) = Some (w_now w)"
  "t_target tr = DELETION_REQUESTED \<Longrightarrow> c_deletion_requested_at (move_connector w tr r c) = Some (w_now w)"
  "t_event tr = ''connector.credentials_rotated'' \<Longrightarrow>
     c_credentials_rotated_at (move_connector w tr r c) = Some (w_now w)"
  by (simp_all add: move_connector_def stamp_def Let_def)

lemma commit_transition_simps [simp]:
  "db_connectors (commit_transition db w tr act ten r k c) =
     update_row c_id (move_connector w tr r c) (db_connectors db)"
  "db_invocations (commit_transition db w tr act ten r k c) = db_invocations db"
  "db_audit (commit_transition db w tr act ten r k c) =
     db_audit db @ [audit_row w tr act ten r k (c_status c) (move_connector w tr r c)]"
  "db_outbox (commit_transition db w tr act ten r k c) =
     enqueue (db_outbox db) (w_event_id w) (w_now w) (t_event tr)
       (transition_payload (move_connector w tr r c) ten (c_status c) act r)
       ''connector'' (Some (c_id c)) (c_version c + 1)"
  by (simp_all add: commit_transition_def Let_def)

lemma apply_transition_cases:
  assumes "apply_transition db w cid target event act ten reason k = Inr (db', res)"
  obtains (repeated) row tr where
      "find_row c_id cid (db_connectors db) = Some row" "c_tenant_id row = ten"
      "db' = db" "tres_repeated res" "c_status row = state_value target"
      "idempotent_repeat (c_status row) (state_value target) = Some tr"
  | (moved) row tr where
      "find_row c_id cid (db_connectors db) = Some row" "c_tenant_id row = ten"
      "find_transition (c_status row) (state_value target) event = Inr tr"
      "t_target tr = target" "c_status row = state_value (t_source tr)" "tr \<in> set TRANSITIONS"
      "\<not> (t_requires_reason tr \<and> blank reason)"
      "db' = commit_transition db w tr act ten reason k row"
      "\<not> tres_repeated res" "tres_connector res = move_connector w tr reason row"
      "tres_event res = t_event tr"
proof -
  from assms obtain row where row: "find_row c_id cid (db_connectors db) = Some row"
      "c_tenant_id row = ten"
    by (auto simp: apply_transition_def split: option.splits if_splits)
  show ?thesis
  proof (cases "find_transition (c_status row) (state_value target) event")
    case (Inl exc)
    with assms row show ?thesis
      by (auto simp: apply_transition_def idempotent_repeat_def Let_def intro: repeated
            split: option.splits if_splits)
  next
    case (Inr tr)
    from find_transition_Inr [OF this] have "tr \<in> set TRANSITIONS" "t_target tr = target"
        "c_status row = state_value (t_source tr)"
      by auto
    with Inr assms row show ?thesis
      by (intro moved [of row tr]) (auto simp: apply_transition_def Let_def split: if_splits)
  qed
qed

section \<open>Properties\<close>

text \<open>
  Every outcome of a transition request is accounted for.  The caller learns nothing but "not
  found" about a connector outside the tenant; a refusal names the current state and exactly the
  states reachable from it; a reason is demanded precisely by the table's entry; a repeat changes
  nothing; and an applied transition follows an edge of the table.
\<close>

theorem apply_transition_outcomes:
  "case apply_transition db w cid target event actor ten reason key of
     Inl LookupError \<Rightarrow>
       \<not> (\<exists>c. find_row c_id cid (db_connectors db) = Some c \<and> c_tenant_id c = ten)
   | Inl (ReasonRequired e) \<Rightarrow> blank reason \<and> (\<exists>tr \<in> set TRANSITIONS. t_requires_reason tr \<and> t_event tr = e)
   | Inl (TransitionRejected exc current targets) \<Rightarrow>
       (\<exists>c. find_row c_id cid (db_connectors db) = Some c \<and> c_tenant_id c = ten \<and> c_status c = current) \<and>
       find_transition current (state_value target) event = Inl exc \<and> targets = permitted_targets current
   | Inr (db', res) \<Rightarrow>
       \<exists>c. find_row c_id cid (db_connectors db) = Some c \<and> c_tenant_id c = ten \<and>
         (if tres_repeated res then db' = db \<and> c_status c = state_value target
          else \<exists>tr \<in> set TRANSITIONS. c_status c = state_value (t_source tr) \<and> t_target tr = target \<and>
            (event = None \<or> event = Some (t_event tr)))"
proof (cases "apply_transition db w cid target event actor ten reason key")
  case (Inl e)
  then show ?thesis
    by (auto simp: apply_transition_def Let_def dest!: find_transition_Inr
          split: option.splits if_splits sum.splits)
next
  case (Inr r)
  then obtain db' res where r: "apply_transition db w cid target event actor ten reason key = Inr (db', res)"
    by (cases r) auto
  then show ?thesis
  proof (cases rule: apply_transition_cases)
    case (repeated row tr)
    with r show ?thesis by auto
  next
    case (moved row tr)
    with r find_transition_Inr [OF moved(3)] show ?thesis by auto
  qed
qed

text \<open>
  C7. What an applied transition commits, all of it together: the row at its next version, one
  audit entry and one outbox event that tell the same story, stamped with that version; and no
  other connector or invocation changes.
\<close>

theorem apply_transition_commits:
  assumes "apply_transition db w cid target event actor ten reason key = Inr (db', res)"
    and "\<not> tres_repeated res"
  shows "\<exists>c c' a e.
    find_row c_id cid (db_connectors db) = Some c \<and> find_row c_id cid (db_connectors db') = Some c' \<and>
    c_status c' = state_value target \<and> c_version c' = c_version c + 1 \<and> c_tenant_id c' = ten \<and>
    db_audit db' = db_audit db @ [a] \<and> db_outbox db' = db_outbox db @ [e] \<and>
    a_connector_id a = cid \<and> a_from_state a = c_status c \<and> a_to_state a = c_status c' \<and>
    a_actor_id a = actor \<and> a_reason a = reason \<and> a_aggregate_version a = c_version c' \<and>
    aggregate_event ''connector'' cid (c_version c') e \<and> o_subject e = a_event a \<and>
    jget ''from_state'' (o_payload e) = Some (JStr (a_from_state a)) \<and>
    jget ''to_state'' (o_payload e) = Some (JStr (a_to_state a)) \<and>
    (\<forall>i. i \<noteq> cid \<longrightarrow> find_row c_id i (db_connectors db') = find_row c_id i (db_connectors db)) \<and>
    db_invocations db' = db_invocations db"
  using assms(1)
proof (cases rule: apply_transition_cases)
  case (repeated row tr)
  with assms(2) show ?thesis by simp
next
  case (moved row tr)
  let ?c = "move_connector w tr reason row"
  let ?a = "audit_row w tr actor ten reason key (c_status row) ?c"
  let ?e = "new_event (w_event_id w) (w_now w) (t_event tr)
    (transition_payload ?c ten (c_status row) actor reason)
    ''connector'' (Some cid) (c_version row + 1) SCHEMA_VERSION None"
  have id: "c_id row = cid" and ids: "cid \<in> c_id ` set (db_connectors db)"
    using find_row_Some [OF moved(1)] by auto
  have "db_audit db' = db_audit db @ [?a]" "db_outbox db' = db_outbox db @ [?e]"
    "db_invocations db' = db_invocations db"
    by (simp_all add: moved(8) enqueue_def id)
  moreover have "find_row c_id i (db_connectors db') =
      (if i = cid then Some ?c else find_row c_id i (db_connectors db))" for i
    using ids by (simp add: moved(8) id)
  moreover have "a_connector_id ?a = cid \<and> a_from_state ?a = c_status row \<and> a_to_state ?a = c_status ?c \<and>
      a_actor_id ?a = actor \<and> a_reason ?a = reason \<and> a_aggregate_version ?a = c_version ?c \<and>
      a_event ?a = t_event tr"
    by (simp add: audit_row_def id)
  moreover have "aggregate_event ''connector'' cid (c_version ?c) ?e \<and> o_subject ?e = t_event tr \<and>
      jget ''from_state'' (o_payload ?e) = Some (JStr (c_status row)) \<and>
      jget ''to_state'' (o_payload ?e) = Some (JStr (c_status ?c))"
    by (simp add: aggregate_event_def transition_payload_def jget_def)
  ultimately show ?thesis
    using moved(1,2,4)
    by (intro exI [of _ row] exI [of _ ?c] exI [of _ ?a] exI [of _ ?e]) (simp add: move_connector_simps)
qed

definition example_connector :: connector where
  "example_connector =
     \<lparr>c_id = ''c1'', c_tenant_id = ''t1'', c_name = ''crm'', c_kind = ''http'', c_base_url = None,
      c_scopes = [], c_config = [], c_status = ''enabled'', c_version = 1,
      c_supports_idempotency = True, c_idempotency_mode = ''gateway_dedup_only'',
      c_deletion_requested_at = None, c_deleted_at = None, c_deleted_by = None, c_revoked_at = None,
      c_archived_at = None, c_credentials_rotated_at = None, c_state_reason = None, c_created_at = 0\<rparr>"

definition example_db :: registry_db where
  "example_db = \<lparr>db_connectors = [example_connector], db_invocations = [], db_audit = [], db_outbox = []\<rparr>"

definition example_world :: world where
  "example_world = \<lparr>w_now = 5, w_row_id = ''r'', w_audit_id = ''a'', w_event_id = ''e''\<rparr>"

lemma example_find [simp]: "find_row c_id ''c1'' (db_connectors example_db) = Some example_connector"
  by (simp add: find_row_def example_db_def example_connector_def)

lemma example_revoke:
  "\<exists>db' res. apply_transition example_db example_world ''c1'' REVOKED (Some ''connector.revoked'')
     ''ops'' ''t1'' (Some ''leak'') None = Inr (db', res) \<and> \<not> tres_repeated res"
proof -
  have "find_transition ''enabled'' ''revoked'' (Some ''connector.revoked'') =
      Inr (Transition ENABLED REVOKED ''connector.revoked'' True True False)"
    by (simp add: find_transition_def ConnectorState_def enum_connector_state_def TERMINAL_STATES_def
          by_edge_def TRANSITIONS_def Transition_def)
  moreover have "c_status example_connector = ''enabled''" "c_tenant_id example_connector = ''t1''"
    by (simp_all add: example_connector_def)
  moreover have "\<not> blank (Some ''leak'')"
    by (simp add: blank_def py_strip_def is_space_def)
  ultimately show ?thesis
    by (simp add: apply_transition_def)
qed

theorem apply_transition_commits_witness:
  "\<exists>db' res. apply_transition example_db example_world ''c1'' REVOKED (Some ''connector.revoked'')
     ''ops'' ''t1'' (Some ''leak'') None = Inr (db', res) \<and> length (db_audit db') = 1"
proof -
  obtain db' res where r: "apply_transition example_db example_world ''c1'' REVOKED (Some ''connector.revoked'')
     ''ops'' ''t1'' (Some ''leak'') None = Inr (db', res)" "\<not> tres_repeated res"
    using example_revoke by blast
  from apply_transition_commits [OF this] have "length (db_audit db') = 1"
    by (auto simp: example_db_def)
  with r show ?thesis by blast
qed

text \<open>
  Retrying is safe.  Once a revocation, deletion request, archival or disabling has been applied,
  sending the same request again succeeds as a repeat and leaves the database as it is, so no
  version number is used twice.
\<close>

theorem apply_transition_retry_is_noop:
  assumes "apply_transition db w cid target event actor ten reason key = Inr (db', res)"
    and "target \<in> {REVOKED, DELETION_REQUESTED, ARCHIVED} \<or>
         target = DISABLED \<and> event = Some ''connector.disabled''"
  shows "\<exists>res'. apply_transition db' w' cid target event actor' ten reason' key' = Inr (db', res') \<and>
    tres_repeated res'"
proof -
  let ?v = "state_value target"
  have no_edge: "\<nexists>tr. find_transition ?v ?v event = Inr tr"
    unfolding find_transition_iff using assms(2) by (auto simp: TRANSITIONS_def Transition_def)
  then obtain exc where exc: "find_transition ?v ?v event = Inl exc"
    by (cases "find_transition ?v ?v event") auto
  obtain rep where rep: "idempotent_repeat ?v ?v = Some rep"
    using is_idempotent_repeat_iff [of ?v ?v] assms(2) by (auto simp: is_idempotent_repeat_def)
  obtain c where c: "find_row c_id cid (db_connectors db') = Some c" "c_tenant_id c = ten" "c_status c = ?v"
    using assms(1)
  proof (cases rule: apply_transition_cases)
    case (repeated row tr)
    with that show ?thesis by blast
  next
    case (moved row tr)
    have id: "c_id row = cid" and ids: "cid \<in> c_id ` set (db_connectors db)"
      using find_row_Some [OF moved(1)] by auto
    have "find_row c_id cid (db_connectors db') = Some (move_connector w tr reason row)"
      using ids by (simp add: moved(8) id)
    then show ?thesis
      by (rule that) (simp_all add: moved(2,4))
  qed
  show ?thesis
    unfolding apply_transition_def using c exc rep by simp
qed

theorem apply_transition_retry_is_noop_witness:
  "\<exists>db' res. apply_transition db' example_world ''c1'' REVOKED (Some ''connector.revoked'')
     ''ops'' ''t1'' None None = Inr (db', res) \<and> tres_repeated res"
proof -
  obtain db' res where r: "apply_transition example_db example_world ''c1'' REVOKED (Some ''connector.revoked'')
     ''ops'' ''t1'' (Some ''leak'') None = Inr (db', res)"
    using example_revoke by blast
  show ?thesis
    using apply_transition_retry_is_noop [OF r, of example_world "''ops''" None None] by blast
qed

end
