(* ===== verification/Redaction.thy ===== *)
theory Redaction
  imports Prelude
begin

text \<open>
  \<open>security/redaction.py\<close>.  The two regular expressions are spelt out: \<open>SENSITIVE_KEY.search\<close> with
  IGNORECASE asks whether the lower-cased name contains one of fifteen words.  A configuration is a
  JSON object; tuples do not occur in one.  \<open>redact_any\<close>, \<open>redact_list\<close> and \<open>redact_config\<close> are
  the mutually recursive \<open>_redact_any\<close>, its list comprehension and \<open>redact_config\<close>.  A leaf of a
  document is a scalar together with the path of keys that leads to it.
\<close>

definition REDACTED :: string where
  "REDACTED = ''[redacted]''"

definition SENSITIVE_WORDS :: "string list" where
  "SENSITIVE_WORDS =
     [''secret'', ''token'', ''password'', ''passwd'', ''credential'', ''apikey'', ''api_key'',
      ''api-key'', ''privatekey'', ''private_key'', ''private-key'', ''authorization'', ''auth'',
      ''bearer'', ''signature'', ''salt'', ''session'']"

definition sensitive_key :: "string \<Rightarrow> bool" where
  "sensitive_key key = (\<exists>w \<in> set SENSITIVE_WORDS. contains (str_lower key) w)"

definition is_reference :: "json \<Rightarrow> bool" where
  "is_reference v = (case v of JStr s \<Rightarrow> startswith s ''secret://'' | _ \<Rightarrow> False)"

definition STRUCTURAL_KEYS :: "string list" where
  "STRUCTURAL_KEYS =
     [''base_url'', ''target_url'', ''health_url'', ''allowed_hosts'', ''allowed_schemes'',
      ''allowed_content_types'', ''service'', ''operation'', ''method'', ''health_method'', ''path'',
      ''kind'', ''max_redirects'', ''max_response_bytes'', ''connect_timeout'', ''read_timeout'',
      ''timeout_seconds'', ''idempotency_header'', ''signing_secret_ref'']"

definition redact_value :: "bool \<Rightarrow> string \<Rightarrow> json \<Rightarrow> json" where
  "redact_value parent_sensitive key v =
     (if is_reference v then v
      else if parent_sensitive \<or> sensitive_key key then JStr REDACTED
      else case v of
             JStr s \<Rightarrow> if str_lower key \<in> set STRUCTURAL_KEYS then v else JStr REDACTED
           | _ \<Rightarrow> v)"

definition redact_headers :: "jobj \<Rightarrow> jobj" where
  "redact_headers headers =
     map (\<lambda>(header, v). (header, if is_reference v then v else JStr REDACTED)) headers"

fun redact_any :: "bool \<Rightarrow> string \<Rightarrow> json \<Rightarrow> json"
  and redact_list :: "bool \<Rightarrow> string \<Rightarrow> json list \<Rightarrow> json list"
  and redact_config :: "bool \<Rightarrow> jobj \<Rightarrow> jobj" where
  "redact_any parent_sensitive key (JObj d) =
     (let sensitive = parent_sensitive \<or> sensitive_key key
      in if str_lower key = ''headers'' then JObj (redact_headers d)
         else JObj (redact_config sensitive d))"
| "redact_any parent_sensitive key (JList xs) =
     (let sensitive = parent_sensitive \<or> sensitive_key key
      in JList (redact_list sensitive key xs))"
| "redact_any parent_sensitive key v =
     (let sensitive = parent_sensitive \<or> sensitive_key key
      in redact_value sensitive key v)"
| "redact_list sensitive key [] = []"
| "redact_list sensitive key (x # xs) = redact_any sensitive key x # redact_list sensitive key xs"
| "redact_config parent_sensitive [] = []"
| "redact_config parent_sensitive ((key, v) # d) =
     (key, redact_any parent_sensitive key v) # redact_config parent_sensitive d"

section \<open>Leaves\<close>

fun leaves :: "string list \<Rightarrow> json \<Rightarrow> (string list \<times> json) list"
  and leaves_list :: "string list \<Rightarrow> json list \<Rightarrow> (string list \<times> json) list"
  and leaves_obj :: "string list \<Rightarrow> jobj \<Rightarrow> (string list \<times> json) list" where
  "leaves path (JObj d) = leaves_obj path d"
| "leaves path (JList xs) = leaves_list path xs"
| "leaves path v = [(path, v)]"
| "leaves_list path [] = []"
| "leaves_list path (x # xs) = leaves path x @ leaves_list path xs"
| "leaves_obj path [] = []"
| "leaves_obj path ((k, v) # d) = leaves (path @ [k]) v @ leaves_obj path d"

text \<open>
  What may be published for a leaf.  Below a \<open>headers\<close> object and below a sensitive name only the
  marker and secret references survive; elsewhere also strings under a structural key, and
  scalars that are not strings.
\<close>

definition clean_path :: "string list \<Rightarrow> bool" where
  "clean_path path \<longleftrightarrow> (\<forall>k \<in> set path. \<not> sensitive_key k)"

definition no_headers :: "string list \<Rightarrow> bool" where
  "no_headers path \<longleftrightarrow> (\<forall>k \<in> set path. str_lower k \<noteq> ''headers'')"

definition publishable :: "string list \<times> json \<Rightarrow> bool" where
  "publishable leaf =
     (case leaf of (path, v) \<Rightarrow>
        v = JStr REDACTED \<or> is_reference v \<or>
        clean_path path \<and>
        (case v of
           JStr s \<Rightarrow> path \<noteq> [] \<and> str_lower (last path) \<in> set STRUCTURAL_KEYS \<and> no_headers (butlast path)
         | _ \<Rightarrow> True))"

lemma redacted_not_reference [simp]: "\<not> is_reference (JStr REDACTED)"
  by (simp add: is_reference_def startswith_def REDACTED_def)

fun is_scalar :: "json \<Rightarrow> bool" where
  "is_scalar (JObj d) = False"
| "is_scalar (JList xs) = False"
| "is_scalar v = True"

lemma redact_any_scalar:
  "is_scalar v \<Longrightarrow> redact_any p key v = redact_value (p \<or> sensitive_key key) key v"
  by (cases v) (simp_all add: Let_def)

lemma leaves_scalar: "is_scalar v \<Longrightarrow> leaves path v = [(path, v)]"
  by (cases v) simp_all

lemma is_scalar_redact_value: "is_scalar v \<Longrightarrow> is_scalar (redact_value p key v)"
  by (cases v) (simp_all add: redact_value_def)

lemma redact_value_publishable:
  assumes "is_scalar v" and "\<not> p \<Longrightarrow> clean_path (path @ [key])" and "no_headers path"
  shows "publishable (path @ [key], redact_value p key v)"
  using assms by (cases v) (auto simp: redact_value_def publishable_def)

lemma redact_scalar_publishable:
  assumes "is_scalar v" and "\<not> p \<longrightarrow> clean_path path" and "no_headers path"
  shows "\<forall>leaf \<in> set (leaves (path @ [key]) (redact_any p key v)). publishable leaf"
proof -
  have "publishable (path @ [key], redact_value (p \<or> sensitive_key key) key v)"
    using assms by (intro redact_value_publishable) (auto simp: clean_path_def)
  then show ?thesis
    using assms(1) by (simp add: redact_any_scalar leaves_scalar is_scalar_redact_value)
qed

lemma headers_publishable:
  "\<forall>leaf \<in> set (leaves_obj path (redact_headers d)). publishable leaf"
proof (induction d)
  case Nil
  then show ?case by (simp add: redact_headers_def)
next
  case (Cons kv d)
  obtain k v where kv: "kv = (k, v)" by (cases kv)
  have "\<forall>leaf \<in> set (leaves (path @ [k]) (if is_reference v then v else JStr REDACTED)). publishable leaf"
    by (cases v) (auto simp: publishable_def is_reference_def)
  with Cons kv show ?case
    by (auto simp: redact_headers_def)
qed

lemma redact_publishable:
  "(\<not> p \<longrightarrow> clean_path path) \<Longrightarrow> no_headers path \<Longrightarrow>
     \<forall>leaf \<in> set (leaves (path @ [key]) (redact_any p key v)). publishable leaf"
  "(\<not> p \<longrightarrow> clean_path (path @ [key])) \<Longrightarrow> no_headers path \<Longrightarrow>
     \<forall>leaf \<in> set (leaves_list (path @ [key]) (redact_list p key xs)). publishable leaf"
  "(\<not> p \<longrightarrow> clean_path path) \<Longrightarrow> no_headers path \<Longrightarrow>
     \<forall>leaf \<in> set (leaves_obj path (redact_config p d)). publishable leaf"
proof (induction p key v and p key xs and p d arbitrary: path and path and path
    rule: redact_any_redact_list_redact_config.induct)
  case (1 p key d)
  have "\<not> (p \<or> sensitive_key key) \<longrightarrow> clean_path (path @ [key])"
    using 1(2) by (auto simp: clean_path_def)
  with 1(1) [OF refl, of "path @ [key]"] 1(3) show ?case
    by (simp add: Let_def headers_publishable no_headers_def)
next
  case (2 p key xs)
  have "\<not> (p \<or> sensitive_key key) \<longrightarrow> clean_path (path @ [key])"
    using 2(2) by (auto simp: clean_path_def)
  with 2(1) [OF refl, of path] 2(3) show ?case
    by (simp add: Let_def)
next
  case (4 p key)
  show ?case by simp
next
  case (5 p key x xs)
  then show ?case by (auto simp: clean_path_def)
next
  case (6 p)
  show ?case by simp
next
  case (7 p key v d)
  then show ?case by auto
qed (rule redact_scalar_publishable; simp)+

text \<open>Redaction keeps the shape of a document: its keys, its order and its references.\<close>

lemma redact_config_keys: "map fst (redact_config p d) = map fst d"
  by (induction d) auto

lemma redact_value_idem: "redact_value p key (redact_value p key v) = redact_value p key v"
  by (cases v) (auto simp: redact_value_def)

lemma redact_headers_idem: "redact_headers (redact_headers d) = redact_headers d"
  by (auto simp: redact_headers_def)

lemma redact_any_idem_scalar:
  "is_scalar v \<Longrightarrow> redact_any p key (redact_any p key v) = redact_any p key v"
  by (simp add: redact_any_scalar is_scalar_redact_value redact_value_idem)

lemma redact_idem:
  "redact_any p key (redact_any p key v) = redact_any p key v"
  "redact_list p key (redact_list p key xs) = redact_list p key xs"
  "redact_config p (redact_config p d) = redact_config p d"
proof (induction p key v and p key xs and p d rule: redact_any_redact_list_redact_config.induct)
  case (1 p key d)
  then show ?case by (simp add: Let_def redact_headers_idem)
next
  case (2 p key xs)
  then show ?case by (simp add: Let_def)
qed (simp_all only: redact_list.simps redact_config.simps redact_any_idem_scalar is_scalar.simps)

lemma redact_any_reference: "is_reference v \<Longrightarrow> redact_any p key v = v"
  by (cases v) (simp_all add: Let_def redact_value_def is_reference_def)

section \<open>Properties\<close>

text \<open>
  C11. No credential is published.  In a redacted configuration, however deeply nested, a string is
  the marker, a secret reference, or the value of a structural key with no sensitive name and no
  header object above it; and a scalar below a sensitive name is the marker or a reference.
\<close>

theorem redact_config_publishes_no_credential:
  "\<forall>(path, v) \<in> set (leaves_obj [] (redact_config False d)).
     v = JStr REDACTED \<or> is_reference v \<or>
     (\<forall>k \<in> set path. \<not> sensitive_key k) \<and>
     (case v of JStr s \<Rightarrow> path \<noteq> [] \<and> str_lower (last path) \<in> set STRUCTURAL_KEYS \<and>
          (\<forall>k \<in> set (butlast path). str_lower k \<noteq> ''headers'')
      | _ \<Rightarrow> True)"
  using redact_publishable(3) [of False "[]" d]
  unfolding publishable_def clean_path_def no_headers_def by simp

theorem redact_config_publishes_no_credential_witness:
  "([''headers'', ''X-Key''], JStr REDACTED) \<in>
     set (leaves_obj [] (redact_config False [(''headers'', JObj [(''X-Key'', JStr ''s3cret'')])]))"
proof -
  let ?d = "[(''headers'', JObj [(''X-Key'', JStr ''s3cret'')])]"
  obtain v where v: "([''headers'', ''X-Key''], v) \<in> set (leaves_obj [] (redact_config False ?d))" "\<exists>s. v = JStr s"
    "\<not> is_reference v"
    by (simp add: str_lower_def char_lower_def redact_headers_def is_reference_def startswith_def REDACTED_def)
  with redact_config_publishes_no_credential [of ?d] have "v = JStr REDACTED"
    by (auto simp: str_lower_def char_lower_def)
  with v(1) show ?thesis by simp
qed

text \<open>
  Redaction is a projection that keeps a configuration auditable: redacting twice is redacting
  once, the keys and their order stay, and a secret reference is shown as it is.
\<close>

theorem redact_config_projection:
  "redact_config p (redact_config p d) = redact_config p d \<and>
   map fst (redact_config p d) = map fst d \<and>
   (\<forall>k v. (k, v) \<in> set d \<and> is_reference v \<longrightarrow> (k, v) \<in> set (redact_config p d))"
proof -
  have "(k, v) \<in> set d \<Longrightarrow> is_reference v \<Longrightarrow> (k, v) \<in> set (redact_config p d)" for k v
    by (induction d) (auto simp: redact_any_reference)
  then show ?thesis
    using redact_idem(3) redact_config_keys by blast
qed

theorem redact_config_projection_witness:
  "(''api_key'', JStr ''secret://tenant/t/k'') \<in>
     set (redact_config False [(''note'', JStr ''x''), (''api_key'', JStr ''secret://tenant/t/k'')])"
  by (rule redact_config_projection [THEN conjunct2, THEN conjunct2, rule_format])
    (simp add: is_reference_def startswith_def)

end
