(* ===== verification/Secrets.thy ===== *)
theory Secrets
  imports Prelude
begin

text \<open>
  \<open>security/secrets.py\<close>: references, ownership and the environment-backed resolver.  The regular
  expression \<open>REFERENCE\<close> is spelt out as \<open>parse_reference\<close>; its \<open>$\<close> also matches before one final
  newline, which the model keeps.  The environment is a map \<open>environ\<close>.  The ellipsis character of
  one message is written as three dots.

  \<open>secret_resolver\<close> is the protocol \<open>SecretResolver\<close> that the adapters are given: whatever the
  backend, it answers only after the ownership check.
\<close>

definition SCHEME :: string where
  "SCHEME = ''secret://''"

definition LEGACY_PREFIXES :: "string list" where
  "LEGACY_PREFIXES = [''env:'', ''vault:'', ''gsm:'', ''asm:'']"

record secret_ref =
  sr_scope :: string
  sr_owner :: string
  sr_key :: string

definition as_text :: "secret_ref \<Rightarrow> string" where
  "as_text r = SCHEME @ sr_scope r @ ''/'' @ sr_owner r @ ''/'' @ sr_key r"

definition char_upper :: "char \<Rightarrow> char" where
  "char_upper c =
     (if 97 \<le> (of_char c :: nat) \<and> (of_char c :: nat) \<le> 122
      then char_of ((of_char c :: nat) - 32) else c)"

definition is_alnum :: "char \<Rightarrow> bool" where
  "is_alnum c \<longleftrightarrow>
     (let n = (of_char c :: nat)
      in 48 \<le> n \<and> n \<le> 57 \<or> 65 \<le> n \<and> n \<le> 90 \<or> 97 \<le> n \<and> n \<le> 122)"

definition env_name :: "secret_ref \<Rightarrow> string" where
  "env_name r =
     (let safe = map (\<lambda>c. if is_alnum c then c else CHR ''_'')
                   (sr_scope r @ ''_'' @ sr_owner r @ ''_'' @ sr_key r)
      in ''FAVL_SECRET_'' @ map char_upper safe)"

datatype secret_error =
    SecretNotFound string
  | SecretNotPermitted string string  \<comment> \<open>reference, why\<close>

definition permission_message :: "string \<Rightarrow> string \<Rightarrow> string" where
  "permission_message reference why = ''secret reference '' @ reference @ '' is not permitted: '' @ why"

definition has_legacy_prefix :: "string \<Rightarrow> bool" where
  "has_legacy_prefix s = (\<exists>p \<in> set LEGACY_PREFIXES. startswith s p)"

definition is_secret_reference :: "json \<Rightarrow> bool" where
  "is_secret_reference v =
     (case v of JStr s \<Rightarrow> startswith s SCHEME \<or> has_legacy_prefix s | _ \<Rightarrow> False)"

definition reference_part :: "string \<Rightarrow> bool" where
  "reference_part s \<longleftrightarrow>
     s \<noteq> [] \<and> length s \<le> 128 \<and> (\<forall>c \<in> set s. is_alnum c \<or> c \<in> set ''._-'')"

definition chomp :: "string \<Rightarrow> string" where
  "chomp s = (if s \<noteq> [] \<and> last s = CHR 0x0A then butlast s else s)"

definition match_reference :: "string \<Rightarrow> secret_ref option" where
  "match_reference value =
     (case split_on (CHR ''/'') (drop (length SCHEME) (chomp value)) of
        [scope, owner, key] \<Rightarrow>
          if startswith (chomp value) SCHEME \<and> scope \<in> {''connector'', ''tenant''} \<and>
             reference_part owner \<and> reference_part key
          then Some \<lparr>sr_scope = scope, sr_owner = owner, sr_key = key\<rparr> else None
      | _ \<Rightarrow> None)"

definition parse_reference :: "string \<Rightarrow> secret_error + secret_ref" where
  "parse_reference value =
     (if has_legacy_prefix value
      then Inl (SecretNotPermitted value
        ''direct storage references are no longer accepted; use secret://connector/<name>/<key>'')
      else case match_reference value of
             None \<Rightarrow> Inl (SecretNotPermitted value (''malformed reference; expected '' @ SCHEME @ ''...''))
           | Some r \<Rightarrow> Inr r)"

definition check_addressable :: "string \<Rightarrow> string \<Rightarrow> string \<Rightarrow> secret_error + secret_ref" where
  "check_addressable value owner tenant =
     (case parse_reference value of
        Inl e \<Rightarrow> Inl e
      | Inr ref \<Rightarrow>
          if sr_scope ref = ''connector'' \<and> sr_owner ref \<noteq> owner
          then Inl (SecretNotPermitted value
                 (''connector '' @ quoted owner @ '' may not read connector '' @ quoted (sr_owner ref) @ '' secrets''))
          else if sr_scope ref = ''tenant'' \<and> sr_owner ref \<noteq> tenant
          then Inl (SecretNotPermitted value
                 (''tenant '' @ quoted tenant @ '' may not read tenant '' @ quoted (sr_owner ref) @ '' secrets''))
          else Inr ref)"

definition env_resolve ::
  "(string \<Rightarrow> string option) \<Rightarrow> string \<Rightarrow> string \<Rightarrow> string \<Rightarrow> secret_error + string" where
  "env_resolve environ reference owner tenant =
     (case check_addressable reference owner tenant of
        Inl e \<Rightarrow> Inl e
      | Inr ref \<Rightarrow>
          (case environ (env_name ref) of
             None \<Rightarrow> Inl (SecretNotFound reference)
           | Some v \<Rightarrow> Inr v))"

definition redact_secret :: "string \<Rightarrow> nat \<Rightarrow> string" where
  "redact_secret value keep =
     (if value = [] then [] else if keep = 0 then ''***'' else take keep value @ ''***'')"

section \<open>Parsing\<close>

lemma split_part: "CHR ''/'' \<notin> set s \<Longrightarrow> split_on (CHR ''/'') (s @ CHR ''/'' # t) = s # split_on (CHR ''/'') t"
  by (rule split_on_append)

lemma reference_part_slash: "reference_part s \<Longrightarrow> CHR ''/'' \<notin> set s"
  by (auto simp: reference_part_def is_alnum_def)

lemma reference_part_newline: "reference_part s \<Longrightarrow> s \<noteq> [] \<and> last s \<noteq> CHR 0x0A"
  by (cases s rule: rev_cases) (auto simp: reference_part_def is_alnum_def)

definition valid_ref :: "secret_ref \<Rightarrow> bool" where
  "valid_ref r \<longleftrightarrow>
     sr_scope r \<in> {''connector'', ''tenant''} \<and> reference_part (sr_owner r) \<and> reference_part (sr_key r)"

lemma as_text_no_legacy: "\<not> has_legacy_prefix (as_text r)"
  by (simp add: has_legacy_prefix_def LEGACY_PREFIXES_def as_text_def SCHEME_def startswith_def)

lemma chomp_as_text: "valid_ref r \<Longrightarrow> chomp (as_text r) = as_text r"
  using reference_part_newline [of "sr_key r"] by (auto simp: chomp_def as_text_def valid_ref_def)

lemma split_as_text:
  assumes "valid_ref r"
  shows "split_on (CHR ''/'') (drop (length SCHEME) (as_text r)) = [sr_scope r, sr_owner r, sr_key r]"
proof -
  have "CHR ''/'' \<notin> set (sr_scope r)"
    using assms by (auto simp: valid_ref_def)
  then show ?thesis
    using assms reference_part_slash [of "sr_owner r"] reference_part_slash [of "sr_key r"]
    by (simp add: as_text_def valid_ref_def split_on_append split_on_none)
qed

lemma match_as_text: "valid_ref r \<Longrightarrow> match_reference (as_text r) = Some r"
  using split_as_text [of r] chomp_as_text [of r]
  by (simp add: match_reference_def valid_ref_def) (simp add: as_text_def startswith_def SCHEME_def)

lemma match_reference_Some:
  assumes "match_reference v = Some r"
  shows "valid_ref r \<and> chomp v = as_text r"
proof -
  from assms obtain scope owner key where
      split: "split_on (CHR ''/'') (drop (length SCHEME) (chomp v)) = [scope, owner, key]"
    and start: "startswith (chomp v) SCHEME"
    and ok: "scope \<in> {''connector'', ''tenant''}" "reference_part owner" "reference_part key"
    and r: "r = \<lparr>sr_scope = scope, sr_owner = owner, sr_key = key\<rparr>"
    by (auto simp: match_reference_def split: list.splits if_splits)
  have "drop (length SCHEME) (chomp v) = scope @ ''/'' @ owner @ ''/'' @ key"
    using join_split_on [of "CHR ''/''" "drop (length SCHEME) (chomp v)"] unfolding split by simp
  moreover have "chomp v = SCHEME @ drop (length SCHEME) (chomp v)"
    using start by (auto simp: startswith_append)
  ultimately show ?thesis
    using ok r by (simp add: valid_ref_def as_text_def)
qed

lemma parse_reference_Inr:
  "parse_reference v = Inr r \<Longrightarrow> valid_ref r \<and> chomp v = as_text r"
  using match_reference_Some by (auto simp: parse_reference_def split: if_splits option.splits)

lemma check_addressable_Inr:
  "check_addressable v owner tenant = Inr r \<Longrightarrow>
     parse_reference v = Inr r \<and> valid_ref r \<and>
     (sr_scope r = ''connector'' \<and> sr_owner r = owner \<or> sr_scope r = ''tenant'' \<and> sr_owner r = tenant)"
  using parse_reference_Inr [of v r]
  by (auto simp: check_addressable_def valid_ref_def split: sum.splits if_splits)

section \<open>The interface the adapters use\<close>

locale secret_resolver =
  fixes resolve :: "string \<Rightarrow> string \<Rightarrow> string \<Rightarrow> secret_error + string"
  assumes permission_first: "check_addressable reference owner tenant = Inl e \<Longrightarrow>
      resolve reference owner tenant = Inl e"
    and no_other_refusal: "check_addressable reference owner tenant = Inr r \<Longrightarrow>
      resolve reference owner tenant \<noteq> Inl (SecretNotPermitted x y)"
begin

lemma resolved_is_owned:
  assumes "resolve reference owner tenant = Inr v"
  obtains r where "parse_reference reference = Inr r"
    "sr_scope r = ''connector'' \<and> sr_owner r = owner \<or> sr_scope r = ''tenant'' \<and> sr_owner r = tenant"
proof -
  from assms obtain r where "check_addressable reference owner tenant = Inr r"
    using permission_first by (cases "check_addressable reference owner tenant") auto
  from check_addressable_Inr [OF this] show ?thesis
    using that by blast
qed

text \<open>A connector that shares neither name nor tenant with another cannot resolve its secrets.\<close>

lemma no_sharing:
  assumes "resolve reference owner tenant = Inr v" and "owner' \<noteq> owner" and "tenant' \<noteq> tenant"
  shows "\<exists>why. resolve reference owner' tenant' = Inl (SecretNotPermitted reference why)"
proof -
  obtain r where r: "parse_reference reference = Inr r"
    "sr_scope r = ''connector'' \<and> sr_owner r = owner \<or> sr_scope r = ''tenant'' \<and> sr_owner r = tenant"
    using resolved_is_owned [OF assms(1)] .
  then have "\<exists>why. check_addressable reference owner' tenant' = Inl (SecretNotPermitted reference why)"
    using assms(2,3) by (auto simp: check_addressable_def)
  then show ?thesis
    using permission_first by blast
qed

end

interpretation env: secret_resolver "env_resolve environ" for environ
  by unfold_locales (auto simp: env_resolve_def split: option.splits)

section \<open>Properties\<close>

text \<open>
  References survive a round trip through text, and conversely whatever parses is the text of
  the parsed reference, up to the one trailing newline the pattern tolerates.
\<close>

theorem secret_reference_roundtrip:
  "(valid_ref r \<longrightarrow> parse_reference (as_text r) = Inr r) \<and>
   (parse_reference v = Inr r' \<longrightarrow> valid_ref r' \<and> (v = as_text r' \<or> v = as_text r' @ [CHR 0x0A]))"
proof -
  have "v = as_text r' \<or> v = as_text r' @ [CHR 0x0A]" if "chomp v = as_text r'"
    using that by (cases v rule: rev_cases) (auto simp: chomp_def split: if_splits)
  then show ?thesis
    using parse_reference_Inr [of v r'] match_as_text [of r] as_text_no_legacy [of r]
    by (simp add: parse_reference_def)
qed

theorem secret_reference_roundtrip_witness:
  "parse_reference ''secret://tenant/t1/key'' = Inr \<lparr>sr_scope = ''tenant'', sr_owner = ''t1'', sr_key = ''key''\<rparr>"
  using secret_reference_roundtrip [THEN conjunct1, of "\<lparr>sr_scope = ''tenant'', sr_owner = ''t1'', sr_key = ''key''\<rparr>"]
  by (simp add: valid_ref_def reference_part_def is_alnum_def as_text_def SCHEME_def)

text \<open>
  A connector reaches only its own secrets and its tenant's, and never a variable of its
  choosing: whatever reference resolves names the connector or the tenant of the caller, and the
  value comes from a variable with the reserved prefix, derived from that name.
\<close>

theorem env_resolve_only_owned:
  assumes "env_resolve environ reference owner tenant = Inr v"
  shows "\<exists>ref. parse_reference reference = Inr ref \<and>
    (sr_scope ref = ''connector'' \<and> sr_owner ref = owner \<or> sr_scope ref = ''tenant'' \<and> sr_owner ref = tenant) \<and>
    environ (env_name ref) = Some v \<and> startswith (env_name ref) ''FAVL_SECRET_'' \<and>
    (\<forall>owner' tenant'. owner' \<noteq> owner \<and> tenant' \<noteq> tenant \<longrightarrow>
       (\<exists>why. env_resolve environ reference owner' tenant' = Inl (SecretNotPermitted reference why)))"
proof -
  obtain r where r: "parse_reference reference = Inr r"
    "sr_scope r = ''connector'' \<and> sr_owner r = owner \<or> sr_scope r = ''tenant'' \<and> sr_owner r = tenant"
    using env.resolved_is_owned [OF assms] .
  have "environ (env_name r) = Some v"
    using assms r by (auto simp: env_resolve_def check_addressable_def split: option.splits if_splits)
  moreover have "startswith (env_name r) ''FAVL_SECRET_''"
    by (simp add: env_name_def Let_def startswith_def)
  ultimately show ?thesis
    using r env.no_sharing [OF assms] by blast
qed

theorem env_resolve_only_owned_witness:
  "\<exists>why. env_resolve (\<lambda>_. Some ''s3cr3t'') ''secret://tenant/t1/key'' ''c2'' ''t2'' =
     Inl (SecretNotPermitted ''secret://tenant/t1/key'' why)"
proof -
  have "env_resolve (\<lambda>_. Some ''s3cr3t'') ''secret://tenant/t1/key'' ''c1'' ''t1'' = Inr ''s3cr3t''"
    by (simp add: env_resolve_def check_addressable_def parse_reference_def match_reference_def
          has_legacy_prefix_def LEGACY_PREFIXES_def startswith_def chomp_def SCHEME_def
          reference_part_def is_alnum_def)
  from env_resolve_only_owned [OF this] show ?thesis
    by (elim exE conjE) simp
qed

text \<open>
  Two different owners can share a storage name: every character outside letters and digits
  becomes an underscore, and case is folded.  The ownership check passes for each of them.
\<close>

lemma env_name_collides:
  "env_name \<lparr>sr_scope = ''tenant'', sr_owner = ''acme-eu'', sr_key = ''key''\<rparr> =
   env_name \<lparr>sr_scope = ''tenant'', sr_owner = ''acme.EU'', sr_key = ''key''\<rparr>"
  by code_simp

end
