(* ===== verification/NetText.thy ===== *)
theory NetText
  imports Prelude "HOL-Library.Word"
begin

text \<open>
  The parts of Python's \<open>ipaddress\<close> and \<open>urllib.parse\<close> (CPython 3.11) that \<open>security/ssrf.py\<close>
  calls, on ASCII text.  \<open>ip_address\<close> reads an address, with \<open>None\<close> for its ValueError; \<open>ip_str\<close>
  writes one; \<open>urlsplit\<close> splits a URL, \<open>hostname\<close>, \<open>username\<close>, \<open>password\<close> and \<open>port\<close> read its
  network location, and \<open>geturl\<close> joins it again.
\<close>

section \<open>Characters and numbers\<close>

definition ord :: "char \<Rightarrow> int" where
  "ord c = of_char c"

definition is_digit :: "char \<Rightarrow> bool" where
  "is_digit c \<longleftrightarrow> 48 \<le> ord c \<and> ord c \<le> 57"

definition is_alpha :: "char \<Rightarrow> bool" where
  "is_alpha c \<longleftrightarrow> 65 \<le> ord c \<and> ord c \<le> 90 \<or> 97 \<le> ord c \<and> ord c \<le> 122"

definition hex_digit :: "char \<Rightarrow> int option" where
  "hex_digit c =
     (let n = ord c
      in if is_digit c then Some (n - 48)
         else if 97 \<le> n \<and> n \<le> 102 then Some (n - 87)
         else if 65 \<le> n \<and> n \<le> 70 then Some (n - 55)
         else None)"

definition dec_value :: "string \<Rightarrow> int" where
  "dec_value s = foldl (\<lambda>n c. 10 * n + (ord c - 48)) 0 s"

definition hex_value :: "string \<Rightarrow> int" where
  "hex_value s = foldl (\<lambda>n c. 16 * n + the (hex_digit c)) 0 s"

definition digit_char :: "int \<Rightarrow> char" where
  "digit_char n = (if n < 10 then char_of (48 + n) else char_of (87 + n))"

function to_base :: "int \<Rightarrow> int \<Rightarrow> string" where
  "to_base b n =
     (if b < 2 \<or> n < b then [digit_char n] else to_base b (n div b) @ [digit_char (n mod b)])"
  by auto
termination
  by (relation "measure (nat \<circ> snd)") (auto simp: nat_mono_iff intro!: int_div_less_self)

declare to_base.simps [simp del]

definition dec_str :: "int \<Rightarrow> string" where "dec_str = to_base 10"
definition hex_str :: "int \<Rightarrow> string" where "hex_str = to_base 16"

definition partition_on :: "char \<Rightarrow> string \<Rightarrow> string \<times> bool \<times> string" where
  "partition_on d s =
     (let a = takeWhile (\<lambda>c. c \<noteq> d) s
      in if d \<in> set s then (a, True, drop (length a + 1) s) else (s, False, []))"

definition rpartition_on :: "char \<Rightarrow> string \<Rightarrow> string \<times> bool \<times> string" where
  "rpartition_on d s =
     (let b = rev (takeWhile (\<lambda>c. c \<noteq> d) (rev s))
      in if d \<in> set s then (take (length s - length b - 1) s, True, b) else ([], False, s))"

section \<open>Addresses\<close>

datatype ip =
    V4 "32 word"
  | V6 "128 word" "string option"  \<comment> \<open>value, scope id\<close>

definition parse_octet :: "string \<Rightarrow> int option" where
  "parse_octet s =
     (if s = [] \<or> \<not> list_all is_digit s \<or> length s > 3 then None
      else if s \<noteq> ''0'' \<and> hd s = CHR ''0'' then None
      else if dec_value s > 255 then None
      else Some (dec_value s))"

definition parse_ipv4 :: "string \<Rightarrow> 32 word option" where
  "parse_ipv4 s =
     (case map parse_octet (split_on (CHR ''.'') s) of
        [Some a, Some b, Some c, Some d] \<Rightarrow>
          Some (word_of_int (((a * 256 + b) * 256 + c) * 256 + d))
      | _ \<Rightarrow> None)"

definition parse_hextet :: "string \<Rightarrow> int option" where
  "parse_hextet s =
     (if s = [] \<or> \<not> list_all (\<lambda>c. hex_digit c \<noteq> None) s \<or> length s > 4 then None
      else Some (hex_value s))"

definition embed_ipv4 :: "string list \<Rightarrow> string list option" where
  "embed_ipv4 parts =
     (if CHR ''.'' \<in> set (last parts)
      then (case parse_ipv4 (last parts) of
              None \<Rightarrow> None
            | Some w \<Rightarrow> Some (butlast parts @
                [hex_str (uint w div 65536), hex_str (uint w mod 65536)]))
      else Some parts)"

definition all_some :: "'a option list \<Rightarrow> 'a list option" where
  "all_some xs = (if list_all (\<lambda>x. x \<noteq> None) xs then Some (map the xs) else None)"

definition hextets_value :: "int list \<Rightarrow> int" where
  "hextets_value hs = foldl (\<lambda>n h. 65536 * n + h) 0 hs"

definition skip_indices :: "string list \<Rightarrow> nat list" where
  "skip_indices parts = filter (\<lambda>i. parts ! i = []) [1..<length parts - 1]"

definition parse_ipv6_value :: "string \<Rightarrow> 128 word option" where
  "parse_ipv6_value s =
     (let parts0 = split_on (CHR '':'') s
      in if length parts0 < 3 then None
         else case embed_ipv4 parts0 of
           None \<Rightarrow> None
         | Some parts \<Rightarrow>
             if length parts > 9 then None
             else case skip_indices parts of
               [] \<Rightarrow>
                 if length parts \<noteq> 8 then None
                 else map_option (\<lambda>hs. word_of_int (hextets_value hs)) (all_some (map parse_hextet parts))
             | [skip] \<Rightarrow>
                 (let hi0 = skip; lo0 = length parts - skip - 1;
                      hi = (if hd parts = [] then hi0 - 1 else hi0);
                      lo = (if last parts = [] then lo0 - 1 else lo0)
                  in if hd parts = [] \<and> hi \<noteq> 0 then None
                     else if last parts = [] \<and> lo \<noteq> 0 then None
                     else if hi + lo > 7 then None
                     else case (all_some (map parse_hextet (take hi parts)),
                                all_some (map parse_hextet (drop (length parts - lo) parts))) of
                            (Some hs, Some ls) \<Rightarrow>
                              Some (word_of_int
                                (hextets_value (hs @ replicate (8 - (hi + lo)) 0 @ ls)))
                          | _ \<Rightarrow> None)
             | _ \<Rightarrow> None)"

definition parse_ipv6 :: "string \<Rightarrow> ip option" where
  "parse_ipv6 s =
     (case partition_on (CHR ''%'') s of (addr, sep, scope) \<Rightarrow>
        if sep \<and> (scope = [] \<or> CHR ''%'' \<in> set scope) then None
        else map_option (\<lambda>w. V6 w (if sep then Some scope else None)) (parse_ipv6_value addr))"

definition ip_address :: "string \<Rightarrow> ip option" where
  "ip_address s =
     (case parse_ipv4 s of Some w \<Rightarrow> Some (V4 w) | None \<Rightarrow> parse_ipv6 s)"

text \<open>Writing: dotted decimal, and hextets with the first longest run of two or more zeros elided.\<close>

definition ipv4_str :: "32 word \<Rightarrow> string" where
  "ipv4_str w =
     (let n = uint w
      in dec_str (n div 16777216) @ ''.'' @ dec_str (n div 65536 mod 256) @ ''.''
         @ dec_str (n div 256 mod 256) @ ''.'' @ dec_str (n mod 256))"

definition hextets :: "128 word \<Rightarrow> int list" where
  "hextets w = map (\<lambda>i. uint w div 65536 ^ (7 - i) mod 65536) [0..<8]"

definition zero_run :: "int list \<Rightarrow> nat \<Rightarrow> nat" where
  "zero_run hs i = length (takeWhile (\<lambda>h. h = 0) (drop i hs))"

definition best_run :: "int list \<Rightarrow> nat \<times> nat" where
  "best_run hs =
     foldl (\<lambda>(i, l) j. if zero_run hs j > l then (j, zero_run hs j) else (i, l)) (0, 0) [0..<length hs]"

definition ipv6_str :: "128 word \<Rightarrow> string" where
  "ipv6_str w =
     (let hs = hextets w; (i, l) = best_run hs; text = (\<lambda>xs. join_on (CHR '':'') (map hex_str xs))
      in if l > 1 then text (take i hs) @ ''::'' @ text (drop (i + l) hs) else text hs)"

definition ip_str :: "ip \<Rightarrow> string" where
  "ip_str a =
     (case a of
        V4 w \<Rightarrow> ipv4_str w
      | V6 w scope \<Rightarrow> ipv6_str w @ (case scope of None \<Rightarrow> [] | Some s \<Rightarrow> CHR ''%'' # s))"

section \<open>URLs\<close>

record url_parts =
  up_scheme :: string
  up_netloc :: string
  up_path :: string
  up_params :: string
  up_query :: string
  up_fragment :: string

definition scheme_char :: "char \<Rightarrow> bool" where
  "scheme_char c \<longleftrightarrow> is_alpha c \<or> is_digit c \<or> c \<in> set ''+-.''"

definition split_scheme :: "string \<Rightarrow> string \<times> string" where
  "split_scheme url =
     (case partition_on (CHR '':'') url of (s, sep, rest) \<Rightarrow>
        if sep \<and> s \<noteq> [] \<and> is_alpha (hd s) \<and> list_all scheme_char s
        then (str_lower s, rest) else ([], url))"

definition split_netloc :: "string \<Rightarrow> string \<times> string" where
  "split_netloc url =
     (if startswith url ''//''
      then (takeWhile (\<lambda>c. c \<notin> set ''/?#'') (drop 2 url), dropWhile (\<lambda>c. c \<notin> set ''/?#'') (drop 2 url))
      else ([], url))"

text \<open>A bracketed host must be an IPv6 address or a future address \<open>v<hex>.<anything>\<close>.\<close>

definition brackets_ok :: "string \<Rightarrow> bool" where
  "brackets_ok netloc \<longleftrightarrow>
     (CHR ''['' \<in> set netloc) = (CHR '']'' \<in> set netloc) \<and>
     (CHR ''['' \<in> set netloc \<longrightarrow>
       (let host = fst (partition_on (CHR '']'') (snd (snd (partition_on (CHR ''['') netloc))))
        in if startswith host ''v''
           then (case partition_on (CHR ''.'') (tl host) of (h, sep, rest) \<Rightarrow>
                   sep \<and> h \<noteq> [] \<and> list_all (\<lambda>c. hex_digit c \<noteq> None) h \<and> rest \<noteq> [])
           else (case ip_address host of Some (V6 w s) \<Rightarrow> True | _ \<Rightarrow> False)))"

definition split_params :: "string \<Rightarrow> string \<Rightarrow> string \<times> string" where
  "split_params scheme path =
     (if scheme \<in> {[], ''ftp'', ''hdl'', ''prospero'', ''http'', ''imap'', ''https'', ''shttp'', ''rtsp'',
                   ''rtsps'', ''rtspu'', ''sip'', ''sips'', ''mms'', ''sftp'', ''tel''}
      then (case rpartition_on (CHR ''/'') path of (a, sep, b) \<Rightarrow>
              case partition_on (CHR '';'') b of (c, sep', params) \<Rightarrow>
                if sep' then ((if sep then a @ ''/'' else []) @ c, params) else (path, []))
      else (path, []))"

definition urlparse :: "string \<Rightarrow> url_parts option" where
  "urlparse text =
     (let url = filter (\<lambda>c. ord c \<notin> {9, 10, 13}) (dropWhile (\<lambda>c. ord c \<le> 32) text);
          (scheme, r1) = split_scheme url;
          (netloc, r2) = split_netloc r1;
          (r3, hash, fragment) = partition_on (CHR ''#'') r2;
          (path, qm, query) = partition_on (CHR ''?'') r3;
          (path', params) = split_params scheme path
      in if brackets_ok netloc
         then Some \<lparr>up_scheme = scheme, up_netloc = netloc, up_path = path', up_params = params,
                    up_query = query, up_fragment = fragment\<rparr>
         else None)"

definition hostinfo :: "string \<Rightarrow> string \<times> string" where
  "hostinfo netloc =
     (case rpartition_on (CHR ''@'') netloc of (_, _, info) \<Rightarrow>
      case partition_on (CHR ''['') info of (_, bracket, rest) \<Rightarrow>
        if bracket
        then (case partition_on (CHR '']'') rest of (host, _, after) \<Rightarrow>
                (host, snd (snd (partition_on (CHR '':'') after))))
        else (case partition_on (CHR '':'') info of (host, _, port) \<Rightarrow> (host, port)))"

definition hostname :: "url_parts \<Rightarrow> string option" where
  "hostname u =
     (let host = fst (hostinfo (up_netloc u))
      in if host = [] then None
         else case partition_on (CHR ''%'') host of (h, sep, zone) \<Rightarrow>
           Some (str_lower h @ (if sep then CHR ''%'' # zone else [])))"

definition username :: "url_parts \<Rightarrow> string option" where
  "username u =
     (case rpartition_on (CHR ''@'') (up_netloc u) of (info, sep, _) \<Rightarrow>
        if sep then Some (fst (partition_on (CHR '':'') info)) else None)"

definition password :: "url_parts \<Rightarrow> string option" where
  "password u =
     (case rpartition_on (CHR ''@'') (up_netloc u) of (info, sep, _) \<Rightarrow>
        case partition_on (CHR '':'') info of (_, has, pw) \<Rightarrow> if sep \<and> has then Some pw else None)"

text \<open>\<open>None\<close> is the ValueError of a port that is not a number up to 65535.\<close>

definition port :: "url_parts \<Rightarrow> int option option" where
  "port u =
     (let p = snd (hostinfo (up_netloc u))
      in if p = [] then Some None
         else if \<not> list_all is_digit p \<or> dec_value p > 65535 then None
         else Some (Some (dec_value p)))"

text \<open>\<open>geturl\<close> of a URL with a network location, as every pinned URL has.\<close>

definition geturl :: "url_parts \<Rightarrow> string" where
  "geturl u =
     (let path = up_path u @ (if up_params u = [] then [] else CHR '';'' # up_params u);
          path = (if path \<noteq> [] \<and> hd path \<noteq> CHR ''/'' then CHR ''/'' # path else path)
      in (if up_scheme u = [] then [] else up_scheme u @ '':'') @ ''//'' @ up_netloc u @ path
         @ (if up_query u = [] then [] else CHR ''?'' # up_query u)
         @ (if up_fragment u = [] then [] else CHR ''#'' # up_fragment u))"

end
