(* ===== verification/Ssrf.thy ===== *)
theory Ssrf
  imports NetText
begin

text \<open>
  \<open>security/ssrf.py\<close>: normalisation and classification of addresses, the host allowlist, and the
  static and the resolving check of a URL.  An address is a 32- or 128-bit word, a network a
  prefix of one.  \<open>getaddrinfo\<close> is the argument \<open>resolver\<close>: the error text, or the address texts
  in the order the system returned them.  A frozen set of host names is the list of its members.
\<close>

unbundle bit_operations_syntax

datatype network = N4 "32 word" nat | N6 "128 word" nat  \<comment> \<open>address, prefix length\<close>

definition ip4 :: "int \<Rightarrow> int \<Rightarrow> int \<Rightarrow> int \<Rightarrow> 32 word" where
  "ip4 a b c d = word_of_int (((a * 256 + b) * 256 + c) * 256 + d)"

fun in_network :: "ip \<Rightarrow> network \<Rightarrow> bool" where
  "in_network (V4 w) (N4 net n) = (drop_bit (32 - n) w = drop_bit (32 - n) net)"
| "in_network (V6 w s) (N6 net n) = (drop_bit (128 - n) w = drop_bit (128 - n) net)"
| "in_network _ _ = False"

definition METADATA_NETWORKS :: "network list" where
  "METADATA_NETWORKS =
     [N4 (ip4 169 254 169 254) 32, N4 (ip4 169 254 170 2) 32, N4 (ip4 100 100 100 200) 32,
      N6 0xfd000ec2000000000000000000000254 128]"

definition ALWAYS_FORBIDDEN :: "(network \<times> string) list" where
  "ALWAYS_FORBIDDEN =
     [(N4 (ip4 127 0 0 0) 8, ''loopback_address''),
      (N6 1 128, ''loopback_address''),
      (N4 (ip4 169 254 0 0) 16, ''link_local_address''),
      (N6 0xfe800000000000000000000000000000 10, ''link_local_address''),
      (N4 (ip4 224 0 0 0) 4, ''multicast_address''),
      (N6 0xff000000000000000000000000000000 8, ''multicast_address''),
      (N4 (ip4 0 0 0 0) 8, ''unspecified_address''),
      (N6 0 128, ''unspecified_address''),
      (N4 (ip4 100 64 0 0) 10, ''shared_address_space''),
      (N6 0xfec00000000000000000000000000000 10, ''site_local_address''),
      (N6 0 96, ''ipv4_compatible_address''),
      (N6 0xffff00000000 96, ''ipv4_translated_address''),
      (N4 (ip4 192 88 99 0) 24, ''reserved_address''),
      (N6 0x20010db8000000000000000000000000 32, ''documentation_address''),
      (N6 0x01000000000000000000000000000000 64, ''discard_only_address'')]"

definition PRIVATE_NETWORKS :: "(network \<times> string) list" where
  "PRIVATE_NETWORKS =
     [(N4 (ip4 10 0 0 0) 8, ''private_address''),
      (N4 (ip4 172 16 0 0) 12, ''private_address''),
      (N4 (ip4 192 168 0 0) 16, ''private_address''),
      (N6 0xfc000000000000000000000000000000 7, ''private_address''),
      (N4 (ip4 192 0 0 0) 24, ''reserved_address''),
      (N4 (ip4 192 0 2 0) 24, ''reserved_address''),
      (N4 (ip4 198 18 0 0) 15, ''reserved_address''),
      (N4 (ip4 198 51 100 0) 24, ''reserved_address''),
      (N4 (ip4 203 0 113 0) 24, ''reserved_address''),
      (N4 (ip4 240 0 0 0) 4, ''reserved_address''),
      (N4 (ip4 255 255 255 255) 32, ''broadcast_address'')]"

definition NAT64_PREFIX :: network where
  "NAT64_PREFIX = N6 0x0064ff9b000000000000000000000000 96"

datatype ssrf_error =
    SSRFBlocked string string  \<comment> \<open>reason, detail\<close>
  | UrlValueError

record outbound_policy =
  op_allowed_hosts :: "string list"
  op_allowed_schemes :: "string list"
  op_allow_private_addresses :: bool
  op_max_redirects :: int
  op_max_response_bytes :: int
  op_allowed_content_types :: "string list"

definition host_allowed :: "outbound_policy \<Rightarrow> string \<Rightarrow> bool" where
  "host_allowed policy host =
     (let host = rstrip_dots (str_lower host)
      in \<exists>raw_entry \<in> set (op_allowed_hosts policy).
           (let entry = rstrip_dots (str_lower raw_entry)
            in host = entry \<or> startswith entry ''.'' \<and> endswith host entry))"

definition ipv4_mapped :: "128 word \<Rightarrow> 32 word option" where
  "ipv4_mapped w = (if drop_bit 32 w \<noteq> 0xFFFF then None else Some (ucast w))"

definition sixtofour :: "128 word \<Rightarrow> 32 word option" where
  "sixtofour w = (if drop_bit 112 w \<noteq> 0x2002 then None else Some (ucast (drop_bit 80 w)))"

definition teredo :: "128 word \<Rightarrow> (32 word \<times> 32 word) option" where
  "teredo w =
     (if drop_bit 96 w \<noteq> 0x20010000 then None
      else Some (ucast (drop_bit 64 w), ucast (NOT w)))"

definition normalise_address :: "ip \<Rightarrow> ip" where
  "normalise_address a =
     (case a of
        V4 w \<Rightarrow> V4 w
      | V6 w s \<Rightarrow>
          (case ipv4_mapped w of Some v \<Rightarrow> V4 v | None \<Rightarrow>
           case sixtofour w of Some v \<Rightarrow> V4 v | None \<Rightarrow>
           case teredo w of Some (server, client) \<Rightarrow> V4 client | None \<Rightarrow>
           if in_network a NAT64_PREFIX then V4 (ucast w) else a))"

definition match_table :: "ip \<Rightarrow> (network \<times> string) list \<Rightarrow> string option" where
  "match_table a table = map_option snd (List.find (\<lambda>(network, reason). in_network a network) table)"

definition always_forbidden :: "ip \<Rightarrow> string option" where
  "always_forbidden a =
     (let normalised = normalise_address a
      in if \<exists>network \<in> set METADATA_NETWORKS. in_network normalised network
         then Some ''cloud_metadata_endpoint''
         else match_table normalised ALWAYS_FORBIDDEN)"

definition address_is_forbidden :: "ip \<Rightarrow> string option" where
  "address_is_forbidden a =
     (let normalised = normalise_address a
      in case always_forbidden normalised of
           Some reason \<Rightarrow> Some reason
         | None \<Rightarrow> match_table normalised PRIVATE_NETWORKS)"

definition classify :: "ip \<Rightarrow> bool \<Rightarrow> string option" where
  "classify a allow_private = (if allow_private then always_forbidden a else address_is_forbidden a)"

type_synonym resolver = "string \<Rightarrow> int \<Rightarrow> string + string list"

fun check_addresses :: "string \<Rightarrow> bool \<Rightarrow> string list \<Rightarrow> ssrf_error + string list" where
  "check_addresses host allow [] = Inr []"
| "check_addresses host allow (raw # raws) =
     (case ip_address raw of
        None \<Rightarrow> Inl (SSRFBlocked ''unparsable_address'' raw)
      | Some parsed \<Rightarrow>
          (let a = normalise_address parsed
           in case classify a allow of
                Some forbidden \<Rightarrow> Inl (SSRFBlocked forbidden (host @ '' -> '' @ raw))
              | None \<Rightarrow>
                  (case check_addresses host allow raws of
                     Inl e \<Rightarrow> Inl e
                   | Inr addresses \<Rightarrow> Inr (ip_str a # addresses))))"

definition resolve_and_validate ::
  "resolver \<Rightarrow> string \<Rightarrow> int \<Rightarrow> outbound_policy \<Rightarrow> ssrf_error + string" where
  "resolve_and_validate resolver host prt policy =
     (case resolver host prt of
        Inl exc \<Rightarrow> Inl (SSRFBlocked ''dns_resolution_failed'' (host @ '': '' @ exc))
      | Inr [] \<Rightarrow> Inl (SSRFBlocked ''dns_resolution_failed'' host)
      | Inr infos \<Rightarrow>
          (case check_addresses host (op_allow_private_addresses policy) infos of
             Inl e \<Rightarrow> Inl e
           | Inr addresses \<Rightarrow> Inr (hd addresses)))"

definition strip_brackets :: "string \<Rightarrow> string" where
  "strip_brackets s =
     rev (dropWhile (\<lambda>c. c \<in> set ''[]'') (rev (dropWhile (\<lambda>c. c \<in> set ''[]'') s)))"

definition truthy_text :: "string option \<Rightarrow> bool" where
  "truthy_text s \<longleftrightarrow> s \<noteq> None \<and> s \<noteq> Some []"

definition validate_static :: "string \<Rightarrow> outbound_policy \<Rightarrow> ssrf_error + string \<times> string \<times> int" where
  "validate_static url policy =
     (case urlparse url of
        None \<Rightarrow> Inl UrlValueError
      | Some parsed \<Rightarrow>
          (let scheme = str_lower (up_scheme parsed)
           in if scheme \<notin> set (op_allowed_schemes policy)
              then Inl (SSRFBlocked ''scheme_not_allowed'' (if scheme = [] then ''<none>'' else scheme))
              else case hostname parsed of
                None \<Rightarrow> Inl (SSRFBlocked ''missing_host'' url)
              | Some host \<Rightarrow>
                  if truthy_text (username parsed) \<or> truthy_text (password parsed)
                  then Inl (SSRFBlocked ''credentials_in_url'' host)
                  else if \<not> host_allowed policy host
                  then Inl (SSRFBlocked ''host_not_allowlisted'' host)
                  else case (case ip_address (strip_brackets host) of
                               None \<Rightarrow> None
                             | Some a \<Rightarrow> classify a (op_allow_private_addresses policy)) of
                    Some forbidden \<Rightarrow> Inl (SSRFBlocked forbidden host)
                  | None \<Rightarrow>
                      (case port parsed of
                         None \<Rightarrow> Inl UrlValueError
                       | Some p \<Rightarrow>
                           Inr (scheme, host,
                             (case p of
                                Some n \<Rightarrow> if n \<noteq> 0 then n else if scheme = ''https'' then 443 else 80
                              | None \<Rightarrow> if scheme = ''https'' then 443 else 80)))))"

record validated_target =
  vt_url :: string
  vt_host :: string
  vt_port :: int
  vt_scheme :: string
  vt_address :: string
  vt_pinned_url :: string

definition pin_netloc :: "string \<Rightarrow> int \<Rightarrow> string" where
  "pin_netloc address prt =
     (if CHR '':'' \<in> set address then ''['' @ address @ '']'' else address) @ '':'' @ dec_str prt"

definition validate_url :: "resolver \<Rightarrow> string \<Rightarrow> outbound_policy \<Rightarrow> ssrf_error + validated_target" where
  "validate_url resolver url policy =
     (case validate_static url policy of
        Inl e \<Rightarrow> Inl e
      | Inr (scheme, host, prt) \<Rightarrow>
          (case resolve_and_validate resolver host prt policy of
             Inl e \<Rightarrow> Inl e
           | Inr address \<Rightarrow>
               (case urlparse url of
                  None \<Rightarrow> Inl UrlValueError
                | Some parsed \<Rightarrow>
                    Inr \<lparr>vt_url = url, vt_host = host, vt_port = prt, vt_scheme = scheme,
                         vt_address = address,
                         vt_pinned_url = geturl (parsed\<lparr>up_netloc := pin_netloc address prt\<rparr>)\<rparr>)))"

section \<open>Networks as ranges\<close>

lemma in_network_range4:
  "n \<le> 32 \<Longrightarrow> in_network (V4 w) (N4 net n) \<longleftrightarrow> unat w div 2 ^ (32 - n) = unat net div 2 ^ (32 - n)"
  unfolding in_network.simps word_unat_eq_iff unat_drop_bit_eq by (simp only: drop_bit_eq_div)

section \<open>Normalisation\<close>

lemma normalise_V4 [simp]: "normalise_address (V4 w) = V4 w"
  by (simp add: normalise_address_def)

lemma normalise_idem [simp]: "normalise_address (normalise_address a) = normalise_address a"
  by (cases a) (auto simp: normalise_address_def split: option.splits prod.splits)

lemma classify_normalise: "classify (normalise_address a) p = classify a p"
  by (simp add: classify_def always_forbidden_def address_is_forbidden_def)

text \<open>Each embedding of an IPv4 address is undone.\<close>

definition mapped :: "32 word \<Rightarrow> 128 word" where
  "mapped v = push_bit 32 0xFFFF OR ucast v"

definition in_6to4 :: "32 word \<Rightarrow> 128 word \<Rightarrow> 128 word" where
  "in_6to4 v rest = push_bit 112 0x2002 OR push_bit 80 (ucast v) OR take_bit 80 rest"

definition in_teredo :: "32 word \<Rightarrow> 128 word \<Rightarrow> 128 word" where
  "in_teredo v rest = push_bit 96 0x20010000 OR push_bit 32 (take_bit 64 rest) OR ucast (NOT v)"

definition in_nat64 :: "32 word \<Rightarrow> 128 word" where
  "in_nat64 v = push_bit 96 0x0064ff9b OR ucast v"

lemma bit_32_high: "bit (v :: 32 word) n \<Longrightarrow> n < 32"
  using bit_imp_le_length [of v n] by simp

lemma drop_push_or: "drop_bit k (push_bit k h OR x) = take_bit (128 - k) h OR drop_bit k (x :: 128 word)"
  by (rule bit_word_eqI) (auto simp: bit_simps dest: bit_imp_le_length)

lemma drop_ucast: "32 \<le> k \<Longrightarrow> drop_bit k (ucast (v :: 32 word) :: 128 word) = 0"
  by (rule bit_word_eqI) (auto simp: bit_simps dest: bit_32_high)

lemma ucast_push_or: "32 \<le> k \<Longrightarrow> ucast (push_bit k h OR ucast v :: 128 word) = (v :: 32 word)"
  by (rule bit_word_eqI) (auto simp: bit_simps dest: bit_32_high)

lemma mapped_parts: "drop_bit 32 (mapped v) = 0xFFFF" "ucast (mapped v) = v"
  unfolding mapped_def by (simp_all only: drop_push_or drop_ucast ucast_push_or order_refl) simp

lemma in_nat64_parts: "drop_bit 32 (in_nat64 v) = push_bit 64 0x0064ff9b" "ucast (in_nat64 v) = v"
proof -
  have "drop_bit 32 (push_bit 96 h OR ucast v) = push_bit 64 (take_bit 32 h)" for h :: "128 word"
    by (rule bit_word_eqI) (auto simp: bit_simps dest: bit_32_high)
  from this [of "0x0064ff9b"] show "drop_bit 32 (in_nat64 v) = push_bit 64 0x0064ff9b"
    unfolding in_nat64_def by (rule trans) simp
  show "ucast (in_nat64 v) = v"
    unfolding in_nat64_def by (rule ucast_push_or) simp
qed

lemma in_6to4_parts:
  "drop_bit 112 (in_6to4 v rest) = 0x2002" "ucast (drop_bit 80 (in_6to4 v rest)) = v"
proof -
  have "drop_bit 112 (push_bit 112 h OR push_bit 80 (ucast v) OR take_bit 80 rest) = take_bit 16 h"
    for h :: "128 word"
    by (rule bit_word_eqI) (auto simp: bit_simps dest: bit_32_high)
  from this [of "0x2002"] show "drop_bit 112 (in_6to4 v rest) = 0x2002"
    unfolding in_6to4_def by (rule trans) simp
  have "ucast (drop_bit 80 (push_bit 112 h OR push_bit 80 (ucast v) OR take_bit 80 rest)) = v"
    for h :: "128 word"
    by (rule bit_word_eqI) (auto simp: bit_simps dest: bit_32_high)
  then show "ucast (drop_bit 80 (in_6to4 v rest)) = v"
    unfolding in_6to4_def .
qed

lemma in_teredo_parts:
  "drop_bit 96 (in_teredo v rest) = 0x20010000" "ucast (NOT (in_teredo v rest)) = v"
proof -
  have "drop_bit 96 (push_bit 96 h OR push_bit 32 (take_bit 64 rest) OR ucast (NOT v)) = take_bit 32 h"
    for h :: "128 word"
    by (rule bit_word_eqI) (auto simp: bit_simps dest: bit_32_high)
  from this [of "0x20010000"] show "drop_bit 96 (in_teredo v rest) = 0x20010000"
    unfolding in_teredo_def by (rule trans) simp
  have "ucast (NOT (push_bit 96 h OR push_bit 32 (take_bit 64 rest) OR ucast (NOT v))) = v"
    for h :: "128 word"
    by (rule bit_word_eqI) (auto simp: bit_simps dest: bit_32_high)
  then show "ucast (NOT (in_teredo v rest)) = v"
    unfolding in_teredo_def .
qed

lemma drop_bit_le: "drop_bit k (w :: 128 word) = c \<Longrightarrow> k \<le> m \<Longrightarrow> drop_bit m w = drop_bit (m - k) c"
  by (auto simp: drop_bit_drop_bit)

lemma normalise_embedded:
  "normalise_address (V6 (mapped v) s) = V4 v"
  "normalise_address (V6 (in_6to4 v rest) s) = V4 v"
  "normalise_address (V6 (in_teredo v rest) s) = V4 v"
  "normalise_address (V6 (in_nat64 v) s) = V4 v"
proof -
  show "normalise_address (V6 (mapped v) s) = V4 v"
    by (simp add: normalise_address_def ipv4_mapped_def mapped_parts)
  have "drop_bit 32 (in_6to4 v rest) \<noteq> 0xFFFF"
    using in_6to4_parts(1) [of v rest] drop_bit_le [of 32 "in_6to4 v rest" "0xFFFF" 112] by auto
  then show "normalise_address (V6 (in_6to4 v rest) s) = V4 v"
    by (simp add: normalise_address_def ipv4_mapped_def sixtofour_def in_6to4_parts)
  have "drop_bit 32 (in_teredo v rest) \<noteq> 0xFFFF" "drop_bit 112 (in_teredo v rest) \<noteq> 0x2002"
    using in_teredo_parts(1) [of v rest] drop_bit_le [of 32 "in_teredo v rest" "0xFFFF" 96]
      drop_bit_le [of 96 "in_teredo v rest" "0x20010000" 112] by auto
  then show "normalise_address (V6 (in_teredo v rest) s) = V4 v"
    by (simp add: normalise_address_def ipv4_mapped_def sixtofour_def teredo_def in_teredo_parts)
  have "drop_bit 32 (in_nat64 v) \<noteq> 0xFFFF" "drop_bit 112 (in_nat64 v) \<noteq> 0x2002"
    "drop_bit 96 (in_nat64 v) \<noteq> 0x20010000"
    using in_nat64_parts(1) [of v] drop_bit_le [OF in_nat64_parts(1) [of v], of 112]
      drop_bit_le [OF in_nat64_parts(1) [of v], of 96] by auto
  moreover have "in_network (V6 (in_nat64 v) s) NAT64_PREFIX"
    by (simp add: NAT64_PREFIX_def in_nat64_parts)
  ultimately show "normalise_address (V6 (in_nat64 v) s) = V4 v"
    by (simp add: normalise_address_def ipv4_mapped_def sixtofour_def teredo_def in_nat64_parts)
qed

section \<open>Dotted addresses\<close>

text \<open>The arithmetic is done on natural numbers first and carried over to integers.\<close>

definition ip4n :: "nat \<Rightarrow> nat \<Rightarrow> nat \<Rightarrow> nat \<Rightarrow> 32 word" where
  "ip4n a b c d = word_of_nat (((a * 256 + b) * 256 + c) * 256 + d)"

definition octetsn :: "nat \<Rightarrow> nat \<Rightarrow> nat \<Rightarrow> nat \<Rightarrow> bool" where
  "octetsn a b c d \<longleftrightarrow> a < 256 \<and> b < 256 \<and> c < 256 \<and> d < 256"

lemma unat_ip4n:
  assumes "octetsn a b c d"
  shows "unat (ip4n a b c d) = ((a * 256 + b) * 256 + c) * 256 + d"
proof -
  have "((a * 256 + b) * 256 + c) * 256 + d < 2 ^ 32"
    using assms by (simp add: octetsn_def)
  then show ?thesis
    unfolding ip4n_def unat_of_nat take_bit_nat_def by simp
qed

lemma peel: "b < 256 \<Longrightarrow> (a * 256 + b) div 256 = (a :: nat)"
  by simp

lemma mult_add_eq: "x < k \<Longrightarrow> y < k \<Longrightarrow> a * k + x = p * k + y \<longleftrightarrow> a = p \<and> x = (y :: nat)"
  by (metis add_left_imp_eq add.right_neutral div_less div_mult_self3 less_nat_zero_code)

lemma mult_add_div: "0 < k \<Longrightarrow> (a * (m * k) + b) div k = a * m + b div (k :: nat)"
  using div_mult_self3 [of k "a * m" b] by (simp add: mult.assoc)

lemma peel_div_eq:
  assumes "b < m * k" and "q < m * k" and "0 < k"
  shows "(a * (m * k) + b) div k = (p * (m * k) + q) div k \<longleftrightarrow> a = p \<and> b div k = q div (k :: nat)"
  unfolding mult_add_div [OF assms(3)]
  using assms by (intro mult_add_eq) (simp_all add: less_mult_imp_div_less)

lemma ip4n_div:
  assumes "octetsn a b c d"
  shows "unat (ip4n a b c d) div 2 ^ 24 = a"
    and "unat (ip4n a b c d) div 2 ^ 16 = a * 256 + b"
    and "unat (ip4n a b c d) div 2 ^ 8 = (a * 256 + b) * 256 + c"
    and "unat (ip4n a b c d) div 2 ^ 28 = a div 16"
    and "unat (ip4n a b c d) div 2 ^ 22 = (a * 256 + b) div 64"
    and "unat (ip4n a b c d) div 2 ^ 20 = (a * 256 + b) div 16"
    and "unat (ip4n a b c d) div 2 ^ 17 = (a * 256 + b) div 2"
proof -
  have o: "b < 256" "c < 256" "d < 256"
    using assms by (simp_all add: octetsn_def)
  have n: "n div 2 ^ 24 = n div 256 div 256 div 256" "n div 2 ^ 16 = n div 256 div 256"
    "n div 2 ^ 8 = n div 256" "n div 2 ^ 28 = n div 256 div 256 div 256 div 16"
    "n div 2 ^ 22 = n div 256 div 256 div 64" "n div 2 ^ 20 = n div 256 div 256 div 16"
    "n div 2 ^ 17 = n div 256 div 256 div 2" for n :: nat
    by (simp_all add: div_mult2_eq [symmetric])
  show "unat (ip4n a b c d) div 2 ^ 24 = a"
    and "unat (ip4n a b c d) div 2 ^ 16 = a * 256 + b"
    and "unat (ip4n a b c d) div 2 ^ 8 = (a * 256 + b) * 256 + c"
    and "unat (ip4n a b c d) div 2 ^ 28 = a div 16"
    and "unat (ip4n a b c d) div 2 ^ 22 = (a * 256 + b) div 64"
    and "unat (ip4n a b c d) div 2 ^ 20 = (a * 256 + b) div 16"
    and "unat (ip4n a b c d) div 2 ^ 17 = (a * 256 + b) div 2"
    by (simp_all only: unat_ip4n [OF assms] n peel [OF o(1)] peel [OF o(2)] peel [OF o(3)])
qed

lemma in_network_ip4n:
  assumes "octetsn a b c d" and "octetsn p q r s"
  shows "in_network (V4 (ip4n a b c d)) (N4 (ip4n p q r s) 8) \<longleftrightarrow> a = p"
    and "in_network (V4 (ip4n a b c d)) (N4 (ip4n p q r s) 16) \<longleftrightarrow> a = p \<and> b = q"
    and "in_network (V4 (ip4n a b c d)) (N4 (ip4n p q r s) 24) \<longleftrightarrow> a = p \<and> b = q \<and> c = r"
    and "in_network (V4 (ip4n a b c d)) (N4 (ip4n p q r s) 32) \<longleftrightarrow> a = p \<and> b = q \<and> c = r \<and> d = s"
    and "in_network (V4 (ip4n a b c d)) (N4 (ip4n p q r s) 4) \<longleftrightarrow> a div 16 = p div 16"
    and "in_network (V4 (ip4n a b c d)) (N4 (ip4n p q r s) 10) \<longleftrightarrow> a = p \<and> b div 64 = q div 64"
    and "in_network (V4 (ip4n a b c d)) (N4 (ip4n p q r s) 12) \<longleftrightarrow> a = p \<and> b div 16 = q div 16"
    and "in_network (V4 (ip4n a b c d)) (N4 (ip4n p q r s) 15) \<longleftrightarrow> a = p \<and> b div 2 = q div 2"
proof -
  have o: "a < 256" "b < 256" "c < 256" "d < 256" "p < 256" "q < 256" "r < 256" "s < 256"
    using assms by (simp_all add: octetsn_def)
  have range: "in_network (V4 (ip4n a b c d)) (N4 (ip4n p q r s) n) \<longleftrightarrow>
      unat (ip4n a b c d) div 2 ^ (32 - n) = unat (ip4n p q r s) div 2 ^ (32 - n)" if "n \<le> 32" for n
    using that by (rule in_network_range4)
  have sub: "32 - 8 = (24 :: nat)" "32 - 16 = (16 :: nat)" "32 - 24 = (8 :: nat)" "32 - 32 = (0 :: nat)"
    "32 - 4 = (28 :: nat)" "32 - 10 = (22 :: nat)" "32 - 12 = (20 :: nat)" "32 - 15 = (17 :: nat)"
    by simp_all
  note div = ip4n_div [OF assms(1)] ip4n_div [OF assms(2)]
  note eq = mult_add_eq [OF o(2,6)] mult_add_eq [OF o(3,7)] mult_add_eq [OF o(4,8)]
  have eq10: "(a * 256 + b) div 64 = (p * 256 + q) div 64 \<longleftrightarrow> a = p \<and> b div 64 = q div 64"
    using peel_div_eq [of b 4 64 q a p] o(2,6) by simp
  have eq12: "(a * 256 + b) div 16 = (p * 256 + q) div 16 \<longleftrightarrow> a = p \<and> b div 16 = q div 16"
    using peel_div_eq [of b 16 16 q a p] o(2,6) by simp
  have eq15: "(a * 256 + b) div 2 = (p * 256 + q) div 2 \<longleftrightarrow> a = p \<and> b div 2 = q div 2"
    using peel_div_eq [of b 128 2 q a p] o(2,6) by simp
  show "in_network (V4 (ip4n a b c d)) (N4 (ip4n p q r s) 8) \<longleftrightarrow> a = p"
    using range [of 8] unfolding sub div by simp
  show "in_network (V4 (ip4n a b c d)) (N4 (ip4n p q r s) 16) \<longleftrightarrow> a = p \<and> b = q"
    using range [of 16] unfolding sub div eq by simp
  show "in_network (V4 (ip4n a b c d)) (N4 (ip4n p q r s) 24) \<longleftrightarrow> a = p \<and> b = q \<and> c = r"
    using range [of 24] unfolding sub div eq by simp
  show "in_network (V4 (ip4n a b c d)) (N4 (ip4n p q r s) 32) \<longleftrightarrow> a = p \<and> b = q \<and> c = r \<and> d = s"
    using range [of 32]
    unfolding sub power_0 div_by_1 unat_ip4n [OF assms(1)] unat_ip4n [OF assms(2)] eq by simp
  show "in_network (V4 (ip4n a b c d)) (N4 (ip4n p q r s) 4) \<longleftrightarrow> a div 16 = p div 16"
    using range [of 4] unfolding sub div by simp
  show "in_network (V4 (ip4n a b c d)) (N4 (ip4n p q r s) 10) \<longleftrightarrow> a = p \<and> b div 64 = q div 64"
    using range [of 10] unfolding sub div eq10 by simp
  show "in_network (V4 (ip4n a b c d)) (N4 (ip4n p q r s) 12) \<longleftrightarrow> a = p \<and> b div 16 = q div 16"
    using range [of 12] unfolding sub div eq12 by simp
  show "in_network (V4 (ip4n a b c d)) (N4 (ip4n p q r s) 15) \<longleftrightarrow> a = p \<and> b div 2 = q div 2"
    using range [of 15] unfolding sub div eq15 by simp
qed

definition octets :: "int \<Rightarrow> int \<Rightarrow> int \<Rightarrow> int \<Rightarrow> bool" where
  "octets a b c d \<longleftrightarrow>
     0 \<le> a \<and> a < 256 \<and> 0 \<le> b \<and> b < 256 \<and> 0 \<le> c \<and> c < 256 \<and> 0 \<le> d \<and> d < 256"

lemma octets_nat: "octets a b c d \<Longrightarrow> octetsn (nat a) (nat b) (nat c) (nat d)"
  by (simp add: octets_def octetsn_def nat_less_iff)

lemma ip4_nat: "octets a b c d \<Longrightarrow> ip4 a b c d = ip4n (nat a) (nat b) (nat c) (nat d)"
  by (simp add: ip4_def ip4n_def octets_def)

lemma in_network_ip4:
  assumes "octets a b c d" and "octets p q r s"
  shows "in_network (V4 (ip4 a b c d)) (N4 (ip4 p q r s) 8) \<longleftrightarrow> a = p"
    and "in_network (V4 (ip4 a b c d)) (N4 (ip4 p q r s) 16) \<longleftrightarrow> a = p \<and> b = q"
    and "in_network (V4 (ip4 a b c d)) (N4 (ip4 p q r s) 24) \<longleftrightarrow> a = p \<and> b = q \<and> c = r"
    and "in_network (V4 (ip4 a b c d)) (N4 (ip4 p q r s) 32) \<longleftrightarrow> a = p \<and> b = q \<and> c = r \<and> d = s"
    and "in_network (V4 (ip4 a b c d)) (N4 (ip4 p q r s) 4) \<longleftrightarrow> a div 16 = p div 16"
    and "in_network (V4 (ip4 a b c d)) (N4 (ip4 p q r s) 10) \<longleftrightarrow> a = p \<and> b div 64 = q div 64"
    and "in_network (V4 (ip4 a b c d)) (N4 (ip4 p q r s) 12) \<longleftrightarrow> a = p \<and> b div 16 = q div 16"
    and "in_network (V4 (ip4 a b c d)) (N4 (ip4 p q r s) 15) \<longleftrightarrow> a = p \<and> b div 2 = q div 2"
proof -
  have eq: "nat x = nat y \<longleftrightarrow> x = y" if "0 \<le> x" "0 \<le> y" for x y
    using that by linarith
  have div_eq: "nat x div nat k = nat y div nat k \<longleftrightarrow> x div k = y div k" if "0 \<le> x" "0 \<le> y" "0 < k" for x y k
    using that by (simp add: nat_div_distrib [symmetric] eq pos_imp_zdiv_nonneg_iff)
  have o: "0 \<le> a" "0 \<le> b" "0 \<le> c" "0 \<le> d" "0 \<le> p" "0 \<le> q" "0 \<le> r" "0 \<le> s"
    using assms by (simp_all add: octets_def)
  note n = in_network_ip4n [OF octets_nat [OF assms(1)] octets_nat [OF assms(2)]]
    ip4_nat [OF assms(1)] ip4_nat [OF assms(2)]
  note div = div_eq [of a p 16, simplified] div_eq [of b q 64, simplified]
    div_eq [of b q 16, simplified] div_eq [of b q 2, simplified]
  show "in_network (V4 (ip4 a b c d)) (N4 (ip4 p q r s) 8) \<longleftrightarrow> a = p"
    and "in_network (V4 (ip4 a b c d)) (N4 (ip4 p q r s) 16) \<longleftrightarrow> a = p \<and> b = q"
    and "in_network (V4 (ip4 a b c d)) (N4 (ip4 p q r s) 24) \<longleftrightarrow> a = p \<and> b = q \<and> c = r"
    and "in_network (V4 (ip4 a b c d)) (N4 (ip4 p q r s) 32) \<longleftrightarrow> a = p \<and> b = q \<and> c = r \<and> d = s"
    and "in_network (V4 (ip4 a b c d)) (N4 (ip4 p q r s) 4) \<longleftrightarrow> a div 16 = p div 16"
    and "in_network (V4 (ip4 a b c d)) (N4 (ip4 p q r s) 10) \<longleftrightarrow> a = p \<and> b div 64 = q div 64"
    and "in_network (V4 (ip4 a b c d)) (N4 (ip4 p q r s) 12) \<longleftrightarrow> a = p \<and> b div 16 = q div 16"
    and "in_network (V4 (ip4 a b c d)) (N4 (ip4 p q r s) 15) \<longleftrightarrow> a = p \<and> b div 2 = q div 2"
    using o by (simp_all only: n eq div)
qed

text \<open>The two rules, as conditions on the four numbers of a dotted address.\<close>

definition never_reachable :: "int \<Rightarrow> int \<Rightarrow> int \<Rightarrow> bool" where
  "never_reachable a b c \<longleftrightarrow>
     a = 0 \<or> a = 127 \<or> a = 169 \<and> b = 254 \<or> 224 \<le> a \<and> a \<le> 239 \<or>
     a = 100 \<and> 64 \<le> b \<and> b \<le> 127 \<or> a = 192 \<and> b = 88 \<and> c = 99"

definition internal_range :: "int \<Rightarrow> int \<Rightarrow> int \<Rightarrow> bool" where
  "internal_range a b c \<longleftrightarrow>
     a = 10 \<or> a = 172 \<and> 16 \<le> b \<and> b \<le> 31 \<or> a = 192 \<and> b = 168 \<or>
     a = 192 \<and> b = 0 \<and> (c = 0 \<or> c = 2) \<or> a = 198 \<and> 18 \<le> b \<and> b \<le> 19 \<or>
     a = 198 \<and> b = 51 \<and> c = 100 \<or> a = 203 \<and> b = 0 \<and> c = 113 \<or> 240 \<le> a"

lemma match_table_None: "match_table a t = None \<longleftrightarrow> (\<forall>(n, r) \<in> set t. \<not> in_network a n)"
  by (auto simp: match_table_def find_None_iff)

declare in_network.simps(1) [simp del]

lemma high_nibble: "x div 16 = 14 \<longleftrightarrow> 224 \<le> x \<and> x \<le> 239" "x div 16 = 15 \<longleftrightarrow> 240 \<le> x \<and> x \<le> (255 :: int)"
  by presburger+

lemma second_octet:
  "x div 64 = 1 \<longleftrightarrow> 64 \<le> x \<and> x \<le> 127" "x div 16 = 1 \<longleftrightarrow> 16 \<le> x \<and> x \<le> 31"
  "x div 2 = 9 \<longleftrightarrow> 18 \<le> x \<and> x \<le> (19 :: int)"
  by presburger+

lemma always_forbidden_ip4:
  assumes "octets a b c d"
  shows "always_forbidden (V4 (ip4 a b c d)) = None \<longleftrightarrow> \<not> never_reachable a b c"
proof -
  have meta: "(\<exists>network \<in> set METADATA_NETWORKS. in_network (V4 (ip4 a b c d)) network) \<longleftrightarrow>
      a = 169 \<and> b = 254 \<and> c = 169 \<and> d = 254 \<or> a = 169 \<and> b = 254 \<and> c = 170 \<and> d = 2 \<or>
      a = 100 \<and> b = 100 \<and> c = 100 \<and> d = 200"
    unfolding METADATA_NETWORKS_def by (simp add: in_network_ip4 [OF assms] octets_def)
  have "match_table (V4 (ip4 a b c d)) ALWAYS_FORBIDDEN = None \<longleftrightarrow> \<not> never_reachable a b c"
    unfolding match_table_None ALWAYS_FORBIDDEN_def never_reachable_def
    by (simp add: in_network_ip4 [OF assms] octets_def high_nibble second_octet) blast
  then show ?thesis
    unfolding always_forbidden_def Let_def normalise_V4 meta by (auto simp: never_reachable_def)
qed

lemma private_ip4:
  assumes "octets a b c d"
  shows "match_table (V4 (ip4 a b c d)) PRIVATE_NETWORKS = None \<longleftrightarrow> \<not> internal_range a b c"
proof -
  have "a \<le> 255" and "0 \<le> a" and "0 \<le> b" using assms by (simp_all add: octets_def)
  then show ?thesis
    unfolding match_table_None PRIVATE_NETWORKS_def internal_range_def
    by (simp add: in_network_ip4 [OF assms] octets_def high_nibble second_octet) (cases "240 \<le> a"; auto)
qed

lemma classify_ip4:
  assumes "octets a b c d"
  shows "classify (V4 (ip4 a b c d)) p = None \<longleftrightarrow>
    \<not> never_reachable a b c \<and> (p \<or> \<not> internal_range a b c)"
  using always_forbidden_ip4 [OF assms] private_ip4 [OF assms]
  by (auto simp: classify_def address_is_forbidden_def Let_def split: option.splits)

text \<open>A destination open under the strict rule is open under the one that permits private ranges.\<close>

lemma classify_relax: "classify a False = None \<Longrightarrow> classify a True = None"
  by (auto simp: classify_def address_is_forbidden_def always_forbidden_def Let_def
        split: option.splits if_splits)

section \<open>Resolution\<close>

definition address_ok :: "bool \<Rightarrow> string \<Rightarrow> bool" where
  "address_ok allow raw \<longleftrightarrow> (\<exists>a. ip_address raw = Some a \<and> classify a allow = None)"

definition connect_form :: "string \<Rightarrow> string" where
  "connect_form raw = ip_str (normalise_address (the (ip_address raw)))"

lemma check_addresses_good:
  "address_ok allow raw \<Longrightarrow> check_addresses host allow (raw # raws) =
     (case check_addresses host allow raws of Inl e \<Rightarrow> Inl e | Inr as \<Rightarrow> Inr (connect_form raw # as))"
  by (auto simp: address_ok_def connect_form_def Let_def classify_normalise split: sum.splits)

lemma check_addresses_stop:
  "\<not> address_ok allow raw \<Longrightarrow>
     \<exists>reason detail. check_addresses host allow (raw # raws) = Inl (SSRFBlocked reason detail)"
  by (auto simp: address_ok_def Let_def classify_normalise split: option.splits)

lemma check_addresses_ok:
  "\<forall>raw \<in> set raws. address_ok allow raw \<Longrightarrow> check_addresses host allow raws = Inr (map connect_form raws)"
proof (induction raws)
  case Nil
  then show ?case by simp
next
  case (Cons raw raws)
  then show ?case
    by (subst check_addresses_good) simp_all
qed

lemma check_addresses_bad:
  "\<not> (\<forall>raw \<in> set raws. address_ok allow raw) \<Longrightarrow>
     \<exists>reason detail. check_addresses host allow raws = Inl (SSRFBlocked reason detail)"
proof (induction raws)
  case Nil
  then show ?case by simp
next
  case (Cons raw raws)
  show ?case
  proof (cases "address_ok allow raw")
    case True
    with Cons obtain reason detail where "check_addresses host allow raws = Inl (SSRFBlocked reason detail)"
      by auto
    with True show ?thesis by (subst check_addresses_good) simp_all
  next
    case False
    then show ?thesis by (rule check_addresses_stop)
  qed
qed

lemma resolve_and_validate_raws:
  assumes "resolver host prt = Inr raws" and "raws \<noteq> []"
  shows "if \<forall>raw \<in> set raws. address_ok (op_allow_private_addresses policy) raw
    then resolve_and_validate resolver host prt policy = Inr (connect_form (hd raws))
    else \<exists>reason detail. resolve_and_validate resolver host prt policy = Inl (SSRFBlocked reason detail)"
proof -
  let ?allow = "op_allow_private_addresses policy"
  have "resolve_and_validate resolver host prt policy =
      (case check_addresses host ?allow raws of Inl e \<Rightarrow> Inl e | Inr addresses \<Rightarrow> Inr (hd addresses))"
    using assms by (cases raws) (simp_all add: resolve_and_validate_def del: check_addresses.simps)
  moreover have "check_addresses host ?allow raws = Inr (map connect_form raws)"
    if "\<forall>raw \<in> set raws. address_ok ?allow raw"
    using that by (rule check_addresses_ok)
  moreover have "\<exists>reason detail. check_addresses host ?allow raws = Inl (SSRFBlocked reason detail)"
    if "\<not> (\<forall>raw \<in> set raws. address_ok ?allow raw)"
    using that by (rule check_addresses_bad)
  ultimately show ?thesis
    using assms(2) by (cases "\<forall>raw \<in> set raws. address_ok ?allow raw") (auto simp: hd_map)
qed

lemma resolve_and_validate_Inr:
  assumes "resolve_and_validate resolver host prt policy = Inr address"
  obtains raws where "resolver host prt = Inr raws" "raws \<noteq> []"
    "\<forall>raw \<in> set raws. address_ok (op_allow_private_addresses policy) raw" "address = connect_form (hd raws)"
proof -
  obtain raws where raws: "resolver host prt = Inr raws" "raws \<noteq> []"
    using assms
    by (auto simp: resolve_and_validate_def simp del: check_addresses.simps split: sum.splits list.splits)
  show ?thesis
    using resolve_and_validate_raws [of resolver host prt raws policy, OF raws] assms raws
    by (intro that [of raws]) (auto split: if_splits)
qed

lemma validate_static_Inr:
  assumes "validate_static url policy = Inr (scheme, host, prt)"
  obtains parsed where "urlparse url = Some parsed" "scheme = str_lower (up_scheme parsed)"
    "scheme \<in> set (op_allowed_schemes policy)" "hostname parsed = Some host"
    "\<not> truthy_text (username parsed)" "\<not> truthy_text (password parsed)" "host_allowed policy host"
    "\<And>a. ip_address (strip_brackets host) = Some a \<Longrightarrow> classify a (op_allow_private_addresses policy) = None"
  using assms unfolding validate_static_def
  by (auto simp: Let_def split: option.splits if_splits)

lemma validate_url_Inr:
  "validate_url resolver url policy = Inr t \<longleftrightarrow>
     (\<exists>parsed. validate_static url policy = Inr (vt_scheme t, vt_host t, vt_port t) \<and>
        resolve_and_validate resolver (vt_host t) (vt_port t) policy = Inr (vt_address t) \<and>
        urlparse url = Some parsed \<and> vt_url t = url \<and>
        vt_pinned_url t = geturl (parsed\<lparr>up_netloc := pin_netloc (vt_address t) (vt_port t)\<rparr>))"
  unfolding validate_url_def by (cases t) (auto split: sum.splits option.splits prod.splits)

section \<open>Pinning\<close>

lemma up_scheme_lower: "urlparse url = Some u \<Longrightarrow> str_lower (up_scheme u) = up_scheme u"
  by (auto simp: urlparse_def split_scheme_def Let_def split: prod.splits if_splits)

lemma geturl_shape:
  "\<exists>rest. geturl (u\<lparr>up_netloc := n\<rparr>) =
       (if up_scheme u = [] then [] else up_scheme u @ '':'') @ ''//'' @ n @ rest \<and>
     (rest = [] \<or> hd rest \<in> set ''/?#'')"
  by (cases "up_path u") (auto simp: geturl_def Let_def)

section \<open>Properties\<close>

text \<open>
  Every IPv6 form that embeds an IPv4 address (mapped, 6to4, Teredo client, NAT64) is judged as
  the address it reaches, under both rules.
\<close>

theorem embedded_addresses_judged_as_ipv4:
  "classify (V6 (mapped v) s) p = classify (V4 v) p \<and>
   classify (V6 (in_6to4 v rest) s) p = classify (V4 v) p \<and>
   classify (V6 (in_teredo v rest) s) p = classify (V4 v) p \<and>
   classify (V6 (in_nat64 v) s) p = classify (V4 v) p"
proof -
  have "classify a p = classify (V4 v) p" if "normalise_address a = V4 v" for a
    using classify_normalise [of a p] that by simp
  from this [OF normalise_embedded(1)] this [OF normalise_embedded(2)] this [OF normalise_embedded(3)]
    this [OF normalise_embedded(4)]
  show ?thesis by blast
qed

text \<open>
  C22. The reachable IPv4 destinations, exactly.  With private addressing permitted, everything but
  the zero, loopback, link-local (with the metadata service), multicast, carrier-grade NAT and
  6to4-relay ranges; without it, additionally nothing in the private, documentation, benchmark
  and reserved ranges.
\<close>

theorem reachable_ipv4_destinations:
  assumes "octets a b c d"
  shows "classify (V4 (ip4 a b c d)) allow_private = None \<longleftrightarrow>
    \<not> never_reachable a b c \<and> (allow_private \<or> \<not> internal_range a b c)"
  using assms by (rule classify_ip4)

theorem reachable_ipv4_destinations_witness:
  "classify (V4 (ip4 169 254 169 254)) True \<noteq> None \<and> classify (V4 (ip4 10 1 2 3)) True = None \<and>
   classify (V4 (ip4 10 1 2 3)) False \<noteq> None \<and> classify (V4 (ip4 93 184 216 34)) False = None"
  using reachable_ipv4_destinations [of 169 254 169 254 True] reachable_ipv4_destinations [of 10 1 2 3 True]
    reachable_ipv4_destinations [of 10 1 2 3 False] reachable_ipv4_destinations [of 93 184 216 34 False]
  by (simp add: octets_def never_reachable_def internal_range_def)

text \<open>
  A name is only as good as its worst address: resolution succeeds exactly when every address the
  system returned is readable and accepted, and then yields the first, in the form the check was
  made on; one forbidden address among public ones blocks the request.
\<close>

theorem resolution_accepts_only_clean_names:
  assumes "resolver host prt = Inr raws" and "raws \<noteq> []"
  shows "(\<exists>address. resolve_and_validate resolver host prt policy = Inr address) \<longleftrightarrow>
      (\<forall>raw \<in> set raws. \<exists>a. ip_address raw = Some a \<and> classify a (op_allow_private_addresses policy) = None)"
    (is "?ok \<longleftrightarrow> ?all")
proof -
  have "?all \<longleftrightarrow> (\<forall>raw \<in> set raws. address_ok (op_allow_private_addresses policy) raw)"
    by (simp add: address_ok_def)
  then show ?thesis
    using resolve_and_validate_raws [of resolver host prt raws policy, OF assms] by (auto split: if_splits)
qed

definition example_policy :: outbound_policy where
  "example_policy =
     \<lparr>op_allowed_hosts = [''.example.com''], op_allowed_schemes = [''https''],
      op_allow_private_addresses = False, op_max_redirects = 3, op_max_response_bytes = 1048576,
      op_allowed_content_types = [''application/json'']\<rparr>"

theorem resolution_accepts_only_clean_names_witness:
  "\<not> (\<exists>address. resolve_and_validate (\<lambda>_ _. Inr [''93.184.216.34'', ''10.0.0.7'']) ''a.example.com'' 443
        example_policy = Inr address)"
proof -
  have "ip_address ''10.0.0.7'' = Some (V4 (ip4 10 0 0 7))"
    by code_simp
  moreover have "classify (V4 (ip4 10 0 0 7)) False \<noteq> None"
    using classify_ip4 [of 10 0 0 7 False] by (simp add: octets_def internal_range_def)
  moreover have "op_allow_private_addresses example_policy = False"
    by (simp add: example_policy_def)
  ultimately show ?thesis
    using resolution_accepts_only_clean_names
      [of "\<lambda>_ _. Inr [''93.184.216.34'', ''10.0.0.7'']" "''a.example.com''" 443
        "[''93.184.216.34'', ''10.0.0.7'']" example_policy]
    by auto
qed

text \<open>
  What a validated target guarantees: the scheme and the host are allowed, no credentials ride in
  the URL, the authority of the pinned URL is the address that was checked, and that address,
  like every address of the name, is accepted.
\<close>

theorem validated_target_is_pinned:
  assumes "validate_url resolver url policy = Inr t"
  shows "vt_scheme t \<in> set (op_allowed_schemes policy) \<and> host_allowed policy (vt_host t) \<and>
    (\<exists>u. urlparse url = Some u \<and> hostname u = Some (vt_host t) \<and>
       \<not> truthy_text (username u) \<and> \<not> truthy_text (password u)) \<and>
    (\<exists>raws a. resolver (vt_host t) (vt_port t) = Inr raws \<and> ip_address (hd raws) = Some a \<and>
       vt_address t = ip_str (normalise_address a) \<and>
       classify (normalise_address a) (op_allow_private_addresses policy) = None \<and>
       (\<forall>raw \<in> set raws. address_ok (op_allow_private_addresses policy) raw)) \<and>
    (\<exists>rest. vt_pinned_url t =
         (if vt_scheme t = [] then [] else vt_scheme t @ '':'') @ ''//'' @
         pin_netloc (vt_address t) (vt_port t) @ rest \<and>
       (rest = [] \<or> hd rest \<in> set ''/?#''))"
proof -
  obtain parsed where v: "validate_static url policy = Inr (vt_scheme t, vt_host t, vt_port t)"
    "resolve_and_validate resolver (vt_host t) (vt_port t) policy = Inr (vt_address t)"
    "urlparse url = Some parsed"
    "vt_pinned_url t = geturl (parsed\<lparr>up_netloc := pin_netloc (vt_address t) (vt_port t)\<rparr>)"
    using assms validate_url_Inr by blast
  obtain parsed' where static: "urlparse url = Some parsed'" "vt_scheme t = str_lower (up_scheme parsed')"
    "vt_scheme t \<in> set (op_allowed_schemes policy)" "hostname parsed' = Some (vt_host t)"
    "\<not> truthy_text (username parsed')" "\<not> truthy_text (password parsed')" "host_allowed policy (vt_host t)"
    using validate_static_Inr [OF v(1)] .
  obtain raws where raws: "resolver (vt_host t) (vt_port t) = Inr raws" "raws \<noteq> []"
    "\<forall>raw \<in> set raws. address_ok (op_allow_private_addresses policy) raw"
    "vt_address t = connect_form (hd raws)"
    using resolve_and_validate_Inr [OF v(2)] .
  then obtain a where a: "ip_address (hd raws) = Some a" "classify a (op_allow_private_addresses policy) = None"
    by (cases raws) (auto simp: address_ok_def)
  have "vt_scheme t = up_scheme parsed"
    using static(1,2) v(3) up_scheme_lower by auto
  then have pin: "\<exists>rest. vt_pinned_url t =
         (if vt_scheme t = [] then [] else vt_scheme t @ '':'') @ ''//'' @
         pin_netloc (vt_address t) (vt_port t) @ rest \<and> (rest = [] \<or> hd rest \<in> set ''/?#'')"
    using geturl_shape [where u = parsed and n = "pin_netloc (vt_address t) (vt_port t)"] v(4)
    by (simp only:)
  have "vt_address t = ip_str (normalise_address a)"
    "classify (normalise_address a) (op_allow_private_addresses policy) = None"
    using raws(4) a by (simp_all add: connect_form_def classify_normalise)
  with static raws(1,3) a(1) pin show ?thesis by blast
qed

theorem validated_target_is_pinned_witness:
  "\<exists>t. validate_url (\<lambda>_ _. Inr [''93.184.216.34'']) ''https://api.example.com/v1'' example_policy = Inr t \<and>
     vt_address t = ''93.184.216.34'' \<and> host_allowed example_policy (vt_host t)"
proof -
  let ?t = "\<lparr>vt_url = ''https://api.example.com/v1'', vt_host = ''api.example.com'', vt_port = 443,
    vt_scheme = ''https'', vt_address = ''93.184.216.34'', vt_pinned_url = ''https://93.184.216.34:443/v1''\<rparr>"
  have "validate_url (\<lambda>_ _. Inr [''93.184.216.34'']) ''https://api.example.com/v1'' example_policy = Inr ?t"
    by code_simp
  with validated_target_is_pinned [OF this] show ?thesis by auto
qed

end
