(* ===== verification/Policy.thy ===== *)
theory Policy
  imports Ssrf
begin

text \<open>
  \<open>security/policy.py\<close>: the outbound policy of a connector, built from the deployment's bounds and
  the connector's configuration.  \<open>deployment\<close> is the operator's environment together with
  Python's \<open>int\<close> and \<open>float\<close> on strings (\<open>None\<close> is the ValueError).  Configuration values are JSON,
  so a value of the wrong type raises what Python raises.  A member of \<open>allowed_hosts\<close> that is not
  a string raises when the host check reaches it, which depends on the order of a hash set; here
  it raises when the policy is built.
\<close>

datatype py_exn =
    PyValueError string
  | PyTypeError
  | PyAttributeError
  | PyKeyError string

record deployment =
  dp_getenv :: "string \<Rightarrow> string option"
  dp_int :: "string \<Rightarrow> int option"
  dp_float :: "string \<Rightarrow> pyfloat option"

definition getenv_or :: "deployment \<Rightarrow> string \<Rightarrow> string \<Rightarrow> string" where
  "getenv_or dp name dflt = (case dp_getenv dp name of None \<Rightarrow> dflt | Some s \<Rightarrow> s)"

definition flag :: "deployment \<Rightarrow> string \<Rightarrow> bool \<Rightarrow> bool" where
  "flag dp name dflt =
     (str_lower (py_strip (getenv_or dp name (if dflt then ''True'' else ''False'')))
        \<in> {''1'', ''true'', ''yes'', ''on''})"

definition csv :: "deployment \<Rightarrow> string \<Rightarrow> string list" where
  "csv dp name =
     filter (\<lambda>part. part \<noteq> []) (map py_strip (split_on (CHR '','') (py_strip (getenv_or dp name []))))"

definition int_env :: "deployment \<Rightarrow> string \<Rightarrow> int \<Rightarrow> py_exn + int" where
  "int_env dp name dflt =
     (case dp_getenv dp name of
        None \<Rightarrow> Inr dflt
      | Some s \<Rightarrow> (case dp_int dp s of None \<Rightarrow> Inl (PyValueError s) | Some n \<Rightarrow> Inr n))"

definition OPERATOR_ONLY_CONFIG_KEYS :: "string list" where
  "OPERATOR_ONLY_CONFIG_KEYS =
     [''allow_private_addresses'', ''allowed_schemes'', ''allow_plaintext_acknowledged'']"

definition DEFAULT_CONTENT_TYPES :: "string list" where
  "DEFAULT_CONTENT_TYPES = [''application/json'', ''application/problem+json'', ''text/plain'']"

definition DEFAULT_ALLOWED_SCHEMES :: "string list" where
  "DEFAULT_ALLOWED_SCHEMES = [''https'']"

definition max_response_bytes_ceiling :: "deployment \<Rightarrow> py_exn + int" where
  "max_response_bytes_ceiling dp = int_env dp ''OUTBOUND_MAX_RESPONSE_BYTES'' 1048576"

definition max_redirects_ceiling :: "deployment \<Rightarrow> py_exn + int" where
  "max_redirects_ceiling dp = int_env dp ''OUTBOUND_MAX_REDIRECTS'' 3"

definition allowed_content_types_ceiling :: "deployment \<Rightarrow> string list" where
  "allowed_content_types_ceiling dp =
     (let types = csv dp ''OUTBOUND_ALLOWED_CONTENT_TYPES''
      in if types = [] then DEFAULT_CONTENT_TYPES else types)"

definition operator_allows_private_addresses :: "deployment \<Rightarrow> bool" where
  "operator_allows_private_addresses dp = flag dp ''OUTBOUND_ALLOW_PRIVATE_ADDRESSES'' False"

definition operator_allowed_schemes :: "deployment \<Rightarrow> string list" where
  "operator_allowed_schemes dp =
     (let schemes = csv dp ''OUTBOUND_ALLOWED_SCHEMES''
      in if schemes = [] then DEFAULT_ALLOWED_SCHEMES else schemes)"

definition operator_host_allowlist :: "deployment \<Rightarrow> string list" where
  "operator_host_allowlist dp = csv dp ''OUTBOUND_HOST_ALLOWLIST''"

text \<open>\<open>iter(value)\<close> of a JSON value, and \<open>config.get(k) or []\<close>.\<close>

definition py_iter :: "json \<Rightarrow> py_exn + json list" where
  "py_iter v =
     (case v of
        JList xs \<Rightarrow> Inr xs
      | JStr s \<Rightarrow> Inr (map (\<lambda>c. JStr [c]) s)
      | JObj d \<Rightarrow> Inr (map (\<lambda>(k, _). JStr k) d)
      | _ \<Rightarrow> Inl PyTypeError)"

definition get_items :: "string \<Rightarrow> jobj \<Rightarrow> py_exn + json list" where
  "get_items key config =
     (case jget key config of
        None \<Rightarrow> Inr []
      | Some v \<Rightarrow> if truthy v then py_iter v else Inr [])"

definition text_of :: "json \<Rightarrow> string option" where
  "text_of v = (case v of JStr s \<Rightarrow> Some s | _ \<Rightarrow> None)"

definition the_texts :: "json list \<Rightarrow> string list" where
  "the_texts vs = map the (filter (\<lambda>s. s \<noteq> None) (map text_of vs))"

definition host_texts :: "json list \<Rightarrow> py_exn + string list" where
  "host_texts vs =
     (if list_all (\<lambda>v. text_of v \<noteq> None) vs then Inr (the_texts vs)
      else if \<exists>v \<in> set vs. (case v of JList _ \<Rightarrow> True | JObj _ \<Rightarrow> True | _ \<Rightarrow> False) then Inl PyTypeError
      else Inl PyAttributeError)"

definition operator_permits :: "string list \<Rightarrow> string \<Rightarrow> bool" where
  "operator_permits operator_hosts host =
     (\<exists>entry \<in> set operator_hosts.
        rstrip_dots (str_lower host) = rstrip_dots (str_lower entry) \<or>
        startswith entry ''.'' \<and> endswith (str_lower host) (str_lower entry))"

text \<open>\<open>int(value)\<close>: floats are truncated towards zero, booleans count as 0 and 1.\<close>

definition positive_int :: "deployment \<Rightarrow> json option \<Rightarrow> int option" where
  "positive_int dp value =
     (let parsed =
        (case value of
           Some (JInt n) \<Rightarrow> Some n
         | Some (JBool b) \<Rightarrow> Some (if b then 1 else 0)
         | Some (JFloat (Fin q)) \<Rightarrow> Some (if q \<ge> 0 then \<lfloor>q\<rfloor> else \<lceil>q\<rceil>)
         | Some (JStr s) \<Rightarrow> dp_int dp s
         | _ \<Rightarrow> None)
      in case parsed of None \<Rightarrow> None | Some n \<Rightarrow> if n \<ge> 0 then Some n else None)"

definition build_policy :: "deployment \<Rightarrow> jobj \<Rightarrow> int \<Rightarrow> py_exn + outbound_policy" where
  "build_policy dp config max_redirects =
     (let operator_hosts = operator_host_allowlist dp in
      case get_items ''allowed_hosts'' config of Inl e \<Rightarrow> Inl e | Inr host_items \<Rightarrow>
      case host_texts host_items of Inl e \<Rightarrow> Inl e | Inr connector_hosts \<Rightarrow>
      let hosts =
        (if operator_hosts \<noteq> [] then filter (operator_permits operator_hosts) connector_hosts
         else connector_hosts) in
      case get_items ''requested_schemes'' config of Inl e \<Rightarrow> Inl e | Inr requested \<Rightarrow>
      let allowed = operator_allowed_schemes dp;
          chosen = filter (\<lambda>s. s \<in> set allowed) (the_texts requested);
          schemes = (if chosen = [] then allowed else chosen) in
      case max_response_bytes_ceiling dp of Inl e \<Rightarrow> Inl e | Inr bytes_ceiling \<Rightarrow>
      case max_redirects_ceiling dp of Inl e \<Rightarrow> Inl e | Inr redirect_ceiling \<Rightarrow>
      let type_ceiling = allowed_content_types_ceiling dp;
          requested_bytes = positive_int dp (jget ''max_response_bytes'' config);
          requested_redirects = positive_int dp (jget ''max_redirects'' config) in
      case get_items ''allowed_content_types'' config of Inl e \<Rightarrow> Inl e | Inr requested_types \<Rightarrow>
      let types = filter (\<lambda>c. c \<in> set type_ceiling) (the_texts requested_types) in
      Inr \<lparr>op_allowed_hosts = hosts,
           op_allowed_schemes = schemes,
           op_allow_private_addresses = operator_allows_private_addresses dp,
           op_max_redirects =
             min (case requested_redirects of Some n \<Rightarrow> n | None \<Rightarrow> max_redirects) redirect_ceiling,
           op_max_response_bytes =
             min (case requested_bytes of Some n \<Rightarrow> n | None \<Rightarrow> bytes_ceiling) bytes_ceiling,
           op_allowed_content_types = (if types = [] then type_ceiling else types)\<rparr>)"

section \<open>Timeouts\<close>

fun float_less :: "pyfloat \<Rightarrow> pyfloat \<Rightarrow> bool" where
  "float_less NaN y = False"
| "float_less x NaN = False"
| "float_less (Fin a) (Fin b) = (a < b)"
| "float_less NegInf y = (y \<noteq> NegInf)"
| "float_less x PosInf = (x \<noteq> PosInf)"
| "float_less x y = False"

text \<open>\<open>min(a, b)\<close> keeps \<open>a\<close> unless \<open>b < a\<close>.\<close>

definition float_min :: "pyfloat \<Rightarrow> pyfloat \<Rightarrow> pyfloat" where
  "float_min a b = (if float_less b a then b else a)"

definition timeout_ceiling :: "deployment \<Rightarrow> py_exn + pyfloat" where
  "timeout_ceiling dp =
     (case dp_getenv dp ''OUTBOUND_TIMEOUT_CEILING'' of
        None \<Rightarrow> Inr (Fin 300)
      | Some s \<Rightarrow> (case dp_float dp s of None \<Rightarrow> Inl (PyValueError s) | Some f \<Rightarrow> Inr f))"

text \<open>\<open>float(value)\<close>; an integer that rounds to 2 to the 1024 or more raises OverflowError.\<close>

definition float_of :: "deployment \<Rightarrow> json option \<Rightarrow> pyfloat option" where
  "float_of dp value =
     (case value of
        Some (JInt n) \<Rightarrow> if \<bar>n\<bar> \<ge> 2 ^ 1024 - 2 ^ 970 then None else Some (Fin (of_int n))
      | Some (JBool b) \<Rightarrow> Some (Fin (if b then 1 else 0))
      | Some (JFloat f) \<Rightarrow> Some f
      | Some (JStr s) \<Rightarrow> dp_float dp s
      | _ \<Rightarrow> None)"

definition clamp_timeout :: "deployment \<Rightarrow> json option \<Rightarrow> rat \<Rightarrow> py_exn + pyfloat" where
  "clamp_timeout dp value dflt =
     (case timeout_ceiling dp of
        Inl e \<Rightarrow> Inl e
      | Inr limit \<Rightarrow>
          Inr (case float_of dp value of
                 Some (Fin q) \<Rightarrow>
                   if q \<le> 0 then float_min (Fin dflt) limit else float_min (Fin q) limit
               | _ \<Rightarrow> float_min (Fin dflt) limit))"

definition rejected_operator_keys :: "jobj \<Rightarrow> string list" where
  "rejected_operator_keys config = sort (filter (\<lambda>k. jhas k config) OPERATOR_ONLY_CONFIG_KEYS)"

section \<open>Narrowing\<close>

lemma csv_nonempty: "s \<in> set (csv dp name) \<Longrightarrow> s \<noteq> []"
  by (auto simp: csv_def)

text \<open>An operator entry made of dots only would match any name written with a trailing dot.\<close>

definition dotty :: "string \<Rightarrow> bool" where
  "dotty s \<longleftrightarrow> (\<forall>c \<in> set s. c = CHR ''.'')"

lemma char_lower_dot [simp]: "char_lower c = CHR ''.'' \<longleftrightarrow> c = CHR ''.''"
proof -
  have "c = CHR ''.''" if "char_lower c = CHR ''.''"
  proof (cases "65 \<le> (of_char c :: nat) \<and> (of_char c :: nat) \<le> 90")
    case True
    then have "(of_char (char_lower c) :: nat) = of_char c + 32"
      by (simp add: char_lower_def)
    with that True show ?thesis by simp
  next
    case False
    with that show ?thesis by (auto simp: char_lower_def)
  qed
  then show ?thesis by (auto simp: char_lower_def)
qed

lemma dotty_lower [simp]: "dotty (str_lower s) = dotty s"
  by (simp add: dotty_def str_lower_def)

lemma rstrip_suffix:
  assumes "endswith s e" and "\<not> dotty e"
  shows "endswith (rstrip_dots s) (rstrip_dots e)"
proof -
  obtain t where t: "s = t @ e" using assms(1) by (auto simp: endswith_append)
  have "\<exists>x \<in> set e. x \<noteq> CHR ''.''" using assms(2) by (simp add: dotty_def)
  from rstrip_char_append [OF this, of t] t show ?thesis by (auto simp: endswith_append)
qed

lemma rstrip_start:
  assumes "startswith e ''.''" and "\<not> dotty e"
  shows "startswith (rstrip_dots e) ''.''"
proof -
  obtain t where t: "e = ''.'' @ t" using assms(1) by (auto simp: startswith_append)
  then have "\<exists>x \<in> set t. x \<noteq> CHR ''.''" using assms(2) by (auto simp: dotty_def)
  from rstrip_char_append [OF this, of "''.''"] t show ?thesis by (simp add: startswith_append)
qed

lemma startswith_dot_lower: "startswith e ''.'' \<Longrightarrow> startswith (str_lower e) ''.''"
  by (auto simp: startswith_append str_lower_def char_lower_def)

text \<open>What a permitted entry admits, some operator entry admits.\<close>

lemma operator_permits_admits:
  assumes permitted: "operator_permits ops entry" and ops: "\<forall>e \<in> set ops. \<not> dotty e"
    and admits: "rstrip_dots (str_lower host) = rstrip_dots (str_lower entry) \<or>
      startswith (rstrip_dots (str_lower entry)) ''.'' \<and>
      endswith (rstrip_dots (str_lower host)) (rstrip_dots (str_lower entry))"
  shows "\<exists>e \<in> set ops. let e' = rstrip_dots (str_lower e)
    in rstrip_dots (str_lower host) = e' \<or> startswith e' ''.'' \<and> endswith (rstrip_dots (str_lower host)) e'"
proof -
  obtain e where e: "e \<in> set ops" and
    match: "rstrip_dots (str_lower entry) = rstrip_dots (str_lower e) \<or>
      startswith e ''.'' \<and> endswith (str_lower entry) (str_lower e)"
    using permitted by (auto simp: operator_permits_def)
  have nd: "\<not> dotty (str_lower e)" using ops e by simp
  from match show ?thesis
  proof
    assume "rstrip_dots (str_lower entry) = rstrip_dots (str_lower e)"
    with admits e show ?thesis by (auto simp: Let_def)
  next
    assume m: "startswith e ''.'' \<and> endswith (str_lower entry) (str_lower e)"
    then have "endswith (rstrip_dots (str_lower entry)) (rstrip_dots (str_lower e))"
      using nd by (intro rstrip_suffix) auto
    then have "endswith (rstrip_dots (str_lower host)) (rstrip_dots (str_lower e))"
      using admits by (auto intro: endswith_trans)
    moreover have "startswith (rstrip_dots (str_lower e)) ''.''"
      using m nd by (intro rstrip_start startswith_dot_lower) auto
    ultimately show ?thesis using e by (auto simp: Let_def)
  qed
qed

lemma the_texts_subset: "s \<in> set (the_texts vs) \<Longrightarrow> JStr s \<in> set vs"
  by (auto simp: the_texts_def text_of_def split: json.splits)

lemma narrowed_member:
  "x \<in> set (if filter (\<lambda>s. s \<in> set bound) xs = [] then bound else filter (\<lambda>s. s \<in> set bound) xs) \<Longrightarrow>
     x \<in> set bound"
  by (auto split: if_splits)

lemma build_policy_Inr:
  assumes "build_policy dp config mr = Inr p"
  shows "\<exists>bytes redirects hosts.
    max_response_bytes_ceiling dp = Inr bytes \<and> max_redirects_ceiling dp = Inr redirects \<and>
    op_allow_private_addresses p = operator_allows_private_addresses dp \<and>
    set (op_allowed_schemes p) \<subseteq> set (operator_allowed_schemes dp) \<and>
    set (op_allowed_content_types p) \<subseteq> set (allowed_content_types_ceiling dp) \<and>
    op_max_redirects p \<le> redirects \<and> op_max_response_bytes p \<le> bytes \<and>
    op_allowed_hosts p = (if operator_host_allowlist dp \<noteq> []
       then filter (operator_permits (operator_host_allowlist dp)) hosts else hosts)"
  using assms unfolding build_policy_def Let_def
  by (auto split: sum.splits dest: narrowed_member)

lemma host_allowed_operator:
  assumes "build_policy dp config mr = Inr p" and "host_allowed p host"
    and "operator_host_allowlist dp \<noteq> []" and "\<forall>e \<in> set (operator_host_allowlist dp). \<not> dotty e"
  shows "host_allowed (p\<lparr>op_allowed_hosts := operator_host_allowlist dp\<rparr>) host"
proof -
  obtain hosts where hosts: "op_allowed_hosts p = filter (operator_permits (operator_host_allowlist dp)) hosts"
    using build_policy_Inr [OF assms(1)] assms(3) by auto
  obtain entry where entry: "operator_permits (operator_host_allowlist dp) entry"
    "rstrip_dots (str_lower host) = rstrip_dots (str_lower entry) \<or>
      startswith (rstrip_dots (str_lower entry)) ''.'' \<and>
      endswith (rstrip_dots (str_lower host)) (rstrip_dots (str_lower entry))"
    using assms(2) unfolding host_allowed_def hosts Let_def by auto
  from operator_permits_admits [OF entry(1) assms(4) entry(2)] show ?thesis
    by (simp add: host_allowed_def Let_def)
qed

section \<open>Properties\<close>

text \<open>
  A connector's configuration only narrows.  Whatever it contains, the policy built from it keeps
  the operator's private-address switch, uses only the operator's schemes and content types, stays
  under the operator's ceilings, and, where an operator allowlist is set, admits no host that the
  allowlist itself does not admit.
\<close>

theorem build_policy_narrows:
  assumes "build_policy dp config mr = Inr p"
  shows "op_allow_private_addresses p = operator_allows_private_addresses dp \<and>
    set (op_allowed_schemes p) \<subseteq> set (operator_allowed_schemes dp) \<and>
    set (op_allowed_content_types p) \<subseteq> set (allowed_content_types_ceiling dp) \<and>
    (\<exists>bytes redirects. max_response_bytes_ceiling dp = Inr bytes \<and> max_redirects_ceiling dp = Inr redirects \<and>
       op_max_response_bytes p \<le> bytes \<and> op_max_redirects p \<le> redirects) \<and>
    (operator_host_allowlist dp \<noteq> [] \<longrightarrow> (\<forall>e \<in> set (operator_host_allowlist dp). \<not> dotty e) \<longrightarrow>
       (\<forall>host. host_allowed p host \<longrightarrow>
          host_allowed (p\<lparr>op_allowed_hosts := operator_host_allowlist dp\<rparr>) host))"
proof -
  have "host_allowed (p\<lparr>op_allowed_hosts := operator_host_allowlist dp\<rparr>) host"
    if "host_allowed p host" "operator_host_allowlist dp \<noteq> []"
      "\<forall>e \<in> set (operator_host_allowlist dp). \<not> dotty e" for host
    using host_allowed_operator [OF assms that] .
  with build_policy_Inr [OF assms] show ?thesis by blast
qed

definition example_deployment :: deployment where
  "example_deployment =
     \<lparr>dp_getenv = (\<lambda>name. if name = ''OUTBOUND_HOST_ALLOWLIST'' then Some ''.example.com'' else None),
      dp_int = (\<lambda>_. None), dp_float = (\<lambda>_. None)\<rparr>"

definition greedy_config :: jobj where
  "greedy_config =
     [(''allowed_hosts'', JList [JStr ''evil.test'', JStr ''api.example.com'']),
      (''requested_schemes'', JList [JStr ''http'']),
      (''max_redirects'', JInt 100000), (''max_response_bytes'', JFloat PosInf)]"

theorem build_policy_narrows_witness:
  "\<exists>p. build_policy example_deployment greedy_config 3 = Inr p \<and>
     op_allowed_hosts p = [''api.example.com''] \<and> op_allow_private_addresses p = False \<and>
     op_allowed_schemes p = [''https''] \<and> op_max_redirects p = 3"
proof -
  let ?p = "\<lparr>op_allowed_hosts = [''api.example.com''], op_allowed_schemes = [''https''],
    op_allow_private_addresses = False, op_max_redirects = 3, op_max_response_bytes = 1048576,
    op_allowed_content_types = DEFAULT_CONTENT_TYPES\<rparr>"
  have p: "build_policy example_deployment greedy_config 3 = Inr ?p"
    by code_simp
  have "op_allow_private_addresses ?p = operator_allows_private_addresses example_deployment"
    using build_policy_narrows [OF p] by blast
  with p show ?thesis by simp
qed

text \<open>
  No configuration value can pin a socket: with a finite positive ceiling, the clamped timeout is
  a positive finite number that is at most the ceiling, for every JSON value, the non-finite floats
  and their spellings included; a usable value below the ceiling is kept as it is.
\<close>

theorem clamp_timeout_bounded:
  assumes "timeout_ceiling dp = Inr (Fin c)" and "0 < c" and "0 < dflt"
  shows "\<exists>q. clamp_timeout dp value dflt = Inr (Fin q) \<and> 0 < q \<and> q \<le> c \<and>
    (case float_of dp value of
       Some (Fin v) \<Rightarrow> q = (if v \<le> 0 then min dflt c else min v c)
     | _ \<Rightarrow> q = min dflt c)"
  using assms
  by (cases "float_of dp value") (auto simp: clamp_timeout_def float_min_def split: pyfloat.splits)

theorem clamp_timeout_bounded_witness:
  "clamp_timeout example_deployment (Some (JFloat NaN)) 10 = Inr (Fin 10) \<and>
   clamp_timeout example_deployment (Some (JInt 86400)) 10 = Inr (Fin 300)"
proof -
  have "timeout_ceiling example_deployment = Inr (Fin 300)"
    by (simp add: timeout_ceiling_def example_deployment_def)
  from clamp_timeout_bounded [OF this, of 10 "Some (JFloat NaN)"]
    clamp_timeout_bounded [OF this, of 10 "Some (JInt 86400)"]
  show ?thesis by (auto simp: float_of_def)
qed

text \<open>The exception: an allowlist entry that is a single dot admits what it does not name.\<close>

lemma dot_entry_permits_anything: "operator_permits [''.''] (host @ ''.'')"
  by (simp add: operator_permits_def startswith_def endswith_append str_lower_def char_lower_def)

end
