(* ===== verification/Outbound.thy ===== *)
theory Outbound
  imports Policy
begin

text \<open>
  \<open>security/outbound.py\<close>: the guarded request with its manual redirect loop.  The HTTP client, the
  resolver and \<open>httpx.URL.join\<close> are arguments; each may answer differently on every hop, so a
  name that changes its address between two hops is covered.  \<open>request\<close> returns the requests that
  were put on the wire together with its result.  httpx presents header names in lower case.
  The loop ends because each redirect counts against the budget of the policy.
\<close>

definition STRIPPED_REQUEST_HEADERS :: "string list" where
  "STRIPPED_REQUEST_HEADERS =
     [''authorization'', ''proxy-authorization'', ''cookie'', ''x-api-key'', ''connection'',
      ''keep-alive'', ''proxy-connection'', ''transfer-encoding'', ''upgrade'', ''te'', ''trailer'', ''host'']"

text \<open>
  Method and header values come from JSON configuration and reach the client unchecked, so they
  are JSON here; what httpx does with a value that is no string is part of the client argument.
\<close>

type_synonym headers = "(string \<times> json) list"
type_synonym response_headers = "(string \<times> string) list"

datatype request_body = NoBody | JsonBody json | RawBody string

record timeouts =
  tm_connect :: pyfloat
  tm_read :: pyfloat
  tm_total :: pyfloat

record sent_request =
  sq_method :: json
  sq_url :: string
  sq_headers :: headers
  sq_body :: request_body
  sq_timeouts :: timeouts
  sq_sni :: string

record http_response =
  hr_status :: int
  hr_headers :: response_headers
  hr_chunks :: "string list"

datatype http_outcome =
    HttpResponse http_response
  | HttpTimeout string string
  | HttpError string string  \<comment> \<open>exception type, message\<close>
  | HttpOther string string

record http_env =
  he_resolver :: "nat \<Rightarrow> resolver"
  he_client :: "nat \<Rightarrow> sent_request \<Rightarrow> http_outcome"
  he_join :: "string \<Rightarrow> string \<Rightarrow> string option"  \<comment> \<open>\<open>None\<close>: the location is no URL\<close>

datatype outbound_exn =
    BlockedBySsrf ssrf_error
  | ResponseTooLarge int
  | ContentTypeRejected string
  | TooManyRedirects int
  | TimeoutException string string
  | HTTPError string string
  | OtherException string string

record outbound_response =
  or_status_code :: int
  or_body :: string
  or_headers :: response_headers
  or_final_url :: string
  or_provider_request_id :: "string option"
  or_redirects :: int

definition sanitise_headers :: "headers \<Rightarrow> headers" where
  "sanitise_headers headers = filter (\<lambda>(k, v). str_lower k \<notin> set STRIPPED_REQUEST_HEADERS) headers"

fun read_capped :: "int \<Rightarrow> int \<Rightarrow> string list \<Rightarrow> string list \<Rightarrow> outbound_exn + string" where
  "read_capped limit received chunks [] = Inr (concat chunks)"
| "read_capped limit received chunks (chunk # rest) =
     (let received = received + int (length chunk)
      in if received > limit then Inl (ResponseTooLarge limit)
         else read_capped limit received (chunks @ [chunk]) rest)"

definition host_header :: "validated_target \<Rightarrow> string" where
  "host_header t =
     (if vt_port t \<in> {80, 443} then vt_host t else vt_host t @ '':'' @ dec_str (vt_port t))"

definition build_request ::
  "json \<Rightarrow> headers \<Rightarrow> request_body \<Rightarrow> timeouts \<Rightarrow> validated_target \<Rightarrow> sent_request" where
  "build_request mthd safe_headers body tms t =
     \<lparr>sq_method = mthd, sq_url = vt_pinned_url t,
      sq_headers = safe_headers @ [(''Host'', JStr (host_header t))],
      sq_body = body, sq_timeouts = tms, sq_sni = vt_host t\<rparr>"

definition redirect_status :: "int \<Rightarrow> bool" where
  "redirect_status s = (s \<in> {301, 302, 303, 307, 308})"

definition content_type_of :: "http_response \<Rightarrow> string" where
  "content_type_of r =
     (let raw = (case map_of (hr_headers r) ''content-type'' of None \<Rightarrow> [] | Some v \<Rightarrow> v)
      in py_strip (hd (split_on (CHR '';'') raw)))"

definition first_truthy :: "string option \<Rightarrow> string option \<Rightarrow> string option" where
  "first_truthy a b = (if truthy_text a then a else b)"

definition finish_response ::
  "outbound_policy \<Rightarrow> http_response \<Rightarrow> string \<Rightarrow> int \<Rightarrow> outbound_exn + outbound_response" where
  "finish_response policy r current_url redirects =
     (let content_type = content_type_of r
      in if content_type \<noteq> [] \<and> content_type \<notin> set (op_allowed_content_types policy)
         then Inl (ContentTypeRejected content_type)
         else case read_capped (op_max_response_bytes policy) 0 [] (hr_chunks r) of
                Inl e \<Rightarrow> Inl e
              | Inr body \<Rightarrow>
                  Inr \<lparr>or_status_code = hr_status r, or_body = body, or_headers = hr_headers r,
                       or_final_url = current_url,
                       or_provider_request_id =
                         first_truthy (map_of (hr_headers r) ''x-request-id'')
                           (map_of (hr_headers r) ''x-correlation-id''),
                       or_redirects = redirects\<rparr>)"

function request_loop ::
  "http_env \<Rightarrow> outbound_policy \<Rightarrow> json \<Rightarrow> headers \<Rightarrow> request_body \<Rightarrow> timeouts \<Rightarrow> nat \<Rightarrow> string \<Rightarrow>
   sent_request list \<times> (outbound_exn + outbound_response)" where
  "request_loop env policy mthd safe_headers body tms redirects current_url =
     (case validate_url (he_resolver env redirects) current_url policy of
        Inl e \<Rightarrow> ([], Inl (BlockedBySsrf e))
      | Inr target \<Rightarrow>
          let req = build_request mthd safe_headers body tms target
          in case he_client env redirects req of
            HttpTimeout ty msg \<Rightarrow> ([req], Inl (TimeoutException ty msg))
          | HttpError ty msg \<Rightarrow> ([req], Inl (HTTPError ty msg))
          | HttpOther ty msg \<Rightarrow> ([req], Inl (OtherException ty msg))
          | HttpResponse r \<Rightarrow>
              if redirect_status (hr_status r)
              then (case map_of (hr_headers r) ''location'' of
                      None \<Rightarrow> ([req], Inl (BlockedBySsrf (SSRFBlocked ''redirect_without_location'' (vt_host target))))
                    | Some location \<Rightarrow>
                        if location = []
                        then ([req], Inl (BlockedBySsrf (SSRFBlocked ''redirect_without_location'' (vt_host target))))
                        else if int redirects + 1 > op_max_redirects policy
                        then ([req], Inl (TooManyRedirects (op_max_redirects policy)))
                        else case he_join env current_url location of
                               None \<Rightarrow> ([req], Inl (OtherException ''InvalidURL'' location))
                             | Some next_url \<Rightarrow>
                                 (case request_loop env policy mthd safe_headers body tms (Suc redirects) next_url of
                                    (sent, res) \<Rightarrow> (req # sent, res)))
              else ([req], finish_response policy r current_url (int redirects)))"
  by pat_completeness auto
termination
  by (relation "measure (\<lambda>(env, policy, m, h, b, tms, redirects, u). nat (op_max_redirects policy) - redirects)")
    (auto simp: nat_less_iff)

declare request_loop.simps [simp del]

definition request ::
  "http_env \<Rightarrow> json \<Rightarrow> string \<Rightarrow> outbound_policy \<Rightarrow> request_body \<Rightarrow> headers \<Rightarrow> timeouts \<Rightarrow>
   sent_request list \<times> (outbound_exn + outbound_response)" where
  "request env mthd url policy body headers tms =
     request_loop env policy mthd (sanitise_headers headers) body tms 0 url"

section \<open>Reading the body\<close>

lemma read_capped_sum:
  "read_capped limit received chunks rest =
     (if rest \<noteq> [] \<and> received + int (length (concat rest)) > limit then Inl (ResponseTooLarge limit)
      else Inr (concat (chunks @ rest)))"
proof (induction rest arbitrary: received chunks)
  case Nil
  then show ?case by simp
next
  case (Cons chunk rest)
  show ?case
    using Cons.IH [of "received + int (length chunk)" "chunks @ [chunk]"]
    by (cases "rest = []") (auto simp: Let_def)
qed

lemma finish_response_Inr:
  assumes "finish_response policy r url n = Inr resp" and "0 \<le> op_max_response_bytes policy"
  shows "int (length (or_body resp)) \<le> op_max_response_bytes policy \<and>
    (content_type_of r = [] \<or> content_type_of r \<in> set (op_allowed_content_types policy)) \<and>
    or_status_code resp = hr_status r \<and> or_body resp = concat (hr_chunks r) \<and> or_redirects resp = n"
  using assms by (auto simp: finish_response_def read_capped_sum Let_def split: if_splits)

section \<open>The loop\<close>

text \<open>What holds of every request on the wire: it was validated and pinned on its own hop.\<close>

definition guarded :: 
  "http_env \<Rightarrow> outbound_policy \<Rightarrow> json \<Rightarrow> headers \<Rightarrow> request_body \<Rightarrow> timeouts \<Rightarrow> nat \<Rightarrow> sent_request \<Rightarrow> bool" where
  "guarded env policy mthd safe_headers body tms i req \<longleftrightarrow>
     (\<exists>url t. validate_url (he_resolver env i) url policy = Inr t \<and> req = build_request mthd safe_headers body tms t)"

lemma request_loop_guarded:
  "request_loop env policy mthd hs body tms n url = (sent, res) \<Longrightarrow>
     (\<forall>i < length sent. guarded env policy mthd hs body tms (n + i) (sent ! i)) \<and>
     length sent \<le> Suc (nat (op_max_redirects policy) - n)"
proof (induction env policy mthd hs body tms n url arbitrary: sent res rule: request_loop.induct)
  case (1 env policy mthd hs body tms n url)
  show ?case
  proof (cases "validate_url (he_resolver env n) url policy")
    case (Inl e)
    with 1(2) show ?thesis by (subst (asm) request_loop.simps) simp
  next
    case (Inr t)
    let ?req = "build_request mthd hs body tms t"
    have g: "guarded env policy mthd hs body tms n ?req"
      using Inr by (auto simp: guarded_def)
    show ?thesis
    proof (cases "\<exists>r location next_url. he_client env n ?req = HttpResponse r \<and> redirect_status (hr_status r) \<and>
        map_of (hr_headers r) ''location'' = Some location \<and> location \<noteq> [] \<and>
        int n + 1 \<le> op_max_redirects policy \<and> he_join env url location = Some next_url")
      case False
      with 1(2) Inr have "sent = [?req]"
        by (subst (asm) request_loop.simps)
          (auto simp: Let_def split: http_outcome.splits option.splits if_splits)
      with g show ?thesis by simp
    next
      case True
      then obtain r location next_url where r: "he_client env n ?req = HttpResponse r"
        "redirect_status (hr_status r)" "map_of (hr_headers r) ''location'' = Some location" "location \<noteq> []"
        "\<not> int n + 1 > op_max_redirects policy" "he_join env url location = Some next_url"
        by auto
      obtain sent' where sent': "request_loop env policy mthd hs body tms (Suc n) next_url = (sent', res)"
        "sent = ?req # sent'"
        using 1(2) Inr r by (subst (asm) request_loop.simps) (auto simp: Let_def split: prod.splits)
      have ih: "(\<forall>i < length sent'. guarded env policy mthd hs body tms (Suc n + i) (sent' ! i)) \<and>
          length sent' \<le> Suc (nat (op_max_redirects policy) - Suc n)"
        by (rule 1(1) [OF Inr refl r sent'(1)])
      moreover have "Suc (nat (op_max_redirects policy) - Suc n) = nat (op_max_redirects policy) - n"
        using r(5) by linarith
      ultimately show ?thesis
        using g sent'(2) by (auto simp: less_Suc_eq_0_disj)
    qed
  qed
qed

lemma request_first:
  "request env mthd url policy body headers tms = (req # rest, res) \<Longrightarrow>
     \<exists>t. validate_url (he_resolver env 0) url policy = Inr t \<and>
       req = build_request mthd (sanitise_headers headers) body tms t"
  unfolding request_def
  by (subst (asm) request_loop.simps)
    (auto simp: Let_def split: sum.splits http_outcome.splits option.splits if_splits prod.splits)

lemma request_length:
  "request env mthd url policy body headers tms = (sent, res) \<Longrightarrow>
     length sent \<le> Suc (nat (op_max_redirects policy))"
  unfolding request_def using request_loop_guarded by force

lemma request_loop_Inr:
  "request_loop env policy mthd hs body tms n url = (sent, Inr resp) \<Longrightarrow>
     \<exists>r url' m. finish_response policy r url' m = Inr resp \<and> \<not> redirect_status (hr_status r) \<and>
       sent \<noteq> [] \<and> m = int n + int (length sent) - 1"
proof (induction env policy mthd hs body tms n url arbitrary: sent rule: request_loop.induct)
  case (1 env policy mthd hs body tms n url)
  obtain t where t: "validate_url (he_resolver env n) url policy = Inr t"
    using 1(2) by (subst (asm) request_loop.simps) (auto split: sum.splits)
  let ?req = "build_request mthd hs body tms t"
  obtain r where r: "he_client env n ?req = HttpResponse r"
    using 1(2) t by (subst (asm) request_loop.simps) (auto simp: Let_def split: http_outcome.splits)
  show ?case
  proof (cases "redirect_status (hr_status r)")
    case False
    with 1(2) t r have "finish_response policy r url (int n) = Inr resp" "sent = [?req]"
      by (subst (asm) request_loop.simps; simp add: Let_def)+
    with False show ?thesis
      by (intro exI [of _ r] exI [of _ url] exI [of _ "int n"]) simp
  next
    case True
    with 1(2) t r obtain location next_url sent' where rest: "map_of (hr_headers r) ''location'' = Some location"
      "location \<noteq> []" "\<not> int n + 1 > op_max_redirects policy" "he_join env url location = Some next_url"
      "request_loop env policy mthd hs body tms (Suc n) next_url = (sent', Inr resp)" "sent = ?req # sent'"
      by (subst (asm) request_loop.simps) (auto simp: Let_def split: option.splits if_splits prod.splits)
    from 1(1) [OF t refl r True rest(1-5)] rest(6) show ?thesis by fastforce
  qed
qed

section \<open>Properties\<close>

text \<open>
  C10. However the server redirects and however names resolve from hop to hop, a call puts at most
  one request more than the redirect budget on the wire, and each of them went, with its SNI and
  Host, to a target that was validated on that very hop.
\<close>

theorem every_hop_is_guarded:
  assumes "request env mthd url policy body headers tms = (sent, res)"
  shows "length sent \<le> Suc (nat (op_max_redirects policy)) \<and>
    (\<forall>i < length sent. \<exists>hop_url t.
       validate_url (he_resolver env i) hop_url policy = Inr t \<and>
       sq_url (sent ! i) = vt_pinned_url t \<and> sq_timeouts (sent ! i) = tms \<and> sq_sni (sent ! i) = vt_host t \<and>
       sq_headers (sent ! i) = sanitise_headers headers @ [(''Host'', JStr (host_header t))])"
proof -
  note loop = request_loop_guarded [OF assms [unfolded request_def]]
  have "\<exists>hop_url t. validate_url (he_resolver env i) hop_url policy = Inr t \<and>
       sq_url (sent ! i) = vt_pinned_url t \<and> sq_timeouts (sent ! i) = tms \<and> sq_sni (sent ! i) = vt_host t \<and>
       sq_headers (sent ! i) = sanitise_headers headers @ [(''Host'', JStr (host_header t))]"
    if "i < length sent" for i
  proof -
    have "guarded env policy mthd (sanitise_headers headers) body tms i (sent ! i)"
      using loop that by simp
    then obtain hop_url t where "validate_url (he_resolver env i) hop_url policy = Inr t"
      "sent ! i = build_request mthd (sanitise_headers headers) body tms t"
      unfolding guarded_def by blast
    then show ?thesis
      by (intro exI [of _ hop_url] exI [of _ t]) (simp add: build_request_def)
  qed
  with loop show ?thesis by simp
qed

text \<open>A server that answers every request with a redirect to the same place, and one that answers.\<close>

definition loop_env :: http_env where
  "loop_env =
     \<lparr>he_resolver = (\<lambda>_ _ _. Inr [''93.184.216.34'']),
      he_client = (\<lambda>_ _. HttpResponse \<lparr>hr_status = 302, hr_headers = [(''location'', ''/'')], hr_chunks = []\<rparr>),
      he_join = (\<lambda>base location. Some base)\<rparr>"

definition ok_env :: http_env where
  "ok_env =
     \<lparr>he_resolver = (\<lambda>_ _ _. Inr [''93.184.216.34'']),
      he_client = (\<lambda>_ _. HttpResponse \<lparr>hr_status = 200,
        hr_headers = [(''content-type'', ''application/json'')], hr_chunks = [''{'', ''}'']\<rparr>),
      he_join = (\<lambda>base location. Some base)\<rparr>"

definition api_target :: validated_target where
  "api_target = \<lparr>vt_url = ''https://api.example.com/v1'', vt_host = ''api.example.com'', vt_port = 443,
    vt_scheme = ''https'', vt_address = ''93.184.216.34'', vt_pinned_url = ''https://93.184.216.34:443/v1''\<rparr>"

lemma api_target: "validate_url (\<lambda>_ _. Inr [''93.184.216.34'']) ''https://api.example.com/v1'' example_policy = Inr api_target"
  unfolding api_target_def by code_simp

definition no_limits :: timeouts where
  "no_limits = \<lparr>tm_connect = PosInf, tm_read = PosInf, tm_total = PosInf\<rparr>"

definition one_hop_policy :: outbound_policy where
  "one_hop_policy = example_policy\<lparr>op_max_redirects := 1\<rparr>"

lemma api_target_one_hop:
  "validate_url (\<lambda>_ _. Inr [''93.184.216.34'']) ''https://api.example.com/v1'' one_hop_policy = Inr api_target"
  unfolding api_target_def by code_simp

theorem every_hop_is_guarded_witness:
  "\<exists>sent res. request loop_env (JStr ''GET'') ''https://api.example.com/v1'' one_hop_policy NoBody [] no_limits = (sent, res) \<and>
     length sent \<le> 2 \<and> res = Inl (TooManyRedirects 1)"
proof -
  have one: "op_max_redirects one_hop_policy = 1"
    by (simp add: one_hop_policy_def)
  have step: "request_loop loop_env one_hop_policy (JStr ''GET'') [] NoBody no_limits n ''https://api.example.com/v1'' =
      (let req = build_request (JStr ''GET'') [] NoBody no_limits api_target
       in if int n + 1 > 1 then ([req], Inl (TooManyRedirects 1))
          else case request_loop loop_env one_hop_policy (JStr ''GET'') [] NoBody no_limits (Suc n) ''https://api.example.com/v1'' of
            (sent, res) \<Rightarrow> (req # sent, res))" for n
    by (subst request_loop.simps)
      (simp add: loop_env_def api_target_one_hop redirect_status_def Let_def one)
  have "\<exists>sent. request loop_env (JStr ''GET'') ''https://api.example.com/v1'' one_hop_policy NoBody [] no_limits =
      (sent, Inl (TooManyRedirects 1))"
    unfolding request_def sanitise_headers_def by (simp add: step [of 0] step [of "Suc 0"] Let_def)
  then obtain sent where r: "request loop_env (JStr ''GET'') ''https://api.example.com/v1'' one_hop_policy NoBody [] no_limits =
      (sent, Inl (TooManyRedirects 1))" by blast
  from every_hop_is_guarded [OF r] have "length sent \<le> 2"
    by (simp add: one)
  with r show ?thesis by blast
qed

text \<open>
  A response that is returned is bounded and of an allowed type: its body is the bytes received
  and no longer than the cap, its content type is allowed when it names one, its status is not a
  redirect, and its redirect count is the number of hops taken and within the budget.
\<close>

theorem returned_response_is_bounded:
  assumes "request env mthd url policy body headers tms = (sent, Inr resp)"
    and "0 \<le> op_max_response_bytes policy" and "0 \<le> op_max_redirects policy"
  shows "int (length (or_body resp)) \<le> op_max_response_bytes policy \<and>
    \<not> redirect_status (or_status_code resp) \<and>
    0 \<le> or_redirects resp \<and> or_redirects resp \<le> op_max_redirects policy \<and>
    or_redirects resp = int (length sent) - 1 \<and>
    (\<exists>r. or_status_code resp = hr_status r \<and> or_body resp = concat (hr_chunks r) \<and>
       (content_type_of r = [] \<or> content_type_of r \<in> set (op_allowed_content_types policy)))"
proof -
  note loop = assms(1) [unfolded request_def]
  obtain r url' m where r: "finish_response policy r url' m = Inr resp" "\<not> redirect_status (hr_status r)"
    "sent \<noteq> []" "m = int 0 + int (length sent) - 1"
    using request_loop_Inr [OF loop] by blast
  have "length sent \<le> Suc (nat (op_max_redirects policy))"
    using request_loop_guarded [OF loop] by simp
  then have "m \<le> op_max_redirects policy" "0 \<le> m"
    using r(3,4) assms(3) by (cases sent; auto)+
  with finish_response_Inr [OF r(1) assms(2)] r show ?thesis by auto
qed

theorem returned_response_is_bounded_witness:
  "\<exists>sent resp. request ok_env (JStr ''GET'') ''https://api.example.com/v1'' example_policy NoBody [] no_limits = (sent, Inr resp) \<and>
     or_body resp = ''{}'' \<and> or_redirects resp \<le> 3"
proof -
  have fields: "op_max_response_bytes example_policy = 1048576"
    "op_allowed_content_types example_policy = [''application/json'']" "op_max_redirects example_policy = 3"
    by (simp_all add: example_policy_def)
  have "\<exists>sent resp. request_loop ok_env example_policy (JStr ''GET'') [] NoBody no_limits 0 ''https://api.example.com/v1'' =
      (sent, Inr resp) \<and> or_body resp = ''{}''"
    by (subst request_loop.simps)
      (simp add: ok_env_def api_target redirect_status_def finish_response_def content_type_of_def
        fields py_strip_def is_space_def)
  then obtain sent resp where r: "request ok_env (JStr ''GET'') ''https://api.example.com/v1'' example_policy NoBody [] no_limits =
      (sent, Inr resp)" "or_body resp = ''{}''"
    by (auto simp: request_def sanitise_headers_def)
  from returned_response_is_bounded [OF r(1)] r show ?thesis
    by (auto simp: fields)
qed

text \<open>
  No inbound credential and no hop-by-hop header leaves the gateway, in any spelling of its name,
  and every other header is forwarded unchanged and in order.
\<close>

theorem sanitised_headers_exact:
  "(\<forall>(k, v) \<in> set (sanitise_headers headers). str_lower k \<notin> set STRIPPED_REQUEST_HEADERS) \<and>
   (\<forall>(k, v) \<in> set headers. str_lower k \<notin> set STRIPPED_REQUEST_HEADERS \<longrightarrow> (k, v) \<in> set (sanitise_headers headers)) \<and>
   subseq (sanitise_headers headers) headers"
  by (auto simp: sanitise_headers_def)

theorem sanitised_headers_exact_witness:
  "(''X-Trace'', JStr ''1'') \<in> set (sanitise_headers [(''Authorization'', JStr ''Bearer t''), (''X-Trace'', JStr ''1'')])"
  using sanitised_headers_exact [THEN conjunct2, THEN conjunct1, of "[(''Authorization'', JStr ''Bearer t''), (''X-Trace'', JStr ''1'')]"]
  by (simp add: STRIPPED_REQUEST_HEADERS_def str_lower_def char_lower_def)

end
