(* ===== verification/AdapterBase.thy ===== *)
theory AdapterBase
  imports Outbound Secrets
begin

text \<open>
  \<open>adapters/base.py\<close> and \<open>adapters/registry.py\<close>: error codes, statuses, the values an adapter
  receives and returns, and the registry of adapters.  \<open>python\<close> gathers the library functions the
  adapters call on data the model does not look into: \<open>str\<close> and \<open>repr\<close> of JSON values,
  \<open>json.loads\<close>, \<open>json.dumps\<close>, UTF-8 decoding, HMAC, ISO timestamps, the host of an
  \<open>httpx.URL\<close> and the text of a built-in exception.  An adapter's \<open>invoke\<close> returns the requests it sent together
  with its result or the exception it raised (type name and message).

  \<open>connector_adapter\<close> is the protocol \<open>ConnectorAdapter\<close> as the invocation runtime relies on it.
\<close>

datatype error_code =
    CONFIG_INVALID | UNKNOWN_KIND | CONNECTOR_DISABLED | CONNECTOR_DELETION_PENDING
  | CONNECTOR_GONE | CONNECTOR_REVOKED | CONNECTOR_NOT_VALIDATED | SECRET_NOT_FOUND
  | SSRF_BLOCKED | HOST_NOT_ALLOWED | UPSTREAM_TIMEOUT | UPSTREAM_UNAVAILABLE | UPSTREAM_ERROR
  | UPSTREAM_CLIENT_ERROR | RESPONSE_TOO_LARGE | CONTENT_TYPE_REJECTED | TOO_MANY_REDIRECTS
  | DEADLINE_EXCEEDED | SERVICE_NOT_REGISTERED | OPERATION_NOT_SUPPORTED

fun code_value :: "error_code \<Rightarrow> string" where
  "code_value CONFIG_INVALID = ''CONFIG_INVALID''"
| "code_value UNKNOWN_KIND = ''UNKNOWN_KIND''"
| "code_value CONNECTOR_DISABLED = ''CONNECTOR_DISABLED''"
| "code_value CONNECTOR_DELETION_PENDING = ''CONNECTOR_DELETION_PENDING''"
| "code_value CONNECTOR_GONE = ''CONNECTOR_GONE''"
| "code_value CONNECTOR_REVOKED = ''CONNECTOR_REVOKED''"
| "code_value CONNECTOR_NOT_VALIDATED = ''CONNECTOR_NOT_VALIDATED''"
| "code_value SECRET_NOT_FOUND = ''SECRET_NOT_FOUND''"
| "code_value SSRF_BLOCKED = ''SSRF_BLOCKED''"
| "code_value HOST_NOT_ALLOWED = ''HOST_NOT_ALLOWED''"
| "code_value UPSTREAM_TIMEOUT = ''UPSTREAM_TIMEOUT''"
| "code_value UPSTREAM_UNAVAILABLE = ''UPSTREAM_UNAVAILABLE''"
| "code_value UPSTREAM_ERROR = ''UPSTREAM_ERROR''"
| "code_value UPSTREAM_CLIENT_ERROR = ''UPSTREAM_CLIENT_ERROR''"
| "code_value RESPONSE_TOO_LARGE = ''RESPONSE_TOO_LARGE''"
| "code_value CONTENT_TYPE_REJECTED = ''CONTENT_TYPE_REJECTED''"
| "code_value TOO_MANY_REDIRECTS = ''TOO_MANY_REDIRECTS''"
| "code_value DEADLINE_EXCEEDED = ''DEADLINE_EXCEEDED''"
| "code_value SERVICE_NOT_REGISTERED = ''SERVICE_NOT_REGISTERED''"
| "code_value OPERATION_NOT_SUPPORTED = ''OPERATION_NOT_SUPPORTED''"

definition RETRYABLE_CODES :: "error_code set" where
  "RETRYABLE_CODES = {UPSTREAM_TIMEOUT, UPSTREAM_UNAVAILABLE, UPSTREAM_ERROR}"

datatype idempotency_mode = PROVIDER_KEY | READ_ONLY | GATEWAY_DEDUP_ONLY | UNSUPPORTED

fun mode_value :: "idempotency_mode \<Rightarrow> string" where
  "mode_value PROVIDER_KEY = ''provider_key''"
| "mode_value READ_ONLY = ''read_only''"
| "mode_value GATEWAY_DEDUP_ONLY = ''gateway_dedup_only''"
| "mode_value UNSUPPORTED = ''unsupported''"

datatype invocation_status =
    ACCEPTED | RUNNING | SUCCEEDED | FAILED_RETRYABLE | FAILED_TERMINAL | TIMED_OUT | CANCELLED

fun status_value :: "invocation_status \<Rightarrow> string" where
  "status_value ACCEPTED = ''accepted''"
| "status_value RUNNING = ''running''"
| "status_value SUCCEEDED = ''succeeded''"
| "status_value FAILED_RETRYABLE = ''failed_retryable''"
| "status_value FAILED_TERMINAL = ''failed_terminal''"
| "status_value TIMED_OUT = ''timed_out''"
| "status_value CANCELLED = ''cancelled''"

definition TERMINAL_STATUSES :: "invocation_status set" where
  "TERMINAL_STATUSES = {SUCCEEDED, FAILED_TERMINAL, TIMED_OUT, CANCELLED}"

record validation_result =
  vr_valid :: bool
  vr_errors :: "string list"
  vr_supports_idempotency :: bool
  vr_idempotency_mode :: idempotency_mode

definition validation_ok :: "bool \<Rightarrow> idempotency_mode \<Rightarrow> validation_result" where
  "validation_ok supports mode =
     \<lparr>vr_valid = True, vr_errors = [], vr_supports_idempotency = supports, vr_idempotency_mode = mode\<rparr>"

definition validation_failed :: "string list \<Rightarrow> validation_result" where
  "validation_failed errors =
     \<lparr>vr_valid = False, vr_errors = errors, vr_supports_idempotency = False,
      vr_idempotency_mode = UNSUPPORTED\<rparr>"

record health_result =
  hl_healthy :: bool
  hl_detail :: string
  hl_checked_at :: "time option"
  hl_latency_ms :: "rat option"

definition unhealthy :: "string \<Rightarrow> time \<Rightarrow> health_result" where
  "unhealthy detail started =
     \<lparr>hl_healthy = False, hl_detail = detail, hl_checked_at = Some started, hl_latency_ms = None\<rparr>"

record connector_context =
  cc_connector_id :: string
  cc_connector_version :: int
  cc_kind :: string
  cc_config :: jobj
  cc_tenant_id :: string

definition DEFAULT_CONTEXT_TENANT :: string where
  "DEFAULT_CONTEXT_TENANT = ''default''"

record invocation_request =
  rq_invocation_id :: string
  rq_connector_id :: string
  rq_operation :: string
  rq_payload :: jobj
  rq_idempotency_key :: string
  rq_actor_id :: string
  rq_tenant_id :: string
  rq_deadline_at :: time
  rq_trace_id :: "string option"
  rq_attempt :: int

definition seconds_remaining :: "invocation_request \<Rightarrow> time \<Rightarrow> rat" where
  "seconds_remaining r now = max 0 (rq_deadline_at r - now)"

record invocation_result =
  ir_status :: invocation_status
  ir_output :: jobj
  ir_error_code :: "error_code option"
  ir_error_detail :: string
  ir_retryable :: bool
  ir_provider_request_id :: "string option"
  ir_started_at :: "time option"
  ir_completed_at :: "time option"
  ir_audit_metadata :: jobj

definition duration_ms :: "invocation_result \<Rightarrow> rat option" where
  "duration_ms r =
     (case (ir_started_at r, ir_completed_at r) of
        (Some s, Some c) \<Rightarrow> Some ((c - s) * 1000)
      | _ \<Rightarrow> None)"

definition failure_status :: "error_code \<Rightarrow> invocation_status" where
  "failure_status code =
     (if code \<in> {UPSTREAM_TIMEOUT, DEADLINE_EXCEEDED} then TIMED_OUT
      else if code \<in> RETRYABLE_CODES then FAILED_RETRYABLE
      else FAILED_TERMINAL)"

definition failure ::
  "error_code \<Rightarrow> string \<Rightarrow> time option \<Rightarrow> time option \<Rightarrow> string option \<Rightarrow> jobj \<Rightarrow> invocation_result" where
  "failure code detail started_at completed_at provider_request_id audit_metadata =
     \<lparr>ir_status = failure_status code,
      ir_output = [],
      ir_error_code = Some code,
      ir_error_detail = take 1000 detail,
      ir_retryable = (code \<in> RETRYABLE_CODES),
      ir_provider_request_id = provider_request_id,
      ir_started_at = started_at,
      ir_completed_at = completed_at,
      ir_audit_metadata = audit_metadata\<rparr>"

section \<open>Exceptions\<close>

record python =
  py_str_other :: "json \<Rightarrow> string"
  py_repr :: "json \<Rightarrow> string"
  py_loads :: "string \<Rightarrow> json option"
  py_dumps :: "json \<Rightarrow> string"
  py_decode :: "string \<Rightarrow> string"
  py_hmac_sha256 :: "string \<Rightarrow> string \<Rightarrow> string"
  py_isoformat :: "time \<Rightarrow> string"
  py_url_host :: "string \<Rightarrow> string option"
  py_message :: "string \<Rightarrow> string"

datatype raised = Raised string string  \<comment> \<open>type name, message\<close>

definition py_str :: "python \<Rightarrow> json \<Rightarrow> string" where
  "py_str py v = (case v of JStr s \<Rightarrow> s | _ \<Rightarrow> py_str_other py v)"

definition int_str :: "int \<Rightarrow> string" where
  "int_str n = (if n < 0 then CHR ''-'' # dec_str (- n) else dec_str n)"

definition raise_builtin :: "python \<Rightarrow> string \<Rightarrow> raised" where
  "raise_builtin py ty = Raised ty (py_message py ty)"

fun py_raised :: "python \<Rightarrow> py_exn \<Rightarrow> raised" where
  "py_raised py (PyValueError s) = raise_builtin py ''ValueError''"
| "py_raised py PyTypeError = raise_builtin py ''TypeError''"
| "py_raised py PyAttributeError = raise_builtin py ''AttributeError''"
| "py_raised py (PyKeyError k) = Raised ''KeyError'' (quoted k)"

definition ssrf_text :: "string \<Rightarrow> string \<Rightarrow> string" where
  "ssrf_text reason detail = (if detail = [] then reason else reason @ '': '' @ detail)"

fun too_large_text :: "int \<Rightarrow> string" where
  "too_large_text limit = ''response exceeded '' @ int_str limit @ '' bytes''"

fun too_many_text :: "int \<Rightarrow> string" where
  "too_many_text n = ''exceeded '' @ int_str n @ '' redirects''"

fun outbound_raised :: "python \<Rightarrow> outbound_exn \<Rightarrow> raised" where
  "outbound_raised py (BlockedBySsrf (SSRFBlocked reason detail)) = Raised ''SSRFBlocked'' (ssrf_text reason detail)"
| "outbound_raised py (BlockedBySsrf UrlValueError) = raise_builtin py ''ValueError''"
| "outbound_raised py (ResponseTooLarge n) = Raised ''ResponseTooLarge'' (too_large_text n)"
| "outbound_raised py (ContentTypeRejected t) = Raised ''ContentTypeRejected'' t"
| "outbound_raised py (TooManyRedirects n) = Raised ''TooManyRedirects'' (too_many_text n)"
| "outbound_raised py (TimeoutException ty msg) = Raised ty msg"
| "outbound_raised py (HTTPError ty msg) = Raised ty msg"
| "outbound_raised py (OtherException ty msg) = Raised ty msg"

fun secret_raised :: "secret_error \<Rightarrow> raised" where
  "secret_raised (SecretNotFound r) = Raised ''SecretNotFound'' (''secret reference not resolvable: '' @ r)"
| "secret_raised (SecretNotPermitted r why) = Raised ''SecretNotPermitted'' (permission_message r why)"

section \<open>The environment of one adapter call\<close>

record adapter_env =
  ae_py :: python
  ae_dp :: deployment
  ae_http :: http_env
  ae_resolve :: "string \<Rightarrow> string \<Rightarrow> string \<Rightarrow> secret_error + string"
  ae_started :: time
  ae_completed :: time

type_synonym invoke_outcome = "sent_request list \<times> (raised + invocation_result)"

text \<open>\<open>failure(code, detail, started_at=started, completed_at=now)\<close>.\<close>

definition fail_now :: "adapter_env \<Rightarrow> error_code \<Rightarrow> string \<Rightarrow> invocation_result" where
  "fail_now env code detail = failure code detail (Some (ae_started env)) (Some (ae_completed env)) None []"

definition get_str :: "python \<Rightarrow> string \<Rightarrow> jobj \<Rightarrow> string" where
  "get_str py key config = (case jget key config of None \<Rightarrow> [] | Some v \<Rightarrow> py_str py v)"

definition get_json :: "string \<Rightarrow> json \<Rightarrow> jobj \<Rightarrow> json" where
  "get_json key dflt config = (case jget key config of None \<Rightarrow> dflt | Some v \<Rightarrow> v)"

definition lstrip_slash :: "string \<Rightarrow> string" where
  "lstrip_slash s = dropWhile (\<lambda>c. c = CHR ''/'') s"

text \<open>A JSON body, or its first 4000 characters when it is not JSON.\<close>

definition parse_body :: "python \<Rightarrow> string \<Rightarrow> jobj" where
  "parse_body py body =
     (let output =
        (if body = [] then JObj []
         else case py_loads py body of
                Some v \<Rightarrow> v
              | None \<Rightarrow> JObj [(''raw'', JStr (take 4000 (py_decode py body)))])
      in case output of JObj d \<Rightarrow> d | v \<Rightarrow> [(''result'', v)])"

section \<open>The registry of adapters\<close>

record adapter =
  ad_kind :: string
  ad_validate :: "adapter_env \<Rightarrow> jobj \<Rightarrow> raised + validation_result"
  ad_health :: "adapter_env \<Rightarrow> connector_context \<Rightarrow> raised + health_result"
  ad_invoke :: "adapter_env \<Rightarrow> invocation_request \<Rightarrow> connector_context \<Rightarrow> invoke_outcome"

type_synonym adapter_registry = "(string \<times> adapter) list"

definition register :: "adapter \<Rightarrow> adapter_registry \<Rightarrow> string + adapter_registry" where
  "register a reg =
     (if ad_kind a = [] then Inl ''adapter must declare a non-empty `kind`''
      else if ad_kind a \<in> set (map fst reg)
      then Inl (''adapter kind '' @ quoted (ad_kind a) @ '' is already registered'')
      else Inr (reg @ [(ad_kind a, a)]))"

definition kinds :: "adapter_registry \<Rightarrow> string list" where
  "kinds reg = sort (map fst reg)"

definition has_kind :: "adapter_registry \<Rightarrow> string \<Rightarrow> bool" where
  "has_kind reg kind = (kind \<in> set (map fst reg))"

text \<open>\<open>Inl\<close> carries the kinds named by UnknownAdapterKind.\<close>

definition get_adapter :: "adapter_registry \<Rightarrow> string \<Rightarrow> string list + adapter" where
  "get_adapter reg kind =
     (case map_of reg kind of None \<Rightarrow> Inl (kinds reg) | Some a \<Rightarrow> Inr a)"

definition unknown_kind_text :: "python \<Rightarrow> string \<Rightarrow> string list \<Rightarrow> string" where
  "unknown_kind_text py kind known =
     ''no adapter registered for kind '' @ quoted kind @ ''; registered kinds: ''
     @ py_repr py (JList (map JStr known))"

definition register_all :: "adapter list \<Rightarrow> string + adapter_registry" where
  "register_all adapters =
     foldl (\<lambda>acc a. case acc of Inl e \<Rightarrow> Inl e | Inr reg \<Rightarrow> register a reg) (Inr []) adapters"

section \<open>Well-formed results\<close>

definition result_ok :: "invocation_result \<Rightarrow> bool" where
  "result_ok r \<longleftrightarrow>
     (case ir_error_code r of
        None \<Rightarrow> ir_status r = SUCCEEDED \<and> \<not> ir_retryable r
      | Some code \<Rightarrow>
          ir_status r = failure_status code \<and> ir_retryable r = (code \<in> RETRYABLE_CODES) \<and>
          length (ir_error_detail r) \<le> 1000 \<and> ir_output r = [])"

lemma failure_ok [simp]: "result_ok (failure code detail s c p m)"
  by (simp add: result_ok_def failure_def)

lemma fail_now_ok [simp]: "result_ok (fail_now env code detail)"
  by (simp add: fail_now_def)

lemma failure_status_not_success [simp]: "failure_status code \<noteq> SUCCEEDED" "failure_status code \<noteq> ACCEPTED"
  "failure_status code \<noteq> RUNNING"
  by (simp_all add: failure_status_def)

lemma result_ok_status: "result_ok r \<Longrightarrow> ir_status r \<notin> {ACCEPTED, RUNNING, CANCELLED}"
  by (auto simp: result_ok_def failure_status_def split: option.splits if_splits)

locale connector_adapter =
  fixes invoke :: "adapter_env \<Rightarrow> invocation_request \<Rightarrow> connector_context \<Rightarrow> invoke_outcome"
  assumes invoke_result_ok: "invoke env rq cc = (sent, Inr res) \<Longrightarrow> result_ok res"
    and no_dispatch_after_deadline:
      "seconds_remaining rq (ae_started env) = 0 \<Longrightarrow> fst (invoke env rq cc) = []"
begin

lemma success_has_no_error:
  "invoke env rq cc = (sent, Inr res) \<Longrightarrow> ir_status res = SUCCEEDED \<longleftrightarrow> ir_error_code res = None"
  using invoke_result_ok [of env rq cc sent res] by (auto simp: result_ok_def split: option.splits)

lemma retryable_iff:
  "invoke env rq cc = (sent, Inr res) \<Longrightarrow>
     ir_retryable res \<longleftrightarrow> (\<exists>code \<in> RETRYABLE_CODES. ir_error_code res = Some code)"
  using invoke_result_ok [of env rq cc sent res] by (auto simp: result_ok_def split: option.splits)

lemma terminal_status:
  "invoke env rq cc = (sent, Inr res) \<Longrightarrow> ir_status res \<notin> {ACCEPTED, RUNNING, CANCELLED}"
  using invoke_result_ok result_ok_status by blast

end

section \<open>Registration\<close>

lemma register_distinct:
  "register a reg = Inr reg' \<Longrightarrow> distinct (map fst reg) \<Longrightarrow>
     distinct (map fst reg') \<and> get_adapter reg' (ad_kind a) = Inr a \<and>
     (\<forall>kind. has_kind reg kind \<longrightarrow> get_adapter reg' kind = get_adapter reg kind)"
proof -
  assume reg: "register a reg = Inr reg'" and dist: "distinct (map fst reg)"
  then have fresh: "ad_kind a \<notin> set (map fst reg)" and reg': "reg' = reg @ [(ad_kind a, a)]"
    by (simp_all add: register_def split: if_splits)
  have none: "map_of reg (ad_kind a) = None"
    using fresh by (simp add: map_of_eq_None_iff)
  have kept: "get_adapter reg' kind = get_adapter reg kind" if "has_kind reg kind" for kind
    using that
    by (cases "map_of reg kind") (simp_all add: reg' get_adapter_def has_kind_def map_add_def map_of_eq_None_iff)
  have "get_adapter reg' (ad_kind a) = Inr a"
    using none by (simp add: reg' get_adapter_def map_add_def)
  with dist fresh kept show ?thesis
    by (simp add: reg')
qed

end
