(* ===== verification/InternalAdapter.thy ===== *)
theory InternalAdapter
  imports AdapterBase
begin

text \<open>
  \<open>adapters/internal.py\<close>: services addressed by registered name.  The registry is read from the
  environment when the adapter is built; a dictionary is its list of entries, later entries winning.
\<close>

definition safe_char :: "char \<Rightarrow> bool" where
  "safe_char c \<longleftrightarrow> is_alnum c \<or> c \<in> set ''._~/-''"

definition registry_entry :: "string \<Rightarrow> (string \<times> string) option" where
  "registry_entry raw =
     (let entry = py_strip raw
      in case partition_on (CHR ''='') entry of (name, sep, base) \<Rightarrow>
           if entry = [] \<or> \<not> sep then None
           else Some (py_strip name, rstrip_char (CHR ''/'') (py_strip base)))"

definition load_registry :: "deployment \<Rightarrow> (string \<times> string) list" where
  "load_registry dp =
     map the (filter (\<lambda>e. e \<noteq> None)
       (map registry_entry (split_on (CHR '','') (getenv_or dp ''INTERNAL_SERVICE_REGISTRY'' []))))"

definition lookup_service :: "(string \<times> string) list \<Rightarrow> string \<Rightarrow> string option" where
  "lookup_service reg name = map_of (rev reg) name"

definition internal_policy :: "deployment \<Rightarrow> string \<Rightarrow> py_exn + outbound_policy" where
  "internal_policy dp host =
     (case int_env dp ''INTERNAL_MAX_RESPONSE_BYTES'' 1048576 of
        Inl e \<Rightarrow> Inl e
      | Inr n \<Rightarrow>
          Inr \<lparr>op_allowed_hosts = [host], op_allowed_schemes = [''http'', ''https''],
               op_allow_private_addresses = True, op_max_redirects = 0, op_max_response_bytes = n,
               op_allowed_content_types = DEFAULT_CONTENT_TYPES\<rparr>)"

definition operation_error :: "python \<Rightarrow> string \<Rightarrow> string option" where
  "operation_error py operation =
     (if operation = [] then Some ''config.operation is required''
      else if \<not> list_all safe_char operation
      then Some (''config.operation '' @ py_repr py (JStr operation) @
             '' may contain only letters, digits, '' @ quoted ''-'' @ '', '' @ quoted ''_'' @ '', ''
             @ quoted ''/'' @ '' and '' @ quoted ''.'' @ '', with no '' @ quoted ''..'' @ '' segment'')
      else if ''..'' \<in> set (split_on (CHR ''/'') operation)
      then Some (''config.operation may not contain a '' @ quoted ''..'' @ '' segment'')
      else None)"

definition hashable :: "json \<Rightarrow> bool" where
  "hashable v = (case v of JList _ \<Rightarrow> False | JObj _ \<Rightarrow> False | _ \<Rightarrow> True)"

definition service_error ::
  "python \<Rightarrow> (string \<times> string) list \<Rightarrow> json option \<Rightarrow> py_exn + string list" where
  "service_error py reg service =
     (if \<not> truthy_opt service then Inr [''config.service is required'']
      else if \<not> hashable (the service) then Inl PyTypeError
      else case the service of
             JStr s \<Rightarrow>
               if lookup_service reg s \<noteq> None then Inr []
               else Inr [''service '' @ quoted s @ '' is not registered; known services: '' @
                  (if reg = [] then ''none''
                   else py_repr py (JList (map JStr (sort (remdups (map fst reg))))))]
           | v \<Rightarrow> Inr [''service '' @ quoted (py_str py v) @ '' is not registered; known services: '' @
                  (if reg = [] then ''none''
                   else py_repr py (JList (map JStr (sort (remdups (map fst reg))))))])"

definition internal_validate ::
  "(string \<times> string) list \<Rightarrow> adapter_env \<Rightarrow> jobj \<Rightarrow> raised + validation_result" where
  "internal_validate reg env config =
     (case service_error (ae_py env) reg (jget ''service'' config) of
        Inl e \<Rightarrow> Inl (py_raised (ae_py env) e)
      | Inr service_errors \<Rightarrow>
          let operation = jget ''operation'' config;
              errors = service_errors
                @ (case operation_error (ae_py env)
                          (if truthy_opt operation then py_str (ae_py env) (the operation) else []) of
                     None \<Rightarrow> [] | Some e \<Rightarrow> [e])
                @ (if jhas ''url'' config
                   then [''config.url is not permitted; address services by name''] else [])
          in Inr (if errors \<noteq> [] then validation_failed errors
                  else validation_ok True GATEWAY_DEDUP_ONLY))"

text \<open>\<open>_target\<close>: the base URL and the raw operation, or the service that is not registered.\<close>

definition internal_target ::
  "(string \<times> string) list \<Rightarrow> jobj \<Rightarrow> (py_exn + json) + string \<times> json" where
  "internal_target reg config =
     (let service = get_json ''service'' (JStr []) config
      in if \<not> hashable service then Inl (Inl PyTypeError)
         else case service of
                JStr s \<Rightarrow>
                  (case lookup_service reg s of
                     None \<Rightarrow> Inl (Inr service)
                   | Some base \<Rightarrow> Inr (base, get_json ''operation'' (JStr []) config))
              | _ \<Rightarrow> Inl (Inr service))"

definition outcome_metadata :: "int \<Rightarrow> jobj" where
  "outcome_metadata status = [(''http_status'', JInt status)]"

definition internal_classify :: "adapter_env \<Rightarrow> outbound_response \<Rightarrow> string \<Rightarrow> invocation_result" where
  "internal_classify env resp service_hint =
     (let status = or_status_code resp
      in if 200 \<le> status \<and> status < 300
         then \<lparr>ir_status = SUCCEEDED, ir_output = parse_body (ae_py env) (or_body resp),
               ir_error_code = None, ir_error_detail = [], ir_retryable = False,
               ir_provider_request_id = or_provider_request_id resp,
               ir_started_at = Some (ae_started env), ir_completed_at = Some (ae_completed env),
               ir_audit_metadata =
                 [(''http_status'', JInt status), (''redirects'', JInt (or_redirects resp)),
                  (''operation'', JStr service_hint)]\<rparr>
         else failure (if 400 \<le> status \<and> status < 500 then UPSTREAM_CLIENT_ERROR else UPSTREAM_ERROR)
                (''HTTP '' @ int_str status) (Some (ae_started env)) (Some (ae_completed env))
                (or_provider_request_id resp) (outcome_metadata status))"

definition internal_failure :: "adapter_env \<Rightarrow> outbound_exn \<Rightarrow> raised + invocation_result" where
  "internal_failure env e =
     (case e of
        TimeoutException ty msg \<Rightarrow> Inr (fail_now env UPSTREAM_TIMEOUT msg)
      | ResponseTooLarge n \<Rightarrow> Inr (fail_now env RESPONSE_TOO_LARGE (too_large_text n))
      | BlockedBySsrf (SSRFBlocked reason detail) \<Rightarrow> Inr (fail_now env SSRF_BLOCKED reason)
      | HTTPError ty msg \<Rightarrow> Inr (fail_now env UPSTREAM_UNAVAILABLE (ty @ '': '' @ msg))
      | _ \<Rightarrow> Inl (outbound_raised (ae_py env) e))"

definition internal_headers :: "invocation_request \<Rightarrow> headers" where
  "internal_headers rq =
     [(''X-FAVL-Invocation-ID'', JStr (rq_invocation_id rq)),
      (''X-FAVL-Idempotency-Key'', JStr (rq_idempotency_key rq)),
      (''Content-Type'', JStr ''application/json'')]"

definition internal_send ::
  "adapter_env \<Rightarrow> invocation_request \<Rightarrow> rat \<Rightarrow> string \<Rightarrow> string \<Rightarrow> invoke_outcome" where
  "internal_send env rq remaining base operation =
     (let url = base @ ''/'' @ lstrip_slash operation
      in case py_url_host (ae_py env) url of
           None \<Rightarrow> ([], Inl (raise_builtin (ae_py env) ''InvalidURL''))
         | Some host \<Rightarrow>
             (case internal_policy (ae_dp env) host of
                Inl e \<Rightarrow> ([], Inl (py_raised (ae_py env) e))
              | Inr policy \<Rightarrow>
                  (case request (ae_http env) (JStr ''POST'') url policy (JsonBody (JObj (rq_payload rq)))
                          (internal_headers rq)
                          \<lparr>tm_connect = Fin (min 2 remaining), tm_read = Fin remaining, tm_total = Fin remaining\<rparr> of
                     (sent, Inl e) \<Rightarrow> (sent, internal_failure env e)
                   | (sent, Inr resp) \<Rightarrow> (sent, Inr (internal_classify env resp operation)))))"

definition internal_invoke ::
  "(string \<times> string) list \<Rightarrow> adapter_env \<Rightarrow> invocation_request \<Rightarrow> connector_context \<Rightarrow> invoke_outcome" where
  "internal_invoke reg env rq cc =
     (case internal_target reg (cc_config cc) of
        Inl (Inl e) \<Rightarrow> ([], Inl (py_raised (ae_py env) e))
      | Inl (Inr service) \<Rightarrow>
          (case service of
             JStr s \<Rightarrow> ([], Inr (fail_now env SERVICE_NOT_REGISTERED s))
           | _ \<Rightarrow> ([], Inl (raise_builtin (ae_py env) ''TypeError'')))
      | Inr (base, operation) \<Rightarrow>
          let remaining = seconds_remaining rq (ae_started env)
          in if remaining \<le> 0
             then ([], Inr (fail_now env DEADLINE_EXCEEDED ''deadline passed before dispatch''))
             else if \<not> truthy operation
             then ([], Inr (fail_now env OPERATION_NOT_SUPPORTED ''config.operation is required''))
             else case operation of
                    JStr op \<Rightarrow>
                      (case operation_error (ae_py env) op of
                         Some e \<Rightarrow> ([], Inr (fail_now env OPERATION_NOT_SUPPORTED e))
                       | None \<Rightarrow> internal_send env rq remaining base op)
                  | _ \<Rightarrow> ([], Inl (raise_builtin (ae_py env) ''TypeError'')))"

definition health_from :: "adapter_env \<Rightarrow> raised \<Rightarrow> health_result" where
  "health_from env e =
     (case e of Raised ty msg \<Rightarrow> unhealthy (take 200 (ty @ '': '' @ msg)) (ae_started env))"

definition health_response :: "adapter_env \<Rightarrow> int \<Rightarrow> int \<Rightarrow> health_result" where
  "health_response env below status =
     \<lparr>hl_healthy = (200 \<le> status \<and> status < below), hl_detail = ''HTTP '' @ int_str status,
      hl_checked_at = Some (ae_started env),
      hl_latency_ms = Some ((ae_completed env - ae_started env) * 1000)\<rparr>"

definition internal_health ::
  "(string \<times> string) list \<Rightarrow> adapter_env \<Rightarrow> connector_context \<Rightarrow> raised + health_result" where
  "internal_health reg env cc =
     (case internal_target reg (cc_config cc) of
        Inl (Inl e) \<Rightarrow> Inl (py_raised (ae_py env) e)
      | Inl (Inr service) \<Rightarrow> Inr (unhealthy ''service_not_registered'' (ae_started env))
      | Inr (base, _) \<Rightarrow>
          let url = base @ ''/health/live'' in
          Inr (case py_url_host (ae_py env) url of
                 None \<Rightarrow> health_from env (raise_builtin (ae_py env) ''InvalidURL'')
               | Some host \<Rightarrow>
                   (case internal_policy (ae_dp env) host of
                      Inl e \<Rightarrow> health_from env (py_raised (ae_py env) e)
                    | Inr policy \<Rightarrow>
                        (case snd (request (ae_http env) (JStr ''GET'') url policy NoBody []
                                 \<lparr>tm_connect = Fin 2, tm_read = Fin 3, tm_total = Fin 5\<rparr>) of
                           Inl e \<Rightarrow> health_from env (outbound_raised (ae_py env) e)
                         | Inr resp \<Rightarrow> health_response env 300 (or_status_code resp)))))"

definition internal_adapter :: "(string \<times> string) list \<Rightarrow> adapter" where
  "internal_adapter reg =
     \<lparr>ad_kind = ''internal'', ad_validate = internal_validate reg, ad_health = internal_health reg,
      ad_invoke = internal_invoke reg\<rparr>"

section \<open>The adapter protocol\<close>

lemma internal_classify_ok [simp]: "result_ok (internal_classify env resp hint)"
  by (simp add: internal_classify_def result_ok_def failure_def Let_def)

lemma internal_failure_ok: "internal_failure env e = Inr res \<Longrightarrow> result_ok res"
  by (auto simp: internal_failure_def split: outbound_exn.splits ssrf_error.splits)

lemma internal_send_ok: "internal_send env rq remaining base op = (sent, Inr res) \<Longrightarrow> result_ok res"
  by (auto simp: internal_send_def Let_def dest: internal_failure_ok
        split: option.splits sum.splits prod.splits)

lemma internal_invoke_ok: "internal_invoke reg env rq cc = (sent, Inr res) \<Longrightarrow> result_ok res"
  by (auto simp: internal_invoke_def Let_def dest: internal_send_ok
        split: option.splits sum.splits prod.splits json.splits if_splits)

lemma internal_no_dispatch:
  "seconds_remaining rq (ae_started env) = 0 \<Longrightarrow> fst (internal_invoke reg env rq cc) = []"
  by (auto simp: internal_invoke_def Let_def split: option.splits sum.splits prod.splits json.splits)

interpretation internal: connector_adapter "internal_invoke reg" for reg
  by unfold_locales (rule internal_invoke_ok internal_no_dispatch; assumption)+

end
