(* ===== verification/HttpAdapter.thy ===== *)
theory HttpAdapter
  imports InternalAdapter
begin

text \<open>
  \<open>adapters/http.py\<close>.  \<open>build_headers\<close> is \<open>_headers\<close>: a Python dictionary is an association list
  that keeps the position of a key when it is set again.  Secrets are resolved through the
  resolver the adapter was built with, under the connector's own id and tenant.
\<close>

definition dict_set :: "string \<Rightarrow> json \<Rightarrow> headers \<Rightarrow> headers" where
  "dict_set k v d = (if k \<in> set (map fst d) then map (\<lambda>(k', v'). (k', if k' = k then v else v')) d else d @ [(k, v)])"

text \<open>\<open>(config.get(key) or {}).items()\<close>.\<close>

definition get_object :: "string \<Rightarrow> jobj \<Rightarrow> py_exn + jobj" where
  "get_object key config =
     (case jget key config of
        None \<Rightarrow> Inr []
      | Some v \<Rightarrow> if \<not> truthy v then Inr [] else (case v of JObj d \<Rightarrow> Inr d | _ \<Rightarrow> Inl PyAttributeError))"

text \<open>
  \<open>check_addressable\<close> at configuration time: only the form of the reference matters, because the
  record has no id yet.  The code tells the two refusals apart by the text of the exception.
\<close>

definition form_error :: "string \<Rightarrow> string \<Rightarrow> string \<Rightarrow> string option" where
  "form_error reference owner tenant =
     (case check_addressable reference owner tenant of
        Inl (SecretNotPermitted r why) \<Rightarrow>
          if contains (permission_message r why) ''may not read'' then None else Some why
      | _ \<Rightarrow> None)"

definition header_error :: "python \<Rightarrow> jobj \<Rightarrow> string \<times> json \<Rightarrow> string list" where
  "header_error py config kv =
     (case kv of (key, v) \<Rightarrow>
        if is_secret_reference v
        then (case v of
                JStr s \<Rightarrow>
                  (case form_error s (get_str py ''name'' config) [] of
                     None \<Rightarrow> [] | Some why \<Rightarrow> [''header '' @ quoted key @ '': '' @ why])
              | _ \<Rightarrow> [])
        else if str_lower key \<in> {''authorization'', ''x-api-key''}
        then [''header '' @ quoted key @ '' must be a secret reference, not a literal value'']
        else [])"

definition operator_keys_error :: "python \<Rightarrow> jobj \<Rightarrow> string \<Rightarrow> string list" where
  "operator_keys_error py config tail =
     (let escalating = rejected_operator_keys config
      in if escalating = [] then []
         else [''config may not set operator-controlled keys: ''
               @ py_repr py (JList (map JStr escalating)) @ tail])"

text \<open>\<open>validate_static(base_url, self._policy(config))\<close>: the arguments are evaluated first.\<close>

definition static_errors :: "adapter_env \<Rightarrow> jobj \<Rightarrow> json \<Rightarrow> raised + string list" where
  "static_errors env config base_url =
     (case build_policy (ae_dp env) config 3 of
        Inl e \<Rightarrow> Inl (py_raised (ae_py env) e)
      | Inr policy \<Rightarrow>
          (case base_url of
             JStr url \<Rightarrow>
               (case validate_static url policy of
                  Inl (SSRFBlocked reason detail) \<Rightarrow> Inr [''base_url rejected: '' @ reason]
                | Inl UrlValueError \<Rightarrow> Inl (raise_builtin (ae_py env) ''ValueError'')
                | Inr _ \<Rightarrow> Inr [])
           | _ \<Rightarrow> Inl (raise_builtin (ae_py env) ''AttributeError'')))"

definition http_validate :: "adapter_env \<Rightarrow> jobj \<Rightarrow> raised + validation_result" where
  "http_validate env config =
     (let py = ae_py env;
          base_url = jget ''base_url'' config;
          allowed_hosts = jget ''allowed_hosts'' config
      in case get_object ''headers'' config of
           Inl e \<Rightarrow> Inl (py_raised py e)
         | Inr hs \<Rightarrow>
             (case (if truthy_opt base_url \<and> truthy_opt allowed_hosts
                    then static_errors env config (the base_url) else Inr []) of
                Inl e \<Rightarrow> Inl e
              | Inr static \<Rightarrow>
                  let errors =
                    (if \<not> truthy_opt base_url then [''config.base_url is required''] else [])
                    @ (if \<not> truthy_opt allowed_hosts
                       then [''config.allowed_hosts is required; an unrestricted HTTP connector is an SSRF primitive'']
                       else [])
                    @ operator_keys_error py config
                        ''. Private addressing and permitted schemes are deployment settings; a connector cannot widen its own reach.''
                    @ concat (map (header_error py config) hs)
                    @ static
                  in Inr (if errors \<noteq> [] then validation_failed errors
                          else validation_ok True
                            (if truthy_opt (jget ''idempotency_header'' config) then PROVIDER_KEY
                             else GATEWAY_DEDUP_ONLY))))"

datatype header_exn = HdrSecret secret_error | HdrRaised raised

fun resolve_headers ::
  "adapter_env \<Rightarrow> connector_context \<Rightarrow> jobj \<Rightarrow> headers \<Rightarrow> header_exn + headers" where
  "resolve_headers env cc [] acc = Inr acc"
| "resolve_headers env cc ((key, v) # rest) acc =
     (if is_secret_reference v
      then (case v of
              JStr s \<Rightarrow>
                (case ae_resolve env s (cc_connector_id cc) (cc_tenant_id cc) of
                   Inl e \<Rightarrow> Inl (HdrSecret e)
                 | Inr secret \<Rightarrow> resolve_headers env cc rest (dict_set key (JStr secret) acc))
            | _ \<Rightarrow> resolve_headers env cc rest acc)
      else resolve_headers env cc rest (dict_set key v acc))"

definition add_idempotency ::
  "adapter_env \<Rightarrow> connector_context \<Rightarrow> invocation_request option \<Rightarrow> headers \<Rightarrow> header_exn + headers" where
  "add_idempotency env cc rq hs =
     (case rq of
        None \<Rightarrow> Inr hs
      | Some r \<Rightarrow>
          if truthy_opt (jget ''idempotency_header'' (cc_config cc))
          then (case the (jget ''idempotency_header'' (cc_config cc)) of
                  JStr name \<Rightarrow> Inr (dict_set name (JStr (rq_idempotency_key r)) hs)
                | v \<Rightarrow> Inl (HdrRaised (raise_builtin (ae_py env)
                        (if hashable v then ''AttributeError'' else ''TypeError''))))
          else Inr hs)"

definition add_trace :: "invocation_request option \<Rightarrow> headers \<Rightarrow> headers" where
  "add_trace rq hs =
     (case rq of
        None \<Rightarrow> hs
      | Some r \<Rightarrow>
          (let hs = dict_set ''X-FAVL-Invocation-ID'' (JStr (rq_invocation_id r)) hs
           in if truthy_text (rq_trace_id r)
              then dict_set ''X-FAVL-Trace-ID'' (JStr (the (rq_trace_id r))) hs else hs))"

definition build_headers ::
  "adapter_env \<Rightarrow> connector_context \<Rightarrow> invocation_request option \<Rightarrow> header_exn + headers" where
  "build_headers env cc rq =
     (case get_object ''headers'' (cc_config cc) of
        Inl e \<Rightarrow> Inl (HdrRaised (py_raised (ae_py env) e))
      | Inr configured \<Rightarrow>
          (case resolve_headers env cc configured
                  [(''Content-Type'', JStr ''application/json''), (''Accept'', JStr ''application/json'')] of
             Inl e \<Rightarrow> Inl e
           | Inr hs \<Rightarrow>
               (case add_idempotency env cc rq hs of
                  Inl e \<Rightarrow> Inl e
                | Inr hs \<Rightarrow> Inr (add_trace rq hs))))"

definition http_url :: "python \<Rightarrow> jobj \<Rightarrow> string \<Rightarrow> string" where
  "http_url py config operation =
     (let base_url = rstrip_char (CHR ''/'') (get_str py ''base_url'' config);
          path = lstrip_slash (if operation \<noteq> [] then operation else get_str py ''path'' config)
      in if path \<noteq> [] then base_url @ ''/'' @ path else base_url)"

text \<open>The per-phase timeouts: the configured one, clamped, and never beyond the deadline.\<close>

definition phase_timeouts :: "deployment \<Rightarrow> jobj \<Rightarrow> rat \<Rightarrow> py_exn + timeouts" where
  "phase_timeouts dp config remaining =
     (case clamp_timeout dp (jget ''connect_timeout'' config) 5 of
        Inl e \<Rightarrow> Inl e
      | Inr connect_t \<Rightarrow>
          (case clamp_timeout dp (jget ''read_timeout'' config) 10 of
             Inl e \<Rightarrow> Inl e
           | Inr read_t \<Rightarrow>
               Inr \<lparr>tm_connect = float_min connect_t (Fin remaining),
                    tm_read = float_min read_t (Fin remaining), tm_total = Fin remaining\<rparr>))"

definition transient_status :: "int \<Rightarrow> bool" where
  "transient_status s = (s \<in> {408, 429, 502, 503, 504})"

definition response_failure_code :: "int \<Rightarrow> error_code" where
  "response_failure_code s =
     (if transient_status s then UPSTREAM_UNAVAILABLE
      else if 400 \<le> s \<and> s < 500 then UPSTREAM_CLIENT_ERROR
      else UPSTREAM_ERROR)"

definition http_classify :: "adapter_env \<Rightarrow> outbound_response \<Rightarrow> invocation_result" where
  "http_classify env resp =
     (let status = or_status_code resp
      in if 200 \<le> status \<and> status < 300
         then \<lparr>ir_status = SUCCEEDED, ir_output = parse_body (ae_py env) (or_body resp),
               ir_error_code = None, ir_error_detail = [], ir_retryable = False,
               ir_provider_request_id = or_provider_request_id resp,
               ir_started_at = Some (ae_started env), ir_completed_at = Some (ae_completed env),
               ir_audit_metadata =
                 [(''http_status'', JInt status), (''redirects'', JInt (or_redirects resp)),
                  (''response_bytes'', JInt (int (length (or_body resp))))]\<rparr>
         else failure (response_failure_code status) (''HTTP '' @ int_str status)
                (Some (ae_started env)) (Some (ae_completed env))
                (or_provider_request_id resp) (outcome_metadata status))"

text \<open>\<open>round(remaining, 3)\<close>, halves to even.\<close>

definition round3 :: "rat \<Rightarrow> rat" where
  "round3 q =
     (let n = \<lfloor>q * 1000\<rfloor>; r = q * 1000 - of_int n
      in of_int (if r > 1 / 2 \<or> r = 1 / 2 \<and> odd n then n + 1 else n) / 1000)"

definition http_failure :: "adapter_env \<Rightarrow> rat \<Rightarrow> outbound_exn \<Rightarrow> raised + invocation_result" where
  "http_failure env remaining e =
     (case e of
        TimeoutException ty msg \<Rightarrow>
          Inr (failure UPSTREAM_TIMEOUT ty (Some (ae_started env)) (Some (ae_completed env)) None
                [(''timeout_budget_seconds'', JFloat (Fin (round3 remaining)))])
      | ResponseTooLarge n \<Rightarrow> Inr (fail_now env RESPONSE_TOO_LARGE (too_large_text n))
      | ContentTypeRejected t \<Rightarrow> Inr (fail_now env CONTENT_TYPE_REJECTED t)
      | TooManyRedirects n \<Rightarrow> Inr (fail_now env TOO_MANY_REDIRECTS (too_many_text n))
      | BlockedBySsrf (SSRFBlocked reason detail) \<Rightarrow> Inr (fail_now env SSRF_BLOCKED reason)
      | HTTPError ty msg \<Rightarrow> Inr (fail_now env UPSTREAM_UNAVAILABLE (take 300 (ty @ '': '' @ msg)))
      | _ \<Rightarrow> Inl (outbound_raised (ae_py env) e))"

definition http_send ::
  "adapter_env \<Rightarrow> invocation_request \<Rightarrow> connector_context \<Rightarrow> rat \<Rightarrow> headers \<Rightarrow> invoke_outcome" where
  "http_send env rq cc remaining hs =
     (let config = cc_config cc
      in case build_policy (ae_dp env) config 3 of
           Inl e \<Rightarrow> ([], Inl (py_raised (ae_py env) e))
         | Inr policy \<Rightarrow>
             (case phase_timeouts (ae_dp env) config remaining of
                Inl e \<Rightarrow> ([], Inl (py_raised (ae_py env) e))
              | Inr tms \<Rightarrow>
                  (case request (ae_http env) (get_json ''method'' (JStr ''POST'') config)
                          (http_url (ae_py env) config (rq_operation rq)) policy
                          (JsonBody (JObj (rq_payload rq))) hs tms of
                     (sent, Inl e) \<Rightarrow> (sent, http_failure env remaining e)
                   | (sent, Inr resp) \<Rightarrow> (sent, Inr (http_classify env resp)))))"

definition http_invoke :: "adapter_env \<Rightarrow> invocation_request \<Rightarrow> connector_context \<Rightarrow> invoke_outcome" where
  "http_invoke env rq cc =
     (let remaining = seconds_remaining rq (ae_started env)
      in if remaining \<le> 0
         then ([], Inr (fail_now env DEADLINE_EXCEEDED ''deadline passed before dispatch''))
         else case build_headers env cc (Some rq) of
                Inl (HdrSecret (SecretNotFound reference)) \<Rightarrow>
                  ([], Inr (fail_now env SECRET_NOT_FOUND reference))
              | Inl (HdrSecret e) \<Rightarrow> ([], Inl (secret_raised e))
              | Inl (HdrRaised e) \<Rightarrow> ([], Inl e)
              | Inr hs \<Rightarrow> http_send env rq cc remaining hs)"

definition http_health :: "adapter_env \<Rightarrow> connector_context \<Rightarrow> raised + health_result" where
  "http_health env cc =
     (let config = cc_config cc;
          url = (if truthy_opt (jget ''health_url'' config) then jget ''health_url'' config
                 else jget ''base_url'' config)
      in Inr (if \<not> truthy_opt url
              then unhealthy ''no health_url or base_url configured'' (ae_started env)
              else case build_headers env cc None of
                Inl (HdrSecret (SecretNotFound reference)) \<Rightarrow>
                  unhealthy (''secret unresolved: '' @ reference) (ae_started env)
              | Inl (HdrSecret e) \<Rightarrow> health_from env (secret_raised e)
              | Inl (HdrRaised e) \<Rightarrow> health_from env e
              | Inr hs \<Rightarrow>
                  (case build_policy (ae_dp env) config 3 of
                     Inl e \<Rightarrow> health_from env (py_raised (ae_py env) e)
                   | Inr policy \<Rightarrow>
                       (case the url of
                          JStr u \<Rightarrow>
                            (case snd (request (ae_http env) (get_json ''health_method'' (JStr ''GET'') config)
                                     u policy NoBody hs
                                     \<lparr>tm_connect = Fin 3, tm_read = Fin 5, tm_total = Fin 8\<rparr>) of
                               Inl e \<Rightarrow> health_from env (outbound_raised (ae_py env) e)
                             | Inr resp \<Rightarrow> health_response env 400 (or_status_code resp))
                        | _ \<Rightarrow> health_from env (raise_builtin (ae_py env) ''AttributeError'')))))"

definition http_adapter :: adapter where
  "http_adapter =
     \<lparr>ad_kind = ''http'', ad_validate = http_validate, ad_health = http_health, ad_invoke = http_invoke\<rparr>"

section \<open>The adapter protocol\<close>

lemma http_classify_ok [simp]: "result_ok (http_classify env resp)"
  by (simp add: http_classify_def result_ok_def failure_def Let_def)

lemma http_failure_ok: "http_failure env remaining e = Inr res \<Longrightarrow> result_ok res"
  by (auto simp: http_failure_def split: outbound_exn.splits ssrf_error.splits)

lemma http_send_ok: "http_send env rq cc remaining hs = (sent, Inr res) \<Longrightarrow> result_ok res"
  by (auto simp: http_send_def Let_def dest: http_failure_ok split: sum.splits prod.splits)

lemma http_invoke_ok: "http_invoke env rq cc = (sent, Inr res) \<Longrightarrow> result_ok res"
  by (auto simp: http_invoke_def Let_def dest: http_send_ok
        split: sum.splits header_exn.splits secret_error.splits if_splits)

lemma http_no_dispatch:
  "seconds_remaining rq (ae_started env) = 0 \<Longrightarrow> fst (http_invoke env rq cc) = []"
  by (simp add: http_invoke_def Let_def)

interpretation http: connector_adapter http_invoke
  by unfold_locales (rule http_invoke_ok http_no_dispatch; assumption)+

end
