(* ===== verification/WebhookAdapter.thy ===== *)
theory WebhookAdapter
  imports HttpAdapter
begin

text \<open>
  \<open>adapters/webhook.py\<close>: a signed POST of a fixed envelope.  \<open>py_hmac_sha256 secret message\<close> is the
  hex digest; \<open>compare_digest\<close> is equality.
\<close>

definition SIGNATURE_VERSION :: string where
  "SIGNATURE_VERSION = ''v1''"

definition signed_string :: "string \<Rightarrow> string \<Rightarrow> string \<Rightarrow> string" where
  "signed_string event_id timestamp body = event_id @ ''.'' @ timestamp @ ''.'' @ body"

definition build_signature :: "python \<Rightarrow> string \<Rightarrow> string \<Rightarrow> string \<Rightarrow> string \<Rightarrow> string" where
  "build_signature py secret event_id timestamp body =
     SIGNATURE_VERSION @ ''='' @ py_hmac_sha256 py secret (signed_string event_id timestamp body)"

definition verify_signature :: "python \<Rightarrow> string \<Rightarrow> string \<Rightarrow> string \<Rightarrow> string \<Rightarrow> string \<Rightarrow> bool" where
  "verify_signature py secret event_id timestamp body provided =
     (build_signature py secret event_id timestamp body = provided)"

definition webhook_policy :: "deployment \<Rightarrow> jobj \<Rightarrow> py_exn + outbound_policy" where
  "webhook_policy dp config =
     (case build_policy dp config 3 of Inl e \<Rightarrow> Inl e | Inr p \<Rightarrow> Inr (p\<lparr>op_max_redirects := 0\<rparr>))"

definition secret_ref_errors :: "json option \<Rightarrow> string list" where
  "secret_ref_errors ref =
     (if \<not> truthy_opt ref then [''config.signing_secret_ref is required; deliveries are signed'']
      else if \<not> is_secret_reference (the ref)
      then [''config.signing_secret_ref must be a reference such as env:NAME, never a literal secret'']
      else (case the ref of
              JStr s \<Rightarrow>
                (case form_error s [] [] of
                   None \<Rightarrow> [] | Some why \<Rightarrow> [''config.signing_secret_ref: '' @ why])
            | _ \<Rightarrow> []))"

definition webhook_validate :: "adapter_env \<Rightarrow> jobj \<Rightarrow> raised + validation_result" where
  "webhook_validate env config =
     (let errors =
        (if \<not> truthy_opt (jget ''target_url'' config) then [''config.target_url is required''] else [])
        @ (if \<not> truthy_opt (jget ''allowed_hosts'' config) then [''config.allowed_hosts is required''] else [])
        @ secret_ref_errors (jget ''signing_secret_ref'' config)
        @ (if truthy_opt (jget ''signing_secret'' config)
           then [''config.signing_secret is not permitted; use a reference''] else [])
        @ operator_keys_error (ae_py env) config []
      in Inr (if errors \<noteq> [] then validation_failed errors
              else validation_ok True GATEWAY_DEDUP_ONLY))"

text \<open>Resolving \<open>config[''signing_secret_ref'']\<close>; a value that is no string has no \<open>startswith\<close>.\<close>

datatype signing_outcome = SigningSecret string | SigningNotFound string | SigningKeyError | SigningRaised raised

definition signing_secret :: "adapter_env \<Rightarrow> connector_context \<Rightarrow> signing_outcome" where
  "signing_secret env cc =
     (case jget ''signing_secret_ref'' (cc_config cc) of
        None \<Rightarrow> SigningKeyError
      | Some (JStr s) \<Rightarrow>
          (case ae_resolve env s (cc_connector_id cc) (cc_tenant_id cc) of
             Inr secret \<Rightarrow> SigningSecret secret
           | Inl (SecretNotFound r) \<Rightarrow> SigningNotFound r
           | Inl e \<Rightarrow> SigningRaised (secret_raised e))
      | Some _ \<Rightarrow> SigningRaised (raise_builtin (ae_py env) ''AttributeError''))"

definition webhook_health :: "adapter_env \<Rightarrow> connector_context \<Rightarrow> raised + health_result" where
  "webhook_health env cc =
     (let url = jget ''target_url'' (cc_config cc)
      in if \<not> truthy_opt url then Inr (unhealthy ''no target_url configured'' (ae_started env))
         else case webhook_policy (ae_dp env) (cc_config cc) of
           Inl e \<Rightarrow> Inl (py_raised (ae_py env) e)
         | Inr policy \<Rightarrow>
             (case the url of
                JStr u \<Rightarrow>
                  (case validate_static u policy of
                     Inl (SSRFBlocked reason detail) \<Rightarrow>
                       Inr (unhealthy (''target rejected: '' @ reason) (ae_started env))
                   | Inl UrlValueError \<Rightarrow> Inl (raise_builtin (ae_py env) ''ValueError'')
                   | Inr _ \<Rightarrow>
                       (case signing_secret env cc of
                          SigningSecret s \<Rightarrow>
                            Inr \<lparr>hl_healthy = True, hl_detail = ''target reachable by policy; secret resolvable'',
                                 hl_checked_at = Some (ae_started env), hl_latency_ms = None\<rparr>
                        | SigningNotFound r \<Rightarrow> Inr (unhealthy (''secret unresolved: '' @ r) (ae_started env))
                        | SigningKeyError \<Rightarrow> Inl (py_raised (ae_py env) (PyKeyError ''signing_secret_ref''))
                        | SigningRaised e \<Rightarrow> Inl e))
              | _ \<Rightarrow> Inl (raise_builtin (ae_py env) ''AttributeError'')))"

definition webhook_body :: "adapter_env \<Rightarrow> invocation_request \<Rightarrow> connector_context \<Rightarrow> string" where
  "webhook_body env rq cc =
     py_dumps (ae_py env)
       (JObj [(''event_id'', JStr (rq_invocation_id rq)),
              (''event_type'', JStr (if rq_operation rq \<noteq> [] then rq_operation rq else ''connector.webhook'')),
              (''occurred_at'', JStr (py_isoformat (ae_py env) (ae_started env))),
              (''connector_id'', JStr (cc_connector_id cc)),
              (''data'', JObj (rq_payload rq))])"

definition webhook_timestamp :: "adapter_env \<Rightarrow> string" where
  "webhook_timestamp env = int_str (if ae_started env \<ge> 0 then \<lfloor>ae_started env\<rfloor> else \<lceil>ae_started env\<rceil>)"

definition webhook_headers ::
  "adapter_env \<Rightarrow> invocation_request \<Rightarrow> connector_context \<Rightarrow> string \<Rightarrow> headers" where
  "webhook_headers env rq cc secret =
     [(''Content-Type'', JStr ''application/json''),
      (''X-FAVL-Event-ID'', JStr (rq_invocation_id rq)),
      (''X-FAVL-Timestamp'', JStr (webhook_timestamp env)),
      (''X-FAVL-Signature'', JStr (build_signature (ae_py env) secret (rq_invocation_id rq)
         (webhook_timestamp env) (webhook_body env rq cc))),
      (''X-FAVL-Delivery-Attempt'', JStr (int_str (rq_attempt rq)))]"

definition webhook_failure :: "adapter_env \<Rightarrow> outbound_exn \<Rightarrow> raised + invocation_result" where
  "webhook_failure env e =
     (case e of
        TimeoutException ty msg \<Rightarrow> Inr (fail_now env UPSTREAM_TIMEOUT ''webhook delivery timed out'')
      | ResponseTooLarge n \<Rightarrow> Inr (fail_now env RESPONSE_TOO_LARGE (too_large_text n))
      | BlockedBySsrf (SSRFBlocked reason detail) \<Rightarrow> Inr (fail_now env SSRF_BLOCKED reason)
      | HTTPError ty msg \<Rightarrow> Inr (fail_now env UPSTREAM_UNAVAILABLE (take 200 ty))
      | _ \<Rightarrow> Inl (outbound_raised (ae_py env) e))"

definition webhook_classify ::
  "adapter_env \<Rightarrow> invocation_request \<Rightarrow> connector_context \<Rightarrow> string \<Rightarrow> outbound_response \<Rightarrow> invocation_result" where
  "webhook_classify env rq cc host resp =
     (let status = or_status_code resp;
          audit =
            [(''http_status'', JInt status), (''delivery_attempt'', JInt (rq_attempt rq)),
             (''signed_bytes'', JInt (int (length (webhook_body env rq cc)))),
             (''signature_version'', JStr SIGNATURE_VERSION), (''target_host'', JStr host)]
      in if 200 \<le> status \<and> status < 300
         then \<lparr>ir_status = SUCCEEDED,
               ir_output = [(''delivered'', JBool True), (''http_status'', JInt status)],
               ir_error_code = None, ir_error_detail = [], ir_retryable = False,
               ir_provider_request_id = or_provider_request_id resp,
               ir_started_at = Some (ae_started env), ir_completed_at = Some (ae_completed env),
               ir_audit_metadata = audit\<rparr>
         else failure (response_failure_code status) (''HTTP '' @ int_str status)
                (Some (ae_started env)) (Some (ae_completed env)) (or_provider_request_id resp) audit)"

text \<open>\<open>urlparse\<close> reads a false value as the empty text and fails on any other value that is no string.\<close>

definition url_text :: "json \<Rightarrow> string option" where
  "url_text v = (case v of JStr s \<Rightarrow> Some s | _ \<Rightarrow> if truthy v then None else Some [])"

definition webhook_send ::
  "adapter_env \<Rightarrow> invocation_request \<Rightarrow> connector_context \<Rightarrow> rat \<Rightarrow> string \<Rightarrow> invoke_outcome" where
  "webhook_send env rq cc remaining secret =
     (let py = ae_py env; config = cc_config cc
      in case jget ''target_url'' config of
           None \<Rightarrow> ([], Inl (py_raised py (PyKeyError ''target_url'')))
         | Some target \<Rightarrow>
             (case webhook_policy (ae_dp env) config of
                Inl e \<Rightarrow> ([], Inl (py_raised py e))
              | Inr policy \<Rightarrow>
                  (case phase_timeouts (ae_dp env) config remaining of
                     Inl e \<Rightarrow> ([], Inl (py_raised py e))
                   | Inr tms \<Rightarrow>
                       (case url_text target of
                          Some url \<Rightarrow>
                            (case request (ae_http env) (JStr ''POST'') url policy
                                    (RawBody (webhook_body env rq cc)) (webhook_headers env rq cc secret) tms of
                               (sent, Inl e) \<Rightarrow> (sent, webhook_failure env e)
                             | (sent, Inr resp) \<Rightarrow>
                                 (case py_url_host py url of
                                    None \<Rightarrow> (sent, Inl (raise_builtin py ''InvalidURL''))
                                  | Some host \<Rightarrow> (sent, Inr (webhook_classify env rq cc host resp))))
                        | None \<Rightarrow> ([], Inl (raise_builtin py ''AttributeError''))))))"

definition webhook_invoke :: "adapter_env \<Rightarrow> invocation_request \<Rightarrow> connector_context \<Rightarrow> invoke_outcome" where
  "webhook_invoke env rq cc =
     (let remaining = seconds_remaining rq (ae_started env)
      in if remaining \<le> 0
         then ([], Inr (fail_now env DEADLINE_EXCEEDED ''deadline passed before dispatch''))
         else case signing_secret env cc of
                SigningNotFound r \<Rightarrow> ([], Inr (fail_now env SECRET_NOT_FOUND r))
              | SigningKeyError \<Rightarrow> ([], Inr (fail_now env SECRET_NOT_FOUND ''signing_secret_ref''))
              | SigningRaised e \<Rightarrow> ([], Inl e)
              | SigningSecret secret \<Rightarrow> webhook_send env rq cc remaining secret)"

definition webhook_adapter :: adapter where
  "webhook_adapter =
     \<lparr>ad_kind = ''webhook'', ad_validate = webhook_validate, ad_health = webhook_health,
      ad_invoke = webhook_invoke\<rparr>"

section \<open>The adapter protocol\<close>

lemma webhook_classify_ok [simp]: "result_ok (webhook_classify env rq cc host resp)"
  by (simp add: webhook_classify_def result_ok_def failure_def Let_def)

lemma webhook_failure_ok: "webhook_failure env e = Inr res \<Longrightarrow> result_ok res"
  by (auto simp: webhook_failure_def split: outbound_exn.splits ssrf_error.splits)

lemma webhook_send_ok: "webhook_send env rq cc remaining secret = (sent, Inr res) \<Longrightarrow> result_ok res"
  by (auto simp: webhook_send_def Let_def dest: webhook_failure_ok
        split: sum.splits prod.splits option.splits json.splits)

lemma webhook_invoke_ok: "webhook_invoke env rq cc = (sent, Inr res) \<Longrightarrow> result_ok res"
  by (auto simp: webhook_invoke_def Let_def dest: webhook_send_ok
        split: signing_outcome.splits if_splits)

lemma webhook_no_dispatch:
  "seconds_remaining rq (ae_started env) = 0 \<Longrightarrow> fst (webhook_invoke env rq cc) = []"
  by (simp add: webhook_invoke_def Let_def)

interpretation webhook: connector_adapter webhook_invoke
  by unfold_locales (rule webhook_invoke_ok webhook_no_dispatch; assumption)+

end
