(* ===== verification/Adapters.thy ===== *)
theory Adapters
  imports WebhookAdapter
begin

text \<open>
  The three adapters together: \<open>build_registry\<close> of \<open>adapters/registry.py\<close>, and what holds of every
  request they put on the wire.  The facts about results come from the interpretations of
  \<open>connector_adapter\<close>, the facts about requests from the guarded loop of \<open>Outbound\<close>.
\<close>

text \<open>\<open>build_registry\<close>: the kinds are distinct and named, so no registration is refused.\<close>

definition build_registry :: "(string \<times> string) list \<Rightarrow> adapter_registry" where
  "build_registry services =
     (case register_all [internal_adapter services, http_adapter, webhook_adapter] of
        Inl e \<Rightarrow> [] | Inr reg \<Rightarrow> reg)"

lemma build_registry_eq:
  "build_registry services =
     [(''internal'', internal_adapter services), (''http'', http_adapter), (''webhook'', webhook_adapter)]"
  by (simp add: build_registry_def register_all_def register_def internal_adapter_def http_adapter_def
        webhook_adapter_def)

section \<open>Sent requests\<close>

text \<open>What every request on the wire satisfies, once it is known to come from a guarded call.\<close>

definition reaches_accepted_target ::
  "http_env \<Rightarrow> outbound_policy \<Rightarrow> nat \<Rightarrow> sent_request \<Rightarrow> bool" where
  "reaches_accepted_target env policy i req \<longleftrightarrow>
     (\<exists>url t a. validate_url (he_resolver env i) url policy = Inr t \<and>
        sq_url req = vt_pinned_url t \<and> host_allowed policy (vt_host t) \<and>
        vt_address t = ip_str a \<and> classify a (op_allow_private_addresses policy) = None)"

lemma validated_address:
  assumes "validate_url resolver url policy = Inr t"
  shows "host_allowed policy (vt_host t) \<and>
    (\<exists>a. vt_address t = ip_str a \<and> classify a (op_allow_private_addresses policy) = None)"
proof -
  obtain parsed where v: "validate_static url policy = Inr (vt_scheme t, vt_host t, vt_port t)"
    "resolve_and_validate resolver (vt_host t) (vt_port t) policy = Inr (vt_address t)"
    using assms validate_url_Inr by blast
  have "host_allowed policy (vt_host t)"
    using validate_static_Inr [OF v(1)] by blast
  moreover obtain raws where raws: "raws \<noteq> []"
    "\<forall>raw \<in> set raws. address_ok (op_allow_private_addresses policy) raw"
    "vt_address t = connect_form (hd raws)"
    using resolve_and_validate_Inr [OF v(2)] by blast
  then obtain a where "ip_address (hd raws) = Some a" "classify a (op_allow_private_addresses policy) = None"
    by (cases raws) (auto simp: address_ok_def)
  then have "vt_address t = ip_str (normalise_address a) \<and>
      classify (normalise_address a) (op_allow_private_addresses policy) = None"
    using raws(3) by (simp add: connect_form_def classify_normalise)
  ultimately show ?thesis by blast
qed

lemma request_reaches:
  assumes "request env mthd url policy body hs tms = (sent, res)" and "i < length sent"
  shows "reaches_accepted_target env policy i (sent ! i)" and "sq_timeouts (sent ! i) = tms"
    and "sq_headers (sent ! i) = sanitise_headers hs @ [last (sq_headers (sent ! i))]"
    and "fst (last (sq_headers (sent ! i))) = ''Host''"
    and "sq_body (sent ! i) = body"
proof -
  have "guarded env policy mthd (sanitise_headers hs) body tms i (sent ! i)"
    using request_loop_guarded [OF assms(1) [unfolded request_def]] assms(2) by simp
  then obtain u t where t: "validate_url (he_resolver env i) u policy = Inr t"
    "sent ! i = build_request mthd (sanitise_headers hs) body tms t"
    unfolding guarded_def by blast
  then show "reaches_accepted_target env policy i (sent ! i)"
    using validated_address [OF t(1)] unfolding reaches_accepted_target_def
    by (auto simp: build_request_def)
  show "sq_timeouts (sent ! i) = tms" "sq_body (sent ! i) = body"
    "sq_headers (sent ! i) = sanitise_headers hs @ [last (sq_headers (sent ! i))]"
    "fst (last (sq_headers (sent ! i))) = ''Host''"
    using t(2) by (simp_all add: build_request_def)
qed

lemma http_send_request:
  assumes "http_invoke env rq cc = (sent, out)" and "sent \<noteq> []"
  obtains policy tms hs res where
    "build_policy (ae_dp env) (cc_config cc) 3 = Inr policy"
    "phase_timeouts (ae_dp env) (cc_config cc) (seconds_remaining rq (ae_started env)) = Inr tms"
    "build_headers env cc (Some rq) = Inr hs"
    "request (ae_http env) (get_json ''method'' (JStr ''POST'') (cc_config cc))
       (http_url (ae_py env) (cc_config cc) (rq_operation rq)) policy (JsonBody (JObj (rq_payload rq))) hs tms =
       (sent, res)"
  using assms
  by (auto simp: http_invoke_def http_send_def Let_def
        split: sum.splits header_exn.splits secret_error.splits if_splits prod.splits)

lemma webhook_send_request:
  assumes "webhook_invoke env rq cc = (sent, out)" and "sent \<noteq> []"
  obtains policy tms secret url res where
    "webhook_policy (ae_dp env) (cc_config cc) = Inr policy"
    "phase_timeouts (ae_dp env) (cc_config cc) (seconds_remaining rq (ae_started env)) = Inr tms"
    "signing_secret env cc = SigningSecret secret"
    "request (ae_http env) (JStr ''POST'') url policy (RawBody (webhook_body env rq cc))
       (webhook_headers env rq cc secret) tms = (sent, res)"
  using assms
  by (auto simp: webhook_invoke_def webhook_send_def Let_def
        split: sum.splits signing_outcome.splits option.splits if_splits prod.splits)

lemma internal_send_request:
  assumes "internal_invoke reg env rq cc = (sent, out)" and "sent \<noteq> []"
  obtains policy host service base op tms res where
    "lookup_service reg service = Some base" "operation_error (ae_py env) op = None"
    "py_url_host (ae_py env) (base @ ''/'' @ lstrip_slash op) = Some host"
    "internal_policy (ae_dp env) host = Inr policy"
    "request (ae_http env) (JStr ''POST'') (base @ ''/'' @ lstrip_slash op) policy
       (JsonBody (JObj (rq_payload rq))) (internal_headers rq) tms = (sent, res)"
  using assms
  by (auto simp: internal_invoke_def internal_send_def internal_target_def Let_def
        split: sum.splits option.splits if_splits prod.splits json.splits)

lemma webhook_policy_Inr:
  "webhook_policy dp config = Inr p \<Longrightarrow>
     \<exists>q. build_policy dp config 3 = Inr q \<and> p = q\<lparr>op_max_redirects := 0\<rparr>"
  by (auto simp: webhook_policy_def split: sum.splits)

section \<open>A concrete environment\<close>

text \<open>One deployment, one server that answers, and a configuration of each kind that sends a request.\<close>

lemma request_sends:
  "validate_url (he_resolver env 0) url policy = Inr t \<Longrightarrow> fst (request env mthd url policy body hs tms) \<noteq> []"
  unfolding request_def
  by (subst request_loop.simps) (auto simp: Let_def split: http_outcome.split option.split prod.split)

definition example_python :: python where
  "example_python =
     \<lparr>py_str_other = (\<lambda>_. []), py_repr = (\<lambda>_. []), py_loads = (\<lambda>_. None), py_dumps = (\<lambda>_. ''{}''),
      py_decode = (\<lambda>s. s), py_hmac_sha256 = (\<lambda>secret message. message), py_isoformat = (\<lambda>_. []),
      py_url_host = (\<lambda>_. Some ''api.example.com''), py_message = (\<lambda>ty. ty)\<rparr>"

definition example_env :: adapter_env where
  "example_env =
     \<lparr>ae_py = example_python, ae_dp = example_deployment, ae_http = ok_env,
      ae_resolve = (\<lambda>_ _ _. Inr ''key''), ae_started = 0, ae_completed = 1\<rparr>"

definition example_request :: invocation_request where
  "example_request =
     \<lparr>rq_invocation_id = ''i1'', rq_connector_id = ''c1'', rq_operation = ''v1'', rq_payload = [],
      rq_idempotency_key = ''k'', rq_actor_id = ''u'', rq_tenant_id = ''t1'', rq_deadline_at = 10,
      rq_trace_id = None, rq_attempt = 1\<rparr>"

definition example_context :: "jobj \<Rightarrow> connector_context" where
  "example_context config =
     \<lparr>cc_connector_id = ''c1'', cc_connector_version = 1, cc_kind = ''http'', cc_config = config,
      cc_tenant_id = ''t1''\<rparr>"

definition http_config :: jobj where
  "http_config =
     [(''base_url'', JStr ''https://api.example.com''), (''allowed_hosts'', JList [JStr ''api.example.com''])]"

definition webhook_config :: jobj where
  "webhook_config =
     [(''target_url'', JStr ''https://api.example.com/v1''), (''allowed_hosts'', JList [JStr ''api.example.com'']),
      (''signing_secret_ref'', JStr ''secret://tenant/t1/key'')]"

definition built_policy :: outbound_policy where
  "built_policy =
     \<lparr>op_allowed_hosts = [''api.example.com''], op_allowed_schemes = [''https''],
      op_allow_private_addresses = False, op_max_redirects = 3, op_max_response_bytes = 1048576,
      op_allowed_content_types = DEFAULT_CONTENT_TYPES\<rparr>"

lemma built_policy:
  "build_policy example_deployment http_config 3 = Inr built_policy"
  "build_policy example_deployment webhook_config 3 = Inr built_policy"
  unfolding built_policy_def by code_simp+

lemma built_target:
  "validate_url (\<lambda>_ _. Inr [''93.184.216.34'']) ''https://api.example.com/v1'' built_policy = Inr api_target"
  "validate_url (\<lambda>_ _. Inr [''93.184.216.34'']) ''https://api.example.com/v1''
     (built_policy\<lparr>op_max_redirects := 0\<rparr>) = Inr api_target"
  unfolding api_target_def by code_simp+

lemma built_timeouts:
  "phase_timeouts example_deployment http_config 10 =
     Inr \<lparr>tm_connect = Fin 5, tm_read = Fin 10, tm_total = Fin 10\<rparr>"
  "phase_timeouts example_deployment webhook_config 10 =
     Inr \<lparr>tm_connect = Fin 5, tm_read = Fin 10, tm_total = Fin 10\<rparr>"
  by (simp_all add: phase_timeouts_def http_config_def webhook_config_def clamp_timeout_def timeout_ceiling_def example_deployment_def
      float_min_def jget_def float_of_def Let_def)

lemma example_url: "http_url example_python http_config ''v1'' = ''https://api.example.com/v1''"
  by code_simp


lemma ok_sends:
  "request ok_env mthd ''https://api.example.com/v1'' built_policy body hs tms = (sent, res) \<Longrightarrow> sent \<noteq> []"
  "request ok_env mthd ''https://api.example.com/v1'' (built_policy\<lparr>op_max_redirects := 0\<rparr>) body hs tms =
     (sent, res) \<Longrightarrow> sent \<noteq> []"
  using request_sends [of ok_env "''https://api.example.com/v1''" built_policy api_target mthd body hs tms]
    request_sends [of ok_env "''https://api.example.com/v1''" "built_policy\<lparr>op_max_redirects := 0\<rparr>" api_target
      mthd body hs tms]
  by (simp_all add: ok_env_def built_target)

lemma example_http_sends: "fst (http_invoke example_env example_request (example_context http_config)) \<noteq> []"
proof -
  have "\<exists>hs. build_headers example_env (example_context http_config) (Some example_request) = Inr hs"
    by (simp add: build_headers_def example_context_def http_config_def get_object_def jget_def add_idempotency_def)
  then show ?thesis
    by (auto simp: http_invoke_def http_send_def example_env_def example_request_def example_context_def
      seconds_remaining_def built_policy built_timeouts example_url Let_def dest: ok_sends split: sum.split prod.split)
qed

lemma example_webhook_sends: "fst (webhook_invoke example_env example_request (example_context webhook_config)) \<noteq> []"
proof -
  have "signing_secret example_env (example_context webhook_config) = SigningSecret ''key''"
    by (simp add: signing_secret_def example_context_def webhook_config_def jget_def example_env_def)
  moreover have "jget ''target_url'' webhook_config = Some (JStr ''https://api.example.com/v1'')"
    by (simp add: webhook_config_def jget_def)
  ultimately show ?thesis
    by (auto simp: webhook_invoke_def webhook_send_def example_env_def example_request_def example_context_def
      seconds_remaining_def built_policy built_timeouts Let_def webhook_policy_def url_text_def example_python_def dest: ok_sends split: sum.split prod.split)
qed

definition service_config :: jobj where
  "service_config = [(''service'', JStr ''search''), (''operation'', JStr ''v1'')]"

definition services :: "(string \<times> string) list" where
  "services = [(''search'', ''https://api.example.com'')]"

lemma service_policy: "internal_policy example_deployment ''api.example.com'' =
   Inr \<lparr>op_allowed_hosts = [''api.example.com''], op_allowed_schemes = [''http'', ''https''],
        op_allow_private_addresses = True, op_max_redirects = 0, op_max_response_bytes = 1048576,
        op_allowed_content_types = DEFAULT_CONTENT_TYPES\<rparr>"
  by (simp add: internal_policy_def int_env_def example_deployment_def)

lemma service_sends:
  "request ok_env mthd ''https://api.example.com/v1''
     \<lparr>op_allowed_hosts = [''api.example.com''], op_allowed_schemes = [''http'', ''https''],
        op_allow_private_addresses = True, op_max_redirects = 0, op_max_response_bytes = 1048576,
        op_allowed_content_types = DEFAULT_CONTENT_TYPES\<rparr> body hs tms = (sent, res) \<Longrightarrow> sent \<noteq> []"
proof -
  let ?p = "\<lparr>op_allowed_hosts = [''api.example.com''], op_allowed_schemes = [''http'', ''https''],
        op_allow_private_addresses = True, op_max_redirects = 0, op_max_response_bytes = 1048576,
        op_allowed_content_types = DEFAULT_CONTENT_TYPES\<rparr>"
  have "validate_url (\<lambda>_ _. Inr [''93.184.216.34'']) ''https://api.example.com/v1'' ?p = Inr api_target"
    unfolding api_target_def by code_simp
  then have "fst (request ok_env mthd ''https://api.example.com/v1'' ?p body hs tms) \<noteq> []"
    by (intro request_sends) (simp add: ok_env_def)
  then show "request ok_env mthd ''https://api.example.com/v1'' ?p body hs tms = (sent, res) \<Longrightarrow> sent \<noteq> []"
    by simp
qed

lemma example_internal_sends:
  "fst (internal_invoke services example_env example_request (example_context service_config)) \<noteq> []"
proof -
  have "internal_target services service_config = Inr (''https://api.example.com'', JStr ''v1'')"
    "operation_error example_python ''v1'' = None" "lstrip_slash ''v1'' = ''v1''"
    by code_simp+
  then show ?thesis
    by (auto simp: internal_invoke_def internal_send_def example_env_def example_request_def example_context_def
      seconds_remaining_def service_policy Let_def example_python_def dest: service_sends split: sum.split prod.split)
qed

section \<open>Properties\<close>



text \<open>
  A webhook delivery is one signed POST: at most one request leaves, with no redirect followed, to
  an accepted target, and its signature header is the one a receiver computes from the secret of
  the configured reference, the event id, the timestamp and the bytes of the body.
\<close>

theorem webhook_delivery_is_one_signed_post:
  assumes "webhook_invoke env rq cc = (sent, out)" and "sent \<noteq> []"
  shows "\<exists>req policy secret reference sig.
    sent = [req] \<and> webhook_policy (ae_dp env) (cc_config cc) = Inr policy \<and>
    reaches_accepted_target (ae_http env) policy 0 req \<and>
    jget ''signing_secret_ref'' (cc_config cc) = Some (JStr reference) \<and>
    ae_resolve env reference (cc_connector_id cc) (cc_tenant_id cc) = Inr secret \<and>
    sq_body req = RawBody (webhook_body env rq cc) \<and>
    map_of (sq_headers req) ''X-FAVL-Event-ID'' = Some (JStr (rq_invocation_id rq)) \<and>
    map_of (sq_headers req) ''X-FAVL-Timestamp'' = Some (JStr (webhook_timestamp env)) \<and>
    map_of (sq_headers req) ''X-FAVL-Signature'' = Some (JStr sig) \<and>
    verify_signature (ae_py env) secret (rq_invocation_id rq) (webhook_timestamp env)
      (webhook_body env rq cc) sig"
proof -
  from assms obtain policy tms secret url res where r: "webhook_policy (ae_dp env) (cc_config cc) = Inr policy"
    "signing_secret env cc = SigningSecret secret"
    "request (ae_http env) (JStr ''POST'') url policy (RawBody (webhook_body env rq cc))
       (webhook_headers env rq cc secret) tms = (sent, res)"
    by (rule webhook_send_request)
  have "op_max_redirects policy = 0"
    using webhook_policy_Inr [OF r(1)] by auto
  then have "length sent \<le> 1"
    using request_length [OF r(3)] by simp
  with assms(2) obtain req where req: "sent = [req]"
    by (cases sent) auto
  have i: "0 < length sent" using req by simp
  note reach = request_reaches [OF r(3) i]
  obtain reference where ref: "jget ''signing_secret_ref'' (cc_config cc) = Some (JStr reference)"
    "ae_resolve env reference (cc_connector_id cc) (cc_tenant_id cc) = Inr secret"
    using r(2) by (auto simp: signing_secret_def split: option.splits json.splits sum.splits secret_error.splits)
  have kept: "sanitise_headers (webhook_headers env rq cc secret) = webhook_headers env rq cc secret"
    by (simp add: sanitise_headers_def webhook_headers_def STRIPPED_REQUEST_HEADERS_def str_lower_def
          char_lower_def)
  obtain h where "sq_headers req = webhook_headers env rq cc secret @ [h]"
    using reach(3) req kept by auto
  then have "map_of (sq_headers req) ''X-FAVL-Event-ID'' = Some (JStr (rq_invocation_id rq))"
    "map_of (sq_headers req) ''X-FAVL-Timestamp'' = Some (JStr (webhook_timestamp env))"
    "map_of (sq_headers req) ''X-FAVL-Signature'' = Some (JStr (build_signature (ae_py env) secret
       (rq_invocation_id rq) (webhook_timestamp env) (webhook_body env rq cc)))"
    by (simp_all add: webhook_headers_def)
  then show ?thesis
    using req r(1) ref reach(1,5)
    by (intro exI [of _ req] exI [of _ policy] exI [of _ secret] exI [of _ reference]
          exI [of _ "build_signature (ae_py env) secret (rq_invocation_id rq) (webhook_timestamp env)
            (webhook_body env rq cc)"])
      (simp add: verify_signature_def)
qed

theorem webhook_delivery_is_one_signed_post_witness:
  "\<exists>req sig. fst (webhook_invoke example_env example_request (example_context webhook_config)) = [req] \<and>
     map_of (sq_headers req) ''X-FAVL-Signature'' = Some (JStr sig) \<and>
     verify_signature example_python ''key'' ''i1'' ''0'' ''{}'' sig"
proof -
  obtain sent out where r: "webhook_invoke example_env example_request (example_context webhook_config) = (sent, out)"
    by (cases "webhook_invoke example_env example_request (example_context webhook_config)") auto
  then have "sent \<noteq> []"
    using example_webhook_sends by auto
  moreover have "int_str 0 = ''0''"
    by code_simp
  then have "webhook_timestamp example_env = ''0''"
    by (simp add: webhook_timestamp_def example_env_def)
  ultimately show ?thesis
    using webhook_delivery_is_one_signed_post [OF r] r
    by (auto simp: example_env_def example_request_def example_context_def webhook_body_def example_python_def)
qed

text \<open>
  The internal adapter addresses registered services only: at most one request leaves, its URL is
  a registered base followed by an operation of safe characters without a parent segment, and its
  address is never loopback, link-local or a metadata service.
\<close>

theorem internal_requests_stay_registered:
  assumes "internal_invoke reg env rq cc = (sent, out)" and "sent \<noteq> []"
  shows "\<exists>req service base op (t :: validated_target).
    sent = [req] \<and> lookup_service reg service = Some base \<and>
    (\<forall>c \<in> set op. safe_char c) \<and> ''..'' \<notin> set (split_on (CHR ''/'') op) \<and>
    vt_url t = base @ ''/'' @ lstrip_slash op \<and> sq_url req = vt_pinned_url t \<and>
    (\<exists>a. vt_address t = ip_str a \<and> classify a True = None)"
proof -
  from assms obtain policy host service base op tms res where r: "lookup_service reg service = Some base"
    "operation_error (ae_py env) op = None" "internal_policy (ae_dp env) host = Inr policy"
    "request (ae_http env) (JStr ''POST'') (base @ ''/'' @ lstrip_slash op) policy
       (JsonBody (JObj (rq_payload rq))) (internal_headers rq) tms = (sent, res)"
    by (rule internal_send_request)
  have p: "op_max_redirects policy = 0" "op_allow_private_addresses policy"
    using r(3) by (auto simp: internal_policy_def split: sum.splits)
  then obtain req where req: "sent = [req]"
    using request_length [OF r(4)] assms(2) by (cases sent) auto
  obtain t where t: "validate_url (he_resolver (ae_http env) 0) (base @ ''/'' @ lstrip_slash op) policy = Inr t"
    "req = build_request (JStr ''POST'') (sanitise_headers (internal_headers rq)) (JsonBody (JObj (rq_payload rq))) tms t"
    using request_first [OF r(4) [unfolded req]] by blast
  have "vt_url t = base @ ''/'' @ lstrip_slash op"
    using t(1) validate_url_Inr by blast
  moreover have "(\<forall>c \<in> set op. safe_char c) \<and> ''..'' \<notin> set (split_on (CHR ''/'') op)"
    using r(2) by (auto simp: operation_error_def list_all_iff split: if_splits)
  moreover have "sq_url req = vt_pinned_url t"
    using t(2) by (simp add: build_request_def)
  moreover have "\<exists>a. vt_address t = ip_str a \<and> classify a True = None"
    using validated_address [OF t(1)] p(2) by simp
  ultimately show ?thesis
    using req r(1) by blast
qed

theorem internal_requests_stay_registered_witness:
  "\<exists>req. fst (internal_invoke services example_env example_request (example_context service_config)) = [req]"
proof -
  obtain sent out where r: "internal_invoke services example_env example_request (example_context service_config) =
      (sent, out)"
    by (cases "internal_invoke services example_env example_request (example_context service_config)") auto
  then have "sent \<noteq> []"
    using example_internal_sends by auto
  from internal_requests_stay_registered [OF r this] r show ?thesis by auto
qed

text \<open>
  Whatever the outside world does, an adapter's result is classified: success exactly when there is
  no error code, retryable exactly for the three upstream codes, a status that is final, and no
  dispatch at all once the deadline has passed.  This holds for all three adapters.
\<close>

theorem adapter_results_are_classified:
  assumes "ad \<in> {internal_invoke reg, http_invoke, webhook_invoke}"
  shows "(\<forall>sent res. ad env rq cc = (sent, Inr res) \<longrightarrow>
      (ir_status res = SUCCEEDED \<longleftrightarrow> ir_error_code res = None) \<and>
      (ir_retryable res \<longleftrightarrow> (\<exists>code \<in> RETRYABLE_CODES. ir_error_code res = Some code)) \<and>
      ir_status res \<notin> {ACCEPTED, RUNNING, CANCELLED}) \<and>
    (seconds_remaining rq (ae_started env) = 0 \<longrightarrow> fst (ad env rq cc) = [])"
proof -
  from assms consider "ad = internal_invoke reg" | "ad = http_invoke" | "ad = webhook_invoke"
    by auto
  then have "connector_adapter ad"
    by cases (simp_all add: internal.connector_adapter_axioms http.connector_adapter_axioms
        webhook.connector_adapter_axioms)
  note laws = connector_adapter.success_has_no_error [OF this] connector_adapter.retryable_iff [OF this]
    connector_adapter.terminal_status [OF this]
  show ?thesis
    using laws connector_adapter.no_dispatch_after_deadline [OF \<open>connector_adapter ad\<close>] by blast
qed

theorem adapter_results_are_classified_witness:
  "fst (webhook_invoke example_env (example_request\<lparr>rq_deadline_at := 0\<rparr>) (example_context webhook_config)) = []"
proof -
  have "seconds_remaining (example_request\<lparr>rq_deadline_at := 0\<rparr>) (ae_started example_env) = 0"
    by (simp add: seconds_remaining_def example_request_def example_env_def)
  then show ?thesis
    using adapter_results_are_classified [of webhook_invoke services example_env
        "example_request\<lparr>rq_deadline_at := 0\<rparr>" "example_context webhook_config"]
    by simp
qed

text \<open>
  The signed text determines its parts: as neither the event id nor the timestamp contains a dot,
  no other id, timestamp and body can be spliced into the same signed bytes.
\<close>

theorem signed_string_binds_its_parts:
  assumes "CHR ''.'' \<notin> set event_id" and "CHR ''.'' \<notin> set event_id'"
    and "CHR ''.'' \<notin> set timestamp" and "CHR ''.'' \<notin> set timestamp'"
  shows "signed_string event_id timestamp body = signed_string event_id' timestamp' body' \<longleftrightarrow>
    event_id = event_id' \<and> timestamp = timestamp' \<and> body = body'"
  using assms by (auto simp: signed_string_def append_eq_append_conv2 append_eq_Cons_conv Cons_eq_append_conv)

theorem signed_string_binds_its_parts_witness:
  "signed_string ''a'' ''12'' ''3.b'' \<noteq> signed_string ''a'' ''1'' ''23.b''"
  using signed_string_binds_its_parts [of "''a''" "''a''" "''12''" "''1''" "''3.b''" "''23.b''"] by simp

end
