(* ===== verification/Invocations.thy ===== *)
theory Invocations
  imports Connectors Adapters
begin

text \<open>
  \<open>connector-registry/app/invocations.py\<close>: the runtime of one invocation.  Its transactions are
  separate functions, because other requests commit between them: \<open>accept_lookup\<close> and
  \<open>accept_insert\<close> (the flush that the unique constraint guards), \<open>start_invocation\<close>,
  \<open>call_adapter\<close> (no transaction is open) and \<open>finalise\<close>; \<open>accept\<close> and \<open>execute\<close> compose them
  as the code does, with the database each await finds as an argument.  The record an execution
  holds is its own copy of the row, as the ORM object is.

  Column lengths and the NUL characters that PostgreSQL refuses are modelled (\<open>fits\<close>,
  \<open>storable\<close>), because a value that does not fit aborts the commit it is part of.  \<open>call_env\<close> is
  the outside of one adapter call: the adapter's environment, the clock when the budget is
  computed, the time the adapter takes, how many of its requests were sent when it was cancelled,
  and the clock after a failure.  Metrics and log lines are not modelled.
\<close>

section \<open>Executability\<close>

datatype not_executable = ConnectorNotExecutable string error_code int  \<comment> \<open>status, code, HTTP status\<close>

definition REFUSAL :: "(string \<times> error_code \<times> int) list" where
  "REFUSAL =
     [(state_value REVOKED, CONNECTOR_REVOKED, 403),
      (state_value DELETION_REQUESTED, CONNECTOR_DELETION_PENDING, 409),
      (state_value ARCHIVED, CONNECTOR_GONE, 410),
      (state_value DELETED, CONNECTOR_GONE, 410),
      (state_value DRAFT, CONNECTOR_NOT_VALIDATED, 409),
      (state_value INSTALLED, CONNECTOR_NOT_VALIDATED, 409),
      (state_value CONFIGURED, CONNECTOR_NOT_VALIDATED, 409),
      (state_value VALIDATED, CONNECTOR_NOT_VALIDATED, 409),
      (state_value DISABLED, CONNECTOR_DISABLED, 409)]"

definition check_executable :: "connector \<Rightarrow> not_executable + unit" where
  "check_executable c =
     (if is_executable (c_status c) then Inr ()
      else case map_of REFUSAL (c_status c) of
             Some (code, http_status) \<Rightarrow> Inl (ConnectorNotExecutable (c_status c) code http_status)
           | None \<Rightarrow> Inl (ConnectorNotExecutable (c_status c) CONNECTOR_DISABLED 409))"

section \<open>Values PostgreSQL refuses\<close>

definition fits :: "nat \<Rightarrow> string \<Rightarrow> bool" where
  "fits n s \<longleftrightarrow> length s \<le> n \<and> char_of (0 :: nat) \<notin> set s"

definition text_ok :: "string \<Rightarrow> bool" where
  "text_ok s \<longleftrightarrow> char_of (0 :: nat) \<notin> set s"

definition fits_opt :: "nat \<Rightarrow> string option \<Rightarrow> bool" where
  "fits_opt n v = (case v of None \<Rightarrow> True | Some s \<Rightarrow> fits n s)"

fun jsonb_ok :: "json \<Rightarrow> bool" where
  "jsonb_ok (JFloat f) = (case f of Fin q \<Rightarrow> True | _ \<Rightarrow> False)"
| "jsonb_ok (JStr s) = text_ok s"
| "jsonb_ok (JList xs) = list_all jsonb_ok xs"
| "jsonb_ok (JObj d) = list_all (\<lambda>(k, v). text_ok k \<and> jsonb_ok v) d"
| "jsonb_ok _ = True"

section \<open>Events\<close>

definition opt_bool :: "bool option \<Rightarrow> json" where
  "opt_bool v = (case v of None \<Rightarrow> JNull | Some b \<Rightarrow> JBool b)"

definition invocation_payload :: "invocation \<Rightarrow> jobj option \<Rightarrow> jobj" where
  "invocation_payload r extra =
     (let payload =
        [(''invocation_id'', JStr (i_id r)),
         (''connector_id'', JStr (i_connector_id r)),
         (''connector_version'', JInt (i_connector_version r)),
         (''adapter_kind'', JStr (i_adapter_kind r)),
         (''tenant_id'', JStr (i_tenant_id r)),
         (''actor_id'', JStr (i_actor_id r)),
         (''operation'', JStr (i_operation r)),
         (''status'', JStr (i_status r)),
         (''attempt'', JInt (i_attempt r))]
        @ (if truthy_text (i_trace_id r) then [(''trace_id'', JStr (the (i_trace_id r)))] else [])
        @ (if truthy_text (i_error_code r)
           then [(''error_code'', JStr (the (i_error_code r))), (''retryable'', opt_bool (i_retryable r))]
           else [])
        @ (case (i_started_at r, i_completed_at r) of
             (Some s, Some c) \<Rightarrow> [(''duration_ms'', JFloat (Fin (round3 ((c - s) * 1000))))]
           | _ \<Rightarrow> [])
      in case extra of None \<Rightarrow> payload | Some d \<Rightarrow> fold (\<lambda>(k, v). dict_set k v) d payload)"

definition emit ::
  "outbox_row list \<Rightarrow> world \<Rightarrow> invocation \<Rightarrow> string \<Rightarrow> jobj option \<Rightarrow> outbox_row list" where
  "emit rows w r event_type extra =
     enqueue rows (w_event_id w) (w_now w) event_type (invocation_payload r extra)
       ''invocation'' (Some (i_id r)) (i_aggregate_version r)"

section \<open>Accepting\<close>

record accept_args =
  aa_operation :: string
  aa_idempotency_key :: string
  aa_actor_id :: string
  aa_tenant_id :: string
  aa_timeout_seconds :: rat
  aa_trace_id :: "string option"

definition same_key :: "string \<Rightarrow> uuid \<Rightarrow> string \<Rightarrow> invocation \<Rightarrow> bool" where
  "same_key tenant_id connector_id key r \<longleftrightarrow>
     i_tenant_id r = tenant_id \<and> i_connector_id r = connector_id \<and> i_idempotency_key r = key"

definition find_existing :: "registry_db \<Rightarrow> string \<Rightarrow> uuid \<Rightarrow> string \<Rightarrow> invocation option" where
  "find_existing db tenant_id connector_id key =
     List.find (same_key tenant_id connector_id key) (db_invocations db)"

definition in_flight_status :: "string \<Rightarrow> bool" where
  "in_flight_status s = (s \<in> {status_value ACCEPTED, status_value RUNNING})"

datatype accept_outcome =
    Replayed invocation bool  \<comment> \<open>the record, in flight\<close>
  | Fresh invocation
  | AcceptRaises string

definition new_invocation :: "world \<Rightarrow> connector \<Rightarrow> accept_args \<Rightarrow> invocation" where
  "new_invocation w c args =
     \<lparr>i_id = w_row_id w, i_connector_id = c_id c, i_connector_version = c_version c,
      i_adapter_kind = c_kind c, i_idempotency_key = aa_idempotency_key args,
      i_actor_id = aa_actor_id args, i_tenant_id = aa_tenant_id args,
      i_operation = aa_operation args, i_status = status_value ACCEPTED, i_attempt = 1,
      i_aggregate_version = 1, i_deadline_at = w_now w + aa_timeout_seconds args,
      i_started_at = None, i_completed_at = None, i_provider_request_id = None,
      i_error_code = None, i_error_detail = None, i_retryable = None,
      i_trace_id = aa_trace_id args, i_output = None, i_audit_metadata = [],
      i_created_at = w_now w\<rparr>"

definition row_fits :: "invocation \<Rightarrow> bool" where
  "row_fits r \<longleftrightarrow>
     fits 16 (i_adapter_kind r) \<and> fits 255 (i_idempotency_key r) \<and> fits 255 (i_actor_id r) \<and>
     fits 255 (i_tenant_id r) \<and> fits 255 (i_operation r) \<and> fits_opt 64 (i_trace_id r)"

definition accept_lookup :: "registry_db \<Rightarrow> connector \<Rightarrow> accept_args \<Rightarrow> accept_outcome option" where
  "accept_lookup db c args =
     (case find_existing db (aa_tenant_id args) (c_id c) (aa_idempotency_key args) of
        Some existing \<Rightarrow> Some (Replayed existing (in_flight_status (i_status existing)))
      | None \<Rightarrow> None)"

text \<open>
  The flush fails on a value that does not fit (no IntegrityError, so it is raised), on the unique
  key, on a primary key that is taken, and on a connector that does not exist.
\<close>

definition accept_insert ::
  "registry_db \<Rightarrow> world \<Rightarrow> connector \<Rightarrow> accept_args \<Rightarrow> registry_db \<times> accept_outcome" where
  "accept_insert db w c args =
     (let r = new_invocation w c args;
          existing = find_existing db (aa_tenant_id args) (c_id c) (aa_idempotency_key args)
      in if \<not> row_fits r then (db, AcceptRaises ''DBAPIError'')
         else if existing \<noteq> None \<or> i_id r \<in> i_id ` set (db_invocations db) \<or>
                 c_id c \<notin> c_id ` set (db_connectors db)
         then (case existing of
                 None \<Rightarrow> (db, AcceptRaises ''IntegrityError'')
               | Some row \<Rightarrow> (db, Replayed row True))
         else (db\<lparr>db_invocations := db_invocations db @ [r],
                  db_outbox := emit (db_outbox db) w r ''connector.invocation.accepted'' None\<rparr>,
               Fresh r))"

text \<open>\<open>seen\<close> is the database the first query reads, \<open>db\<close> the one the flush meets.\<close>

definition accept ::
  "registry_db \<Rightarrow> registry_db \<Rightarrow> world \<Rightarrow> connector \<Rightarrow> accept_args \<Rightarrow> registry_db \<times> accept_outcome" where
  "accept seen db w c args =
     (case accept_lookup seen c args of
        Some out \<Rightarrow> (db, out)
      | None \<Rightarrow> accept_insert db w c args)"

section \<open>Executing\<close>

record call_env =
  ce_adapter :: adapter_env
  ce_now :: time
  ce_elapsed :: rat
  ce_sent :: nat
  ce_failed_at :: time

definition start_invocation ::
  "registry_db \<Rightarrow> world \<Rightarrow> invocation \<Rightarrow> registry_db \<times> invocation" where
  "start_invocation db w r =
     (let r = r\<lparr>i_status := status_value RUNNING, i_started_at := Some (w_now w),
                i_aggregate_version := i_aggregate_version r + 1\<rparr>
      in (db\<lparr>db_invocations := update_row i_id r (db_invocations db),
             db_outbox := emit (db_outbox db) w r ''connector.invocation.started'' None\<rparr>, r))"

definition context_of :: "connector \<Rightarrow> invocation \<Rightarrow> connector_context" where
  "context_of c r =
     \<lparr>cc_connector_id = c_id c, cc_connector_version = c_version c, cc_kind = c_kind c,
      cc_config = c_config c, cc_tenant_id = i_tenant_id r\<rparr>"

definition request_of :: "connector \<Rightarrow> invocation \<Rightarrow> jobj \<Rightarrow> invocation_request" where
  "request_of c r payload =
     \<lparr>rq_invocation_id = i_id r, rq_connector_id = c_id c, rq_operation = i_operation r,
      rq_payload = payload, rq_idempotency_key = i_idempotency_key r, rq_actor_id = i_actor_id r,
      rq_tenant_id = i_tenant_id r, rq_deadline_at = i_deadline_at r, rq_trace_id = i_trace_id r,
      rq_attempt = i_attempt r\<rparr>"

text \<open>\<open>format(budget, ".1f")\<close>: ties go to the even digit.\<close>

definition format_1f :: "rat \<Rightarrow> string" where
  "format_1f q =
     (let n = \<lfloor>q * 10\<rfloor>; r = q * 10 - of_int n;
          n = (if r > 1 / 2 \<or> r = 1 / 2 \<and> odd n then n + 1 else n)
      in int_str (n div 10) @ ''.'' @ int_str (n mod 10))"

definition timeout_result :: "invocation \<Rightarrow> rat \<Rightarrow> time \<Rightarrow> invocation_result" where
  "timeout_result r budget now =
     failure UPSTREAM_TIMEOUT (''adapter exceeded the '' @ format_1f budget @ ''s deadline'')
       (i_started_at r) (Some now) None []"

definition exception_result :: "invocation \<Rightarrow> raised \<Rightarrow> time \<Rightarrow> invocation_result" where
  "exception_result r e now =
     (case e of Raised ty msg \<Rightarrow>
        failure UPSTREAM_ERROR (take 500 (ty @ '': '' @ msg)) (i_started_at r) (Some now) None [])"

text \<open>
  \<open>wait_for\<close>: a budget that is not positive cancels the call before it starts; a call that takes
  longer is cancelled with some of its requests sent.  A TimeoutError of the adapter's own takes
  the same branch.
\<close>

definition call_adapter ::
  "adapter \<Rightarrow> call_env \<Rightarrow> connector \<Rightarrow> invocation \<Rightarrow> jobj \<Rightarrow> sent_request list \<times> invocation_result" where
  "call_adapter a ce c r payload =
     (let rq = request_of c r payload;
          budget = seconds_remaining rq (ce_now ce);
          timed_out = timeout_result r budget (ce_failed_at ce)
      in if budget \<le> 0 then ([], timed_out)
         else case ad_invoke a (ce_adapter ce) rq (context_of c r) of
                (sent, out) \<Rightarrow>
                  if ce_elapsed ce > budget then (take (ce_sent ce) sent, timed_out)
                  else case out of
                         Inr res \<Rightarrow> (sent, res)
                       | Inl (Raised ty msg) \<Rightarrow>
                           (sent, if ty = ''TimeoutError'' then timed_out
                                  else exception_result r (Raised ty msg) (ce_failed_at ce)))"

fun TERMINAL_EVENT :: "invocation_status \<Rightarrow> string option" where
  "TERMINAL_EVENT SUCCEEDED = Some ''connector.invocation.succeeded''"
| "TERMINAL_EVENT TIMED_OUT = Some ''connector.invocation.timed_out''"
| "TERMINAL_EVENT FAILED_RETRYABLE = Some ''connector.invocation.failed''"
| "TERMINAL_EVENT FAILED_TERMINAL = Some ''connector.invocation.failed''"
| "TERMINAL_EVENT CANCELLED = Some ''connector.invocation.failed''"
| "TERMINAL_EVENT _ = None"

definition finalised :: "world \<Rightarrow> invocation \<Rightarrow> invocation_result \<Rightarrow> invocation" where
  "finalised w r res =
     r\<lparr>i_status := status_value (ir_status res),
       i_completed_at := (case ir_completed_at res of Some t \<Rightarrow> Some t | None \<Rightarrow> Some (w_now w)),
       i_started_at :=
         (case i_started_at r of Some t \<Rightarrow> Some t
          | None \<Rightarrow> (case ir_started_at res of Some t \<Rightarrow> Some t | None \<Rightarrow> Some (w_now w))),
       i_provider_request_id := ir_provider_request_id res,
       i_error_code := map_option code_value (ir_error_code res),
       i_error_detail := (if ir_error_detail res = [] then None else Some (ir_error_detail res)),
       i_retryable := Some (ir_retryable res),
       i_output := (if ir_output res = [] then None else Some (ir_output res)),
       i_audit_metadata := ir_audit_metadata res,
       i_aggregate_version := i_aggregate_version r + 1\<rparr>"

definition storable :: "invocation_result \<Rightarrow> bool" where
  "storable res \<longleftrightarrow>
     fits_opt 255 (ir_provider_request_id res) \<and> text_ok (ir_error_detail res) \<and>
     jsonb_ok (JObj (ir_output res)) \<and> jsonb_ok (JObj (ir_audit_metadata res))"

definition finalise ::
  "registry_db \<Rightarrow> world \<Rightarrow> invocation \<Rightarrow> invocation_result \<Rightarrow> registry_db \<times> (string + invocation)" where
  "finalise db w r res =
     (case TERMINAL_EVENT (ir_status res) of
        None \<Rightarrow> (db, Inl ''KeyError'')
      | Some event \<Rightarrow>
          if \<not> storable res then (db, Inl ''DBAPIError'')
          else let r = finalised w r res
               in (db\<lparr>db_invocations := update_row i_id r (db_invocations db),
                      db_outbox := emit (db_outbox db) w r event None\<rparr>, Inr r))"

text \<open>
  The whole execution; \<open>others\<close> is what other transactions commit while the adapter runs.
\<close>

definition execute ::
  "adapter_registry \<Rightarrow> registry_db \<Rightarrow> (registry_db \<Rightarrow> registry_db) \<Rightarrow> world \<Rightarrow> world \<Rightarrow> call_env \<Rightarrow>
   connector \<Rightarrow> invocation \<Rightarrow> jobj \<Rightarrow> sent_request list \<times> registry_db \<times> (string + invocation)" where
  "execute registry db others w1 w2 ce c r payload =
     (case get_adapter registry (c_kind c) of
        Inl known \<Rightarrow>
          ([], finalise db w1 r
                 (failure UNKNOWN_KIND (unknown_kind_text (ae_py (ce_adapter ce)) (c_kind c) known)
                    None None None []))
      | Inr a \<Rightarrow>
          (case start_invocation db w1 r of
             (db1, r1) \<Rightarrow>
               (case call_adapter a ce c r1 payload of
                  (sent, res) \<Rightarrow> (sent, finalise (others db1) w2 r1 res))))"

section \<open>Facts about the operations\<close>

lemma char_zero [simp]: "char_of (0 :: nat) = CHR 0x00"
  by code_simp

definition key_of :: "invocation \<Rightarrow> string \<times> uuid \<times> string" where
  "key_of r = (i_tenant_id r, i_connector_id r, i_idempotency_key r)"

definition keys_unique :: "registry_db \<Rightarrow> bool" where
  "keys_unique db \<longleftrightarrow> distinct (map key_of (db_invocations db))"

lemma same_key_iff: "same_key t c k r \<longleftrightarrow> key_of r = (t, c, k)"
  by (simp add: same_key_def key_of_def)

lemma find_existing_Some: "find_existing db t c k = Some r \<Longrightarrow> r \<in> set (db_invocations db) \<and> key_of r = (t, c, k)"
  by (auto simp: find_existing_def find_Some_iff same_key_iff)

lemma find_existing_None: "find_existing db t c k = None \<longleftrightarrow> (t, c, k) \<notin> key_of ` set (db_invocations db)"
  by (force simp: find_existing_def find_None_iff same_key_iff)

lemma find_existing_unique:
  "keys_unique db \<Longrightarrow> r \<in> set (db_invocations db) \<Longrightarrow>
     find_existing db (i_tenant_id r) (i_connector_id r) (i_idempotency_key r) = Some r"
proof -
  assume uniq: "keys_unique db" and r: "r \<in> set (db_invocations db)"
  then obtain r' where r': "find_existing db (i_tenant_id r) (i_connector_id r) (i_idempotency_key r) = Some r'"
    using find_existing_None [of db] by (cases "find_existing db (i_tenant_id r) (i_connector_id r) (i_idempotency_key r)")
      (auto simp: key_of_def image_iff)
  with find_existing_Some [OF this] uniq r show ?thesis
    by (auto simp: keys_unique_def distinct_map key_of_def inj_on_def)
qed

lemma key_of_new [simp]: "key_of (new_invocation w c args) = (aa_tenant_id args, c_id c, aa_idempotency_key args)"
  "i_id (new_invocation w c args) = w_row_id w" "i_aggregate_version (new_invocation w c args) = 1"
  "i_status (new_invocation w c args) = status_value ACCEPTED"
  by (simp_all add: key_of_def new_invocation_def)

lemma accept_insert_cases:
  assumes "accept_insert db w c args = (db', out)"
  obtains (fresh) "out = Fresh (new_invocation w c args)"
      "find_existing db (aa_tenant_id args) (c_id c) (aa_idempotency_key args) = None"
      "w_row_id w \<notin> i_id ` set (db_invocations db)" "c_id c \<in> c_id ` set (db_connectors db)"
      "db' = db\<lparr>db_invocations := db_invocations db @ [new_invocation w c args],
                db_outbox := emit (db_outbox db) w (new_invocation w c args) ''connector.invocation.accepted'' None\<rparr>"
  | (race) r where "out = Replayed r True" "db' = db"
      "find_existing db (aa_tenant_id args) (c_id c) (aa_idempotency_key args) = Some r"
  | (raises) e where "out = AcceptRaises e" "db' = db"
proof (cases "row_fits (new_invocation w c args)")
  case False
  with assms show ?thesis by (intro raises) (auto simp: accept_insert_def Let_def)
next
  case fit: True
  let ?old = "find_existing db (aa_tenant_id args) (c_id c) (aa_idempotency_key args)"
  show ?thesis
  proof (cases ?old)
    case (Some r)
    with fit assms show ?thesis by (intro race [of r]) (auto simp: accept_insert_def Let_def)
  next
    case None
    show ?thesis
    proof (cases "w_row_id w \<in> i_id ` set (db_invocations db) \<or> c_id c \<notin> c_id ` set (db_connectors db)")
      case True
      with fit None assms show ?thesis by (intro raises) (auto simp: accept_insert_def Let_def)
    next
      case False
      with fit None assms show ?thesis by (intro fresh) (auto simp: accept_insert_def Let_def)
    qed
  qed
qed

lemma accept_cases:
  assumes "accept seen db w c args = (db', out)"
  obtains (replayed) r where "out = Replayed r (in_flight_status (i_status r))" "db' = db"
      "find_existing seen (aa_tenant_id args) (c_id c) (aa_idempotency_key args) = Some r"
  | (insert) "find_existing seen (aa_tenant_id args) (c_id c) (aa_idempotency_key args) = None"
      "accept_insert db w c args = (db', out)"
  using assms by (auto simp: accept_def accept_lookup_def split: option.splits)

lemma emit_event:
  "\<exists>e. emit rows w r event extra = rows @ [e] \<and>
     aggregate_event ''invocation'' (i_id r) (i_aggregate_version r) e \<and> o_subject e = event \<and>
     o_payload e = invocation_payload r extra"
  by (simp add: emit_def enqueue_def aggregate_event_def)

lemma start_invocation_simps:
  assumes "start_invocation db w r = (db', r')"
  shows "r' = r\<lparr>i_status := status_value RUNNING, i_started_at := Some (w_now w),
      i_aggregate_version := i_aggregate_version r + 1\<rparr>"
    and "db' = db\<lparr>db_invocations := update_row i_id r' (db_invocations db),
      db_outbox := emit (db_outbox db) w r' ''connector.invocation.started'' None\<rparr>"
  using assms by (auto simp: start_invocation_def Let_def)

lemma finalised_simps [simp]:
  "i_id (finalised w r res) = i_id r" "key_of (finalised w r res) = key_of r"
  "i_status (finalised w r res) = status_value (ir_status res)"
  "i_aggregate_version (finalised w r res) = i_aggregate_version r + 1"
  "i_error_code (finalised w r res) = map_option code_value (ir_error_code res)"
  by (simp_all add: finalised_def key_of_def)

lemma finalise_cases:
  assumes "finalise db w r res = (db', out)"
  obtains (stored) event where "out = Inr (finalised w r res)" "storable res"
      "TERMINAL_EVENT (ir_status res) = Some event"
      "db' = db\<lparr>db_invocations := update_row i_id (finalised w r res) (db_invocations db),
                db_outbox := emit (db_outbox db) w (finalised w r res) event None\<rparr>"
  | (rejected) "out = Inl ''DBAPIError''" "\<not> storable res" "db' = db"
  | (no_event) "out = Inl ''KeyError''" "ir_status res \<in> {ACCEPTED, RUNNING}" "db' = db"
  using assms by (cases "ir_status res") (auto simp: finalise_def Let_def split: option.splits if_splits)

text \<open>An execution ends on a row of its own key, whatever the registry, the adapter and the others do.\<close>

lemma execute_row:
  assumes "execute registry db others w1 w2 ce c r payload = (sent, db', out)"
    and row: "r \<in> set (db_invocations db)"
    and others: "\<forall>d. \<forall>r \<in> set (db_invocations d). \<exists>r' \<in> set (db_invocations (others d)). i_id r' = i_id r \<and> key_of r' = key_of r"
  shows "(\<exists>r' \<in> set (db_invocations db'). key_of r' = key_of r) \<and>
    (\<forall>r'. out = Inr r' \<longrightarrow> r' \<in> set (db_invocations db') \<and> key_of r' = key_of r)"
proof -
  have settle: ?thesis
    if fin: "finalise d w r1 res = (db', out)" and r0: "r0 \<in> set (db_invocations d)" "i_id r0 = i_id r1" "key_of r0 = key_of r"
      and same: "key_of r1 = key_of r" for d w r1 res r0
    using fin
  proof (cases rule: finalise_cases)
    case (stored event)
    have "finalised w r1 res \<in> set (db_invocations db')"
      using r0(1) r0(2) [symmetric] stored(4) by (auto intro!: update_row_mem)
    with stored(1) same show ?thesis
      by (auto intro!: bexI [of _ "finalised w r1 res"])
  qed (use r0 in auto)
  show ?thesis
  proof (cases "get_adapter registry (c_kind c)")
    case (Inl known)
    with assms(1) have "finalise db w1 r (failure UNKNOWN_KIND (unknown_kind_text (ae_py (ce_adapter ce)) (c_kind c) known)
        None None None []) = (db', out)"
      by (simp add: execute_def)
    from settle [OF this row refl refl refl] show ?thesis .
  next
    case (Inr a)
    obtain db1 r1 where start: "start_invocation db w1 r = (db1, r1)"
      by (cases "start_invocation db w1 r") auto
    obtain sent' res where call: "call_adapter a ce c r1 payload = (sent', res)"
      by (cases "call_adapter a ce c r1 payload") auto
    have same: "i_id r1 = i_id r" "key_of r1 = key_of r"
      using start_invocation_simps(1) [OF start] by (simp_all add: key_of_def)
    have "r1 \<in> set (db_invocations db1)"
      using start_invocation_simps(2) [OF start] row same by (auto intro!: update_row_mem simp: image_iff)
    then obtain r0 where r0: "r0 \<in> set (db_invocations (others db1))" "i_id r0 = i_id r1" "key_of r0 = key_of r1"
      using others by blast
    have "finalise (others db1) w2 r1 res = (db', out)"
      using assms(1) Inr start call by (simp add: execute_def)
    from settle [OF this r0(1,2)] r0(3) same show ?thesis by simp
  qed
qed

section \<open>Registered adapters\<close>

lemma registered_adapter:
  "get_adapter (build_registry services) kind = Inr a \<Longrightarrow> connector_adapter (ad_invoke a)"
  by (auto simp: get_adapter_def build_registry_eq internal_adapter_def http_adapter_def webhook_adapter_def
      internal.connector_adapter_axioms http.connector_adapter_axioms webhook.connector_adapter_axioms
      split: if_splits)

lemma call_adapter_ok:
  assumes "connector_adapter (ad_invoke a)" and "call_adapter a ce c r payload = (sent, res)"
  shows "result_ok res"
proof -
  obtain sent' out where out: "ad_invoke a (ce_adapter ce) (request_of c r payload) (context_of c r) = (sent', out)"
    by (cases "ad_invoke a (ce_adapter ce) (request_of c r payload) (context_of c r)") auto
  show ?thesis
  proof (cases out)
    case (Inl e)
    with assms(2) out show ?thesis
      by (cases e) (auto simp: call_adapter_def Let_def timeout_result_def exception_result_def split: if_splits)
  next
    case (Inr res')
    with connector_adapter.invoke_result_ok [OF assms(1)] out have "result_ok res'"
      by blast
    with Inr assms(2) out show ?thesis
      by (auto simp: call_adapter_def Let_def timeout_result_def split: if_splits)
  qed
qed

lemma call_adapter_expired:
  "seconds_remaining (request_of c r payload) (ce_now ce) = 0 \<Longrightarrow>
     call_adapter a ce c r payload = ([], timeout_result r 0 (ce_failed_at ce))"
  by (simp add: call_adapter_def Let_def)

lemma expired_storable: "storable (timeout_result r 0 now)"
proof -
  have "int_str 0 = ''0''" by code_simp
  then have "format_1f 0 = ''0.0''" by (simp add: format_1f_def)
  then show ?thesis
    by (simp add: storable_def timeout_result_def failure_def fits_opt_def text_ok_def)
qed

lemma timeout_status [simp]: "ir_status (timeout_result r budget now) = TIMED_OUT"
  by (simp add: timeout_result_def failure_def failure_status_def)

lemma status_value_inject [simp]: "status_value s = status_value t \<longleftrightarrow> s = t"
  by (cases s; cases t) simp_all

lemma code_value_neq [simp]: "code_value code \<noteq> []"
  by (cases code) simp_all

section \<open>Properties\<close>

text \<open>
  Executability is fail-closed and explained: exactly the status "enabled" passes, and every
  other stored status, known to the machine or not, is refused, as forbidden when revoked, gone
  when archived or deleted and as a conflict otherwise.
\<close>

theorem check_executable_exact:
  "case check_executable c of
     Inr _ \<Rightarrow> c_status c = ''enabled''
   | Inl (ConnectorNotExecutable status code http_status) \<Rightarrow>
       status = c_status c \<and> status \<noteq> ''enabled'' \<and> code_value code \<noteq> [] \<and>
       http_status = (if status = ''revoked'' then 403
                      else if status = ''archived'' \<or> status = ''deleted'' then 410 else 409)"
proof (cases "ConnectorState (c_status c)")
  case None
  then have no: "c_status c \<noteq> state_value s" for s
    by (metis ConnectorState_value option.distinct(1))
  note other = no [of ENABLED] no [of REVOKED] no [of DELETION_REQUESTED] no [of ARCHIVED] no [of DELETED]
    no [of DRAFT] no [of INSTALLED] no [of CONFIGURED] no [of VALIDATED] no [of DISABLED]
  then have "map_of REFUSAL (c_status c) = None" "\<not> is_executable (c_status c)"
    using None by (simp_all add: REFUSAL_def is_executable_ConnectorState)
  with other show ?thesis
    by (simp add: check_executable_def)
next
  case (Some s)
  then have "c_status c = state_value s"
    by (simp add: ConnectorState_Some)
  then show ?thesis
    by (cases s) (simp_all add: check_executable_def REFUSAL_def is_executable_ConnectorState ConnectorState_Some)
qed

text \<open>
  C3. Accepting is idempotent under any race.  Whatever the first query saw, one key of a tenant and
  a connector owns at most one row: a request either creates that row together with its accepted
  event, or is given the row that is there, or fails and leaves nothing behind.
\<close>

theorem accept_is_idempotent:
  assumes "accept seen db w c args = (db', out)" and "keys_unique db"
  shows "keys_unique db' \<and>
    (case out of
       Fresh r \<Rightarrow>
         key_of r = (aa_tenant_id args, c_id c, aa_idempotency_key args) \<and>
         find_existing db (aa_tenant_id args) (c_id c) (aa_idempotency_key args) = None \<and>
         db_invocations db' = db_invocations db @ [r] \<and>
         (\<exists>e. db_outbox db' = db_outbox db @ [e] \<and> aggregate_event ''invocation'' (i_id r) 1 e)
     | Replayed r in_flight \<Rightarrow>
         key_of r = (aa_tenant_id args, c_id c, aa_idempotency_key args) \<and> db' = db
     | AcceptRaises e \<Rightarrow> db' = db)"
  using assms(1)
proof (cases rule: accept_cases)
  case (replayed r)
  with assms(2) find_existing_Some [OF replayed(3)] show ?thesis by simp
next
  case insert
  from insert(2) show ?thesis
  proof (cases rule: accept_insert_cases)
    case fresh
    obtain e where "db_outbox db' = db_outbox db @ [e]"
      "aggregate_event ''invocation'' (w_row_id w) 1 e"
      using emit_event [of "db_outbox db" w "new_invocation w c args" "''connector.invocation.accepted''" None]
        fresh(5) by auto
    with fresh assms(2) find_existing_None [of db "aa_tenant_id args" "c_id c" "aa_idempotency_key args"]
    show ?thesis by (auto simp: keys_unique_def)
  next
    case (race r)
    with assms(2) find_existing_Some [OF race(3)] show ?thesis by simp
  next
    case (raises e)
    with assms(2) show ?thesis by simp
  qed
qed

definition example_args :: accept_args where
  "example_args =
     \<lparr>aa_operation = ''sync'', aa_idempotency_key = ''key-0001'', aa_actor_id = ''u1'',
      aa_tenant_id = ''t1'', aa_timeout_seconds = 15, aa_trace_id = None\<rparr>"

definition example_invocation :: invocation where
  "example_invocation = new_invocation example_world example_connector example_args"

lemma example_row_fits [simp]: "row_fits (new_invocation example_world example_connector example_args)"
  by (simp add: row_fits_def fits_def fits_opt_def new_invocation_def example_world_def
      example_connector_def example_args_def)

lemma example_fields [simp]:
  "c_id example_connector = ''c1''" "c_kind example_connector = ''http''"
  "db_connectors example_db = [example_connector]" "db_invocations example_db = []"
  "aa_tenant_id example_args = ''t1''" "aa_idempotency_key example_args = ''key-0001''"
  "w_row_id example_world = ''r''"
  by (simp_all add: example_connector_def example_db_def example_args_def example_world_def)

lemma example_accept:
  "\<exists>db'. accept example_db example_db example_world example_connector example_args = (db', Fresh example_invocation) \<and>
     db_invocations db' = [example_invocation] \<and> db_connectors db' = [example_connector]"
  by (simp add: accept_def accept_lookup_def accept_insert_def Let_def example_invocation_def find_existing_def)

text \<open>The loser of a race: its first query saw nothing, its flush meets the winner's row.\<close>

theorem accept_is_idempotent_witness:
  "\<exists>db' db'' out. accept example_db example_db example_world example_connector example_args = (db', Fresh example_invocation) \<and>
     accept example_db db' (example_world\<lparr>w_row_id := ''r2''\<rparr>) example_connector example_args = (db'', out) \<and>
     keys_unique db'' \<and> db_invocations db'' = [example_invocation]"
proof -
  obtain db' where a: "accept example_db example_db example_world example_connector example_args = (db', Fresh example_invocation)"
    "db_invocations db' = [example_invocation]"
    using example_accept by blast
  obtain db'' out where b: "accept example_db db' (example_world\<lparr>w_row_id := ''r2''\<rparr>) example_connector example_args = (db'', out)"
    by (cases "accept example_db db' (example_world\<lparr>w_row_id := ''r2''\<rparr>) example_connector example_args") auto
  have "keys_unique db'"
    using a(2) by (simp add: keys_unique_def)
  note unique = accept_is_idempotent [OF b this]
  have "find_existing db' ''t1'' ''c1'' ''key-0001'' = Some example_invocation"
    by (simp add: find_existing_def a(2) same_key_iff example_invocation_def)
  with unique a(2) have "db_invocations db'' = [example_invocation]"
    by (cases out) auto
  with a b unique show ?thesis by blast
qed

text \<open>An invocation is settled: its row is final, and the last event staged says so at the row's version.\<close>

definition settled_as :: "registry_db \<Rightarrow> invocation \<Rightarrow> invocation \<Rightarrow> bool" where
  "settled_as db r r' \<longleftrightarrow>
     find_row i_id (i_id r) (db_invocations db) = Some r' \<and> key_of r' = key_of r \<and>
     i_status r' \<in> {''succeeded'', ''failed_retryable'', ''failed_terminal'', ''timed_out''} \<and>
     (i_status r' = ''succeeded'' \<longleftrightarrow> i_error_code r' = None) \<and>
     (\<exists>rows e. db_outbox db = rows @ [e] \<and>
        aggregate_event ''invocation'' (i_id r) (i_aggregate_version r') e \<and>
        jget ''status'' (o_payload e) = Some (JStr (i_status r')))"

lemma finalise_settles:
  assumes "finalise d w r1 res = (db', out)" and ok: "result_ok res"
    and same: "i_id r1 = i_id r" "key_of r1 = key_of r" and row: "i_id r \<in> i_id ` set (db_invocations d)"
  shows "case out of Inl e \<Rightarrow> e = ''DBAPIError'' | Inr r' \<Rightarrow> settled_as db' r r'"
  using assms(1)
proof (cases rule: finalise_cases)
  case (stored event)
  let ?r = "finalised w r1 res"
  obtain e where e: "db_outbox db' = db_outbox d @ [e]"
    "aggregate_event ''invocation'' (i_id r) (i_aggregate_version ?r) e"
    "o_payload e = invocation_payload ?r None"
    using emit_event [of "db_outbox d" w ?r event None] stored(4) same by auto
  have status: "jget ''status'' (o_payload e) = Some (JStr (i_status ?r))"
    by (simp add: e(3) invocation_payload_def jget_def Let_def)
  have "find_row i_id (i_id r) (db_invocations db') = Some ?r"
    using stored(4) row same by simp
  moreover have "i_status ?r \<in> {''succeeded'', ''failed_retryable'', ''failed_terminal'', ''timed_out''}"
    using result_ok_status [OF ok] by (cases "ir_status res") simp_all
  moreover have "i_status ?r = ''succeeded'' \<longleftrightarrow> i_error_code ?r = None"
    using ok by (cases "ir_error_code res"; cases "ir_status res")
      (simp_all add: result_ok_def failure_status_def split: if_splits)
  ultimately show ?thesis
    using stored(1) e status same by (simp add: settled_as_def)
next
  case rejected
  then show ?thesis by simp
next
  case no_event
  with result_ok_status [OF ok] show ?thesis by simp
qed


text \<open>The adapter is never reached: the deadline has passed, and the invocation times out.\<close>

definition late_call :: call_env where
  "late_call = \<lparr>ce_adapter = example_env, ce_now = 100, ce_elapsed = 0, ce_sent = 0, ce_failed_at = 100\<rparr>"


text \<open>
  C23. A result the database cannot store wedges its key.  The commit that should settle the
  invocation fails after the provider was called, the row stays "running" for good, and every
  later request under the same key is answered with that row as if it were still in flight.
\<close>

theorem unstorable_result_wedges_the_key:
  assumes reg: "get_adapter registry (c_kind c) = Inr a"
    and start: "start_invocation db w1 r = (db1, r1)"
    and call: "call_adapter a ce c r1 payload = (sent, res)"
    and res: "result_ok res" "\<not> storable res"
    and db: "keys_unique db" "distinct (map i_id (db_invocations db))"
      "find_row i_id (i_id r) (db_invocations db) = Some r"
    and key: "(aa_tenant_id args, c_id c', aa_idempotency_key args) = key_of r"
  shows "execute registry db id w1 w2 ce c r payload = (sent, db1, Inl ''DBAPIError'') \<and>
    i_status r1 = ''running'' \<and> accept db1 db1 w c' args = (db1, Replayed r1 True)"
proof -
  have r1: "r1 = r\<lparr>i_status := status_value RUNNING, i_started_at := Some (w_now w1),
      i_aggregate_version := i_aggregate_version r + 1\<rparr>"
    using start_invocation_simps(1) [OF start] .
  have invs: "db_invocations db1 = update_row i_id r1 (db_invocations db)"
    using start_invocation_simps(2) [OF start] by simp
  obtain event where "TERMINAL_EVENT (ir_status res) = Some event"
    using result_ok_status [OF res(1)] by (cases "ir_status res") simp_all
  then have "execute registry db id w1 w2 ce c r payload = (sent, db1, Inl ''DBAPIError'')"
    using reg start call res(2) by (simp add: execute_def finalise_def)
  moreover have "r1 \<in> set (db_invocations db1)" and "keys_unique db1"
  proof -
    have same: "key_of r1 = key_of r" "i_id r1 = i_id r"
      by (simp_all add: r1 key_of_def)
    show "r1 \<in> set (db_invocations db1)"
      unfolding invs using find_row_Some [OF db(3)] same(2) by (intro update_row_mem) force
    have "map key_of (db_invocations db1) = map key_of (db_invocations db)"
      unfolding invs using db(2,3) same by (intro map_update_row_same) simp_all
    with db(1) show "keys_unique db1"
      by (simp add: keys_unique_def)
  qed
  moreover have "i_status r1 = status_value RUNNING" "key_of r1 = key_of r"
    by (simp_all add: r1 key_of_def)
  ultimately show ?thesis
    using find_existing_unique [of db1 r1] key
    by (simp add: accept_def accept_lookup_def in_flight_status_def key_of_def)
qed

text \<open>A provider whose request id is longer than the column.\<close>

definition long_id :: string where
  "long_id = replicate 300 (CHR ''x'')"

definition wide_http :: http_env where
  "wide_http = ok_env\<lparr>he_client := (\<lambda>_ _. HttpResponse \<lparr>hr_status = 200,
     hr_headers = [(''x-request-id'', long_id)], hr_chunks = []\<rparr>)\<rparr>"

definition wide_call :: call_env where
  "wide_call = \<lparr>ce_adapter = example_env\<lparr>ae_http := wide_http\<rparr>, ce_now = 5, ce_elapsed = 1, ce_sent = 0,
     ce_failed_at = 6\<rparr>"

definition wide_connector :: connector where
  "wide_connector = example_connector\<lparr>c_config := http_config\<rparr>"

lemma wide_response:
  "\<exists>sent. sent \<noteq> [] \<and> request wide_http mthd ''https://api.example.com/v1'' built_policy body hs tms =
     (sent, Inr \<lparr>or_status_code = 200, or_body = [], or_headers = [(''x-request-id'', long_id)],
        or_final_url = ''https://api.example.com/v1'', or_provider_request_id = Some long_id, or_redirects = 0\<rparr>)"
proof -
  have "truthy_text (Some long_id)"
    by (simp add: truthy_text_def long_id_def)
  moreover have "op_max_response_bytes built_policy = 1048576"
    by (simp add: built_policy_def)
  ultimately show ?thesis
    unfolding request_def
    by (subst request_loop.simps)
      (simp add: wide_http_def ok_env_def built_target redirect_status_def finish_response_def
        content_type_of_def py_strip_def first_truthy_def Let_def)
qed

lemma wide_call_result:
  assumes "i_operation r = ''v1''" and "i_deadline_at r = 15"
  shows "\<exists>sent res. call_adapter http_adapter wide_call wide_connector r [] = (sent, res) \<and>
     sent \<noteq> [] \<and> result_ok res \<and> ir_provider_request_id res = Some long_id"
proof -
  let ?rq = "request_of wide_connector r []" and ?cc = "context_of wide_connector r"
    and ?env = "example_env\<lparr>ae_http := wide_http\<rparr>"
  have rem: "seconds_remaining ?rq 5 = 10" "seconds_remaining ?rq 0 = 15"
    using assms by (simp_all add: seconds_remaining_def request_of_def)
  have cc: "cc_config ?cc = http_config" "rq_operation ?rq = ''v1''"
    using assms by (simp_all add: context_of_def request_of_def wide_connector_def)
  have tms: "\<exists>tms. phase_timeouts example_deployment http_config 15 = Inr tms"
    by (simp add: phase_timeouts_def http_config_def clamp_timeout_def timeout_ceiling_def
        example_deployment_def float_min_def jget_def float_of_def Let_def)
  have "\<exists>hs. build_headers ?env ?cc (Some ?rq) = Inr hs"
    by (simp add: build_headers_def cc http_config_def get_object_def jget_def add_idempotency_def)
  then obtain hs tms where hs: "build_headers ?env ?cc (Some ?rq) = Inr hs"
    "phase_timeouts example_deployment http_config 15 = Inr tms"
    using tms by blast
  have fields: "ae_started ?env = 0" "ae_dp ?env = example_deployment" "ae_http ?env = wide_http"
    "ae_py ?env = example_python"
    by (simp_all add: example_env_def)
  obtain sent where sent: "sent \<noteq> []" and req: "request wide_http (get_json ''method'' (JStr ''POST'') http_config)
     ''https://api.example.com/v1'' built_policy (JsonBody (JObj (rq_payload ?rq))) hs tms =
     (sent, Inr \<lparr>or_status_code = 200, or_body = [], or_headers = [(''x-request-id'', long_id)],
        or_final_url = ''https://api.example.com/v1'', or_provider_request_id = Some long_id, or_redirects = 0\<rparr>)"
    using wide_response by blast
  have "\<exists>res. http_invoke ?env ?rq ?cc = (sent, Inr res) \<and> ir_provider_request_id res = Some long_id"
    by (simp add: http_invoke_def http_send_def fields rem cc hs built_policy example_url req http_classify_def Let_def)
  then obtain res where res: "http_invoke ?env ?rq ?cc = (sent, Inr res)" "ir_provider_request_id res = Some long_id"
    by blast
  have "call_adapter http_adapter wide_call wide_connector r [] = (sent, res)"
    using res(1) rem by (simp add: call_adapter_def wide_call_def Let_def http_adapter_def)
  with res sent http_invoke_ok show ?thesis by blast
qed

theorem unstorable_result_wedges_the_key_witness:
  "\<exists>db db1 r1 sent.
     execute (build_registry services) db id example_world example_world wide_call wide_connector
       (example_invocation\<lparr>i_operation := ''v1'', i_deadline_at := 15\<rparr>) [] = (sent, db1, Inl ''DBAPIError'') \<and>
     accept db1 db1 example_world wide_connector example_args = (db1, Replayed r1 True)"
proof -
  let ?r = "example_invocation\<lparr>i_operation := ''v1'', i_deadline_at := 15\<rparr>"
  let ?db = "example_db\<lparr>db_invocations := [?r]\<rparr>"
  obtain db1 r1 where start: "start_invocation ?db example_world ?r = (db1, r1)"
    by (cases "start_invocation ?db example_world ?r") auto
  have "i_operation r1 = ''v1''" "i_deadline_at r1 = 15"
    using start_invocation_simps(1) [OF start] by simp_all
  from wide_call_result [OF this] obtain sent res where
    call: "call_adapter http_adapter wide_call wide_connector r1 [] = (sent, res)" and
    res: "result_ok res" "ir_provider_request_id res = Some long_id" by blast
  have reg: "get_adapter (build_registry services) (c_kind wide_connector) = Inr http_adapter"
    by (simp add: wide_connector_def get_adapter_def build_registry_eq)
  have "\<not> storable res"
    by (simp add: storable_def res(2) fits_opt_def fits_def long_id_def)
  moreover have "keys_unique ?db" "distinct (map i_id (db_invocations ?db))"
    "find_row i_id (i_id ?r) (db_invocations ?db) = Some ?r"
    by (simp_all add: keys_unique_def find_row_def)
  moreover have "(aa_tenant_id example_args, c_id wide_connector, aa_idempotency_key example_args) = key_of ?r"
    by (simp add: key_of_def example_invocation_def new_invocation_def wide_connector_def)
  ultimately show ?thesis
    using unstorable_result_wedges_the_key [OF reg start call res(1)] by blast
qed

end
