(* ===== verification/Identity.thy ===== *)
theory Identity
  imports Prelude
begin

text \<open>
  \<open>app/identity.py\<close>, the same file in both services: the caller's identity from the claims the
  gateway injects.  \<open>b64decode\<close> is \<open>base64.b64decode\<close> as the interpreter runs it: characters
  outside the alphabet are skipped (text that is not ASCII is a ValueError), decoding stops at a complete padding, and a left-over quantum
  is the error.  \<open>json.loads\<close> on bytes and \<open>str\<close> of a claim are fields of \<open>identity_env\<close>, with the
  settings read from the environment at import.
\<close>

record caller_identity =
  ci_actor_id :: string
  ci_tenant_id :: string
  ci_verified :: bool

record identity_env =
  ie_loads :: "string \<Rightarrow> json option"  \<comment> \<open>\<open>None\<close>: ValueError or UnicodeDecodeError\<close>
  ie_str :: "json \<Rightarrow> string"
  ie_default_tenant :: string
  ie_tenant_claim :: string
  ie_allow_anonymous :: bool

text \<open>\<open>os.getenv(...)\<close> of the three settings.\<close>

definition identity_settings ::
  "(string \<Rightarrow> string option) \<Rightarrow> (string \<Rightarrow> json option) \<Rightarrow> (json \<Rightarrow> string) \<Rightarrow> identity_env" where
  "identity_settings getenv loads str =
     (let get = (\<lambda>name dflt. case getenv name of None \<Rightarrow> dflt | Some v \<Rightarrow> v)
      in \<lparr>ie_loads = loads, ie_str = str,
          ie_default_tenant = get ''DEFAULT_TENANT_ID'' ''default'',
          ie_tenant_claim = get ''TENANT_CLAIM'' ''tenant'',
          ie_allow_anonymous =
            (str_lower (get ''ALLOW_ANONYMOUS_IDENTITY'' ''false'') \<in> {''1'', ''true'', ''yes''})\<rparr>)"

section \<open>base64\<close>

definition sextet :: "char \<Rightarrow> nat option" where
  "sextet c =
     (let n = (of_char c :: nat)
      in if 65 \<le> n \<and> n \<le> 90 then Some (n - 65)
         else if 97 \<le> n \<and> n \<le> 122 then Some (n - 71)
         else if 48 \<le> n \<and> n \<le> 57 then Some (n + 4)
         else if n = 43 then Some 62
         else if n = 47 then Some 63
         else None)"

text \<open>\<open>binascii.a2b_base64\<close>: position in the quantum, bits left over, padding seen, output so far.\<close>

fun a2b :: "nat \<Rightarrow> nat \<Rightarrow> nat \<Rightarrow> string \<Rightarrow> string \<Rightarrow> string option" where
  "a2b quad left pads out [] = (if quad = 0 then Some out else None)"
| "a2b quad left pads out (c # cs) =
     (if c = CHR ''='' then
        (if 2 \<le> quad
         then (if 4 \<le> quad + (pads + 1) then Some out else a2b quad left (pads + 1) out cs)
         else a2b quad left pads out cs)
      else case sextet c of
             None \<Rightarrow> a2b quad left pads out cs
           | Some v \<Rightarrow>
               (if quad = 0 then a2b 1 v 0 out cs
                else if quad = 1 then a2b 2 (v mod 16) 0 (out @ [char_of (left * 4 + v div 16)]) cs
                else if quad = 2 then a2b 3 (v mod 4) 0 (out @ [char_of (left * 16 + v div 4)]) cs
                else a2b 0 0 0 (out @ [char_of (left * 64 + v)]) cs))"

definition b64decode :: "string \<Rightarrow> string option" where
  "b64decode s = (if \<exists>c \<in> set s. 128 \<le> (of_char c :: nat) then None else a2b 0 0 0 [] s)"

section \<open>Claims\<close>

definition pad_userinfo :: "string \<Rightarrow> string" where
  "pad_userinfo raw = raw @ replicate (nat ((- int (length raw)) mod 4)) (CHR ''='')"

definition decode_userinfo :: "identity_env \<Rightarrow> string \<Rightarrow> jobj" where
  "decode_userinfo env raw =
     (let decoded = (case b64decode (pad_userinfo raw) of Some bytes \<Rightarrow> bytes | None \<Rightarrow> raw)
      in case ie_loads env decoded of
           Some (JObj claims) \<Rightarrow> claims
         | _ \<Rightarrow> [])"

definition first_claim :: "string \<Rightarrow> string \<Rightarrow> jobj \<Rightarrow> json option" where
  "first_claim k k' claims = (if truthy_opt (jget k claims) then jget k claims else jget k' claims)"

definition identity_from_userinfo :: "identity_env \<Rightarrow> string option \<Rightarrow> caller_identity option" where
  "identity_from_userinfo env raw =
     (case raw of
        None \<Rightarrow> None
      | Some text \<Rightarrow>
          if text = [] then None
          else
            let claims = decode_userinfo env text;
                subject = first_claim ''sub'' ''preferred_username'' claims;
                tenant = jget (ie_tenant_claim env) claims
            in if \<not> truthy_opt subject then None
               else if \<not> truthy_opt tenant then None
               else Some \<lparr>ci_actor_id = ie_str env (the subject), ci_tenant_id = ie_str env (the tenant),
                          ci_verified = True\<rparr>)"

text \<open>\<open>Inl\<close> is the HTTPException: status and detail.\<close>

definition current_identity :: "identity_env \<Rightarrow> string option \<Rightarrow> int \<times> json + caller_identity" where
  "current_identity env x_userinfo =
     (case identity_from_userinfo env x_userinfo of
        Some ident \<Rightarrow> Inr ident
      | None \<Rightarrow>
          if ie_allow_anonymous env
          then Inr \<lparr>ci_actor_id = ''anonymous'', ci_tenant_id = ie_default_tenant env, ci_verified = False\<rparr>
          else Inl (401, JObj [(''error_code'', JStr ''IDENTITY_UNVERIFIED''),
            (''message'', JStr ''no verified caller identity; requests must arrive through the gateway, which injects claims from the validated token'')]))"

definition current_tenant :: "identity_env \<Rightarrow> string option \<Rightarrow> int \<times> json + string" where
  "current_tenant env x_userinfo = map_sum id ci_tenant_id (current_identity env x_userinfo)"

definition current_actor :: "identity_env \<Rightarrow> string option \<Rightarrow> int \<times> json + string" where
  "current_actor env x_userinfo = map_sum id ci_actor_id (current_identity env x_userinfo)"

section \<open>The encoder the gateway uses\<close>

definition sextet_char :: "nat \<Rightarrow> char" where
  "sextet_char n =
     char_of (if n < 26 then n + 65 else if n < 52 then n + 71 else if n < 62 then n - 4
              else if n = 62 then 43 else 47 :: nat)"

fun b64encode :: "string \<Rightarrow> string" where
  "b64encode [] = []"
| "b64encode [a] =
     (let x = (of_char a :: nat) in [sextet_char (x div 4), sextet_char (x mod 4 * 16)])"
| "b64encode [a, b] =
     (let x = (of_char a :: nat); y = (of_char b :: nat)
      in [sextet_char (x div 4), sextet_char (x mod 4 * 16 + y div 16), sextet_char (y mod 16 * 4)])"
| "b64encode (a # b # c # rest) =
     (let x = (of_char a :: nat); y = (of_char b :: nat); z = (of_char c :: nat)
      in [sextet_char (x div 4), sextet_char (x mod 4 * 16 + y div 16),
          sextet_char (y mod 16 * 4 + z div 64), sextet_char (z mod 64)] @ b64encode rest)"

text \<open>\<open>b64encode\<close> leaves the padding out; \<open>b64_padded\<close> has it, as APISIX sends it.\<close>

definition b64_padded :: "string \<Rightarrow> string" where
  "b64_padded s = pad_userinfo (b64encode s)"

lemma of_char_less: "(of_char c :: nat) < 256"
  by (metis mod_less_divisor of_char_mod_256 zero_less_numeral)

lemma of_sextet_char:
  "n < 64 \<Longrightarrow> (of_char (sextet_char n) :: nat) =
     (if n < 26 then n + 65 else if n < 52 then n + 71 else if n < 62 then n - 4 else if n = 62 then 43 else 47)"
  by (simp add: sextet_char_def)

lemma sextet_char:
  assumes "n < 64"
  shows "sextet (sextet_char n) = Some n" "sextet_char n \<noteq> CHR ''=''" "(of_char (sextet_char n) :: nat) < 128"
proof -
  show "sextet (sextet_char n) = Some n"
    unfolding sextet_def Let_def of_sextet_char [OF assms] using assms by (auto split: if_splits)
  have "(of_char (sextet_char n) :: nat) \<noteq> of_char (CHR ''='')"
    unfolding of_sextet_char [OF assms] using assms by auto
  then show "sextet_char n \<noteq> CHR ''=''" by auto
  show "(of_char (sextet_char n) :: nat) < 128"
    unfolding of_sextet_char [OF assms] using assms by auto
qed

lemma byte_pieces:
  fixes x y z :: nat
  assumes "x < 256" "y < 256" "z < 256"
  shows "x div 4 < 64" "x mod 4 * 16 + y div 16 < 64" "y mod 16 * 4 + z div 64 < 64" "z mod 64 < 64"
    "x mod 4 * 16 < 64" "y mod 16 * 4 < 64"
    "x div 4 * 4 + (x mod 4 * 16 + y div 16) div 16 = x" "x div 4 * 4 + x mod 4 * 16 div 16 = x"
    "(x mod 4 * 16 + y div 16) mod 16 * 16 + (y mod 16 * 4 + z div 64) div 4 = y"
    "(x mod 4 * 16 + y div 16) mod 16 * 16 + y mod 16 * 4 div 4 = y"
    "(y mod 16 * 4 + z div 64) mod 4 * 64 + z mod 64 = z"
proof -
  define a b c d e f where defs: "a = x div 4" "b = x mod 4" "c = y div 16" "d = y mod 16" "e = z div 64" "f = z mod 64"
  then have less: "a < 64" "b < 4" "c < 16" "d < 16" "e < 4" "f < 64"
    using assms by (auto simp: less_mult_imp_div_less)
  have eqs: "x = a * 4 + b" "y = c * 16 + d" "z = e * 64 + f"
    by (simp_all add: defs)
  show "x div 4 < 64" "x mod 4 * 16 + y div 16 < 64" "y mod 16 * 4 + z div 64 < 64" "z mod 64 < 64"
    "x mod 4 * 16 < 64" "y mod 16 * 4 < 64"
    unfolding defs(1-6) [symmetric] using less by auto
  show "x div 4 * 4 + (x mod 4 * 16 + y div 16) div 16 = x" "x div 4 * 4 + x mod 4 * 16 div 16 = x"
    "(x mod 4 * 16 + y div 16) mod 16 * 16 + (y mod 16 * 4 + z div 64) div 4 = y"
    "(x mod 4 * 16 + y div 16) mod 16 * 16 + y mod 16 * 4 div 4 = y"
    "(y mod 16 * 4 + z div 64) mod 4 * 64 + z mod 64 = z"
    unfolding defs(1-6) [symmetric] using less eqs by simp_all
qed

lemma a2b_quad:
  assumes "v0 < 64" "v1 < 64" "v2 < 64" "v3 < 64"
  shows "a2b 0 0 0 out ([sextet_char v0, sextet_char v1, sextet_char v2, sextet_char v3] @ rest) =
    a2b 0 0 0 (out @ [char_of (v0 * 4 + v1 div 16), char_of (v1 mod 16 * 16 + v2 div 4), char_of (v2 mod 4 * 64 + v3)]) rest"
  using assms by (simp add: sextet_char)

lemma a2b_pair:
  assumes "v0 < 64" "v1 < 64"
  shows "a2b 0 0 0 out [sextet_char v0, sextet_char v1, CHR ''='', CHR ''=''] = Some (out @ [char_of (v0 * 4 + v1 div 16)])"
  using assms by (simp add: sextet_char)

lemma a2b_triple:
  assumes "v0 < 64" "v1 < 64" "v2 < 64"
  shows "a2b 0 0 0 out [sextet_char v0, sextet_char v1, sextet_char v2, CHR ''=''] =
    Some (out @ [char_of (v0 * 4 + v1 div 16), char_of (v1 mod 16 * 16 + v2 div 4)])"
  using assms by (simp add: sextet_char)

lemma a2b_b64encode: "a2b 0 0 0 out (pad_userinfo (b64encode s)) = Some (out @ s)"
proof (induction s arbitrary: out rule: b64encode.induct)
  case 1
  then show ?case by (simp add: pad_userinfo_def)
next
  case (2 a)
  note p = byte_pieces [OF of_char_less [of a] of_char_less [of a] of_char_less [of a]]
  show ?case
    using a2b_pair [OF p(1) p(5)] unfolding p(8)
    by (simp add: pad_userinfo_def Let_def numeral_2_eq_2)
next
  case (3 a b)
  note p = byte_pieces [OF of_char_less [of a] of_char_less [of b] of_char_less [of b]]
  show ?case
    using a2b_triple [OF p(1) p(2) p(6)] unfolding p(7) p(10)
    by (simp add: pad_userinfo_def Let_def)
next
  case (4 a b c rest)
  note p = byte_pieces [OF of_char_less [of a] of_char_less [of b] of_char_less [of c]]
  have pads: "(- 4 - int n) mod 4 = (- int n) mod 4" for n
    by presburger
  show ?case
    using a2b_quad [OF p(1) p(2) p(3) p(4), of out "pad_userinfo (b64encode rest)"] 4
    unfolding p(7) p(9) p(11)
    by (simp del: a2b.simps add: pad_userinfo_def Let_def pads)
qed

lemma a2b_pads: "a2b 0 left pads out (replicate n (CHR ''='')) = Some out"
  by (induction n) simp_all

lemma b64decode_encode: "b64decode (pad_userinfo (b64encode s)) = Some s"
proof -
  have "(of_char c :: nat) < 128" if "c \<in> set (b64encode s)" for c
    using that
  proof (induction s rule: b64encode.induct)
    case 1
    then show ?case by simp
  next
    case (2 a)
    note p = byte_pieces [OF of_char_less [of a] of_char_less [of a] of_char_less [of a]]
    from 2 show ?case using sextet_char(3) [OF p(1)] sextet_char(3) [OF p(5)] by (auto simp: Let_def)
  next
    case (3 a b)
    note p = byte_pieces [OF of_char_less [of a] of_char_less [of b] of_char_less [of b]]
    from 3 show ?case
      using sextet_char(3) [OF p(1)] sextet_char(3) [OF p(2)] sextet_char(3) [OF p(6)] by (auto simp: Let_def)
  next
    case (4 a b c rest)
    note p = byte_pieces [OF of_char_less [of a] of_char_less [of b] of_char_less [of c]]
    from 4 show ?case
      using sextet_char(3) [OF p(1)] sextet_char(3) [OF p(2)] sextet_char(3) [OF p(3)] sextet_char(3) [OF p(4)]
      by (auto simp: Let_def)
  qed
  then have "(of_char c :: nat) < 128" if "c \<in> set (pad_userinfo (b64encode s))" for c
    using that by (auto simp: pad_userinfo_def)
  then show ?thesis
    using a2b_b64encode [of "[]" s] by (force simp: b64decode_def)
qed

lemma pad_userinfo_idem [simp]: "pad_userinfo (pad_userinfo raw) = pad_userinfo raw"
proof -
  have "(- (int n + (- int n) mod 4)) mod 4 = 0" for n
    by presburger
  then show ?thesis
    by (simp add: pad_userinfo_def)
qed

section \<open>Properties\<close>

text \<open>
  The claims the gateway injects arrive: a JSON document encoded in base64, with its padding or
  without it, is decoded to exactly its claims.
\<close>

theorem userinfo_roundtrip:
  assumes "ie_loads env document = Some (JObj claims)"
  shows "decode_userinfo env (b64encode document) = claims \<and>
    decode_userinfo env (b64_padded document) = claims"
  using assms by (simp add: decode_userinfo_def b64_padded_def b64decode_encode)

definition example_claims :: string where
  "example_claims = CHR 0x7B # CHR 0x22 # ''sub'' @ [CHR 0x22, CHR 0x3A, CHR 0x31, CHR 0x7D]"

definition example_identity_env :: identity_env where
  "example_identity_env =
     \<lparr>ie_loads = (\<lambda>s. if s = example_claims then Some (JObj [(''sub'', JInt 1)]) else None),
      ie_str = (\<lambda>v. case v of JStr s \<Rightarrow> s | _ \<Rightarrow> []), ie_default_tenant = ''default'',
      ie_tenant_claim = ''tenant'', ie_allow_anonymous = False\<rparr>"

theorem userinfo_roundtrip_witness:
  "decode_userinfo example_identity_env (b64_padded example_claims) = [(''sub'', JInt 1)]"
  using userinfo_roundtrip [of example_identity_env example_claims "[(''sub'', JInt 1)]"]
  by (simp add: example_identity_env_def)

text \<open>
  C24. Identity fails closed.  Without the development switch a request is served only under the
  subject and the tenant its claims name, both present and not empty; every other request is
  answered 401, and the shared default tenant is reachable through the switch alone.
\<close>

theorem identity_fails_closed:
  "case current_identity env x_userinfo of
     Inl (http_status, detail) \<Rightarrow>
       http_status = 401 \<and> \<not> ie_allow_anonymous env \<and> identity_from_userinfo env x_userinfo = None
   | Inr ident \<Rightarrow>
       if ci_verified ident
       then \<exists>raw subject tenant. x_userinfo = Some raw \<and> raw \<noteq> [] \<and>
         jget (ie_tenant_claim env) (decode_userinfo env raw) = Some tenant \<and> truthy tenant \<and>
         ci_tenant_id ident = ie_str env tenant \<and>
         subject \<in> {jget ''sub'' (decode_userinfo env raw), jget ''preferred_username'' (decode_userinfo env raw)} \<and>
         truthy_opt subject \<and> ci_actor_id ident = ie_str env (the subject)
       else ie_allow_anonymous env \<and> ci_tenant_id ident = ie_default_tenant env"
proof (cases "identity_from_userinfo env x_userinfo")
  case None
  then show ?thesis by (simp add: current_identity_def)
next
  case (Some ident)
  obtain raw where raw: "x_userinfo = Some raw" "raw \<noteq> []"
    using Some by (cases x_userinfo) (auto simp: identity_from_userinfo_def split: if_splits)
  let ?claims = "decode_userinfo env raw"
  let ?subject = "first_claim ''sub'' ''preferred_username'' ?claims"
  have id: "truthy_opt ?subject" "truthy_opt (jget (ie_tenant_claim env) ?claims)"
    "ident = \<lparr>ci_actor_id = ie_str env (the ?subject),
      ci_tenant_id = ie_str env (the (jget (ie_tenant_claim env) ?claims)), ci_verified = True\<rparr>"
    using Some raw by (auto simp: identity_from_userinfo_def Let_def split: if_splits)
  then obtain tenant where tenant: "jget (ie_tenant_claim env) ?claims = Some tenant" "truthy tenant"
    by (cases "jget (ie_tenant_claim env) ?claims") auto
  moreover have "?subject \<in> {jget ''sub'' ?claims, jget ''preferred_username'' ?claims}"
    by (simp add: first_claim_def)
  ultimately show ?thesis
    using Some raw id by (simp add: current_identity_def) blast
qed

text \<open>
  Claims that are forwarded unencoded do not reliably reach the fallback: this document decodes as
  base64, because the characters of the alphabet in it come in whole quanta.
\<close>

lemma unencoded_claims_decode:
  "b64decode (pad_userinfo
     ([CHR 0x7B, CHR 0x22] @ ''sub'' @ [CHR 0x22, CHR 0x3A, CHR 0x22] @ ''alice'' @ [CHR 0x22, CHR 0x2C, CHR 0x22]
      @ ''tenant'' @ [CHR 0x22, CHR 0x3A, CHR 0x22] @ ''t1'' @ [CHR 0x22, CHR 0x7D])) \<noteq> None"
  by (simp add: pad_userinfo_def b64decode_def sextet_def a2b_pads)

end
