(* ===== verification/RegistryApi.thy ===== *)
theory RegistryApi
  imports Invocations Identity Redaction Publisher
begin

text \<open>
  \<open>connector-registry/app/main.py\<close> and \<open>schemas.py\<close>: the handlers of the registry's HTTP API.  A
  handler returns the database its commits leave together with the reply or the exception; an
  exception before a commit leaves the database as it was.  What FastAPI and pydantic do by
  themselves (routing, coercion of JSON to field types, the shape of their own 422 bodies) is not
  modelled; the constraints and validators the schemas declare are.  Requests arrive with their
  identity resolved (\<open>as_caller\<close>, \<open>as_tenant\<close>).  A connector's lock is held from the read to the
  commit of its transaction, so each handler that changes one is a single step.  \<open>before\<close> and
  \<open>during\<close> are what other transactions commit between an invocation's first query and its flush,
  and while its adapter runs.
\<close>

datatype api_error =
    HTTPException int json
  | UnknownAdapterKind string "string list"
  | Unhandled string  \<comment> \<open>type name; FastAPI answers 500\<close>

fun error_reply :: "api_error \<Rightarrow> int \<times> json" where
  "error_reply (HTTPException http_status detail) = (http_status, JObj [(''detail'', detail)])"
| "error_reply (UnknownAdapterKind kind known) =
     (422, JObj [(''error_code'', JStr ''UNKNOWN_KIND''), (''kind'', JStr kind),
                 (''registered_kinds'', JList (map JStr known))])"
| "error_reply (Unhandled ty) = (500, JStr ''Internal Server Error'')"

record api_settings =
  as_adapters :: adapter_registry
  as_identity :: identity_env
  as_internal_token :: string
  as_expected_migration :: string
  as_digest :: "jobj \<Rightarrow> string"  \<comment> \<open>\<open>uuid5\<close> of \<open>repr\<close> of the sorted items\<close>

definition as_caller ::
  "api_settings \<Rightarrow> string option \<Rightarrow> (caller_identity \<Rightarrow> registry_db \<times> (api_error + 'a)) \<Rightarrow>
   registry_db \<Rightarrow> registry_db \<times> (api_error + 'a)" where
  "as_caller s x_userinfo handler db =
     (case current_identity (as_identity s) x_userinfo of
        Inl (http_status, detail) \<Rightarrow> (db, Inl (HTTPException http_status detail))
      | Inr caller \<Rightarrow> handler caller)"

definition as_tenant ::
  "api_settings \<Rightarrow> string option \<Rightarrow> (string \<Rightarrow> api_error + 'a) \<Rightarrow> api_error + 'a" where
  "as_tenant s x_userinfo handler =
     (case current_tenant (as_identity s) x_userinfo of
        Inl (http_status, detail) \<Rightarrow> Inl (HTTPException http_status detail)
      | Inr tenant_id \<Rightarrow> handler tenant_id)"

definition require_internal_caller :: "api_settings \<Rightarrow> string \<Rightarrow> api_error option" where
  "require_internal_caller s token =
     (if as_internal_token s = []
      then Some (HTTPException 503 (JObj [(''error_code'', JStr ''INTERNAL_SURFACE_DISABLED''),
             (''message'', JStr ''INTERNAL_SERVICE_TOKEN is not configured'')]))
      else if token \<noteq> as_internal_token s
      then Some (HTTPException 401 (JObj [(''error_code'', JStr ''INTERNAL_AUTH_FAILED'')]))
      else None)"

section \<open>Views\<close>

definition json_time :: "python \<Rightarrow> time \<Rightarrow> json" where
  "json_time py t = JStr (py_isoformat py t)"

definition json_time_opt :: "python \<Rightarrow> time option \<Rightarrow> json" where
  "json_time_opt py t = (case t of None \<Rightarrow> JNull | Some t \<Rightarrow> json_time py t)"

definition to_schema :: "python \<Rightarrow> connector \<Rightarrow> jobj" where
  "to_schema py c =
     [(''id'', JStr (c_id c)),
      (''name'', JStr (c_name c)),
      (''kind'', JStr (c_kind c)),
      (''base_url'', json_opt (c_base_url c)),
      (''scopes'', JList (map JStr (c_scopes c))),
      (''config'', JObj (redact_config False (c_config c))),
      (''status'', JStr (c_status c)),
      (''version'', JInt (c_version c)),
      (''created_at'', json_time py (c_created_at c)),
      (''deletion_requested_at'', json_time_opt py (c_deletion_requested_at c)),
      (''deleted_at'', json_time_opt py (c_deleted_at c)),
      (''revoked_at'', json_time_opt py (c_revoked_at c)),
      (''archived_at'', json_time_opt py (c_archived_at c)),
      (''credentials_rotated_at'', json_time_opt py (c_credentials_rotated_at c)),
      (''state_reason'', json_opt (c_state_reason c)),
      (''supports_idempotency'', JBool (c_supports_idempotency c)),
      (''idempotency_mode'', JStr (c_idempotency_mode c))]"

definition http_status_for :: "invocation \<Rightarrow> int" where
  "http_status_for r =
     (if i_status r = status_value SUCCEEDED then 200
      else if i_status r = status_value TIMED_OUT then 504
      else if i_status r \<in> {status_value ACCEPTED, status_value RUNNING} then 202
      else 502)"

definition invocation_schema :: "python \<Rightarrow> invocation \<Rightarrow> jobj" where
  "invocation_schema py r =
     [(''id'', JStr (i_id r)),
      (''connector_id'', JStr (i_connector_id r)),
      (''connector_version'', JInt (i_connector_version r)),
      (''adapter_kind'', JStr (i_adapter_kind r)),
      (''idempotency_key'', JStr (i_idempotency_key r)),
      (''actor_id'', JStr (i_actor_id r)),
      (''tenant_id'', JStr (i_tenant_id r)),
      (''operation'', JStr (i_operation r)),
      (''status'', JStr (i_status r)),
      (''attempt'', JInt (i_attempt r)),
      (''deadline_at'', json_time py (i_deadline_at r)),
      (''started_at'', json_time_opt py (i_started_at r)),
      (''completed_at'', json_time_opt py (i_completed_at r)),
      (''provider_request_id'', json_opt (i_provider_request_id r)),
      (''error_code'', json_opt (i_error_code r)),
      (''error_detail'', json_opt (i_error_detail r)),
      (''retryable'', opt_bool (i_retryable r)),
      (''trace_id'', json_opt (i_trace_id r)),
      (''output'', (case i_output r of None \<Rightarrow> JNull | Some d \<Rightarrow> JObj d)),
      (''duration_ms'',
         (case (i_started_at r, i_completed_at r) of
            (Some s, Some c) \<Rightarrow> JFloat (Fin ((c - s) * 1000)) | _ \<Rightarrow> JNull))]"

definition audit_schema :: "python \<Rightarrow> audit_entry \<Rightarrow> jobj" where
  "audit_schema py a =
     [(''id'', JStr (a_id a)),
      (''connector_id'', JStr (a_connector_id a)),
      (''from_state'', JStr (a_from_state a)),
      (''to_state'', JStr (a_to_state a)),
      (''event'', JStr (a_event a)),
      (''actor_id'', JStr (a_actor_id a)),
      (''reason'', json_opt (a_reason a)),
      (''aggregate_version'', JInt (a_aggregate_version a)),
      (''recorded_at'', json_time py (a_recorded_at a))]"

section \<open>Reading connectors\<close>

definition tenant_connector :: "registry_db \<Rightarrow> uuid \<Rightarrow> string \<Rightarrow> api_error + connector" where
  "tenant_connector db connector_id tenant_id =
     (case find_row c_id connector_id (db_connectors db) of
        Some c \<Rightarrow>
          if c_tenant_id c \<noteq> tenant_id then Inl (HTTPException 404 (JStr ''Connector not found'')) else Inr c
      | None \<Rightarrow> Inl (HTTPException 404 (JStr ''Connector not found'')))"

definition list_connectors :: "python \<Rightarrow> registry_db \<Rightarrow> bool \<Rightarrow> string \<Rightarrow> jobj list" where
  "list_connectors py db include_deleted tenant_id =
     map (to_schema py) (sort_key c_created_at
       (filter (\<lambda>c. c_tenant_id c = tenant_id \<and> (include_deleted \<or> c_status c \<noteq> state_value DELETED))
         (db_connectors db)))"

definition get_connector :: "python \<Rightarrow> registry_db \<Rightarrow> uuid \<Rightarrow> string \<Rightarrow> api_error + jobj" where
  "get_connector py db connector_id tenant_id =
     map_sum id (to_schema py) (tenant_connector db connector_id tenant_id)"

definition connector_audit :: "python \<Rightarrow> registry_db \<Rightarrow> uuid \<Rightarrow> string \<Rightarrow> api_error + jobj list" where
  "connector_audit py db connector_id tenant_id =
     (case tenant_connector db connector_id tenant_id of
        Inl e \<Rightarrow> Inl e
      | Inr c \<Rightarrow> Inr (map (audit_schema py) (audit_trail db connector_id tenant_id)))"

text \<open>The adapter's context carries no tenant, so the dataclass default applies.\<close>

definition connector_health ::
  "api_settings \<Rightarrow> adapter_env \<Rightarrow> registry_db \<Rightarrow> uuid \<Rightarrow> string \<Rightarrow> api_error + health_result" where
  "connector_health s env db connector_id tenant_id =
     (case tenant_connector db connector_id tenant_id of
        Inl e \<Rightarrow> Inl e
      | Inr c \<Rightarrow>
          (case get_adapter (as_adapters s) (c_kind c) of
             Inl known \<Rightarrow> Inl (UnknownAdapterKind (c_kind c) known)
           | Inr a \<Rightarrow>
               (case ad_health a env
                       \<lparr>cc_connector_id = c_id c, cc_connector_version = c_version c, cc_kind = c_kind c,
                        cc_config = c_config c, cc_tenant_id = DEFAULT_CONTEXT_TENANT\<rparr> of
                  Inl (Raised ty msg) \<Rightarrow> Inl (Unhandled ty)
                | Inr report \<Rightarrow> Inr report)))"

section \<open>Creating a connector\<close>

record connector_create =
  cr_name :: string
  cr_kind :: string
  cr_base_url :: "string option"
  cr_scopes :: "string list"
  cr_config :: jobj
  cr_status :: connector_state

definition CONNECTOR_KINDS :: "string list" where
  "CONNECTOR_KINDS = [''http'', ''mcp'', ''webhook'', ''internal'']"

definition FORBIDDEN_CONFIG_KEYS :: "string list" where
  "FORBIDDEN_CONFIG_KEYS =
     [''signing_secret'', ''api_key'', ''password'', ''token'', ''client_secret'', ''private_key'']"

definition only_creatable_states :: "python \<Rightarrow> connector_state \<Rightarrow> string list" where
  "only_creatable_states py value =
     (if value \<in> CREATABLE_STATES then []
      else [''a connector cannot be created in state '' @ quoted (state_value value) @ ''; creatable states are ''
            @ py_repr py (JList (map JStr (sort (map state_value
                (filter (\<lambda>s. s \<in> CREATABLE_STATES) Enum.enum)))))])"

definition offending_keys :: "string list \<Rightarrow> jobj \<Rightarrow> string list" where
  "offending_keys names config = sort (filter (\<lambda>k. jhas k config) names)"

definition no_literal_secrets :: "python \<Rightarrow> jobj \<Rightarrow> string list" where
  "no_literal_secrets py config =
     (let offending = offending_keys FORBIDDEN_CONFIG_KEYS config
      in if offending = [] then []
         else [''config may not contain literal secrets: '' @ py_repr py (JList (map JStr offending))
               @ ''. Use a reference such as env:NAME with a *_ref key.''])"

definition no_privilege_escalation :: "python \<Rightarrow> jobj \<Rightarrow> string list" where
  "no_privilege_escalation py config =
     (let escalating = offending_keys OPERATOR_ONLY_CONFIG_KEYS config
      in if escalating = [] then []
         else [''config may not set operator-controlled keys: '' @ py_repr py (JList (map JStr escalating))
               @ ''. Private addressing and permitted schemes are deployment settings; a connector cannot widen its own reach.''])"

text \<open>The declared constraints; the second validator of \<open>config\<close> runs when the first accepts.\<close>

definition create_errors :: "python \<Rightarrow> connector_create \<Rightarrow> string list" where
  "create_errors py p =
     (if length (cr_name p) < 2 \<or> 80 < length (cr_name p) then [''name''] else [])
     @ (if cr_kind p \<notin> set CONNECTOR_KINDS then [''kind''] else [])
     @ (case no_literal_secrets py (cr_config p) of
          [] \<Rightarrow> no_privilege_escalation py (cr_config p) | es \<Rightarrow> es)
     @ only_creatable_states py (cr_status p)"

definition new_connector ::
  "world \<Rightarrow> string \<Rightarrow> connector_create \<Rightarrow> jobj \<Rightarrow> validation_result \<Rightarrow> connector" where
  "new_connector w tenant_id p config report =
     \<lparr>c_id = w_row_id w, c_tenant_id = tenant_id, c_name = cr_name p, c_kind = cr_kind p,
      c_base_url = cr_base_url p, c_scopes = cr_scopes p, c_config = config,
      c_status = state_value (cr_status p), c_version = 1,
      c_supports_idempotency = vr_supports_idempotency report,
      c_idempotency_mode = mode_value (vr_idempotency_mode report),
      c_deletion_requested_at = None, c_deleted_at = None, c_deleted_by = None, c_revoked_at = None,
      c_archived_at = None, c_credentials_rotated_at = None, c_state_reason = None,
      c_created_at = w_now w\<rparr>"

definition creation_audit :: "world \<Rightarrow> caller_identity \<Rightarrow> connector \<Rightarrow> audit_entry" where
  "creation_audit w caller c =
     \<lparr>a_id = w_audit_id w, a_connector_id = c_id c, a_tenant_id = ci_tenant_id caller,
      a_from_state = [], a_to_state = c_status c, a_event = ''connector.created'',
      a_actor_id = ci_actor_id caller, a_reason = None, a_aggregate_version = c_version c,
      a_idempotency_key = None, a_recorded_at = w_now w\<rparr>"

definition connector_storable :: "caller_identity \<Rightarrow> connector \<Rightarrow> bool" where
  "connector_storable caller c \<longleftrightarrow>
     fits 255 (c_tenant_id c) \<and> fits 80 (c_name c) \<and> fits 255 (ci_actor_id caller) \<and>
     fits_opt 2048 (c_base_url c) \<and> list_all text_ok (c_scopes c) \<and> jsonb_ok (JObj (c_config c))"

definition name_taken :: "registry_db \<Rightarrow> string \<Rightarrow> string \<Rightarrow> bool" where
  "name_taken db tenant_id name = (\<exists>c \<in> set (db_connectors db). c_tenant_id c = tenant_id \<and> c_name c = name)"

definition commit_creation ::
  "python \<Rightarrow> registry_db \<Rightarrow> world \<Rightarrow> caller_identity \<Rightarrow> connector \<Rightarrow> registry_db" where
  "commit_creation py db w caller c =
     db\<lparr>db_connectors := db_connectors db @ [c],
        db_audit := db_audit db @ [creation_audit w caller c],
        db_outbox := enqueue (db_outbox db) (w_event_id w) (w_now w) ''connector.created'' (to_schema py c)
          ''connector'' (Some (c_id c)) (c_version c)\<rparr>"

definition create_connector ::
  "api_settings \<Rightarrow> adapter_env \<Rightarrow> registry_db \<Rightarrow> world \<Rightarrow> caller_identity \<Rightarrow> connector_create \<Rightarrow>
   registry_db \<times> (api_error + jobj)" where
  "create_connector s env db w caller p =
     (let py = ae_py env; errors = create_errors py p
      in if errors \<noteq> [] then (db, Inl (HTTPException 422 (JList (map JStr errors))))
         else case get_adapter (as_adapters s) (cr_kind p) of
           Inl known \<Rightarrow>
             (db, Inl (HTTPException 422 (JObj
                [(''error_code'', JStr ''UNKNOWN_KIND''),
                 (''message'', JStr (''no adapter registered for kind '' @ quoted (cr_kind p))),
                 (''registered_kinds'', JList (map JStr known))])))
         | Inr a \<Rightarrow>
             let config =
               (case cr_base_url p of
                  Some url \<Rightarrow>
                    if jhas ''base_url'' (cr_config p) then cr_config p
                    else cr_config p @ [(''base_url'', JStr url)]
                | None \<Rightarrow> cr_config p)
             in case ad_validate a env config of
                  Inl (Raised ty msg) \<Rightarrow> (db, Inl (Unhandled ty))
                | Inr report \<Rightarrow>
                    if \<not> vr_valid report
                    then (db, Inl (HTTPException 422 (JObj
                       [(''error_code'', JStr ''CONFIG_INVALID''),
                        (''errors'', JList (map JStr (vr_errors report)))])))
                    else
                      let c = new_connector w (ci_tenant_id caller) p config report
                      in if \<not> connector_storable caller c then (db, Inl (Unhandled ''DBAPIError''))
                         else if name_taken db (c_tenant_id c) (c_name c) \<or>
                                 c_id c \<in> c_id ` set (db_connectors db)
                         then (db, Inl (HTTPException 409
                                (JStr (''Connector named '' @ quoted (cr_name p) @ '' already exists''))))
                         else (commit_creation py db w caller c, Inr (to_schema py c)))"

section \<open>Validating, deleting and moving a connector\<close>

definition store_capability :: "registry_db \<Rightarrow> uuid \<Rightarrow> validation_result \<Rightarrow> registry_db" where
  "store_capability db connector_id report =
     (case find_row c_id connector_id (db_connectors db) of
        None \<Rightarrow> db
      | Some c \<Rightarrow>
          db\<lparr>db_connectors := update_row c_id
               (c\<lparr>c_supports_idempotency := vr_supports_idempotency report,
                  c_idempotency_mode := mode_value (vr_idempotency_mode report)\<rparr>) (db_connectors db)\<rparr>)"

fun join_text :: "string \<Rightarrow> string list \<Rightarrow> string" where
  "join_text sep [] = []"
| "join_text sep [w] = w"
| "join_text sep (w # v # ws) = w @ sep @ join_text sep (v # ws)"

definition validate_connector ::
  "api_settings \<Rightarrow> adapter_env \<Rightarrow> registry_db \<Rightarrow> world \<Rightarrow> caller_identity \<Rightarrow> uuid \<Rightarrow>
   registry_db \<times> (api_error + validation_result)" where
  "validate_connector s env db w caller connector_id =
     (case tenant_connector db connector_id (ci_tenant_id caller) of
        Inl e \<Rightarrow> (db, Inl e)
      | Inr c \<Rightarrow>
          (case get_adapter (as_adapters s) (c_kind c) of
             Inl known \<Rightarrow> (db, Inl (UnknownAdapterKind (c_kind c) known))
           | Inr a \<Rightarrow>
               (case ad_validate a env (c_config c) of
                  Inl (Raised ty msg) \<Rightarrow> (db, Inl (Unhandled ty))
                | Inr report \<Rightarrow>
                    (case apply_transition db w connector_id
                            (if vr_valid report then VALIDATED else CONFIGURED)
                            (Some (if vr_valid report then ''connector.validation_succeeded''
                                   else ''connector.validation_failed''))
                            (ci_actor_id caller) (ci_tenant_id caller)
                            (if vr_valid report then None
                             else Some (take 1024 (join_text ''; '' (vr_errors report)))) None of
                       Inl LookupError \<Rightarrow> (db, Inl (Unhandled ''LookupError''))
                     | Inl (ReasonRequired ev) \<Rightarrow> (db, Inl (Unhandled ''ReasonRequired''))
                     | Inl (TransitionRejected exc current targets) \<Rightarrow>
                         (store_capability db connector_id report, Inr report)
                     | Inr (db', res) \<Rightarrow> (store_capability db' connector_id report, Inr report)))))"

text \<open>Deletion writes the row itself; \<open>refresh\<close> reads it again under the lock.\<close>

definition request_deletion :: "world \<Rightarrow> caller_identity \<Rightarrow> connector \<Rightarrow> connector" where
  "request_deletion w caller c =
     c\<lparr>c_status := state_value DELETION_REQUESTED, c_deletion_requested_at := Some (w_now w),
       c_deleted_by := Some (ci_actor_id caller), c_version := c_version c + 1\<rparr>"

definition request_connector_deletion ::
  "python \<Rightarrow> registry_db \<Rightarrow> world \<Rightarrow> caller_identity \<Rightarrow> uuid \<Rightarrow> registry_db \<times> (api_error + unit)" where
  "request_connector_deletion py db w caller connector_id =
     (case tenant_connector db connector_id (ci_tenant_id caller) of
        Inl e \<Rightarrow> (db, Inl e)
      | Inr c \<Rightarrow>
          if c_status c = state_value DELETED
          then (db, Inl (HTTPException 410 (JObj
                  [(''error_code'', JStr ''CONNECTOR_GONE''), (''message'', JStr ''Connector is deleted'')])))
          else if c_status c = state_value DELETION_REQUESTED then (db, Inr ())
          else
            let c' = request_deletion w caller c
            in (db\<lparr>db_connectors := update_row c_id c' (db_connectors db),
                   db_outbox := enqueue (db_outbox db) (w_event_id w) (w_now w) ''connector.deletion_requested''
                     [(''connector_id'', JStr connector_id),
                      (''name'', JStr (c_name c')),
                      (''status'', JStr (c_status c')),
                      (''requested_by'', JStr (ci_actor_id caller)),
                      (''requested_at'', json_time py (w_now w))]
                     ''connector'' (Some connector_id) (c_version c')\<rparr>, Inr ()))"

fun error_reason :: "transition_error \<Rightarrow> string" where
  "error_reason (UnknownState v) = ''unknown state: '' @ quoted v @ '' is not a valid ConnectorState''"
| "error_reason (IsTerminal s) = state_value s @ '' is terminal''"
| "error_reason NotPermitted = ''not a permitted transition''"

fun transition_refusal :: "apply_error \<Rightarrow> api_error" where
  "transition_refusal LookupError = HTTPException 404 (JStr ''Connector not found'')"
| "transition_refusal (ReasonRequired ev) =
     HTTPException 422 (JObj
       [(''error_code'', JStr ''REASON_REQUIRED''),
        (''message'', JStr (ev @ '' requires a reason; an audit record without one cannot answer the only question later asked of it''))])"
| "transition_refusal (TransitionRejected exc current targets) =
     HTTPException 409 (JObj
       [(''error_code'', JStr ''TRANSITION_NOT_PERMITTED''),
        (''message'', JStr (error_reason exc)),
        (''current_state'', JStr current),
        (''permitted_targets'', JList (map JStr targets))])"

record transition_body =
  tb_reason :: "string option"
  tb_idempotency_key :: "string option"

definition body_errors :: "transition_body option \<Rightarrow> string list" where
  "body_errors body =
     (case body of
        None \<Rightarrow> []
      | Some b \<Rightarrow>
          (case tb_reason b of Some r \<Rightarrow> if 1024 < length r then [''reason''] else [] | None \<Rightarrow> [])
          @ (case tb_idempotency_key b of Some k \<Rightarrow> if 255 < length k then [''idempotency_key''] else [] | None \<Rightarrow> []))"

definition transition_handler ::
  "python \<Rightarrow> registry_db \<Rightarrow> world \<Rightarrow> uuid \<Rightarrow> caller_identity \<Rightarrow> connector_state \<Rightarrow> string option \<Rightarrow>
   transition_body option \<Rightarrow> registry_db \<times> (api_error + jobj)" where
  "transition_handler py db w connector_id caller target event body =
     (let body = (case body of None \<Rightarrow> \<lparr>tb_reason = None, tb_idempotency_key = None\<rparr> | Some b \<Rightarrow> b)
      in case apply_transition db w connector_id target event (ci_actor_id caller) (ci_tenant_id caller)
                (tb_reason body) (tb_idempotency_key body) of
           Inl e \<Rightarrow> (db, Inl (transition_refusal e))
         | Inr (db', res) \<Rightarrow> (db', Inr (to_schema py (tres_connector res))))"

datatype lifecycle_endpoint = Install | Configure | Enable | Disable | Revoke | Archive

fun endpoint_target :: "lifecycle_endpoint \<Rightarrow> connector_state \<times> string option" where
  "endpoint_target Install = (INSTALLED, None)"
| "endpoint_target Configure = (CONFIGURED, Some ''connector.configured'')"
| "endpoint_target Enable = (ENABLED, Some ''connector.enabled'')"
| "endpoint_target Disable = (DISABLED, Some ''connector.disabled'')"
| "endpoint_target Revoke = (REVOKED, Some ''connector.revoked'')"
| "endpoint_target Archive = (ARCHIVED, Some ''connector.archived'')"

definition lifecycle_handler ::
  "python \<Rightarrow> lifecycle_endpoint \<Rightarrow> registry_db \<Rightarrow> world \<Rightarrow> uuid \<Rightarrow> caller_identity \<Rightarrow>
   transition_body option \<Rightarrow> registry_db \<times> (api_error + jobj)" where
  "lifecycle_handler py ep db w connector_id caller body =
     (if body_errors body \<noteq> [] then (db, Inl (HTTPException 422 (JList (map JStr (body_errors body)))))
      else case endpoint_target ep of
        (target, event) \<Rightarrow> transition_handler py db w connector_id caller target event body)"

definition rotate_connector_credentials ::
  "python \<Rightarrow> registry_db \<Rightarrow> world \<Rightarrow> uuid \<Rightarrow> caller_identity \<Rightarrow> transition_body option \<Rightarrow>
   registry_db \<times> (api_error + jobj)" where
  "rotate_connector_credentials py db w connector_id caller body =
     (if body_errors body \<noteq> [] then (db, Inl (HTTPException 422 (JList (map JStr (body_errors body)))))
      else case tenant_connector db connector_id (ci_tenant_id caller) of
        Inl e \<Rightarrow> (db, Inl e)
      | Inr c \<Rightarrow>
          (case ConnectorState (c_status c) of
             None \<Rightarrow> (db, Inl (Unhandled ''ValueError''))
           | Some current \<Rightarrow>
               transition_handler py db w connector_id caller current
                 (Some ''connector.credentials_rotated'') body))"

section \<open>Invoking\<close>

record invocation_create =
  ic_operation :: string
  ic_payload :: jobj
  ic_idempotency_key :: string
  ic_timeout_seconds :: pyfloat

definition invocation_errors :: "invocation_create \<Rightarrow> string list" where
  "invocation_errors p =
     (if 255 < length (ic_operation p) then [''operation''] else [])
     @ (if length (ic_idempotency_key p) < 8 \<or> 255 < length (ic_idempotency_key p)
        then [''idempotency_key''] else [])
     @ (case ic_timeout_seconds p of
          Fin q \<Rightarrow> if 0 < q \<and> q \<le> 300 then [] else [''timeout_seconds'']
        | _ \<Rightarrow> [''timeout_seconds''])"

text \<open>\<open>_tenant_connector\<close> and \<open>check_executable\<close>, as both invocation routes begin.\<close>

definition authorise_invocation :: "registry_db \<Rightarrow> uuid \<Rightarrow> string \<Rightarrow> api_error + connector" where
  "authorise_invocation db connector_id tenant_id =
     (case tenant_connector db connector_id tenant_id of
        Inl e \<Rightarrow> Inl e
      | Inr c \<Rightarrow>
          (case check_executable c of
             Inl (ConnectorNotExecutable st code http_status) \<Rightarrow>
               Inl (HTTPException http_status (JObj
                 [(''error_code'', JStr (code_value code)), (''status'', JStr st)]))
           | Inr _ \<Rightarrow> Inr c))"

type_synonym invocation_reply = "sent_request list \<times> registry_db \<times> (api_error + invocation)"

text \<open>What happens outside one invocation: the clocks and draws of its commits, the call, the others.\<close>

record invocation_world =
  iw_accept :: world
  iw_start :: world
  iw_final :: world
  iw_call :: call_env
  iw_before :: "registry_db \<Rightarrow> registry_db"
  iw_during :: "registry_db \<Rightarrow> registry_db"

definition run_invocation ::
  "api_settings \<Rightarrow> invocation_world \<Rightarrow> registry_db \<Rightarrow> connector \<Rightarrow> accept_args \<Rightarrow> jobj \<Rightarrow> invocation_reply" where
  "run_invocation s iw db c args payload =
     (case accept db (iw_before iw db) (iw_accept iw) c args of
        (db1, AcceptRaises ty) \<Rightarrow> ([], db1, Inl (Unhandled ty))
      | (db1, Replayed r in_flight) \<Rightarrow> ([], db1, Inr r)
      | (db1, Fresh r) \<Rightarrow>
          (case execute (as_adapters s) db1 (iw_during iw) (iw_start iw) (iw_final iw) (iw_call iw) c r payload of
             (sent, db2, Inl ty) \<Rightarrow> (sent, db2, Inl (Unhandled ty))
           | (sent, db2, Inr r') \<Rightarrow> (sent, db2, Inr r')))"

definition invoke_connector_v1 ::
  "api_settings \<Rightarrow> invocation_world \<Rightarrow> registry_db \<Rightarrow> caller_identity \<Rightarrow> uuid \<Rightarrow> invocation_create \<Rightarrow>
   string option \<Rightarrow> string option \<Rightarrow> sent_request list \<times> registry_db \<times> (api_error + int \<times> jobj)" where
  "invoke_connector_v1 s iw db caller connector_id p x_request_id traceparent =
     (if invocation_errors p \<noteq> []
      then ([], db, Inl (HTTPException 422 (JList (map JStr (invocation_errors p)))))
      else case authorise_invocation db connector_id (ci_tenant_id caller) of
        Inl e \<Rightarrow> ([], db, Inl e)
      | Inr c \<Rightarrow>
          let args =
            \<lparr>aa_operation = ic_operation p, aa_idempotency_key = ic_idempotency_key p,
             aa_actor_id = ci_actor_id caller, aa_tenant_id = ci_tenant_id caller,
             aa_timeout_seconds = (case ic_timeout_seconds p of Fin q \<Rightarrow> q | _ \<Rightarrow> 0),
             aa_trace_id = first_truthy x_request_id traceparent\<rparr>
          in case run_invocation s iw db c args (ic_payload p) of
               (sent, db', Inl e) \<Rightarrow> (sent, db', Inl e)
             | (sent, db', Inr r) \<Rightarrow>
                 (sent, db', Inr (http_status_for r, invocation_schema (ae_py (ce_adapter (iw_call iw))) r)))"

text \<open>The key an orchestrator's call is deduplicated under.\<close>

definition agent_key :: "api_settings \<Rightarrow> string \<Rightarrow> jobj \<Rightarrow> string" where
  "agent_key s agent_id body = ''agent:'' @ agent_id @ '':'' @ as_digest s (sort_key fst body)"

text \<open>\<open>payload.get("input", {}) or {}\<close>, whose \<open>items()\<close> only an object has.\<close>

definition agent_input :: "jobj \<Rightarrow> jobj option" where
  "agent_input payload =
     (case jget ''input'' payload of
        None \<Rightarrow> Some []
      | Some v \<Rightarrow> if \<not> truthy v then Some [] else (case v of JObj d \<Rightarrow> Some d | _ \<Rightarrow> None))"

definition invoke_connector_internal ::
  "api_settings \<Rightarrow> invocation_world \<Rightarrow> registry_db \<Rightarrow> string \<Rightarrow> string \<Rightarrow> uuid \<Rightarrow> jobj \<Rightarrow>
   sent_request list \<times> registry_db \<times> (api_error + int \<times> jobj)" where
  "invoke_connector_internal s iw db service_token x_tenant_id connector_id payload =
     (let env = ce_adapter (iw_call iw); py = ae_py env
      in case require_internal_caller s service_token of
        Some e \<Rightarrow> ([], db, Inl e)
      | None \<Rightarrow>
          if x_tenant_id = []
          then ([], db, Inl (HTTPException 400 (JObj
                 [(''error_code'', JStr ''TENANT_REQUIRED''),
                  (''message'', JStr ''internal callers must forward the verified tenant'')])))
          else case authorise_invocation db connector_id x_tenant_id of
            Inl e \<Rightarrow> ([], db, Inl e)
          | Inr c \<Rightarrow>
              let agent_id = py_str py (get_json ''agent_id'' (JStr ''unknown'') payload)
              in case agent_input payload of
                   None \<Rightarrow> ([], db, Inl (Unhandled ''AttributeError''))
                 | Some body \<Rightarrow>
                     (case clamp_timeout (ae_dp env) (jget ''timeout_seconds'' (c_config c)) 15 of
                        Inr (Fin q) \<Rightarrow>
                          (case run_invocation s iw db c
                              \<lparr>aa_operation = get_str py ''operation'' (c_config c),
                               aa_idempotency_key = agent_key s agent_id body,
                               aa_actor_id = ''agent:'' @ agent_id, aa_tenant_id = x_tenant_id,
                               aa_timeout_seconds = q, aa_trace_id = None\<rparr> body of
                             (sent, db', Inl e) \<Rightarrow> (sent, db', Inl e)
                           | (sent, db', Inr r) \<Rightarrow>
                               (sent, db', Inr (http_status_for r,
                                  [(''invocation_id'', JStr (i_id r)),
                                   (''connector_id'', JStr connector_id),
                                   (''connector_kind'', JStr (c_kind c)),
                                   (''status'', JStr (i_status r)),
                                   (''error_code'', json_opt (i_error_code r)),
                                   (''retryable'', opt_bool (i_retryable r)),
                                   (''output'', (case i_output r of None \<Rightarrow> JNull | Some d \<Rightarrow> JObj d))])))
                      | Inr _ \<Rightarrow> ([], db, Inl (Unhandled ''OverflowError''))
                      | Inl e \<Rightarrow> ([], db, Inl (Unhandled ''ValueError''))))"

section \<open>Reading invocations\<close>

definition list_invocations ::
  "python \<Rightarrow> registry_db \<Rightarrow> uuid option \<Rightarrow> string option \<Rightarrow> int \<Rightarrow> time option \<Rightarrow> string \<Rightarrow> jobj list" where
  "list_invocations py db connector_id status_filter limit before tenant_id =
     map (invocation_schema py)
       (take (nat (max 1 (min limit 200)))
         (sort_key (\<lambda>r. - i_created_at r)
           (filter (\<lambda>r.
               i_tenant_id r = tenant_id \<and>
               (case connector_id of None \<Rightarrow> True | Some c \<Rightarrow> i_connector_id r = c) \<and>
               (\<not> truthy_text status_filter \<or> Some (i_status r) = status_filter) \<and>
               (case before of None \<Rightarrow> True | Some t \<Rightarrow> i_created_at r < t))
             (db_invocations db))))"

definition get_invocation :: "python \<Rightarrow> registry_db \<Rightarrow> uuid \<Rightarrow> string \<Rightarrow> api_error + jobj" where
  "get_invocation py db invocation_id tenant_id =
     (case find_row i_id invocation_id (db_invocations db) of
        Some r \<Rightarrow>
          if i_tenant_id r \<noteq> tenant_id then Inl (HTTPException 404 (JStr ''Invocation not found''))
          else Inr (invocation_schema py r)
      | None \<Rightarrow> Inl (HTTPException 404 (JStr ''Invocation not found'')))"

section \<open>Readiness\<close>

text \<open>
  The database's answers: \<open>None\<close> is a SQLAlchemyError, the migration head is \<open>None\<close> when the table
  is empty.  Both services share this handler; the orchestrator's has no adapters to list.
\<close>

record probe =
  pb_head :: "string option option"
  pb_stats :: "outbox_stats option"
  pb_publisher_running :: bool
  pb_publisher_last_error :: "string option"
  pb_connection :: connection

definition stats_json :: "outbox_stats \<Rightarrow> bool \<Rightarrow> jobj" where
  "stats_json st running =
     [(''pending'', JInt (int (os_pending st))), (''dead'', JInt (int (os_dead st))),
      (''published'', JInt (int (os_published st))),
      (''oldest_pending_age_seconds'',
         (case os_oldest_pending_age_seconds st of None \<Rightarrow> JNull | Some q \<Rightarrow> JFloat (Fin q))),
      (''publisher_running'', JBool running)]"

definition readiness :: "string \<Rightarrow> string list option \<Rightarrow> probe \<Rightarrow> jobj" where
  "readiness expected_migration adapter_kinds pb =
     (let db_ok = (pb_head pb \<noteq> None);
          migrations_current = (pb_head pb = Some (Some expected_migration));
          outbox =
            (if db_ok
             then (case pb_stats pb of None \<Rightarrow> [] | Some st \<Rightarrow> stats_json st (pb_publisher_running pb))
             else []);
          nats_ok = ready (pb_connection pb);
          healthy = (db_ok \<and> nats_ok \<and> migrations_current)
      in [(''status'', JStr (if healthy then ''ready'' else ''not_ready'')),
          (''database_connected'', JBool db_ok),
          (''nats_connected'', JBool nats_ok),
          (''migrations_current'', JBool migrations_current),
          (''required_stream_available'', JBool nats_ok)]
         @ (case adapter_kinds of None \<Rightarrow> [] | Some ks \<Rightarrow> [(''adapters'', JList (map JStr ks))])
         @ [(''outbox'', JObj outbox)]
         @ (if truthy_text (cn_last_error (pb_connection pb))
            then [(''nats_last_error'', JStr (the (cn_last_error (pb_connection pb))))] else [])
         @ (if truthy_text (pb_publisher_last_error pb)
            then [(''outbox_last_error'', JStr (the (pb_publisher_last_error pb)))] else []))"

definition ready_status :: "jobj \<Rightarrow> int" where
  "ready_status detail = (if jget ''status'' detail = Some (JStr ''ready'') then 200 else 503)"

definition public_ready :: "jobj \<Rightarrow> int \<times> jobj" where
  "public_ready detail =
     (ready_status detail,
      filter (\<lambda>(k, _). k \<in> {''status'', ''database_connected'', ''nats_connected'', ''migrations_current''}) detail)"

definition publisher_enabled :: "(string \<Rightarrow> string option) \<Rightarrow> bool" where
  "publisher_enabled getenv =
     (str_lower (case getenv ''OUTBOX_PUBLISHER_ENABLED'' of None \<Rightarrow> ''true'' | Some v \<Rightarrow> v)
        \<notin> {''false'', ''0'', ''no''})"

end
