(* ===== verification/RegistryContract.thy ===== *)
theory RegistryContract
  imports RegistryApi
begin

text \<open>
  What the registry's API promises, route by route: tenants are invisible to each other, a provider
  is reached only for an enabled connector of the caller's tenant, a replay gives the original
  answer, and what creation, deletion, validation and readiness do.
\<close>

lemmas transition_routes =
  lifecycle_handler_def rotate_connector_credentials_def transition_handler_def

definition not_found :: api_error where
  "not_found = HTTPException 404 (JStr ''Connector not found'')"

lemma tenant_connector_Inr:
  "tenant_connector db cid t = Inr c \<longleftrightarrow> find_row c_id cid (db_connectors db) = Some c \<and> c_tenant_id c = t"
  by (auto simp: tenant_connector_def split: option.splits)

lemma tenant_connector_Inl:
  "tenant_connector db cid t = Inl e \<longleftrightarrow>
     e = not_found \<and> \<not> (\<exists>c. find_row c_id cid (db_connectors db) = Some c \<and> c_tenant_id c = t)"
  by (auto simp: tenant_connector_def not_found_def split: option.splits)

lemma executable_iff_enabled: "check_executable c = Inr () \<longleftrightarrow> c_status c = ''enabled''"
  by (auto simp: check_executable_def is_executable_ConnectorState ConnectorState_Some
      split: option.splits prod.splits)

section \<open>Tenancy\<close>

text \<open>
  C16. Another tenant's connector is indistinguishable from one that does not exist: on every route
  that names a connector the answer is the same 404, nothing is committed and nothing is sent.
\<close>

theorem other_tenants_are_invisible:
  assumes none: "\<not> (\<exists>c. find_row c_id cid (db_connectors db) = Some c \<and> c_tenant_id c = ci_tenant_id caller)"
    and ok: "body_errors body = []" "invocation_errors p = []"
    and token: "require_internal_caller s token = None" "ci_tenant_id caller \<noteq> []"
  shows "get_connector py db cid (ci_tenant_id caller) = Inl not_found \<and>
    connector_audit py db cid (ci_tenant_id caller) = Inl not_found \<and>
    connector_health s env db cid (ci_tenant_id caller) = Inl not_found \<and>
    validate_connector s env db w caller cid = (db, Inl not_found) \<and>
    request_connector_deletion py db w caller cid = (db, Inl not_found) \<and>
    lifecycle_handler py ep db w cid caller body = (db, Inl not_found) \<and>
    rotate_connector_credentials py db w cid caller body = (db, Inl not_found) \<and>
    invoke_connector_v1 s iw db caller cid p rid tp = ([], db, Inl not_found) \<and>
    invoke_connector_internal s iw db token (ci_tenant_id caller) cid payload = ([], db, Inl not_found)"
proof -
  have t: "tenant_connector db cid (ci_tenant_id caller) = Inl not_found"
    using none by (simp add: tenant_connector_Inl)
  then have a: "authorise_invocation db cid (ci_tenant_id caller) = Inl not_found"
    by (simp add: authorise_invocation_def)
  have m: "apply_transition db w cid target event act (ci_tenant_id caller) r k = Inl LookupError"
    for target event act r k
    using none by (auto simp: apply_transition_def split: option.splits)
  have refusal: "transition_refusal LookupError = not_found"
    by (simp add: not_found_def)
  show ?thesis
    using t a m refusal ok token
    by (auto simp: get_connector_def connector_audit_def connector_health_def validate_connector_def
        request_connector_deletion_def transition_routes invoke_connector_v1_def
        invoke_connector_internal_def Let_def split: prod.splits)
qed

section \<open>Readiness\<close>

text \<open>
  The public readiness probe says as much as the detailed one and no more: it answers 200
  exactly when the database answers, the migration head is the expected one and the broker is
  usable, and its body holds only the four status fields, whatever errors and backlog the detailed
  body reports.
\<close>

theorem public_ready_discloses_nothing:
  "fst (public_ready (readiness expected_migration adapter_kinds pb)) =
     (if pb_head pb = Some (Some expected_migration) \<and> ready (pb_connection pb) then 200 else 503) \<and>
   ready_status (readiness expected_migration adapter_kinds pb) = fst (public_ready (readiness expected_migration adapter_kinds pb)) \<and>
   map fst (snd (public_ready (readiness expected_migration adapter_kinds pb))) =
     [''status'', ''database_connected'', ''nats_connected'', ''migrations_current'']"
  by (auto simp: public_ready_def readiness_def ready_status_def jget_def Let_def split: option.splits)

section \<open>Deleting\<close>

text \<open>The deletion endpoint writes the row without asking the state machine.\<close>

lemma request_connector_deletion_live:
  assumes "find_row c_id cid (db_connectors db) = Some c" "c_tenant_id c = ci_tenant_id caller"
    and "c_status c \<noteq> ''deleted''" "c_status c \<noteq> ''deletion_requested''"
  shows "\<exists>db' e. request_connector_deletion py db w caller cid = (db', Inr ()) \<and>
    db_connectors db' = update_row c_id (request_deletion w caller c) (db_connectors db) \<and>
    db_audit db' = db_audit db \<and> db_invocations db' = db_invocations db \<and>
    db_outbox db' = db_outbox db @ [e] \<and> aggregate_event ''connector'' cid (c_version c + 1) e \<and>
    o_subject e = ''connector.deletion_requested''"
proof -
  have "tenant_connector db cid (ci_tenant_id caller) = Inr c"
    using assms by (simp add: tenant_connector_Inr)
  then show ?thesis
    using assms(3,4)
    by (simp add: request_connector_deletion_def Let_def enqueue_def aggregate_event_def request_deletion_def)
qed

text \<open>
  Deletion bypasses the state machine.  An enabled connector, whose deletion the transition
  function refuses, is moved to "deletion_requested" by the deletion endpoint all the same, with
  its event but without a reason and without an audit row; after that it is no longer executable.
\<close>

theorem deletion_bypasses_the_machine:
  assumes "find_row c_id cid (db_connectors db) = Some c" "c_tenant_id c = ci_tenant_id caller"
    and "c_status c = ''enabled''"
  shows "(\<exists>exc targets. apply_transition db w cid DELETION_REQUESTED event actor (ci_tenant_id caller) reason key =
      Inl (TransitionRejected exc ''enabled'' targets)) \<and>
    (\<exists>db' c' e. request_connector_deletion py db w caller cid = (db', Inr ()) \<and>
      find_row c_id cid (db_connectors db') = Some c' \<and> c_status c' = ''deletion_requested'' \<and>
      c_version c' = c_version c + 1 \<and> \<not> executable c' \<and> c_state_reason c' = c_state_reason c \<and>
      db_audit db' = db_audit db \<and> db_outbox db' = db_outbox db @ [e] \<and>
      aggregate_event ''connector'' cid (c_version c') e)"
proof -
  have "\<nexists>tr. find_transition ''enabled'' ''deletion_requested'' event = Inr tr"
    unfolding find_transition_iff by (auto simp: TRANSITIONS_def Transition_def)
  then obtain exc where exc: "find_transition ''enabled'' ''deletion_requested'' event = Inl exc"
    by (cases "find_transition ''enabled'' ''deletion_requested'' event") auto
  have "idempotent_repeat ''enabled'' ''deletion_requested'' = None"
    by (simp add: idempotent_repeat_def)
  with exc assms have refused: "apply_transition db w cid DELETION_REQUESTED event actor (ci_tenant_id caller) reason key =
      Inl (TransitionRejected exc ''enabled'' (permitted_targets ''enabled''))"
    by (simp add: apply_transition_def Let_def)
  obtain db' e where d: "request_connector_deletion py db w caller cid = (db', Inr ())"
    "db_connectors db' = update_row c_id (request_deletion w caller c) (db_connectors db)"
    "db_audit db' = db_audit db" "db_outbox db' = db_outbox db @ [e]"
    "aggregate_event ''connector'' cid (c_version c + 1) e"
    using request_connector_deletion_live [OF assms(1,2)] assms(3) by fastforce
  let ?c = "request_deletion w caller c"
  have "find_row c_id cid (db_connectors db') = Some ?c"
    using find_row_Some [OF assms(1)] d(2) by (auto simp: request_deletion_def)
  moreover have "c_status ?c = ''deletion_requested'' \<and> c_version ?c = c_version c + 1 \<and> \<not> executable ?c \<and>
      c_state_reason ?c = c_state_reason c"
    by (simp add: request_deletion_def executable_def flip: state_value.simps)
  ultimately show ?thesis
    using refused d(1,3-5) by (metis (no_types))
qed

theorem deletion_bypasses_the_machine_witness:
  "\<exists>db' c'. request_connector_deletion example_python example_db example_world
      \<lparr>ci_actor_id = ''ops'', ci_tenant_id = ''t1'', ci_verified = True\<rparr> ''c1'' = (db', Inr ()) \<and>
    find_row c_id ''c1'' (db_connectors db') = Some c' \<and> c_status c' = ''deletion_requested'' \<and> db_audit db' = []"
proof -
  have "c_tenant_id example_connector = ''t1''" "c_status example_connector = ''enabled''" "db_audit example_db = []"
    by (simp_all add: example_connector_def example_db_def)
  with deletion_bypasses_the_machine [OF example_find, of "\<lparr>ci_actor_id = ''ops'', ci_tenant_id = ''t1'', ci_verified = True\<rparr>"
      example_world None "''ops''" None None example_python]
  show ?thesis by auto
qed

section \<open>Creating\<close>

lemma create_connector_Inr:
  assumes "create_connector s env db w caller p = (db', Inr view)"
  obtains a report config where
    "create_errors (ae_py env) p = []" "get_adapter (as_adapters s) (cr_kind p) = Inr a"
    "config = cr_config p \<or> (\<exists>url. config = cr_config p @ [(''base_url'', JStr url)])"
    "ad_validate a env config = Inr report" "vr_valid report"
    "\<not> name_taken db (ci_tenant_id caller) (cr_name p)"
    "w_row_id w \<notin> c_id ` set (db_connectors db)"
    "db' = commit_creation (ae_py env) db w caller (new_connector w (ci_tenant_id caller) p config report)"
    "view = to_schema (ae_py env) (new_connector w (ci_tenant_id caller) p config report)"
proof -
  let ?config = "case cr_base_url p of
      Some url \<Rightarrow> if jhas ''base_url'' (cr_config p) then cr_config p
                  else cr_config p @ [(''base_url'', JStr url)]
    | None \<Rightarrow> cr_config p"
  have errors: "create_errors (ae_py env) p = []"
    using assms by (auto simp: create_connector_def Let_def split: if_splits)
  with assms obtain a where a: "get_adapter (as_adapters s) (cr_kind p) = Inr a"
    by (auto simp: create_connector_def Let_def split: sum.splits)
  with assms errors obtain report where r: "ad_validate a env ?config = Inr report" "vr_valid report"
    by (auto simp: create_connector_def Let_def split: sum.splits raised.splits if_splits)
  let ?c = "new_connector w (ci_tenant_id caller) p ?config report"
  have c: "c_tenant_id ?c = ci_tenant_id caller" "c_name ?c = cr_name p" "c_id ?c = w_row_id w"
    by (simp_all add: new_connector_def)
  have "\<not> name_taken db (ci_tenant_id caller) (cr_name p) \<and> w_row_id w \<notin> c_id ` set (db_connectors db) \<and>
      db' = commit_creation (ae_py env) db w caller ?c \<and> view = to_schema (ae_py env) ?c"
    using assms errors a r
    by (simp add: create_connector_def Let_def c split: if_splits)
  then show ?thesis
    using errors a r by (intro that [of a ?config report]) (auto split: option.splits)
qed

definition names_unique :: "registry_db \<Rightarrow> bool" where
  "names_unique db \<longleftrightarrow> distinct (map (\<lambda>c. (c_tenant_id c, c_name c)) (db_connectors db))"

lemma offending_keys_Nil: "offending_keys names config = [] \<longleftrightarrow> (\<forall>k \<in> set names. \<not> jhas k config)"
proof -
  have "offending_keys names config = [] \<longleftrightarrow> set (offending_keys names config) = {}"
    by simp
  then show ?thesis by (auto simp: offending_keys_def)
qed

lemma create_errors_Nil:
  assumes "create_errors py p = []"
  shows "cr_status p \<in> CREATABLE_STATES" "cr_kind p \<in> set CONNECTOR_KINDS"
    "k \<in> set FORBIDDEN_CONFIG_KEYS \<union> set OPERATOR_ONLY_CONFIG_KEYS \<Longrightarrow> \<not> jhas k (cr_config p)"
proof -
  have "offending_keys FORBIDDEN_CONFIG_KEYS (cr_config p) = []"
    "offending_keys OPERATOR_ONLY_CONFIG_KEYS (cr_config p) = []"
    using assms by (auto simp: create_errors_def no_literal_secrets_def no_privilege_escalation_def Let_def
        split: if_splits list.splits)
  then show "k \<in> set FORBIDDEN_CONFIG_KEYS \<union> set OPERATOR_ONLY_CONFIG_KEYS \<Longrightarrow> \<not> jhas k (cr_config p)"
    by (auto simp: offending_keys_Nil)
qed (use assms in \<open>auto simp: create_errors_def only_creatable_states_def split: if_splits\<close>)

lemma created_config_keys:
  assumes "create_errors py p = []" "config = cr_config p \<or> (\<exists>url. config = cr_config p @ [(''base_url'', JStr url)])"
  shows "\<forall>k \<in> set FORBIDDEN_CONFIG_KEYS \<union> set OPERATOR_ONLY_CONFIG_KEYS. \<not> jhas k (c_config (new_connector w t p config report))"
proof
  fix k assume k: "k \<in> set FORBIDDEN_CONFIG_KEYS \<union> set OPERATOR_ONLY_CONFIG_KEYS"
  then have "k \<noteq> ''base_url''"
    by (auto simp: FORBIDDEN_CONFIG_KEYS_def OPERATOR_ONLY_CONFIG_KEYS_def)
  with create_errors_Nil(3) [OF assms(1) k] assms(2) have "\<not> jhas k config"
    by (auto simp: jhas_def)
  then show "\<not> jhas k (c_config (new_connector w t p config report))"
    by (simp add: new_connector_def)
qed

text \<open>
  What creation commits.  A new connector belongs to its caller's tenant, starts at version 1
  in a state connectors may be created in, holds neither a literal secret nor an operator-only
  setting, and has a name of its own in the tenant; the same commit records its first audit row and
  stages the event of version 1, whose payload is the redacted view the caller is shown.
\<close>

theorem creation_commits:
  assumes "create_connector s env db w caller p = (db', Inr view)" and "names_unique db"
  shows "names_unique db' \<and>
    (\<exists>c a e. db_connectors db' = db_connectors db @ [c] \<and> db_audit db' = db_audit db @ [a] \<and>
      db_outbox db' = db_outbox db @ [e] \<and> db_invocations db' = db_invocations db \<and>
      c_tenant_id c = ci_tenant_id caller \<and> c_version c = 1 \<and>
      (\<exists>st \<in> CREATABLE_STATES. c_status c = state_value st) \<and>
      (\<forall>k \<in> set FORBIDDEN_CONFIG_KEYS \<union> set OPERATOR_ONLY_CONFIG_KEYS. \<not> jhas k (c_config c)) \<and>
      a_connector_id a = c_id c \<and> a_from_state a = [] \<and> a_to_state a = c_status c \<and>
      a_actor_id a = ci_actor_id caller \<and> a_aggregate_version a = 1 \<and>
      aggregate_event ''connector'' (c_id c) 1 e \<and> o_payload e = view \<and>
      jget ''config'' view = Some (JObj (redact_config False (c_config c))))"
  using assms(1)
proof (cases rule: create_connector_Inr)
  case (1 a report config)
  let ?c = "new_connector w (ci_tenant_id caller) p config report"
  let ?e = "last (db_outbox db')"
  note fields = new_connector_def creation_audit_def
  note keys = created_config_keys [OF 1(1,3), of w "ci_tenant_id caller" report]
  have names: "names_unique db'"
    using assms(2) 1(6) by (force simp: 1(8) commit_creation_def names_unique_def fields name_taken_def)
  have rows: "db_connectors db' = db_connectors db @ [?c]" "db_audit db' = db_audit db @ [creation_audit w caller ?c]"
      "db_invocations db' = db_invocations db" "db_outbox db' = db_outbox db @ [?e]"
    by (simp_all add: 1(8) commit_creation_def enqueue_def)
  have event: "aggregate_event ''connector'' (c_id ?c) 1 ?e" "o_payload ?e = view"
    by (simp_all add: 1(8,9) commit_creation_def enqueue_def aggregate_event_def fields)
  have view: "jget ''config'' view = Some (JObj (redact_config False (c_config ?c)))"
    by (simp add: 1(9) to_schema_def jget_def)
  have c: "c_tenant_id ?c = ci_tenant_id caller" "c_version ?c = 1" "c_status ?c = state_value (cr_status p)"
    by (simp_all add: fields)
  have a: "a_connector_id (creation_audit w caller ?c) = c_id ?c" "a_from_state (creation_audit w caller ?c) = []"
    "a_to_state (creation_audit w caller ?c) = c_status ?c" "a_actor_id (creation_audit w caller ?c) = ci_actor_id caller"
    "a_aggregate_version (creation_audit w caller ?c) = 1"
    by (simp_all add: fields)
  have "\<exists>st \<in> CREATABLE_STATES. c_status ?c = state_value st"
    using c(3) create_errors_Nil(1) [OF 1(1)] by blast
  with rows event view c(1,2) a keys show ?thesis
    by (intro conjI [OF names] exI [of _ ?c] exI [of _ "creation_audit w caller ?c"] exI [of _ ?e] conjI)
qed

section \<open>Revalidating\<close>

lemma validation_edge:
  assumes "find_transition status (state_value (if valid then VALIDATED else CONFIGURED))
      (Some (if valid then ''connector.validation_succeeded'' else ''connector.validation_failed'')) = Inr tr"
  shows "status = ''configured'' \<and> \<not> t_requires_reason tr"
proof -
  have "list_all (\<lambda>tr. t_event tr \<in> {''connector.validation_succeeded'', ''connector.validation_failed''} \<longrightarrow>
      t_source tr = CONFIGURED \<and> \<not> t_requires_reason tr) TRANSITIONS"
    by code_simp
  then show ?thesis
    using find_transition_Inr [OF assms] by (cases valid) (auto simp: list_all_iff)
qed

lemma validation_edge_exists:
  "\<exists>tr. find_transition ''configured'' (state_value (if valid then VALIDATED else CONFIGURED))
      (Some (if valid then ''connector.validation_succeeded'' else ''connector.validation_failed'')) = Inr tr"
proof -
  have "\<exists>tr. find_transition ''configured'' ''validated'' (Some ''connector.validation_succeeded'') = Inr tr"
    "\<exists>tr. find_transition ''configured'' ''configured'' (Some ''connector.validation_failed'') = Inr tr"
    unfolding find_transition_iff by (simp_all add: TRANSITIONS_def Transition_def)
  then show ?thesis by (cases valid) simp_all
qed

text \<open>What the handler does with the answer of the transition, the report being fixed.\<close>

lemma validate_connector_report:
  fixes r :: validation_result
  defines "target \<equiv> if vr_valid r then VALIDATED else CONFIGURED"
    and "event \<equiv> if vr_valid r then ''connector.validation_succeeded'' else ''connector.validation_failed''"
    and "reason \<equiv> if vr_valid r then None else Some (take 1024 (join_text ''; '' (vr_errors r)))"
  assumes "validate_connector s env db w caller cid = (db', Inr report)"
    and "tenant_connector db cid (ci_tenant_id caller) = Inr c" "get_adapter (as_adapters s) (c_kind c) = Inr a"
    and "ad_validate a env (c_config c) = Inr r"
  shows "report = r \<and>
    (case apply_transition db w cid target (Some event) (ci_actor_id caller) (ci_tenant_id caller) reason None of
       Inl e \<Rightarrow> (\<exists>exc current targets. e = TransitionRejected exc current targets) \<and> db' = store_capability db cid r
     | Inr (db1, res) \<Rightarrow> db' = store_capability db1 cid r)"
proof -
  have "validate_connector s env db w caller cid =
      (case apply_transition db w cid target (Some event) (ci_actor_id caller) (ci_tenant_id caller) reason None of
        Inl LookupError \<Rightarrow> (db, Inl (Unhandled ''LookupError''))
      | Inl (ReasonRequired ev) \<Rightarrow> (db, Inl (Unhandled ''ReasonRequired''))
      | Inl (TransitionRejected exc current targets) \<Rightarrow> (store_capability db cid r, Inr r)
      | Inr (db1, res) \<Rightarrow> (store_capability db1 cid r, Inr r))"
    unfolding target_def event_def reason_def using assms(5-7) by (simp add: validate_connector_def)
  with assms(4) show ?thesis
    by (cases "apply_transition db w cid target (Some event) (ci_actor_id caller) (ci_tenant_id caller) reason None")
      (auto split: apply_error.splits prod.splits)
qed

text \<open>
  Validation moves configured connectors only.  The report is stored on the row whatever the
  state; a configured connector advances to "validated" or is recorded as "configured" again, with
  one audit row and one event; in every other state nothing but the stored capability changes.
\<close>

theorem validation_moves_configured_only:
  assumes "validate_connector s env db w caller cid = (db', Inr report)"
  shows "\<exists>c c'. find_row c_id cid (db_connectors db) = Some c \<and> find_row c_id cid (db_connectors db') = Some c' \<and>
    c_tenant_id c = ci_tenant_id caller \<and>
    c_supports_idempotency c' = vr_supports_idempotency report \<and>
    c_idempotency_mode c' = mode_value (vr_idempotency_mode report) \<and>
    (if c_status c = ''configured''
     then c_status c' = (if vr_valid report then ''validated'' else ''configured'') \<and>
       c_version c' = c_version c + 1 \<and> length (db_audit db') = length (db_audit db) + 1 \<and>
       length (db_outbox db') = length (db_outbox db) + 1
     else c_status c' = c_status c \<and> c_version c' = c_version c \<and>
       db_audit db' = db_audit db \<and> db_outbox db' = db_outbox db)"
proof -
  from assms obtain c a where c: "tenant_connector db cid (ci_tenant_id caller) = Inr c"
    and a: "get_adapter (as_adapters s) (c_kind c) = Inr a"
    by (auto simp: validate_connector_def split: sum.splits)
  define target where "target = (if vr_valid report then VALIDATED else CONFIGURED)"
  define event where "event = (if vr_valid report then ''connector.validation_succeeded'' else ''connector.validation_failed'')"
  define reason where "reason = (if vr_valid report then None else Some (take 1024 (join_text ''; '' (vr_errors report))))"
  let ?apply = "apply_transition db w cid target (Some event) (ci_actor_id caller) (ci_tenant_id caller) reason None"
  have row: "find_row c_id cid (db_connectors db) = Some c" "c_tenant_id c = ci_tenant_id caller"
    using c by (simp_all add: tenant_connector_Inr)
  then have id: "c_id c = cid" "cid \<in> c_id ` set (db_connectors db)"
    by (auto dest: find_row_Some)
  obtain r where r: "ad_validate a env (c_config c) = Inr r"
    using assms c a by (cases "ad_validate a env (c_config c)") (auto simp: validate_connector_def split: raised.splits)
  have out: "case ?apply of
       Inl e \<Rightarrow> (\<exists>exc current targets. e = TransitionRejected exc current targets) \<and> db' = store_capability db cid report
     | Inr (db1, res) \<Rightarrow> db' = store_capability db1 cid report"
    using validate_connector_report [OF assms c a r] by (auto simp: target_def event_def reason_def)
  note edge = validation_edge [of "c_status c" "vr_valid report", folded target_def event_def]
  show ?thesis
  proof (cases "c_status c = ''configured''")
    case True
    then obtain tr where tr: "find_transition (c_status c) (state_value target) (Some event) = Inr tr"
      using validation_edge_exists [of "vr_valid report", folded target_def event_def] by auto
    let ?c = "move_connector w tr reason c"
    have "?apply = Inr (commit_transition db w tr (ci_actor_id caller) (ci_tenant_id caller) reason None c,
        \<lparr>tres_connector = ?c, tres_event = t_event tr, tres_repeated = False\<rparr>)"
      unfolding apply_transition_def using row tr edge [OF tr] by (simp add: Let_def)
    with out have db': "db' = store_capability (commit_transition db w tr (ci_actor_id caller) (ci_tenant_id caller) reason None c) cid report"
      by simp
    have "t_target tr = target"
      using find_transition_Inr [OF tr] by simp
    then have "c_status ?c = (if vr_valid report then ''validated'' else ''configured'')"
      by (simp add: target_def)
    then show ?thesis
      using row id True by (simp add: db' store_capability_def enqueue_def)
  next
    case False
    then obtain exc where tr: "find_transition (c_status c) (state_value target) (Some event) = Inl exc"
      using edge by (cases "find_transition (c_status c) (state_value target) (Some event)") auto
    have "db' = store_capability db cid report"
      using out row tr
      by (cases "idempotent_repeat (c_status c) (state_value target)") (simp_all add: apply_transition_def Let_def)
    then show ?thesis
      using row id False by (simp add: store_capability_def)
  qed
qed

lemma failed_validation_of_validated:
  assumes "validate_connector s env db w caller cid = (db', Inr report)" "\<not> vr_valid report"
    and "find_row c_id cid (db_connectors db) = Some c" "c_tenant_id c = ci_tenant_id caller"
    and "c_status c = ''validated''"
  shows "db' = store_capability db cid report"
proof -
  obtain a where c: "tenant_connector db cid (ci_tenant_id caller) = Inr c"
    and a: "get_adapter (as_adapters s) (c_kind c) = Inr a"
    using assms(1,3,4) by (auto simp: validate_connector_def tenant_connector_Inr split: sum.splits)
  obtain r where r: "ad_validate a env (c_config c) = Inr r"
    using assms(1) c a by (cases "ad_validate a env (c_config c)") (auto simp: validate_connector_def split: raised.splits)
  have "find_transition ''validated'' ''configured'' (Some ''connector.validation_failed'') = Inl NotPermitted"
    by code_simp
  then have "apply_transition db w cid CONFIGURED (Some ''connector.validation_failed'') (ci_actor_id caller)
      (ci_tenant_id caller) reason None = Inl (TransitionRejected NotPermitted ''validated'' (permitted_targets ''validated''))" for reason
    using assms(3-5) by (simp add: apply_transition_def idempotent_repeat_def Let_def)
  with validate_connector_report [OF assms(1) c a r] assms(2) show ?thesis
    by (auto split: if_splits)
qed

lemma enable_edge: "find_transition ''validated'' ''enabled'' (Some ''connector.enabled'') =
    Inr (Transition VALIDATED ENABLED ''connector.enabled'' False False False)"
  by code_simp

text \<open>
  A failed revalidation does not hold a connector back.  A connector that has been validated
  and whose stored configuration is now found invalid keeps the state "validated", and the very next
  request can enable it.
\<close>

theorem failed_revalidation_stays_enableable:
  assumes "validate_connector s env db w caller cid = (db', Inr report)" "\<not> vr_valid report"
    and "find_row c_id cid (db_connectors db) = Some c" "c_tenant_id c = ci_tenant_id caller"
    and "c_status c = ''validated''"
  shows "\<exists>db'' view c''. lifecycle_handler py Enable db' w' cid caller None = (db'', Inr view) \<and>
    find_row c_id cid (db_connectors db'') = Some c'' \<and> executable c''"
proof -
  have id: "c_id c = cid" "cid \<in> c_id ` set (db_connectors db)"
    using find_row_Some [OF assms(3)] by auto
  then obtain c' where c': "find_row c_id cid (db_connectors db') = Some c'" "c_id c' = cid"
    "c_tenant_id c' = ci_tenant_id caller" "c_status c' = ''validated''"
    using failed_validation_of_validated [OF assms] assms(3-5) by (simp add: store_capability_def)
  let ?tr = "Transition VALIDATED ENABLED ''connector.enabled'' False False False"
  let ?db = "commit_transition db' w' ?tr (ci_actor_id caller) (ci_tenant_id caller) None None c'"
  have "apply_transition db' w' cid ENABLED (Some ''connector.enabled'') (ci_actor_id caller) (ci_tenant_id caller) None None =
      Inr (?db, \<lparr>tres_connector = move_connector w' ?tr None c', tres_event = ''connector.enabled'', tres_repeated = False\<rparr>)"
    using c' enable_edge by (simp add: apply_transition_def Let_def Transition_def)
  then have "lifecycle_handler py Enable db' w' cid caller None = (?db, Inr (to_schema py (move_connector w' ?tr None c')))"
    by (simp add: transition_routes body_errors_def)
  moreover have "find_row c_id cid (db_connectors ?db) = Some (move_connector w' ?tr None c')"
    using c' find_row_Some [OF c'(1)] by (auto simp: image_iff)
  moreover have "executable (move_connector w' ?tr None c')"
    using is_executable_value [of ENABLED] by (simp add: executable_def Transition_def)
  ultimately show ?thesis by blast
qed

section \<open>Invoking\<close>

lemma authorise_invocation_Inr:
  "authorise_invocation db cid t = Inr c \<longleftrightarrow>
     find_row c_id cid (db_connectors db) = Some c \<and> c_tenant_id c = t \<and> c_status c = ''enabled''"
proof (cases "tenant_connector db cid t")
  case (Inl e)
  then have "authorise_invocation db cid t = Inl e"
    by (simp add: authorise_invocation_def)
  with Inl show ?thesis
    by (auto simp: tenant_connector_Inl)
next
  case (Inr d)
  then have "find_row c_id cid (db_connectors db) = Some d" "c_tenant_id d = t"
    by (simp_all add: tenant_connector_Inr)
  then show ?thesis
    using Inr executable_iff_enabled [of d]
    by (cases "check_executable d") (auto simp: authorise_invocation_def split: not_executable.splits)
qed

text \<open>What the other transactions may do to rows: never remove one, never give one another key.\<close>

definition keeps_rows :: "(registry_db \<Rightarrow> registry_db) \<Rightarrow> bool" where
  "keeps_rows others \<longleftrightarrow>
     (\<forall>d. \<forall>r \<in> set (db_invocations d). \<exists>r' \<in> set (db_invocations (others d)). i_id r' = i_id r \<and> key_of r' = key_of r)"

definition keeps_settled :: "registry_db \<Rightarrow> registry_db \<Rightarrow> bool" where
  "keeps_settled d d' \<longleftrightarrow>
     {r \<in> set (db_invocations d). \<not> in_flight_status (i_status r)} \<subseteq> set (db_invocations d')"

lemma run_invocation_row:
  assumes "run_invocation s iw db c args payload = (sent, db', out)" and during: "keeps_rows (iw_during iw)"
  shows "(out = Inr r \<longrightarrow> key_of r = (aa_tenant_id args, c_id c, aa_idempotency_key args) \<and>
      (r \<in> set (db_invocations db) \<union> set (db_invocations (iw_before iw db)) \<and> db' = iw_before iw db \<or> r \<in> set (db_invocations db'))) \<and>
    (sent \<noteq> [] \<longrightarrow> find_existing (iw_before iw db) (aa_tenant_id args) (c_id c) (aa_idempotency_key args) = None \<and>
      (\<exists>r \<in> set (db_invocations db'). key_of r = (aa_tenant_id args, c_id c, aa_idempotency_key args)))"
proof -
  obtain db1 acc where acc: "accept db (iw_before iw db) (iw_accept iw) c args = (db1, acc)"
    by (cases "accept db (iw_before iw db) (iw_accept iw) c args") auto
  from acc show ?thesis
  proof (cases rule: accept_cases)
    case (replayed r0)
    with assms(1) acc find_existing_Some [OF replayed(3)] show ?thesis
      by (auto simp: run_invocation_def)
  next
    case insert
    from insert(2) show ?thesis
    proof (cases rule: accept_insert_cases)
      case fresh
      let ?r = "new_invocation (iw_accept iw) c args"
      obtain out' where ex: "execute (as_adapters s) db1 (iw_during iw) (iw_start iw) (iw_final iw) (iw_call iw) c ?r payload = (sent, db', out')"
        and out: "out = (case out' of Inl ty \<Rightarrow> Inl (Unhandled ty) | Inr r' \<Rightarrow> Inr r')"
        using assms(1) acc fresh(1) by (auto simp: run_invocation_def split: prod.splits sum.splits)
      have "?r \<in> set (db_invocations db1)"
        by (simp add: fresh(5))
      from execute_row [OF ex this during [unfolded keeps_rows_def]] fresh(2) out show ?thesis
        by (cases out') auto
    next
      case (race r0)
      with assms(1) acc find_existing_Some [OF race(3)] show ?thesis
        by (auto simp: run_invocation_def)
    next
      case (raises e)
      with assms(1) acc show ?thesis by (auto simp: run_invocation_def)
    qed
  qed
qed

lemma invoke_connector_v1_authorised:
  assumes "invocation_errors p = []" and "authorise_invocation db cid (ci_tenant_id caller) = Inr c"
  shows "\<exists>args. aa_tenant_id args = ci_tenant_id caller \<and> aa_idempotency_key args = ic_idempotency_key p \<and>
    invoke_connector_v1 s iw db caller cid p rid tp =
      (case run_invocation s iw db c args (ic_payload p) of
         (sent, db', Inl e) \<Rightarrow> (sent, db', Inl e)
       | (sent, db', Inr r) \<Rightarrow>
           (sent, db', Inr (http_status_for r, invocation_schema (ae_py (ce_adapter (iw_call iw))) r)))"
  by (rule exI [of _ "\<lparr>aa_operation = ic_operation p, aa_idempotency_key = ic_idempotency_key p,
             aa_actor_id = ci_actor_id caller, aa_tenant_id = ci_tenant_id caller,
             aa_timeout_seconds = (case ic_timeout_seconds p of Fin q \<Rightarrow> q | _ \<Rightarrow> 0),
             aa_trace_id = first_truthy rid tp\<rparr>"])
    (simp add: invoke_connector_v1_def assms Let_def)

lemma invoke_connector_v1_ran:
  assumes "invoke_connector_v1 s iw db caller cid p rid tp = (sent, db', out)"
    and "sent \<noteq> [] \<or> (\<exists>reply. out = Inr reply)"
  shows "invocation_errors p = [] \<and> (\<exists>c. authorise_invocation db cid (ci_tenant_id caller) = Inr c)"
  using assms by (auto simp: invoke_connector_v1_def split: if_splits sum.splits)

text \<open>
  C17. A provider is called for its tenant's enabled connector only, and only after the call has been
  recorded: if the public route sends anything at all, the connector was the caller's and enabled
  when the request was checked, no row existed under the key when the request was accepted, and the
  database ends with a row under that key.
\<close>

theorem provider_calls_are_authorised:
  assumes "invoke_connector_v1 s iw db caller cid p rid tp = (sent, db', out)" and "sent \<noteq> []"
    and "keeps_rows (iw_during iw)"
  shows "(\<exists>c. find_row c_id cid (db_connectors db) = Some c \<and> c_tenant_id c = ci_tenant_id caller \<and> c_status c = ''enabled'') \<and>
    find_existing (iw_before iw db) (ci_tenant_id caller) cid (ic_idempotency_key p) = None \<and>
    (\<exists>r \<in> set (db_invocations db'). key_of r = (ci_tenant_id caller, cid, ic_idempotency_key p))"
proof -
  obtain c where c: "authorise_invocation db cid (ci_tenant_id caller) = Inr c" and ok: "invocation_errors p = []"
    using invoke_connector_v1_ran [OF assms(1)] assms(2) by blast
  then have row: "find_row c_id cid (db_connectors db) = Some c" "c_tenant_id c = ci_tenant_id caller" "c_status c = ''enabled''"
    by (simp_all add: authorise_invocation_Inr)
  obtain args where args: "aa_tenant_id args = ci_tenant_id caller" "aa_idempotency_key args = ic_idempotency_key p"
    "invoke_connector_v1 s iw db caller cid p rid tp =
      (case run_invocation s iw db c args (ic_payload p) of
         (sent, db', Inl e) \<Rightarrow> (sent, db', Inl e)
       | (sent, db', Inr r) \<Rightarrow>
           (sent, db', Inr (http_status_for r, invocation_schema (ae_py (ce_adapter (iw_call iw))) r)))"
    using invoke_connector_v1_authorised [OF ok c] by blast
  then obtain out' where "run_invocation s iw db c args (ic_payload p) = (sent, db', out')"
    using assms(1) by (cases "run_invocation s iw db c args (ic_payload p)") (auto split: sum.splits)
  from run_invocation_row [OF this assms(3)] assms(2) row find_row_Some [OF row(1)] args show ?thesis
    by auto
qed

text \<open>
  C18. The mesh route is closed twice: it calls a provider only when the shared token is configured
  and presented, and then only for an enabled connector of the tenant the caller forwards.
\<close>

theorem internal_calls_are_authorised:
  assumes "invoke_connector_internal s iw db token tenant cid payload = (sent, db', out)" and "sent \<noteq> []"
  shows "token = as_internal_token s \<and> token \<noteq> [] \<and> tenant \<noteq> [] \<and>
    (\<exists>c. find_row c_id cid (db_connectors db) = Some c \<and> c_tenant_id c = tenant \<and> c_status c = ''enabled'')"
proof -
  have "require_internal_caller s token = None"
    using assms by (cases "require_internal_caller s token") (auto simp: invoke_connector_internal_def Let_def)
  moreover from this have "tenant \<noteq> []"
    using assms by (auto simp: invoke_connector_internal_def Let_def)
  moreover from calculation obtain c where "authorise_invocation db cid tenant = Inr c"
    using assms by (cases "authorise_invocation db cid tenant") (auto simp: invoke_connector_internal_def Let_def)
  ultimately show ?thesis
    by (auto simp: authorise_invocation_Inr require_internal_caller_def split: if_splits)
qed


section \<open>Witnesses\<close>

text \<open>The theorems at work on one service with one connector of tenant t1, to an internal service.\<close>

definition example_settings :: api_settings where
  "example_settings =
     \<lparr>as_adapters = build_registry services, as_identity = example_identity_env, as_internal_token = ''token'',
      as_expected_migration = ''0005'', as_digest = (\<lambda>_. ''d'')\<rparr>"

definition example_caller :: "string \<Rightarrow> caller_identity" where
  "example_caller tenant_id = \<lparr>ci_actor_id = ''ops'', ci_tenant_id = tenant_id, ci_verified = True\<rparr>"

definition example_call :: invocation_create where
  "example_call =
     \<lparr>ic_operation = ''v1'', ic_payload = [], ic_idempotency_key = ''key-0001'', ic_timeout_seconds = Fin 10\<rparr>"

definition example_iw :: "call_env \<Rightarrow> invocation_world" where
  "example_iw ce =
     \<lparr>iw_accept = example_world, iw_start = example_world, iw_final = example_world, iw_call = ce,
      iw_before = id, iw_during = id\<rparr>"

definition service_connector :: connector where
  "service_connector = example_connector\<lparr>c_kind := ''internal'', c_config := service_config\<rparr>"

definition service_db :: registry_db where
  "service_db = \<lparr>db_connectors = [service_connector], db_invocations = [], db_audit = [], db_outbox = []\<rparr>"

definition prompt_call :: call_env where
  "prompt_call = \<lparr>ce_adapter = example_env, ce_now = 5, ce_elapsed = 1, ce_sent = 0, ce_failed_at = 6\<rparr>"

lemma example_service [simp]:
  "invocation_errors example_call = []" "ic_idempotency_key example_call = ''key-0001''" "ic_payload example_call = []"
  "ci_tenant_id (example_caller t) = t" "as_adapters example_settings = build_registry services"
  "as_internal_token example_settings = ''token''"
  "iw_before (example_iw ce) = id" "iw_during (example_iw ce) = id" "iw_call (example_iw ce) = ce"
  "iw_accept (example_iw ce) = example_world" "iw_start (example_iw ce) = example_world" "iw_final (example_iw ce) = example_world"
  by (simp_all add: invocation_errors_def example_call_def example_caller_def example_settings_def example_iw_def)

lemma service_fields [simp]:
  "db_connectors service_db = [service_connector]" "db_invocations service_db = []"
  "c_id service_connector = ''c1''" "c_tenant_id service_connector = ''t1''" "c_status service_connector = ''enabled''"
  "c_kind service_connector = ''internal''" "c_config service_connector = service_config"
  by (simp_all add: service_db_def service_connector_def example_connector_def)

lemma keeps_rows_id [simp]: "keeps_rows id" and keeps_settled_refl [simp]: "keeps_settled d d"
  by (auto simp: keeps_rows_def keeps_settled_def)

lemma service_authorised: "authorise_invocation service_db ''c1'' ''t1'' = Inr service_connector"
  by (simp add: authorise_invocation_Inr find_row_def)

lemma get_internal_adapter: "get_adapter (build_registry services) ''internal'' = Inr (internal_adapter services)"
  by (simp add: get_adapter_def build_registry_eq)

text \<open>A first request under a key, as far as its adapter's answer.\<close>

lemma service_run:
  assumes args: "aa_tenant_id args = ''t1''" "aa_timeout_seconds args \<ge> 10"
    and fits: "row_fits (new_invocation example_world service_connector args)"
  shows "\<exists>db1 r1. i_deadline_at r1 \<ge> 15 \<and> i_deadline_at r1 = 5 + aa_timeout_seconds args \<and> db_connectors db1 = [service_connector] \<and>
    (\<exists>r. db_invocations db1 = [r] \<and> i_id r = i_id r1) \<and> key_of r1 = (''t1'', ''c1'', aa_idempotency_key args) \<and>
    run_invocation example_settings (example_iw ce) service_db service_connector args payload =
      (case call_adapter (internal_adapter services) ce service_connector r1 payload of
         (sent, res) \<Rightarrow>
           (case finalise db1 example_world r1 res of
              (db2, Inl ty) \<Rightarrow> (sent, db2, Inl (Unhandled ty)) | (db2, Inr r) \<Rightarrow> (sent, db2, Inr r)))"
proof -
  let ?r = "new_invocation example_world service_connector args"
  obtain db0 where acc: "accept service_db service_db example_world service_connector args = (db0, Fresh ?r)"
    "db_invocations db0 = [?r]" "db_connectors db0 = [service_connector]"
    using args fits by (simp add: accept_def accept_lookup_def accept_insert_def Let_def find_existing_def)
  obtain db1 r1 where start: "start_invocation db0 example_world ?r = (db1, r1)"
    by (cases "start_invocation db0 example_world ?r") auto
  note r1 = start_invocation_simps [OF start]
  have "i_deadline_at ?r = 5 + aa_timeout_seconds args"
    by (simp add: new_invocation_def example_world_def)
  then have deadline: "i_deadline_at r1 = 5 + aa_timeout_seconds args" "i_deadline_at r1 \<ge> 15"
    using args(2) by (simp_all add: r1(1))
  have "key_of r1 = key_of ?r"
    by (simp add: r1(1) key_of_def)
  then have key: "key_of r1 = (''t1'', ''c1'', aa_idempotency_key args)"
    using args by simp
  have "i_id r1 = ''r''"
    by (simp add: r1(1))
  then have rows: "\<exists>r. db_invocations db1 = [r] \<and> i_id r = i_id r1" "db_connectors db1 = [service_connector]"
    using acc by (simp_all add: r1(2) update_row_def)
  have "execute (build_registry services) db0 id example_world example_world ce service_connector ?r payload =
      (case call_adapter (internal_adapter services) ce service_connector r1 payload of
         (sent, res) \<Rightarrow> (sent, finalise db1 example_world r1 res))"
    using start by (simp add: execute_def get_internal_adapter)
  then show ?thesis
    using acc(1) deadline key rows
    by (intro exI [of _ db1] exI [of _ r1])
      (simp add: run_invocation_def split: prod.splits sum.splits)
qed

lemma service_call_sends:
  assumes "i_deadline_at r \<ge> 15" and "call_adapter (internal_adapter services) prompt_call service_connector r payload = (sent, res)"
  shows "sent \<noteq> []"
proof -
  let ?rq = "request_of service_connector r payload" and ?cc = "context_of service_connector r"
  have cc: "cc_config ?cc = service_config"
    by (simp add: context_of_def)
  have rem: "seconds_remaining ?rq 5 \<ge> 10" "seconds_remaining ?rq 0 \<ge> 15"
    using assms(1) by (simp_all add: seconds_remaining_def request_of_def)
  have "internal_target services service_config = Inr (''https://api.example.com'', JStr ''v1'')"
    "operation_error example_python ''v1'' = None" "lstrip_slash ''v1'' = ''v1''"
    by code_simp+
  then have "fst (internal_invoke services example_env ?rq ?cc) \<noteq> []"
    using rem(2)
    by (auto simp: internal_invoke_def internal_send_def example_env_def cc
      service_policy Let_def example_python_def dest: service_sends split: sum.split prod.split)
  then show ?thesis
    using assms(2) rem
    by (auto simp: call_adapter_def prompt_call_def internal_adapter_def Let_def split: prod.splits sum.splits raised.splits)
qed

definition service_args :: accept_args where
  "service_args =
     \<lparr>aa_operation = ''v1'', aa_idempotency_key = ''key-0001'', aa_actor_id = ''ops'', aa_tenant_id = ''t1'',
      aa_timeout_seconds = 10, aa_trace_id = None\<rparr>"

lemma service_args [simp]:
  "aa_tenant_id service_args = ''t1''" "aa_idempotency_key service_args = ''key-0001''" "aa_timeout_seconds service_args = 10"
  "row_fits (new_invocation example_world service_connector service_args)"
  by (simp_all add: service_args_def row_fits_def fits_def fits_opt_def new_invocation_def service_connector_def
      example_connector_def example_world_def)

lemma service_route:
  "invoke_connector_v1 example_settings (example_iw ce) service_db (example_caller ''t1'') ''c1'' example_call None None =
     (case run_invocation example_settings (example_iw ce) service_db service_connector service_args [] of
        (sent, db', Inl e) \<Rightarrow> (sent, db', Inl e)
      | (sent, db', Inr r) \<Rightarrow> (sent, db', Inr (http_status_for r, invocation_schema (ae_py (ce_adapter ce)) r)))"
  using service_authorised
  by (simp add: invoke_connector_v1_def Let_def)
    (simp add: example_call_def example_caller_def service_args_def first_truthy_def truthy_text_def)

theorem other_tenants_are_invisible_witness:
  "invoke_connector_v1 example_settings (example_iw prompt_call) service_db (example_caller ''t2'') ''c1'' example_call None None =
     ([], service_db, Inl not_found)"
  using other_tenants_are_invisible [of "''c1''" service_db "example_caller ''t2''" None example_call example_settings "''token''"]
  by (simp add: find_row_def body_errors_def require_internal_caller_def)

theorem provider_calls_are_authorised_witness:
  "\<exists>sent db' out r. invoke_connector_v1 example_settings (example_iw prompt_call) service_db (example_caller ''t1'') ''c1''
      example_call None None = (sent, db', out) \<and> sent \<noteq> [] \<and>
    r \<in> set (db_invocations db') \<and> key_of r = (''t1'', ''c1'', ''key-0001'')"
proof -
  obtain sent db' out where call: "invoke_connector_v1 example_settings (example_iw prompt_call) service_db (example_caller ''t1'') ''c1''
      example_call None None = (sent, db', out)"
    by (cases "invoke_connector_v1 example_settings (example_iw prompt_call) service_db (example_caller ''t1'') ''c1''
      example_call None None") auto
  obtain db1 r1 where run: "i_deadline_at r1 \<ge> 15"
    "run_invocation example_settings (example_iw prompt_call) service_db service_connector service_args [] =
      (case call_adapter (internal_adapter services) prompt_call service_connector r1 [] of
         (sent, res) \<Rightarrow>
           (case finalise db1 example_world r1 res of
              (db2, Inl ty) \<Rightarrow> (sent, db2, Inl (Unhandled ty)) | (db2, Inr r) \<Rightarrow> (sent, db2, Inr r)))"
    using service_run [of service_args prompt_call "[]"] by auto
  obtain sent' res where ad: "call_adapter (internal_adapter services) prompt_call service_connector r1 [] = (sent', res)"
    by (cases "call_adapter (internal_adapter services) prompt_call service_connector r1 []") auto
  have "sent = sent'"
    using call run(2) by (cases "finalise db1 example_world r1 res") (auto simp: service_route ad split: sum.splits)
  with service_call_sends [OF run(1) ad] have "sent \<noteq> []"
    by simp
  with provider_calls_are_authorised [OF call] call show ?thesis
    by auto
qed

text \<open>The mesh route, with a connector whose configuration names the operation.\<close>

definition mesh_args :: accept_args where
  "mesh_args =
     \<lparr>aa_operation = ''v1'', aa_idempotency_key = ''agent:unknown:d'', aa_actor_id = ''agent:unknown'',
      aa_tenant_id = ''t1'', aa_timeout_seconds = 15, aa_trace_id = None\<rparr>"

lemma mesh_args [simp]:
  "aa_tenant_id mesh_args = ''t1''" "aa_timeout_seconds mesh_args = 15"
  "row_fits (new_invocation example_world service_connector mesh_args)"
  by (simp_all add: mesh_args_def row_fits_def fits_def fits_opt_def new_invocation_def service_connector_def
      example_connector_def example_world_def)

lemma mesh_route:
  "fst (invoke_connector_internal example_settings (example_iw prompt_call) service_db ''token'' ''t1'' ''c1'' []) =
   fst (run_invocation example_settings (example_iw prompt_call) service_db service_connector mesh_args [])"
proof -
  have "ce_adapter prompt_call = example_env" "ae_py example_env = example_python" "ae_dp example_env = example_deployment"
    by (simp_all add: prompt_call_def example_env_def)
  moreover have "clamp_timeout example_deployment (jget ''timeout_seconds'' service_config) 15 = Inr (Fin 15)"
    by (simp add: clamp_timeout_def timeout_ceiling_def example_deployment_def service_config_def jget_def
        float_of_def float_min_def)
  moreover have "get_str example_python ''operation'' service_config = ''v1''"
    by (simp add: get_str_def service_config_def jget_def py_str_def)
  moreover have "as_digest example_settings = (\<lambda>_. ''d'')"
    by (simp add: example_settings_def)
  ultimately show ?thesis
    using service_authorised
    by (simp add: invoke_connector_internal_def require_internal_caller_def agent_input_def jget_def get_json_def
        agent_key_def mesh_args_def py_str_def Let_def split: prod.split sum.split)
qed

theorem internal_calls_are_authorised_witness:
  "\<exists>sent db' out. invoke_connector_internal example_settings (example_iw prompt_call) service_db ''token'' ''t1'' ''c1'' [] =
      (sent, db', out) \<and> sent \<noteq> [] \<and> c_status service_connector = ''enabled''"
proof -
  obtain sent db' out where call: "invoke_connector_internal example_settings (example_iw prompt_call) service_db
      ''token'' ''t1'' ''c1'' [] = (sent, db', out)"
    by (cases "invoke_connector_internal example_settings (example_iw prompt_call) service_db ''token'' ''t1'' ''c1'' []") auto
  obtain db1 r1 where run: "i_deadline_at r1 \<ge> 15"
    "run_invocation example_settings (example_iw prompt_call) service_db service_connector mesh_args [] =
      (case call_adapter (internal_adapter services) prompt_call service_connector r1 [] of
         (sent, res) \<Rightarrow>
           (case finalise db1 example_world r1 res of
              (db2, Inl ty) \<Rightarrow> (sent, db2, Inl (Unhandled ty)) | (db2, Inr r) \<Rightarrow> (sent, db2, Inr r)))"
    using service_run [of mesh_args prompt_call "[]"] by auto
  obtain sent' res where ad: "call_adapter (internal_adapter services) prompt_call service_connector r1 [] = (sent', res)"
    by (cases "call_adapter (internal_adapter services) prompt_call service_connector r1 []") auto
  have "sent = sent'"
    using mesh_route run(2) by (cases "finalise db1 example_world r1 res") (auto simp: call ad split: sum.splits)
  with service_call_sends [OF run(1) ad] have "sent \<noteq> []"
    by simp
  with internal_calls_are_authorised [OF call] call show ?thesis
    by (simp add: find_row_def)
qed


definition example_create :: connector_create where
  "example_create =
     \<lparr>cr_name = ''search'', cr_kind = ''internal'', cr_base_url = None, cr_scopes = [], cr_config = service_config,
      cr_status = DRAFT\<rparr>"

lemma service_validates:
  "internal_validate services example_env service_config = Inr (validation_ok True GATEWAY_DEDUP_ONLY)"
  by code_simp

lemma empty_config_invalid:
  "\<exists>errors. internal_validate services example_env [] = Inr (validation_failed errors)"
  by (rule exI) code_simp

theorem creation_commits_witness:
  "\<exists>db' view. create_connector example_settings example_env \<lparr>db_connectors = [], db_invocations = [], db_audit = [], db_outbox = []\<rparr>
      example_world (example_caller ''t1'') example_create = (db', Inr view) \<and>
    names_unique db' \<and> jget ''config'' view = Some (JObj (redact_config False service_config))"
proof -
  let ?db = "\<lparr>db_connectors = [], db_invocations = [], db_audit = [], db_outbox = []\<rparr> :: registry_db"
  have create: "create_errors (ae_py example_env) example_create = []" "cr_kind example_create = ''internal''"
    "cr_config example_create = service_config" "cr_base_url example_create = None"
    by code_simp+
  have valid: "ad_validate (internal_adapter services) example_env service_config = Inr (validation_ok True GATEWAY_DEDUP_ONLY)"
    by (simp add: internal_adapter_def service_validates)
  let ?c = "new_connector example_world ''t1'' example_create service_config (validation_ok True GATEWAY_DEDUP_ONLY)"
  have storable: "connector_storable (example_caller ''t1'') ?c"
    by code_simp
  have made: "create_connector example_settings example_env ?db example_world (example_caller ''t1'') example_create =
      (commit_creation (ae_py example_env) ?db example_world (example_caller ''t1'') ?c, Inr (to_schema (ae_py example_env) ?c))"
    using storable by (simp add: create_connector_def create valid get_internal_adapter name_taken_def Let_def validation_ok_def)
  have "names_unique ?db"
    by (simp add: names_unique_def)
  from creation_commits [OF made this] made show ?thesis
    by (auto simp: commit_creation_def new_connector_def)
qed

definition stale_db :: registry_db where
  "stale_db = service_db\<lparr>db_connectors := [service_connector\<lparr>c_status := ''validated'', c_config := []\<rparr>]\<rparr>"

lemma stale_row: "find_row c_id ''c1'' (db_connectors stale_db) = Some (service_connector\<lparr>c_status := ''validated'', c_config := []\<rparr>)"
  by (simp add: stale_db_def find_row_def)

lemma stale_validation:
  "\<exists>db' report. validate_connector example_settings example_env stale_db example_world (example_caller ''t1'') ''c1'' = (db', Inr report) \<and>
     \<not> vr_valid report"
proof -
  obtain errors where invalid: "internal_validate services example_env [] = Inr (validation_failed errors)"
    using empty_config_invalid by blast
  have "find_transition ''validated'' ''configured'' (Some ''connector.validation_failed'') = Inl NotPermitted"
    by code_simp
  then have "apply_transition stale_db example_world ''c1'' CONFIGURED (Some ''connector.validation_failed'') (ci_actor_id (example_caller ''t1''))
      ''t1'' reason None = Inl (TransitionRejected NotPermitted ''validated'' (permitted_targets ''validated''))" for reason
    by (simp add: apply_transition_def stale_row idempotent_repeat_def Let_def)
  then show ?thesis
    using stale_row get_internal_adapter invalid
    by (simp add: validate_connector_def tenant_connector_def internal_adapter_def validation_failed_def)
qed

theorem validation_moves_configured_only_witness:
  "\<exists>db' report c'. validate_connector example_settings example_env stale_db example_world (example_caller ''t1'') ''c1'' = (db', Inr report) \<and>
    find_row c_id ''c1'' (db_connectors db') = Some c' \<and> c_status c' = ''validated'' \<and> db_audit db' = []"
proof -
  obtain db' report where v: "validate_connector example_settings example_env stale_db example_world (example_caller ''t1'') ''c1'' = (db', Inr report)"
    using stale_validation by blast
  from validation_moves_configured_only [OF this] v stale_row show ?thesis
    by (auto simp: stale_db_def service_db_def)
qed

theorem failed_revalidation_stays_enableable_witness:
  "\<exists>db' db'' view c''. lifecycle_handler example_python Enable db' example_world ''c1'' (example_caller ''t1'') None = (db'', Inr view) \<and>
    find_row c_id ''c1'' (db_connectors db'') = Some c'' \<and> executable c''"
proof -
  obtain db' report where v: "validate_connector example_settings example_env stale_db example_world (example_caller ''t1'') ''c1'' = (db', Inr report)"
    "\<not> vr_valid report"
    using stale_validation by blast
  show ?thesis
    using failed_revalidation_stays_enableable [OF v stale_row, of example_python example_world] by auto
qed

end
