(* ===== verification/Orchestrator.thy ===== *)
theory Orchestrator
  imports RegistryApi
begin

text \<open>
  \<open>orchestrator/app/main.py\<close>, \<open>models.py\<close> and \<open>schemas.py\<close>: agents, and the fan-out of an invocation
  to the registry's mesh route.  The HTTP client is an argument, with a state of its own, so that the
  registry itself can stand behind it.  \<open>agent_db\<close> is the orchestrator's database.  Creation and the
  end of an invocation hold the row (or its new key) until they commit; a deletion takes no lock, so
  \<open>delete_agent\<close> has the database its read sees and the one its commit meets.
\<close>

record agent_record =
  ag_id :: uuid
  ag_tenant_id :: string
  ag_name :: string
  ag_description :: string
  ag_connector_ids :: "string list"
  ag_version :: int
  ag_created_at :: time

record agent_db =
  gd_agents :: "agent_record list"
  gd_outbox :: "outbox_row list"

record agent_create =
  gc_name :: string
  gc_description :: string
  gc_connector_ids :: "string list"

record orchestrator_settings =
  os_max_fan_out :: nat
  os_internal_token :: string
  os_registry_url :: string

section \<open>Agents\<close>

definition agent_schema :: "python \<Rightarrow> agent_record \<Rightarrow> jobj" where
  "agent_schema py r =
     [(''name'', JStr (ag_name r)),
      (''description'', JStr (ag_description r)),
      (''connector_ids'', JList (map JStr (ag_connector_ids r))),
      (''id'', JStr (ag_id r)),
      (''created_at'', json_time py (ag_created_at r))]"

definition list_agents :: "python \<Rightarrow> agent_db \<Rightarrow> string \<Rightarrow> jobj list" where
  "list_agents py db tenant_id =
     map (agent_schema py) (sort_key ag_created_at (filter (\<lambda>r. ag_tenant_id r = tenant_id) (gd_agents db)))"

definition agent_not_found :: api_error where
  "agent_not_found = HTTPException 404 (JStr ''Agent not found'')"

definition tenant_agent :: "agent_db \<Rightarrow> uuid \<Rightarrow> string \<Rightarrow> api_error + agent_record" where
  "tenant_agent db agent_id tenant_id =
     (case find_row ag_id agent_id (gd_agents db) of
        Some r \<Rightarrow> if ag_tenant_id r \<noteq> tenant_id then Inl agent_not_found else Inr r
      | None \<Rightarrow> Inl agent_not_found)"

definition get_agent :: "python \<Rightarrow> agent_db \<Rightarrow> uuid \<Rightarrow> string \<Rightarrow> api_error + jobj" where
  "get_agent py db agent_id tenant_id = map_sum id (agent_schema py) (tenant_agent db agent_id tenant_id)"

definition agent_errors :: "agent_create \<Rightarrow> string list" where
  "agent_errors p =
     (if length (gc_name p) < 3 \<or> 80 < length (gc_name p) then [''name''] else [])
     @ (if 500 < length (gc_description p) then [''description''] else [])"

definition new_agent :: "world \<Rightarrow> string \<Rightarrow> agent_create \<Rightarrow> agent_record" where
  "new_agent w tenant_id p =
     \<lparr>ag_id = w_row_id w, ag_tenant_id = tenant_id, ag_name = gc_name p, ag_description = gc_description p,
      ag_connector_ids = gc_connector_ids p, ag_version = 1, ag_created_at = w_now w\<rparr>"

definition agent_storable :: "agent_record \<Rightarrow> bool" where
  "agent_storable r \<longleftrightarrow>
     fits 255 (ag_tenant_id r) \<and> fits 80 (ag_name r) \<and> text_ok (ag_description r) \<and>
     list_all text_ok (ag_connector_ids r)"

definition agent_name_taken :: "agent_db \<Rightarrow> string \<Rightarrow> string \<Rightarrow> bool" where
  "agent_name_taken db tenant_id name = (\<exists>r \<in> set (gd_agents db). ag_tenant_id r = tenant_id \<and> ag_name r = name)"

definition create_agent ::
  "python \<Rightarrow> agent_db \<Rightarrow> world \<Rightarrow> string \<Rightarrow> agent_create \<Rightarrow> agent_db \<times> (api_error + jobj)" where
  "create_agent py db w tenant_id p =
     (if agent_errors p \<noteq> [] then (db, Inl (HTTPException 422 (JList (map JStr (agent_errors p)))))
      else let r = new_agent w tenant_id p
      in if \<not> agent_storable r then (db, Inl (Unhandled ''DBAPIError''))
         else if agent_name_taken db tenant_id (gc_name p) \<or> ag_id r \<in> ag_id ` set (gd_agents db)
         then (db, Inl (HTTPException 409 (JStr (''Agent named '' @ quoted (gc_name p) @ '' already exists''))))
         else (db\<lparr>gd_agents := gd_agents db @ [r],
                  gd_outbox := enqueue (gd_outbox db) (w_event_id w) (w_now w) ''agent.created'' (agent_schema py r)
                    ''agent'' (Some (ag_id r)) (ag_version r)\<rparr>,
               Inr (agent_schema py r)))"

text \<open>Deleting a row that is no longer there deletes nothing; the event is staged all the same.\<close>

definition delete_agent ::
  "agent_db \<Rightarrow> agent_db \<Rightarrow> world \<Rightarrow> uuid \<Rightarrow> string \<Rightarrow> agent_db \<times> (api_error + unit)" where
  "delete_agent seen db w agent_id tenant_id =
     (case tenant_agent seen agent_id tenant_id of
        Inl e \<Rightarrow> (db, Inl e)
      | Inr record \<Rightarrow>
          (db\<lparr>gd_agents := filter (\<lambda>r. ag_id r \<noteq> agent_id) (gd_agents db),
              gd_outbox := enqueue (gd_outbox db) (w_event_id w) (w_now w) ''agent.deleted''
                [(''agent_id'', JStr agent_id), (''name'', JStr (ag_name record))]
                ''agent'' (Some agent_id) (ag_version record + 1)\<rparr>, Inr ()))"

section \<open>The fan-out\<close>

definition internal_call_headers :: "orchestrator_settings \<Rightarrow> string \<Rightarrow> (string \<times> string) list" where
  "internal_call_headers cfg tenant_id =
     [(''X-Tenant-ID'', tenant_id)]
     @ (if os_internal_token cfg \<noteq> [] then [(''X-Internal-Service-Token'', os_internal_token cfg)] else [])"

record registry_call =
  rc_url :: string
  rc_json :: jobj
  rc_headers :: "(string \<times> string) list"

record registry_response =
  rr_status_code :: int
  rr_json :: "json option"  \<comment> \<open>\<open>None\<close> when the body is not JSON\<close>

text \<open>A client answers, or fails with an \<open>httpx.HTTPError\<close> of some text; its state is threaded.\<close>

type_synonym 's registry_client = "'s \<Rightarrow> registry_call \<Rightarrow> 's \<times> (string + registry_response)"

definition connector_call :: "orchestrator_settings \<Rightarrow> uuid \<Rightarrow> string \<Rightarrow> jobj \<Rightarrow> string \<Rightarrow> registry_call" where
  "connector_call cfg agent_id tenant_id payload connector_id =
     \<lparr>rc_url = os_registry_url cfg @ ''/internal/connectors/'' @ connector_id @ ''/invoke'',
      rc_json = [(''agent_id'', JStr agent_id), (''input'', JObj payload)],
      rc_headers = internal_call_headers cfg tenant_id\<rparr>"

definition connector_outcome :: "string \<Rightarrow> string + registry_response \<Rightarrow> string + jobj" where
  "connector_outcome connector_id answer =
     (case answer of
        Inl exc \<Rightarrow>
          Inr [(''connector_id'', JStr connector_id), (''status'', JStr ''failed''),
               (''detail'', JStr (''registry unreachable: '' @ exc))]
      | Inr response \<Rightarrow>
          if 400 \<le> rr_status_code response
          then (case (case rr_json response of None \<Rightarrow> JObj [] | Some j \<Rightarrow> j) of
                  JObj body \<Rightarrow>
                    Inr [(''connector_id'', JStr connector_id),
                         (''status'', get_json ''status'' (JStr ''failed'') body),
                         (''error_code'', get_json ''error_code'' JNull body),
                         (''retryable'', get_json ''retryable'' JNull body),
                         (''http_status'', JInt (rr_status_code response))]
                | _ \<Rightarrow> Inl ''AttributeError'')
          else (case rr_json response of
                  None \<Rightarrow> Inl ''JSONDecodeError''
                | Some j \<Rightarrow>
                    Inr [(''connector_id'', JStr connector_id), (''status'', JStr ''completed''), (''output'', j)]))"

fun fan_out ::
  "'s registry_client \<Rightarrow> orchestrator_settings \<Rightarrow> uuid \<Rightarrow> string \<Rightarrow> jobj \<Rightarrow> string list \<Rightarrow> 's \<Rightarrow>
   registry_call list \<times> 's \<times> (string + jobj list)" where
  "fan_out client cfg agent_id tenant_id payload [] st = ([], st, Inr [])"
| "fan_out client cfg agent_id tenant_id payload (connector_id # ids) st =
     (let call = connector_call cfg agent_id tenant_id payload connector_id
      in case client st call of
           (st1, answer) \<Rightarrow>
             (case connector_outcome connector_id answer of
                Inl ty \<Rightarrow> ([call], st1, Inl ty)
              | Inr output \<Rightarrow>
                  (case fan_out client cfg agent_id tenant_id payload ids st1 of
                     (calls, st2, Inl ty) \<Rightarrow> (call # calls, st2, Inl ty)
                   | (calls, st2, Inr outputs) \<Rightarrow> (call # calls, st2, Inr (output # outputs)))))"

definition commit_invoked ::
  "agent_db \<Rightarrow> world \<Rightarrow> agent_record \<Rightarrow> jobj \<Rightarrow> agent_db" where
  "commit_invoked db w fresh result =
     (let fresh = fresh\<lparr>ag_version := ag_version fresh + 1\<rparr>
      in db\<lparr>gd_agents := update_row ag_id fresh (gd_agents db),
            gd_outbox := enqueue (gd_outbox db) (w_event_id w) (w_now w) ''agent.invoked'' result
              ''agent'' (Some (ag_id fresh)) (ag_version fresh)\<rparr>)"

text \<open>\<open>others\<close> is what other requests commit while the fan-out holds no transaction.\<close>

definition invoke_agent ::
  "'s registry_client \<Rightarrow> orchestrator_settings \<Rightarrow> agent_db \<Rightarrow> (agent_db \<Rightarrow> agent_db) \<Rightarrow> world \<Rightarrow>
   caller_identity \<Rightarrow> uuid \<Rightarrow> jobj \<Rightarrow> 's \<Rightarrow> registry_call list \<times> 's \<times> agent_db \<times> (api_error + jobj)" where
  "invoke_agent client cfg db others w caller agent_id payload st =
     (case tenant_agent db agent_id (ci_tenant_id caller) of
        Inl e \<Rightarrow> ([], st, db, Inl e)
      | Inr record \<Rightarrow>
          let connector_ids = ag_connector_ids record
          in if os_max_fan_out cfg < length connector_ids
             then ([], st, db, Inl (HTTPException 422 (JObj
                    [(''error_code'', JStr ''FAN_OUT_TOO_WIDE''),
                     (''message'', JStr (''agent has '' @ int_str (int (length connector_ids))
                        @ '' connectors; the per-invocation limit is '' @ int_str (int (os_max_fan_out cfg))))])))
             else case fan_out client cfg agent_id (ci_tenant_id caller) payload connector_ids st of
               (calls, st1, Inl ty) \<Rightarrow> (calls, st1, others db, Inl (Unhandled ty))
             | (calls, st1, Inr outputs) \<Rightarrow>
                 let result = [(''agent_id'', JStr agent_id), (''outputs'', JList (map JObj outputs))];
                     db1 = others db
                 in case tenant_agent db1 agent_id (ci_tenant_id caller) of
                      Inl e \<Rightarrow> (calls, st1, db1, Inl e)
                    | Inr fresh \<Rightarrow>
                        if \<not> jsonb_ok (JObj result) then (calls, st1, db1, Inl (Unhandled ''DBAPIError''))
                        else (calls, st1, commit_invoked db1 w fresh result, Inr result))"

end
