(* ===== verification/AgentContract.thy ===== *)
theory AgentContract
  imports Orchestrator RegistryContract Delivery EventLog
begin

text \<open>
  What the orchestrator promises, and what becomes of it when the registry of \<open>RegistryApi\<close> stands
  behind its client: the events of an agent are numbered without gap as long as deletions do not
  race, an invocation makes exactly the calls its agent names, and a tenant's boundary survives the
  hop through the mesh.
\<close>

section \<open>Agents as versioned aggregates\<close>

text \<open>
  The committed transactions of the orchestrator.  UUIDs are drawn afresh; a deletion here reads and
  commits the same database.
\<close>

inductive agent_step :: "agent_db \<Rightarrow> agent_db \<Rightarrow> bool" where
  create: "create_agent py db w tenant_id p = (db', Inr view) \<Longrightarrow> event_unused (w_event_id w) (gd_outbox db) \<Longrightarrow>
    aggregate_unused ''agent'' (w_row_id w) (gd_outbox db) \<Longrightarrow> agent_step db db'"
| delete: "delete_agent db db w agent_id tenant_id = (db', Inr ()) \<Longrightarrow> event_unused (w_event_id w) (gd_outbox db) \<Longrightarrow>
    agent_step db db'"
| invoked: "tenant_agent db agent_id tenant_id = Inr fresh \<Longrightarrow> event_unused (w_event_id w) (gd_outbox db) \<Longrightarrow>
    agent_step db (commit_invoked db w fresh result)"
| drained: "agent_step db (db\<lparr>gd_outbox := ds_table (drain_once p env now locked n (gd_outbox db) le)\<rparr>)"

inductive_cases agent_stepE: "agent_step db db'"

definition no_agents :: agent_db where
  "no_agents = \<lparr>gd_agents = [], gd_outbox = []\<rparr>"

definition agents_ok :: "agent_db \<Rightarrow> bool" where
  "agents_ok db \<longleftrightarrow> distinct (map o_id (gd_outbox db))"

lemma tenant_agent_Inr:
  "tenant_agent db i t = Inr r \<longleftrightarrow> find_row ag_id i (gd_agents db) = Some r \<and> ag_tenant_id r = t"
  by (auto simp: tenant_agent_def split: option.splits)

lemma create_agent_Inr:
  assumes "create_agent py db w t p = (db', Inr view)"
  shows "\<exists>e. gd_agents db' = gd_agents db @ [new_agent w t p] \<and> gd_outbox db' = gd_outbox db @ [e] \<and>
    o_id e = w_event_id w \<and> aggregate_event ''agent'' (w_row_id w) 1 e \<and> w_row_id w \<notin> ag_id ` set (gd_agents db) \<and>
    \<not> agent_name_taken db t (gc_name p) \<and> view = agent_schema py (new_agent w t p) \<and> o_payload e = view"
  using assms
  by (auto simp: create_agent_def new_agent_def aggregate_event_def enqueue_def new_event_def Let_def split: if_splits)

lemma delete_agent_Inr:
  assumes "delete_agent seen db w i t = (db', Inr ())"
  shows "\<exists>r e. tenant_agent seen i t = Inr r \<and> gd_agents db' = filter (\<lambda>x. ag_id x \<noteq> i) (gd_agents db) \<and>
    gd_outbox db' = gd_outbox db @ [e] \<and> o_id e = w_event_id w \<and> o_subject e = ''agent.deleted'' \<and>
    aggregate_event ''agent'' i (ag_version r + 1) e"
  using assms
  by (auto simp: delete_agent_def aggregate_event_def enqueue_def new_event_def split: sum.splits)

lemma commit_invoked_event:
  "\<exists>e. gd_agents (commit_invoked db w r result) = update_row ag_id (r\<lparr>ag_version := ag_version r + 1\<rparr>) (gd_agents db) \<and>
    gd_outbox (commit_invoked db w r result) = gd_outbox db @ [e] \<and> o_id e = w_event_id w \<and>
    o_subject e = ''agent.invoked'' \<and> o_payload e = result \<and> aggregate_event ''agent'' (ag_id r) (ag_version r + 1) e"
  by (simp add: commit_invoked_def aggregate_event_def enqueue_def new_event_def Let_def)

lemma agent_step_ok: "agents_ok db \<Longrightarrow> agent_step db db' \<Longrightarrow> agents_ok db'"
proof (erule agent_step.cases, goal_cases)
  case (1 py db w t p db' view)
  with create_agent_Inr [OF 1(4)] show ?case by (auto simp: agents_ok_def event_unused_def)
next
  case (2 db w i t db')
  with delete_agent_Inr [OF 2(4)] show ?case by (auto simp: agents_ok_def event_unused_def)
next
  case (3 db i t fresh w result)
  with commit_invoked_event [of db w fresh result] show ?case by (auto simp: agents_ok_def event_unused_def)
next
  case (4 db p env now locked n le)
  then show ?case by (simp add: agents_ok_def drain_ids)
qed

lemma agent_step_evolves:
  assumes "agents_ok db" and "agent_step db db'"
  shows "evolves ag_id ag_version ''agent'' (gd_agents db) (gd_outbox db) (gd_agents db') (gd_outbox db')"
  using assms(2)
proof (cases rule: agent_step.cases)
  case (create py w t p view)
  from create_agent_Inr [OF create(1)] obtain e where
    e: "gd_agents db' = gd_agents db @ [new_agent w t p]" "gd_outbox db' = gd_outbox db @ [e]"
    "aggregate_event ''agent'' (w_row_id w) 1 e" "w_row_id w \<notin> ag_id ` set (gd_agents db)"
    by blast
  have id: "ag_id (new_agent w t p) = w_row_id w" "ag_version (new_agent w t p) = 1"
    by (simp_all add: new_agent_def)
  show ?thesis
    unfolding e(1,2) using e(3,4) id create(3)
    by (intro evolves.created) (auto simp: aggregate_unused_def)
next
  case (delete w i t)
  from delete_agent_Inr [OF delete(1)] obtain r e where
    e: "tenant_agent db i t = Inr r" "gd_agents db' = filter (\<lambda>x. ag_id x \<noteq> i) (gd_agents db)"
    "gd_outbox db' = gd_outbox db @ [e]" "aggregate_event ''agent'' i (ag_version r + 1) e"
    by blast
  have r: "find_row ag_id (ag_id r) (gd_agents db) = Some r" "ag_id r = i"
    using e(1) find_row_Some [of ag_id i "gd_agents db" r] by (auto simp: tenant_agent_Inr)
  have "evolves ag_id ag_version ''agent'' (gd_agents db) (gd_outbox db)
      (filter (\<lambda>x. ag_id x \<noteq> ag_id r) (gd_agents db)) (gd_outbox db @ [e])"
    using r e(4) by (intro evolves.removed) simp_all
  then show ?thesis
    by (simp add: e(2,3) r(2))
next
  case (invoked i t fresh w result)
  let ?r = "fresh\<lparr>ag_version := ag_version fresh + 1\<rparr>"
  obtain e where e: "gd_agents db' = update_row ag_id ?r (gd_agents db)" "gd_outbox db' = gd_outbox db @ [e]"
    "aggregate_event ''agent'' (ag_id fresh) (ag_version fresh + 1) e"
    using commit_invoked_event [of db w fresh result] invoked(1) by auto
  have "find_row ag_id (ag_id ?r) (gd_agents db) = Some fresh"
    using invoked(2) find_row_Some [of ag_id i "gd_agents db" fresh] by (auto simp: tenant_agent_Inr)
  then show ?thesis
    unfolding e(1,2) using e(3) by (intro evolves.advanced) simp_all
next
  case (drained p env now locked n le)
  then show ?thesis
    using assms(1) drain_events by (intro evolves.silent [where evs = "[]"]) (simp_all add: agents_ok_def)
qed

interpretation agents: versioned_aggregate agent_step no_agents gd_agents gd_outbox ag_id ag_version "''agent''" agents_ok
  by unfold_locales (auto simp: no_agents_def agents_ok_def intro: agent_step_ok [unfolded agents_ok_def]
      agent_step_evolves [unfolded agents_ok_def])

text \<open>A whole invocation is a step of the database its fan-out left behind, or changes nothing.\<close>

lemma invoke_agent_cases:
  assumes "invoke_agent client cfg db others w caller i payload st = (calls, st', db', out)"
  obtains (refused) e where "out = Inl e" "db' = db" "calls = []"
  | (failed) e where "out = Inl e" "db' = others db"
  | (committed) agent fresh outputs where
      "tenant_agent db i (ci_tenant_id caller) = Inr agent" "length (ag_connector_ids agent) \<le> os_max_fan_out cfg"
      "fan_out client cfg i (ci_tenant_id caller) payload (ag_connector_ids agent) st = (calls, st', Inr outputs)"
      "tenant_agent (others db) i (ci_tenant_id caller) = Inr fresh"
      "out = Inr [(''agent_id'', JStr i), (''outputs'', JList (map JObj outputs))]"
      "db' = commit_invoked (others db) w fresh [(''agent_id'', JStr i), (''outputs'', JList (map JObj outputs))]"
proof (cases "tenant_agent db i (ci_tenant_id caller)")
  case (Inl e)
  with assms show ?thesis by (intro refused [of e]) (auto simp: invoke_agent_def)
next
  case (Inr agent)
  show ?thesis
  proof (cases "os_max_fan_out cfg < length (ag_connector_ids agent)")
    case True
    with Inr assms show ?thesis by (cases out) (auto simp: invoke_agent_def intro: refused)
  next
    case False
    obtain calls' st'' res where fan:
      "fan_out client cfg i (ci_tenant_id caller) payload (ag_connector_ids agent) st = (calls', st'', res)"
      by (cases "fan_out client cfg i (ci_tenant_id caller) payload (ag_connector_ids agent) st") auto
    show ?thesis
    proof (cases res)
      case (Inl ty)
      with Inr False fan assms show ?thesis by (intro failed) (auto simp: invoke_agent_def)
    next
      case outputs: (Inr outputs)
      show ?thesis
      proof (cases "tenant_agent (others db) i (ci_tenant_id caller)")
        case (Inl e)
        with Inr False fan outputs assms show ?thesis by (intro failed) (auto simp: invoke_agent_def Let_def)
      next
        case fresh: (Inr fresh)
        show ?thesis
        proof (cases "jsonb_ok (JObj [(''agent_id'', JStr i), (''outputs'', JList (map JObj outputs))])")
          case True
          with Inr False fan outputs fresh assms show ?thesis
            by (intro committed [of agent outputs fresh]) (simp_all add: invoke_agent_def Let_def)
        next
          case False': False
          then have "out = Inl (Unhandled ''DBAPIError'')" "db' = others db"
            using Inr False fan outputs fresh assms by (auto simp: invoke_agent_def Let_def)
          then show ?thesis by (rule failed)
        qed
      qed
    qed
  qed
qed

section \<open>Properties of agents\<close>

text \<open>
  C19. The events of an agent are numbered without gap.  Under any sequence of the orchestrator's
  transactions and of the publisher's batches in which no deletion races, an agent's row carries the
  number of its events, their versions are 1, 2, and so on, and a consumer applies every one.
\<close>

theorem agent_events_are_consecutive:
  assumes "agent_step\<^sup>*\<^sup>* no_agents db"
  shows "(\<forall>r \<in> set (gd_agents db). versions_of ''agent'' (ag_id r) (gd_outbox db) = [1..ag_version r]) \<and>
    (\<forall>i. \<forall>d \<in> set (fst (project None (versions_of ''agent'' i (gd_outbox db)))). d = APPLY)"
  using agents.row_version [OF assms] agents.consumer_applies_all [OF assms] by blast

definition example_agent_create :: agent_create where
  "example_agent_create = \<lparr>gc_name = ''scout'', gc_description = [], gc_connector_ids = [''c1'']\<rparr>"

definition example_agent :: agent_record where
  "example_agent = new_agent example_world ''t1'' example_agent_create"

lemma example_agent_fields [simp]:
  "ag_id example_agent = ''r''" "ag_tenant_id example_agent = ''t1''" "ag_connector_ids example_agent = [''c1'']"
  "ag_version example_agent = 1"
  by (simp_all add: example_agent_def new_agent_def example_agent_create_def example_world_def)

lemma example_agent_made:
  "\<exists>db. create_agent example_python no_agents example_world ''t1'' example_agent_create = (db, Inr (agent_schema example_python example_agent)) \<and>
     gd_agents db = [example_agent] \<and> agent_step no_agents db \<and> map o_id (gd_outbox db) = [''e''] \<and>
     versions_of ''agent'' ''r'' (gd_outbox db) = [1]"
proof -
  have "agent_errors example_agent_create = []" "gc_name example_agent_create = ''scout''"
    by (simp_all add: agent_errors_def example_agent_create_def)
  moreover have "agent_storable example_agent"
    by (simp add: agent_storable_def example_agent_def new_agent_def example_agent_create_def fits_def text_ok_def)
  ultimately obtain db where db:
    "create_agent example_python no_agents example_world ''t1'' example_agent_create = (db, Inr (agent_schema example_python example_agent))"
    by (simp add: create_agent_def no_agents_def agent_name_taken_def Let_def flip: example_agent_def)
  from create_agent_Inr [OF db] obtain e where
    e: "gd_agents db = [example_agent]" "gd_outbox db = [e]" "o_id e = ''e''" "aggregate_event ''agent'' ''r'' 1 e"
    by (auto simp: no_agents_def example_agent_def example_world_def)
  have "agent_step no_agents db"
    by (rule agent_step.create [OF db]) (simp_all add: event_unused_def aggregate_unused_def no_agents_def)
  with db e versions_of_event [OF e(4), of "''r''"] show ?thesis by auto
qed

theorem agent_events_are_consecutive_witness:
  "\<exists>db. gd_agents db = [example_agent] \<and> agent_step\<^sup>*\<^sup>* no_agents db \<and>
     versions_of ''agent'' (ag_id example_agent) (gd_outbox db) = [1..ag_version example_agent]"
proof -
  obtain db where db: "gd_agents db = [example_agent]" "agent_step no_agents db"
    using example_agent_made by blast
  then have "agent_step\<^sup>*\<^sup>* no_agents db"
    by blast
  from agent_events_are_consecutive [OF this] db \<open>agent_step\<^sup>*\<^sup>* no_agents db\<close> show ?thesis
    by auto
qed

text \<open>
  C21. A racing deletion is lost on every consumer.  A deletion takes no lock: when an invocation of
  the same agent commits between its read and its commit, the deletion event carries the version the
  invocation already used, and a consumer that follows the ordering rule ignores it, although the
  agent is gone.
\<close>

theorem racing_deletion_is_ignored:
  assumes "agent_step\<^sup>*\<^sup>* no_agents db" and "tenant_agent db i t = Inr r"
    and "delete_agent db (commit_invoked db w1 r result) w2 i t = (db2, out)"
  shows "out = Inr () \<and> i \<notin> ag_id ` set (gd_agents db2) \<and>
    versions_of ''agent'' i (gd_outbox db2) = [1..ag_version r] @ [ag_version r + 1, ag_version r + 1] \<and>
    last (fst (project None (versions_of ''agent'' i (gd_outbox db2)))) = IGNORE"
proof -
  have row: "r \<in> set (gd_agents db)" "ag_id r = i"
    using assms(2) find_row_Some [of ag_id i "gd_agents db" r] by (auto simp: tenant_agent_Inr)
  let ?v = "ag_version r"
  have v: "0 \<le> ?v" "versions_of ''agent'' i (gd_outbox db) = [1..?v]"
    using agents.row_version [OF assms(1) row(1)] row(2) by simp_all
  have out: "out = Inr ()"
    using assms(2,3) by (simp add: delete_agent_def)
  obtain e1 where e1: "gd_outbox (commit_invoked db w1 r result) = gd_outbox db @ [e1]" "aggregate_event ''agent'' i (?v + 1) e1"
    using commit_invoked_event [of db w1 r result] row(2) by blast
  from delete_agent_Inr [OF assms(3) [unfolded out]] assms(2) obtain e2 where
    e2: "gd_agents db2 = filter (\<lambda>x. ag_id x \<noteq> i) (gd_agents (commit_invoked db w1 r result))"
      "gd_outbox db2 = gd_outbox (commit_invoked db w1 r result) @ [e2]" "aggregate_event ''agent'' i (?v + 1) e2"
    by auto
  have versions: "versions_of ''agent'' i (gd_outbox db2) = [1..?v] @ [?v + 1, ?v + 1]"
    using v(2) versions_of_event [OF e1(2), of i] versions_of_event [OF e2(3), of i] by (simp add: e1(1) e2(2) versions_of_append [of _ _ "[e1]" "[e2]", simplified])
  have "project None ([1..?v] @ [?v + 1]) = (replicate (nat (?v + 1)) APPLY, applied_upto (?v + 1))"
    using project_consecutive [of 0 "?v + 1"] v(1) by (simp add: applied_upto_def upto_snoc)
  then have "project None (([1..?v] @ [?v + 1]) @ [?v + 1]) =
      (replicate (nat (?v + 1)) APPLY @ [IGNORE], applied_upto (?v + 1))"
    using v(1) unfolding project_append by (simp add: version_decision_def applied_upto_def)
  then have "last (fst (project None (versions_of ''agent'' i (gd_outbox db2)))) = IGNORE"
    by (simp add: versions)
  with out versions show ?thesis
    by (auto simp: e2(1))
qed

theorem racing_deletion_is_ignored_witness:
  "\<exists>db db2. gd_agents db = [example_agent] \<and>
     delete_agent db (commit_invoked db example_world example_agent []) example_world ''r'' ''t1'' = (db2, Inr ()) \<and>
     versions_of ''agent'' ''r'' (gd_outbox db2) = [1, 2, 2]"
proof -
  obtain db where db: "gd_agents db = [example_agent]" "agent_step no_agents db"
    using example_agent_made by blast
  have row: "tenant_agent db ''r'' ''t1'' = Inr example_agent"
    by (simp add: tenant_agent_Inr db(1) find_row_def)
  obtain db2 out where del: "delete_agent db (commit_invoked db example_world example_agent []) example_world ''r'' ''t1'' = (db2, out)"
    by (cases "delete_agent db (commit_invoked db example_world example_agent []) example_world ''r'' ''t1''") auto
  have "agent_step\<^sup>*\<^sup>* no_agents db"
    using db(2) by blast
  from racing_deletion_is_ignored [OF this row del] del db(1) show ?thesis
    by auto
qed

text \<open>The calls of a fan-out, in the order of the agent's connectors, one outcome each.\<close>

lemma connector_outcome_id:
  "connector_outcome cid answer = Inr output \<Longrightarrow> jget ''connector_id'' output = Some (JStr cid)"
  by (auto simp: connector_outcome_def jget_def split: sum.splits option.splits json.splits if_splits)

lemma fan_out_Inr:
  "fan_out client cfg i t payload ids st = (calls, st', Inr outputs) \<Longrightarrow>
     calls = map (connector_call cfg i t payload) ids \<and>
     map (jget ''connector_id'') outputs = map (\<lambda>cid. Some (JStr cid)) ids"
proof (induction ids arbitrary: st calls outputs)
  case Nil
  then show ?case by simp
next
  case (Cons cid ids)
  obtain st1 answer where a: "client st (connector_call cfg i t payload cid) = (st1, answer)"
    by (cases "client st (connector_call cfg i t payload cid)") auto
  from Cons.prems a obtain out1 where o1: "connector_outcome cid answer = Inr out1"
    by (cases "connector_outcome cid answer") auto
  from Cons.prems a o1 obtain calls' outputs' where
    r: "fan_out client cfg i t payload ids st1 = (calls', st', Inr outputs')" "outputs = out1 # outputs'"
      "calls = connector_call cfg i t payload cid # calls'"
    by (cases "fan_out client cfg i t payload ids st1") (auto simp: Let_def split: sum.splits)
  from Cons.IH [OF r(1)] r(2,3) connector_outcome_id [OF o1] show ?case by simp
qed

text \<open>
  C20. What an invocation of an agent commits.  It was the caller's agent, within the fan-out limit;
  the registry was called once for each of its connectors, in order, under the caller's tenant; the
  result reports on exactly those connectors; and the agent's next version is committed together with
  the event that carries the result.
\<close>

theorem agent_invocation_commits:
  assumes "invoke_agent client cfg db others w caller i payload st = (calls, st', db', Inr result)"
  shows "\<exists>agent fresh outputs e.
    find_row ag_id i (gd_agents db) = Some agent \<and> ag_tenant_id agent = ci_tenant_id caller \<and>
    length (ag_connector_ids agent) \<le> os_max_fan_out cfg \<and>
    calls = map (connector_call cfg i (ci_tenant_id caller) payload) (ag_connector_ids agent) \<and>
    result = [(''agent_id'', JStr i), (''outputs'', JList (map JObj outputs))] \<and>
    map (jget ''connector_id'') outputs = map (\<lambda>cid. Some (JStr cid)) (ag_connector_ids agent) \<and>
    find_row ag_id i (gd_agents (others db)) = Some fresh \<and>
    find_row ag_id i (gd_agents db') = Some (fresh\<lparr>ag_version := ag_version fresh + 1\<rparr>) \<and>
    gd_outbox db' = gd_outbox (others db) @ [e] \<and> o_payload e = result \<and>
    aggregate_event ''agent'' i (ag_version fresh + 1) e"
  using assms
proof (cases rule: invoke_agent_cases)
  case (committed agent fresh outputs)
  have rows: "find_row ag_id i (gd_agents db) = Some agent" "ag_tenant_id agent = ci_tenant_id caller"
    "find_row ag_id i (gd_agents (others db)) = Some fresh"
    using committed(1,4) by (simp_all add: tenant_agent_Inr)
  have id: "ag_id fresh = i" "i \<in> ag_id ` set (gd_agents (others db))"
    using find_row_Some [OF rows(3)] by auto
  obtain e where e: "gd_agents db' = update_row ag_id (fresh\<lparr>ag_version := ag_version fresh + 1\<rparr>) (gd_agents (others db))"
    "gd_outbox db' = gd_outbox (others db) @ [e]" "o_payload e = result" "aggregate_event ''agent'' i (ag_version fresh + 1) e"
    using commit_invoked_event [of "others db" w fresh result] committed(5,6) id(1) by auto
  have "find_row ag_id i (gd_agents db') = Some (fresh\<lparr>ag_version := ag_version fresh + 1\<rparr>)"
    using id by (simp add: e(1))
  moreover have "result = [(''agent_id'', JStr i), (''outputs'', JList (map JObj outputs))]"
    using committed(5) by simp
  ultimately show ?thesis
    using rows committed(2) fan_out_Inr [OF committed(3)] e(2-4) by blast
qed simp_all

section \<open>Through the mesh\<close>

text \<open>
  The registry behind the client: the connector is the path segment between the two fixed parts, the
  headers are read as the route declares them, an exception is answered as FastAPI answers it.
\<close>

definition path_connector :: "string \<Rightarrow> string \<Rightarrow> string" where
  "path_connector base url =
     (let rest = drop (length (base @ ''/internal/connectors/'')) url in take (length rest - length ''/invoke'') rest)"

definition header :: "string \<Rightarrow> (string \<times> string) list \<Rightarrow> string" where
  "header name hs = (case map_of hs name of None \<Rightarrow> [] | Some v \<Rightarrow> v)"

definition mesh_registry ::
  "api_settings \<Rightarrow> invocation_world \<Rightarrow> string \<Rightarrow> (registry_db \<times> sent_request list) registry_client" where
  "mesh_registry s iw base st call =
     (case invoke_connector_internal s iw (fst st) (header ''X-Internal-Service-Token'' (rc_headers call))
             (header ''X-Tenant-ID'' (rc_headers call)) (path_connector base (rc_url call)) (rc_json call) of
        (sent, db', Inl e) \<Rightarrow>
          ((db', snd st @ sent), Inr \<lparr>rr_status_code = fst (error_reply e), rr_json = Some (snd (error_reply e))\<rparr>)
      | (sent, db', Inr (http_status, body)) \<Rightarrow>
          ((db', snd st @ sent), Inr \<lparr>rr_status_code = http_status, rr_json = Some (JObj body)\<rparr>))"

lemma path_connector_call: "path_connector (os_registry_url cfg) (rc_url (connector_call cfg i t payload cid)) = cid"
  by (simp add: path_connector_def connector_call_def Let_def)

lemma call_headers:
  "header ''X-Tenant-ID'' (rc_headers (connector_call cfg i t payload cid)) = t"
  "header ''X-Internal-Service-Token'' (rc_headers (connector_call cfg i t payload cid)) = os_internal_token cfg"
  by (simp_all add: header_def connector_call_def internal_call_headers_def)

definition refused_outcome :: "string \<Rightarrow> int \<Rightarrow> jobj" where
  "refused_outcome cid http_status =
     [(''connector_id'', JStr cid), (''status'', JStr ''failed''), (''error_code'', JNull),
      (''retryable'', JNull), (''http_status'', JInt http_status)]"

text \<open>What reaches the orchestrator of an exception raised by the registry: the status alone.\<close>

lemma refused_call:
  assumes "authorise_invocation (fst st) cid t = Inl (HTTPException http_status detail)" "400 \<le> http_status"
    and "os_internal_token cfg = as_internal_token s" "as_internal_token s \<noteq> []" "t \<noteq> []"
  shows "\<exists>answer. mesh_registry s iw (os_registry_url cfg) st (connector_call cfg i t payload cid) = (st, answer) \<and>
    connector_outcome cid answer = Inr (refused_outcome cid http_status)"
proof -
  have "invoke_connector_internal s iw (fst st) (os_internal_token cfg) t cid (rc_json (connector_call cfg i t payload cid)) =
      ([], fst st, Inl (HTTPException http_status detail))"
    using assms by (simp add: invoke_connector_internal_def require_internal_caller_def Let_def)
  then show ?thesis
    using assms(2)
    by (simp add: mesh_registry_def path_connector_call call_headers connector_outcome_def refused_outcome_def
        get_json_def jget_def)
qed

text \<open>
  C12. The tenant boundary survives the hop.  An agent whose connector ids name another tenant's
  connectors gets a 404 for each of them; the registry's database is untouched and no provider is
  called, although the call carries the token of the mesh.
\<close>

theorem agents_cannot_cross_tenants:
  assumes foreign: "\<forall>cid \<in> set ids. \<exists>c. find_row c_id cid (db_connectors db) = Some c \<and> c_tenant_id c \<noteq> t"
    and mesh: "os_internal_token cfg = as_internal_token s" "as_internal_token s \<noteq> []" "t \<noteq> []"
  shows "\<exists>calls. fan_out (mesh_registry s iw (os_registry_url cfg)) cfg i t payload ids (db, sent) =
    (calls, (db, sent), Inr (map (\<lambda>cid. refused_outcome cid 404) ids))"
  using foreign
proof (induction ids)
  case Nil
  then show ?case by simp
next
  case (Cons cid ids)
  then have "tenant_connector db cid t = Inl not_found"
    by (auto simp: tenant_connector_Inl)
  then have "authorise_invocation (fst (db, sent)) cid t = Inl (HTTPException 404 (JStr ''Connector not found''))"
    by (simp add: authorise_invocation_def not_found_def)
  from refused_call [OF this _ mesh, where iw = iw and i = i and payload = payload] obtain answer where
    "mesh_registry s iw (os_registry_url cfg) (db, sent) (connector_call cfg i t payload cid) = ((db, sent), answer)"
    "connector_outcome cid answer = Inr (refused_outcome cid 404)"
    by auto
  moreover obtain calls where "fan_out (mesh_registry s iw (os_registry_url cfg)) cfg i t payload ids (db, sent) =
      (calls, (db, sent), Inr (map (\<lambda>cid. refused_outcome cid 404) ids))"
    using Cons by auto
  ultimately show ?case by (simp add: Let_def)
qed

definition example_cfg :: orchestrator_settings where
  "example_cfg = \<lparr>os_max_fan_out = 16, os_internal_token = ''token'', os_registry_url = ''http://localhost:8001''\<rparr>"

lemma example_cfg [simp]: "os_internal_token example_cfg = ''token''" "os_max_fan_out example_cfg = 16"
  by (simp_all add: example_cfg_def)

theorem agents_cannot_cross_tenants_witness:
  "\<exists>calls. fan_out (mesh_registry example_settings (example_iw prompt_call) (os_registry_url example_cfg)) example_cfg ''r'' ''t2'' []
     [''c1''] (service_db, []) = (calls, (service_db, []), Inr [refused_outcome ''c1'' 404])"
  using agents_cannot_cross_tenants [of "[''c1'']" service_db "''t2''" example_cfg example_settings "example_iw prompt_call" "''r''" "[]" "[]"]
  by (simp add: find_row_def)

text \<open>
  The reason of a refusal is lost between the services.  A connector of the caller's own tenant
  that may not run is refused by the registry with a classified error code, but FastAPI nests it
  under "detail" and the orchestrator reads it at the top level: the outcome of the agent says
  "failed" with no code.
\<close>

theorem refusal_code_is_lost:
  assumes row: "find_row c_id cid (db_connectors db) = Some c" "c_tenant_id c = t" "c_status c \<noteq> ''enabled''"
    and mesh: "os_internal_token cfg = as_internal_token s" "as_internal_token s \<noteq> []" "t \<noteq> []"
  shows "\<exists>code http_status calls.
    error_reply (projl (authorise_invocation db cid t)) =
      (http_status, JObj [(''detail'', JObj [(''error_code'', JStr (code_value code)), (''status'', JStr (c_status c))])]) \<and>
    fan_out (mesh_registry s iw (os_registry_url cfg)) cfg i t payload [cid] (db, sent) =
      (calls, (db, sent), Inr [refused_outcome cid http_status])"
proof -
  obtain status code http_status where refused: "check_executable c = Inl (ConnectorNotExecutable status code http_status)"
    using row(3) executable_iff_enabled [of c] by (cases "check_executable c") (auto intro: not_executable.exhaust)
  then have status: "status = c_status c" "400 \<le> http_status"
    by (auto simp: check_executable_def REFUSAL_def split: if_splits option.splits)
  let ?detail = "JObj [(''error_code'', JStr (code_value code)), (''status'', JStr (c_status c))]"
  have auth: "authorise_invocation (fst (db, sent)) cid t = Inl (HTTPException http_status ?detail)"
    using row refused status(1) by (simp add: authorise_invocation_def tenant_connector_def)
  from refused_call [OF this status(2) mesh, where iw = iw and i = i and payload = payload] auth show ?thesis
    by (auto simp: Let_def)
qed

definition disabled_db :: registry_db where
  "disabled_db = service_db\<lparr>db_connectors := [service_connector\<lparr>c_status := ''disabled''\<rparr>]\<rparr>"

theorem refusal_code_is_lost_witness:
  "\<exists>http_status calls. fan_out (mesh_registry example_settings (example_iw prompt_call) (os_registry_url example_cfg)) example_cfg ''r'' ''t1'' []
     [''c1''] (disabled_db, []) = (calls, (disabled_db, []), Inr [refused_outcome ''c1'' http_status])"
proof -
  have "find_row c_id ''c1'' (db_connectors disabled_db) = Some (service_connector\<lparr>c_status := ''disabled''\<rparr>)"
    by (simp add: disabled_db_def find_row_def)
  from refusal_code_is_lost [OF this, of "''t1''" example_cfg example_settings] show ?thesis
    by simp blast
qed

text \<open>
  A running call is reported as completed.  When the registry still holds an unsettled invocation
  under the agent's key, it answers 202 with that row; the orchestrator takes every answer below 400
  for a success, so the outcome says "completed" around a body that says "running".
\<close>

theorem running_call_reported_completed:
  assumes auth: "authorise_invocation db cid t = Inr c"
    and key: "find_existing db t cid (agent_key s i payload) = Some r" "i_status r = ''running''"
    and timeout: "clamp_timeout (ae_dp (ce_adapter (iw_call iw))) (jget ''timeout_seconds'' (c_config c)) 15 = Inr (Fin q)"
    and quiet: "iw_before iw = id"
    and mesh: "os_internal_token cfg = as_internal_token s" "as_internal_token s \<noteq> []" "t \<noteq> []"
  shows "\<exists>calls outcome body. fan_out (mesh_registry s iw (os_registry_url cfg)) cfg i t payload [cid] (db, sent) =
      (calls, (db, sent), Inr [outcome]) \<and>
    jget ''status'' outcome = Some (JStr ''completed'') \<and> jget ''output'' outcome = Some (JObj body) \<and>
    jget ''status'' body = Some (JStr ''running'')"
proof -
  let ?call = "connector_call cfg i t payload cid"
  have id: "c_id c = cid"
    using auth by (auto simp: authorise_invocation_Inr dest: find_row_Some)
  have input: "agent_input (rc_json ?call) = Some payload" "get_json ''agent_id'' (JStr ''unknown'') (rc_json ?call) = JStr i"
    by (simp_all add: agent_input_def connector_call_def jget_def get_json_def)
  have run: "run_invocation s iw db c args payload = ([], db, Inr r)"
    if "aa_tenant_id args = t" "aa_idempotency_key args = agent_key s i payload" for args
    using that key id quiet by (simp add: run_invocation_def accept_def accept_lookup_def)
  have "\<exists>body. invoke_connector_internal s iw db (os_internal_token cfg) t cid (rc_json ?call) = ([], db, Inr (202, body)) \<and>
      jget ''status'' body = Some (JStr ''running'')"
    using mesh auth timeout key(2)
    by (simp add: invoke_connector_internal_def require_internal_caller_def input py_str_def run Let_def
        http_status_for_def jget_def)
  then obtain body where body: "invoke_connector_internal s iw db (os_internal_token cfg) t cid (rc_json ?call) = ([], db, Inr (202, body))"
    "jget ''status'' body = Some (JStr ''running'')"
    by blast
  have "mesh_registry s iw (os_registry_url cfg) (db, sent) ?call =
      ((db, sent), Inr \<lparr>rr_status_code = 202, rr_json = Some (JObj body)\<rparr>)"
    using body(1) by (simp add: mesh_registry_def path_connector_call call_headers)
  with body(2) show ?thesis
    by (simp add: connector_outcome_def Let_def jget_def)
qed

definition running_invocation :: invocation where
  "running_invocation = (new_invocation example_world service_connector mesh_args)
     \<lparr>i_idempotency_key := ''agent:r:d'', i_status := ''running''\<rparr>"

theorem running_call_reported_completed_witness:
  "\<exists>calls outcome. fan_out (mesh_registry example_settings (example_iw prompt_call) (os_registry_url example_cfg)) example_cfg ''r'' ''t1'' []
      [''c1''] (service_db\<lparr>db_invocations := [running_invocation]\<rparr>, []) =
      (calls, (service_db\<lparr>db_invocations := [running_invocation]\<rparr>, []), Inr [outcome]) \<and>
    jget ''status'' outcome = Some (JStr ''completed'')"
proof -
  let ?db = "service_db\<lparr>db_invocations := [running_invocation]\<rparr>"
  have "authorise_invocation ?db ''c1'' ''t1'' = Inr service_connector"
    by (simp add: authorise_invocation_Inr find_row_def)
  moreover have "agent_key example_settings ''r'' [] = ''agent:r:d''"
    by (simp add: agent_key_def example_settings_def)
  moreover have "find_existing ?db ''t1'' ''c1'' ''agent:r:d'' = Some running_invocation" "i_status running_invocation = ''running''"
    by (simp_all add: find_existing_def same_key_def running_invocation_def new_invocation_def)
  moreover have "clamp_timeout (ae_dp (ce_adapter (iw_call (example_iw prompt_call)))) (jget ''timeout_seconds'' (c_config service_connector)) 15
      = Inr (Fin 15)"
    by (simp add: prompt_call_def example_env_def clamp_timeout_def timeout_ceiling_def example_deployment_def
        service_config_def jget_def float_of_def float_min_def)
  ultimately show ?thesis
    using running_call_reported_completed [of ?db "''c1''" "''t1''" service_connector example_settings "''r''" "[]"
        running_invocation "example_iw prompt_call" 15 example_cfg "[]"]
    by simp blast
qed

theorem agent_invocation_commits_witness:
  "\<exists>db db' calls result. gd_agents db = [example_agent] \<and>
    invoke_agent (\<lambda>st call. (st, Inl ''down'')) example_cfg db id example_world (example_caller ''t1'') ''r'' [] () =
      (calls, (), db', Inr result) \<and>
    length calls = 1 \<and> gd_agents db' = [example_agent\<lparr>ag_version := 2\<rparr>]"
proof -
  obtain db :: agent_db where db: "gd_agents db = [example_agent]"
    using example_agent_made by blast
  have "tenant_agent db ''r'' ''t1'' = Inr example_agent"
    by (simp add: tenant_agent_Inr db find_row_def)
  then obtain calls db' result where inv:
    "invoke_agent (\<lambda>st call. (st, Inl ''down'')) example_cfg db id example_world (example_caller ''t1'') ''r'' [] () =
      (calls, (), db', Inr result)"
    by (simp add: invoke_agent_def connector_outcome_def Let_def text_ok_def)
  moreover have "find_row ag_id ''r'' (gd_agents db) = Some example_agent"
    by (simp add: db find_row_def)
  ultimately have "length calls = 1" "find_row ag_id ''r'' (gd_agents db') = Some (example_agent\<lparr>ag_version := 2\<rparr>)"
    using agent_invocation_commits [OF inv] by auto
  moreover have "map ag_id (gd_agents db') = [''r'']"
    using inv db by (auto simp: invoke_agent_def commit_invoked_def Let_def update_row_def split: sum.splits if_splits prod.splits)
  ultimately show ?thesis
    using db inv by (auto simp: find_row_def split: if_splits)
qed

end
