(* ===== verification/RegistrySystem.thy ===== *)
theory RegistrySystem
  imports RegistryContract Delivery EventLog
begin

text \<open>
  The registry as a system.  A state is the database, the invocations in progress in some replica
  (\<open>task\<close>) and the keys under which an adapter has been called.  A step is one committed transaction
  of a handler, one call of an adapter, one batch of the publisher, or a crash that forgets a task.
  Handlers are cut where their code commits: an invocation is accepted, started, called and settled
  in four steps that interleave with everything else, and a validation is a transition followed by
  the storing of the capability.  UUIDs are drawn afresh.
\<close>

section \<open>States and steps\<close>

datatype phase = TaskAccepted | TaskStarted | TaskAnswered invocation_result

record task =
  tk_row :: invocation
  tk_connector :: connector
  tk_payload :: jobj
  tk_phase :: phase

record registry_system =
  rs_db :: registry_db
  rs_tasks :: "task list"
  rs_calls :: "(string \<times> uuid \<times> string) list"

inductive registry_step :: "adapter_registry \<Rightarrow> registry_system \<Rightarrow> registry_system \<Rightarrow> bool"
  for reg :: adapter_registry where
  transition: "apply_transition db w cid target event actor ten reason key = Inr (db', res) \<Longrightarrow>
    event_unused (w_event_id w) (db_outbox db) \<Longrightarrow>
    registry_step reg \<lparr>rs_db = db, rs_tasks = ts, rs_calls = cs\<rparr> \<lparr>rs_db = db', rs_tasks = ts, rs_calls = cs\<rparr>"
| create: "create_connector s env db w caller p = (db', Inr view) \<Longrightarrow>
    event_unused (w_event_id w) (db_outbox db) \<Longrightarrow> aggregate_unused ''connector'' (w_row_id w) (db_outbox db) \<Longrightarrow>
    registry_step reg \<lparr>rs_db = db, rs_tasks = ts, rs_calls = cs\<rparr> \<lparr>rs_db = db', rs_tasks = ts, rs_calls = cs\<rparr>"
| deletion: "request_connector_deletion py db w caller cid = (db', Inr ()) \<Longrightarrow>
    event_unused (w_event_id w) (db_outbox db) \<Longrightarrow>
    registry_step reg \<lparr>rs_db = db, rs_tasks = ts, rs_calls = cs\<rparr> \<lparr>rs_db = db', rs_tasks = ts, rs_calls = cs\<rparr>"
| capability: "registry_step reg \<lparr>rs_db = db, rs_tasks = ts, rs_calls = cs\<rparr>
    \<lparr>rs_db = store_capability db cid report, rs_tasks = ts, rs_calls = cs\<rparr>"
| accepted: "authorise_invocation seen cid (aa_tenant_id args) = Inr c \<Longrightarrow> accept seen db w c args = (db', Fresh r) \<Longrightarrow>
    event_unused (w_event_id w) (db_outbox db) \<Longrightarrow> aggregate_unused ''invocation'' (w_row_id w) (db_outbox db) \<Longrightarrow>
    registry_step reg \<lparr>rs_db = db, rs_tasks = ts, rs_calls = cs\<rparr>
      \<lparr>rs_db = db', rs_tasks = ts @ [\<lparr>tk_row = r, tk_connector = c, tk_payload = payload, tk_phase = TaskAccepted\<rparr>],
       rs_calls = cs\<rparr>"
| unregistered: "get_adapter reg (c_kind c) = Inl known \<Longrightarrow>
    registry_step reg
      \<lparr>rs_db = db, rs_tasks = ts @ \<lparr>tk_row = r, tk_connector = c, tk_payload = payload, tk_phase = TaskAccepted\<rparr> # us, rs_calls = cs\<rparr>
      \<lparr>rs_db = db, rs_tasks = ts @ \<lparr>tk_row = r, tk_connector = c, tk_payload = payload,
          tk_phase = TaskAnswered (failure UNKNOWN_KIND (unknown_kind_text py (c_kind c) known) None None None [])\<rparr> # us,
       rs_calls = cs\<rparr>"
| started: "get_adapter reg (c_kind c) = Inr a \<Longrightarrow> start_invocation db w r = (db', r') \<Longrightarrow>
    event_unused (w_event_id w) (db_outbox db) \<Longrightarrow>
    registry_step reg
      \<lparr>rs_db = db, rs_tasks = ts @ \<lparr>tk_row = r, tk_connector = c, tk_payload = payload, tk_phase = TaskAccepted\<rparr> # us, rs_calls = cs\<rparr>
      \<lparr>rs_db = db', rs_tasks = ts @ \<lparr>tk_row = r', tk_connector = c, tk_payload = payload, tk_phase = TaskStarted\<rparr> # us, rs_calls = cs\<rparr>"
| called: "get_adapter reg (c_kind c) = Inr a \<Longrightarrow> call_adapter a ce c r payload = (sent, res) \<Longrightarrow>
    registry_step reg
      \<lparr>rs_db = db, rs_tasks = ts @ \<lparr>tk_row = r, tk_connector = c, tk_payload = payload, tk_phase = TaskStarted\<rparr> # us, rs_calls = cs\<rparr>
      \<lparr>rs_db = db, rs_tasks = ts @ \<lparr>tk_row = r, tk_connector = c, tk_payload = payload, tk_phase = TaskAnswered res\<rparr> # us,
       rs_calls = cs @ [key_of r]\<rparr>"
| settled: "finalise db w r res = (db', out) \<Longrightarrow> event_unused (w_event_id w) (db_outbox db) \<Longrightarrow>
    registry_step reg
      \<lparr>rs_db = db, rs_tasks = ts @ \<lparr>tk_row = r, tk_connector = c, tk_payload = payload, tk_phase = TaskAnswered res\<rparr> # us, rs_calls = cs\<rparr>
      \<lparr>rs_db = db', rs_tasks = ts @ us, rs_calls = cs\<rparr>"
| crashed: "registry_step reg \<lparr>rs_db = db, rs_tasks = ts @ t # us, rs_calls = cs\<rparr>
    \<lparr>rs_db = db, rs_tasks = ts @ us, rs_calls = cs\<rparr>"
| drained: "registry_step reg \<lparr>rs_db = db, rs_tasks = ts, rs_calls = cs\<rparr>
    \<lparr>rs_db = db\<lparr>db_outbox := ds_table (drain_once p env now locked n (db_outbox db) le)\<rparr>, rs_tasks = ts, rs_calls = cs\<rparr>"

inductive_cases registry_stepE: "registry_step reg s s'"

definition empty_db :: registry_db where
  "empty_db = \<lparr>db_connectors = [], db_invocations = [], db_audit = [], db_outbox = []\<rparr>"

definition empty_registry :: registry_system where
  "empty_registry = \<lparr>rs_db = empty_db, rs_tasks = [], rs_calls = []\<rparr>"

definition reachable_registry :: "adapter_registry \<Rightarrow> registry_system \<Rightarrow> bool" where
  "reachable_registry reg s = (registry_step reg)\<^sup>*\<^sup>* empty_registry s"

section \<open>What a step does to each table\<close>

lemma find_row_in: "find_row key i rows = Some r \<Longrightarrow> i \<in> key ` set rows"
  using find_row_Some by force

lemma find_row_updated:
  "find_row key i rows = Some r0 \<Longrightarrow> find_row key i (update_row key r rows) = Some (if i = key r then r else r0)"
  using find_row_in [of key i rows r0] by (cases "i = key r") simp_all

lemma find_row_single [simp]: "find_row key i [r] = (if key r = i then Some r else None)"
  by (simp add: find_row_def)

lemma o_ids_enqueue [simp]: "map o_id (enqueue rows u now s p t i v) = map o_id rows @ [u]"
  by (simp add: enqueue_def new_event_def)

lemma o_ids_emit [simp]: "map o_id (emit rows w r event extra) = map o_id rows @ [w_event_id w]"
  by (simp add: emit_def)

text \<open>A stored connector: a known state, a version, and no key its configuration may not have.\<close>

definition connector_wf :: "connector \<Rightarrow> bool" where
  "connector_wf c \<longleftrightarrow>
     ConnectorState (c_status c) \<noteq> None \<and> 1 \<le> c_version c \<and>
     (\<forall>k \<in> set FORBIDDEN_CONFIG_KEYS \<union> set OPERATOR_ONLY_CONFIG_KEYS. \<not> jhas k (c_config c))"

text \<open>
  What a step does to the connectors, their audit rows and their events: \<open>connector_change\<close> has one
  case for each way a handler of the code writes them.
\<close>

inductive connector_change :: "registry_db \<Rightarrow> registry_db \<Rightarrow> bool" where
  same: "db_connectors db' = db_connectors db \<Longrightarrow> db_audit db' = db_audit db \<Longrightarrow>
    \<forall>e \<in> set evs. o_aggregate_type e \<noteq> ''connector'' \<Longrightarrow>
    db_outbox db' = db_outbox db @ evs \<Longrightarrow> connector_change db db'"
| published: "db_connectors db' = db_connectors db \<Longrightarrow> db_audit db' = db_audit db \<Longrightarrow>
    map event_of (db_outbox db') = map event_of (db_outbox db) \<Longrightarrow> connector_change db db'"
| made: "c_id c \<notin> c_id ` set (db_connectors db) \<Longrightarrow> aggregate_unused ''connector'' (c_id c) (db_outbox db) \<Longrightarrow>
    c_version c = 1 \<Longrightarrow> db_connectors db' = db_connectors db @ [c] \<Longrightarrow>
    db_audit db' = db_audit db @ [a] \<Longrightarrow> a_connector_id a = c_id c \<Longrightarrow> a_aggregate_version a = 1 \<Longrightarrow>
    db_outbox db' = db_outbox db @ [e] \<Longrightarrow> aggregate_event ''connector'' (c_id c) 1 e \<Longrightarrow>
    connector_wf c \<Longrightarrow> connector_change db db'"
| moved: "find_row c_id (c_id c') (db_connectors db) = Some c \<Longrightarrow> c_version c' = c_version c + 1 \<Longrightarrow>
    c_status c = state_value st \<Longrightarrow> c_status c' = state_value st' \<Longrightarrow> edge st st' \<Longrightarrow>
    db_connectors db' = update_row c_id c' (db_connectors db) \<Longrightarrow>
    db_audit db' = db_audit db @ [a] \<Longrightarrow> a_connector_id a = c_id c' \<Longrightarrow> a_aggregate_version a = c_version c' \<Longrightarrow>
    db_outbox db' = db_outbox db @ [e] \<Longrightarrow> aggregate_event ''connector'' (c_id c') (c_version c') e \<Longrightarrow>
    c_config c' = c_config c \<Longrightarrow> connector_change db db'"
| deleted: "find_row c_id (c_id c') (db_connectors db) = Some c \<Longrightarrow> c_version c' = c_version c + 1 \<Longrightarrow>
    c_status c \<noteq> ''deleted'' \<Longrightarrow> c_status c' = ''deletion_requested'' \<Longrightarrow>
    db_connectors db' = update_row c_id c' (db_connectors db) \<Longrightarrow> db_audit db' = db_audit db \<Longrightarrow>
    db_outbox db' = db_outbox db @ [e] \<Longrightarrow> aggregate_event ''connector'' (c_id c') (c_version c') e \<Longrightarrow>
    c_config c' = c_config c \<Longrightarrow> connector_change db db'"
| noted: "find_row c_id (c_id c') (db_connectors db) = Some c \<Longrightarrow> c_version c' = c_version c \<Longrightarrow>
    c_status c' = c_status c \<Longrightarrow> db_connectors db' = update_row c_id c' (db_connectors db) \<Longrightarrow>
    db_audit db' = db_audit db \<Longrightarrow> db_outbox db' = db_outbox db \<Longrightarrow>
    c_config c' = c_config c \<Longrightarrow> connector_change db db'"

lemma enqueued: "\<exists>e. enqueue rows u now s p t i v = rows @ [e] \<and> o_aggregate_type e = t \<and> o_aggregate_id e = i \<and> o_aggregate_version e = v"
  by (simp add: enqueue_def new_event_def)

lemma change_apply_transition:
  assumes "apply_transition db w cid target event actor ten reason key = Inr (db', res)"
  shows "connector_change db db'"
  using assms
proof (cases rule: apply_transition_cases)
  case (repeated row tr)
  then show ?thesis by (intro connector_change.same [where evs = "[]"]) simp_all
next
  case (moved row tr)
  let ?c = "move_connector w tr reason row"
  have id: "c_id row = cid"
    using find_row_Some [OF moved(1)] by simp
  have "find_row c_id (c_id ?c) (db_connectors db) = Some row"
    using moved(1) id by simp
  moreover have "edge (t_source tr) (t_target tr)"
    using moved(6) by (rule edgeI)
  ultimately show ?thesis
    using moved(5)
    by (intro connector_change.moved [of ?c db row "t_source tr" "t_target tr" db'
          "audit_row w tr actor ten reason key (c_status row) ?c" "last (db_outbox db')"])
      (simp_all add: moved(8) audit_row_def enqueue_def aggregate_event_def)
qed

lemma change_create:
  assumes "create_connector s env db w caller p = (db', Inr view)" "aggregate_unused ''connector'' (w_row_id w) (db_outbox db)"
  shows "connector_change db db'"
  using assms(1)
proof (cases rule: create_connector_Inr)
  case (1 a report config)
  let ?c = "new_connector w (ci_tenant_id caller) p config report"
  have id: "c_id ?c = w_row_id w" "c_version ?c = 1" "c_status ?c = state_value (cr_status p)"
    by (simp_all add: new_connector_def)
  have "connector_wf ?c"
    using created_config_keys [OF 1(1,3)] id by (simp add: connector_wf_def)
  then show ?thesis
    using 1(7) assms(2)
    by (intro connector_change.made [of ?c db db' "creation_audit w caller ?c" "last (db_outbox db')"])
      (simp_all add: 1(8) commit_creation_def creation_audit_def enqueue_def aggregate_event_def id)
qed

lemma change_deletion:
  assumes "request_connector_deletion py db w caller cid = (db', Inr ())"
  shows "connector_change db db'"
proof -
  from assms obtain c where c: "tenant_connector db cid (ci_tenant_id caller) = Inr c"
    by (auto simp: request_connector_deletion_def split: sum.splits)
  then have row: "find_row c_id cid (db_connectors db) = Some c" "c_tenant_id c = ci_tenant_id caller" "c_id c = cid"
    using find_row_Some [of c_id cid "db_connectors db" c] by (auto simp: tenant_connector_Inr)
  have live: "c_status c \<noteq> ''deleted''"
    using assms c by (auto simp: request_connector_deletion_def split: if_splits)
  show ?thesis
  proof (cases "c_status c = ''deletion_requested''")
    case True
    then have "db' = db"
      using assms c by (simp add: request_connector_deletion_def)
    then show ?thesis by (intro connector_change.same [where evs = "[]"]) simp_all
  next
    case False
    from request_connector_deletion_live [OF row(1,2) live False] obtain e where
      "db_connectors db' = update_row c_id (request_deletion w caller c) (db_connectors db)"
      "db_audit db' = db_audit db" "db_outbox db' = db_outbox db @ [e]" "aggregate_event ''connector'' cid (c_version c + 1) e"
      using assms by (metis Pair_inject)
    with row live show ?thesis
      by (intro connector_change.deleted [of "request_deletion w caller c" db c db' e]) (simp_all add: request_deletion_def)
  qed
qed

lemma change_capability: "connector_change db (store_capability db cid report)"
proof (cases "find_row c_id cid (db_connectors db)")
  case None
  then show ?thesis
    by (intro connector_change.same [where evs = "[]"]) (simp_all add: store_capability_def)
next
  case (Some c)
  then have "c_id c = cid"
    using find_row_Some by metis
  with Some show ?thesis
    by (intro connector_change.noted [of "c\<lparr>c_supports_idempotency := vr_supports_idempotency report,
        c_idempotency_mode := mode_value (vr_idempotency_mode report)\<rparr>" db c]) (simp_all add: store_capability_def)
qed

lemma emitted: "\<exists>e. emit rows w r event extra = rows @ [e] \<and> o_aggregate_type e = ''invocation'' \<and>
    o_aggregate_id e = Some (i_id r) \<and> o_aggregate_version e = i_aggregate_version r"
  unfolding emit_def by (rule enqueued)

lemma change_emit:
  assumes "db' = db\<lparr>db_invocations := rows, db_outbox := emit (db_outbox db) w r event extra\<rparr>"
  shows "connector_change db db'"
proof -
  obtain e where "db_outbox db' = db_outbox db @ [e]" "o_aggregate_type e = ''invocation''"
    using emitted [of "db_outbox db" w r event extra] assms by auto
  then show ?thesis
    by (intro connector_change.same [where evs = "[e]"]) (simp_all add: assms)
qed

lemma change_accept:
  assumes "accept seen db w c args = (db', Fresh r)"
  shows "connector_change db db'"
  using assms
proof (cases rule: accept_cases)
  case insert
  from insert(2) show ?thesis
  proof (cases rule: accept_insert_cases)
    case fresh
    then show ?thesis by (intro change_emit)
  qed simp_all
qed simp

lemma change_finalise:
  assumes "finalise db w r res = (db', out)"
  shows "connector_change db db'"
  using assms
proof (cases rule: finalise_cases)
  case (stored event)
  then show ?thesis by (intro change_emit)
qed (auto intro!: connector_change.same [where evs = "[]"])

lemma step_change:
  assumes "registry_step reg s s'" and "distinct (map o_id (db_outbox (rs_db s)))"
  shows "connector_change (rs_db s) (rs_db s')"
  using assms
proof (induction rule: registry_step.induct)
  case (drained db ts cs p env now locked n le)
  then show ?case by (intro connector_change.published) (simp_all add: drain_events)
qed (auto intro: change_apply_transition change_create change_deletion change_capability change_accept change_finalise
    change_emit start_invocation_simps(2) connector_change.same [where evs = "[]"])

section \<open>Invariants\<close>

text \<open>Primary keys, and the uniqueness of an audit row per connector and version.\<close>

definition tables_ok :: "registry_db \<Rightarrow> bool" where
  "tables_ok db \<longleftrightarrow>
     distinct (map o_id (db_outbox db)) \<and> distinct (map c_id (db_connectors db)) \<and>
     distinct (map i_id (db_invocations db)) \<and> keys_unique db"

definition audit_key :: "audit_entry \<Rightarrow> uuid \<times> int" where
  "audit_key a = (a_connector_id a, a_aggregate_version a)"

definition audit_ok :: "registry_db \<Rightarrow> bool" where
  "audit_ok db \<longleftrightarrow>
     distinct (map audit_key (db_audit db)) \<and>
     (\<forall>a \<in> set (db_audit db). \<exists>c. find_row c_id (a_connector_id a) (db_connectors db) = Some c \<and>
        a_aggregate_version a \<le> c_version c)"

lemma connector_change_ids:
  "connector_change db db' \<Longrightarrow> distinct (map c_id (db_connectors db)) \<Longrightarrow> distinct (map c_id (db_connectors db'))"
  by (erule connector_change.cases) auto

lemma connector_change_evolves:
  assumes "connector_change db db'" and dist: "distinct (map c_id (db_connectors db))"
  shows "evolves c_id c_version ''connector'' (db_connectors db) (db_outbox db) (db_connectors db') (db_outbox db')"
  using assms(1)
proof (cases rule: connector_change.cases)
  case (same evs)
  then show ?thesis by (intro evolves.silent [where evs = evs]) simp_all
next
  case published
  then show ?thesis by (intro evolves.silent [where evs = "[]"]) simp_all
next
  case (made c a e)
  show ?thesis
    unfolding made(4,8) using made by (intro evolves.created) (auto simp: aggregate_unused_def)
next
  case (moved c' c st st' a e)
  show ?thesis
    unfolding moved(6,10) using moved by (intro evolves.advanced) simp_all
next
  case (deleted c' c e)
  show ?thesis
    unfolding deleted(5,7) using deleted by (intro evolves.advanced) simp_all
next
  case (noted c' c)
  have "map c_version (db_connectors db') = map c_version (db_connectors db)"
    unfolding noted(4) using dist noted(1,2) by (intro map_update_row_same) simp_all
  with noted show ?thesis
    by (intro evolves.silent [where evs = "[]"]) simp_all
qed

text \<open>A connector's version never goes back; an audit row is added only with a version above all before it.\<close>

lemma connector_change_grows:
  assumes "connector_change db db'" and "find_row c_id i (db_connectors db) = Some c"
  shows "\<exists>c'. find_row c_id i (db_connectors db') = Some c' \<and> c_version c \<le> c_version c'"
  using assms(1)
proof (cases rule: connector_change.cases)
  case (made c0 a e)
  then show ?thesis using assms(2) by (simp add: find_row_append)
qed (use assms(2) find_row_updated [OF assms(2)] in auto)

lemma connector_change_audit:
  assumes "connector_change db db'"
  shows "db_audit db' = db_audit db \<or>
    (\<exists>a c'. db_audit db' = db_audit db @ [a] \<and> find_row c_id (a_connector_id a) (db_connectors db') = Some c' \<and>
      a_aggregate_version a = c_version c' \<and>
      (\<forall>c. find_row c_id (a_connector_id a) (db_connectors db) = Some c \<longrightarrow> c_version c < c_version c'))"
  using assms
proof (cases rule: connector_change.cases)
  case (made c a e)
  then have "find_row c_id (c_id c) (db_connectors db) = None"
    by (simp add: find_row_None)
  then show ?thesis
    using made by (intro disjI2 exI [of _ a] exI [of _ c]) (simp add: find_row_append)
next
  case (moved c' c st st' a e)
  then have "c_id c' \<in> c_id ` set (db_connectors db)"
    using find_row_Some [OF moved(1)] by (metis image_eqI)
  then show ?thesis
    using moved by (intro disjI2 exI [of _ a] exI [of _ c']) simp
qed simp_all

lemma connector_change_audit_ok:
  assumes change: "connector_change db db'" and ok: "audit_ok db"
  shows "audit_ok db'"
proof -
  have old: "\<exists>c'. find_row c_id (a_connector_id b) (db_connectors db') = Some c' \<and> a_aggregate_version b \<le> c_version c'"
    if "b \<in> set (db_audit db)" for b
    using ok that connector_change_grows [OF change] by (fastforce simp: audit_ok_def intro: order_trans)
  from connector_change_audit [OF change] show ?thesis
  proof (elim disjE exE conjE)
    assume "db_audit db' = db_audit db"
    with ok old show ?thesis by (auto simp: audit_ok_def)
  next
    fix a c'
    assume a: "db_audit db' = db_audit db @ [a]" "find_row c_id (a_connector_id a) (db_connectors db') = Some c'"
      "a_aggregate_version a = c_version c'"
      "\<forall>c. find_row c_id (a_connector_id a) (db_connectors db) = Some c \<longrightarrow> c_version c < c_version c'"
    have "audit_key b \<noteq> audit_key a" if b: "b \<in> set (db_audit db)" for b
    proof
      assume same: "audit_key b = audit_key a"
      then obtain c where c: "find_row c_id (a_connector_id a) (db_connectors db) = Some c" "a_aggregate_version b \<le> c_version c"
      proof -
        have "\<exists>c. find_row c_id (a_connector_id b) (db_connectors db) = Some c \<and> a_aggregate_version b \<le> c_version c"
          using ok b by (simp add: audit_ok_def)
        then show ?thesis
          using same by (auto simp: audit_key_def intro: that)
      qed
      with a(3,4) same show False by (auto simp: audit_key_def)
    qed
    then have "audit_key a \<notin> set (map audit_key (db_audit db))"
      by (metis image_iff set_map)
    with a(1-3) ok old show ?thesis
      by (simp add: audit_ok_def)
  qed
qed

text \<open>A retired connector stays retired.\<close>

definition retired :: "connector \<Rightarrow> bool" where
  "retired c \<longleftrightarrow> (\<exists>st \<in> RETIRED. c_status c = state_value st)"

lemma connector_change_retired:
  assumes "connector_change db db'" and "find_row c_id i (db_connectors db) = Some c" and "retired c"
  shows "\<exists>c'. find_row c_id i (db_connectors db') = Some c' \<and> retired c'"
  using assms(1)
proof (cases rule: connector_change.cases)
  case (made c0 a e)
  then show ?thesis using assms(2,3) by (simp add: find_row_append)
next
  case (moved c' c0 st st' a e)
  show ?thesis
  proof (cases "c_id c' = i")
    case True
    then have "c0 = c" using moved(1) assms(2) by simp
    then have "st \<in> RETIRED"
      using moved(3) assms(3) by (auto simp: retired_def)
    then have "retired c'"
      using RETIRED_closed moved(4,5) by (auto simp: retired_def)
    then show ?thesis
      using True moved(6) find_row_updated [OF assms(2), of c'] by simp
  next
    case False
    then show ?thesis using moved(6) assms(2,3) by simp
  qed
next
  case (deleted c' c0 e)
  have "retired c'"
    using deleted(4) by (auto simp: retired_def RETIRED_def)
  then show ?thesis
    using deleted(5) assms(3) find_row_updated [OF assms(2), of c'] by auto
next
  case (noted c' c0)
  then show ?thesis
    using assms(2,3) find_row_updated [OF assms(2), of c'] by (auto simp: retired_def)
qed (use assms(2,3) in auto)

text \<open>Stored connectors stay well-formed.\<close>

definition connectors_wf :: "registry_db \<Rightarrow> bool" where
  "connectors_wf db \<longleftrightarrow> (\<forall>c \<in> set (db_connectors db). connector_wf c)"

lemma connectors_wf_update:
  "connectors_wf db \<Longrightarrow> connector_wf c \<Longrightarrow> db_connectors db' = update_row c_id c (db_connectors db) \<Longrightarrow> connectors_wf db'"
  by (auto simp: connectors_wf_def dest!: set_update_row)

lemma connector_change_wf:
  assumes "connector_change db db'" and "connectors_wf db"
  shows "connectors_wf db'"
  using assms(1)
proof (cases rule: connector_change.cases)
  case (made c a e)
  with assms(2) show ?thesis by (auto simp: connectors_wf_def)
next
  case (moved c' c st st' a e)
  then have "connector_wf c'"
    using assms(2) find_row_Some [OF moved(1)] by (auto simp: connectors_wf_def connector_wf_def)
  with assms(2) show ?thesis using moved(6) by (rule connectors_wf_update)
next
  case (deleted c' c e)
  have "ConnectorState ''deletion_requested'' \<noteq> None"
    using ConnectorState_value [of DELETION_REQUESTED] by simp
  then have "connector_wf c'"
    using assms(2) deleted find_row_Some [OF deleted(1)] by (auto simp: connectors_wf_def connector_wf_def)
  with assms(2) show ?thesis using deleted(5) by (rule connectors_wf_update)
next
  case (noted c' c)
  then have "connector_wf c'"
    using assms(2) find_row_Some [OF noted(1)] by (auto simp: connectors_wf_def connector_wf_def)
  with assms(2) show ?thesis using noted(4) by (rule connectors_wf_update)
qed (use assms(2) in \<open>simp_all add: connectors_wf_def\<close>)

lemma retired_not_executable: "retired c \<Longrightarrow> \<not> executable c"
  using RETIRED_not_executable by (auto simp: retired_def executable_def)

section \<open>Invocations and their tasks\<close>

text \<open>
  A task holds the row it will rewrite; the calls made so far are of distinct rows, and a task that
  has not answered yet has not called.
\<close>

definition uncalled :: "task \<Rightarrow> bool" where
  "uncalled t \<longleftrightarrow> tk_phase t = TaskAccepted \<or> tk_phase t = TaskStarted"

definition tasks_ok :: "registry_system \<Rightarrow> bool" where
  "tasks_ok s \<longleftrightarrow>
     distinct (map (\<lambda>t. key_of (tk_row t)) (rs_tasks s)) \<and> distinct (rs_calls s) \<and>
     set (rs_calls s) \<subseteq> key_of ` set (db_invocations (rs_db s)) \<and>
     (\<forall>t \<in> set (rs_tasks s). tk_row t \<in> set (db_invocations (rs_db s)) \<and>
        in_flight_status (i_status (tk_row t)) \<and> (uncalled t \<longrightarrow> key_of (tk_row t) \<notin> set (rs_calls s)))"

definition system_ok :: "registry_system \<Rightarrow> bool" where
  "system_ok s \<longleftrightarrow> tables_ok (rs_db s) \<and> audit_ok (rs_db s) \<and> tasks_ok s"

text \<open>The four ways a step treats the invocations.\<close>

inductive invocation_change :: "registry_system \<Rightarrow> registry_system \<Rightarrow> bool" where
  same: "db_invocations (rs_db s') = db_invocations (rs_db s) \<Longrightarrow> rs_tasks s' = rs_tasks s \<Longrightarrow> rs_calls s' = rs_calls s \<Longrightarrow>
    \<forall>e \<in> set evs. o_aggregate_type e \<noteq> ''invocation'' \<Longrightarrow>
    map event_of (db_outbox (rs_db s')) = map event_of (db_outbox (rs_db s)) @ map event_of evs \<Longrightarrow> invocation_change s s'"
| made: "i_id r \<notin> i_id ` set (db_invocations (rs_db s)) \<Longrightarrow> key_of r \<notin> key_of ` set (db_invocations (rs_db s)) \<Longrightarrow>
    aggregate_unused ''invocation'' (i_id r) (db_outbox (rs_db s)) \<Longrightarrow> i_aggregate_version r = 1 \<Longrightarrow>
    in_flight_status (i_status r) \<Longrightarrow>
    db_invocations (rs_db s') = db_invocations (rs_db s) @ [r] \<Longrightarrow>
    db_outbox (rs_db s') = db_outbox (rs_db s) @ [e] \<Longrightarrow> aggregate_event ''invocation'' (i_id r) 1 e \<Longrightarrow>
    rs_tasks s' = rs_tasks s @ [t] \<Longrightarrow> tk_row t = r \<Longrightarrow> rs_calls s' = rs_calls s \<Longrightarrow> invocation_change s s'"
| rewritten: "rs_tasks s = ts @ t # us \<Longrightarrow> i_id r = i_id (tk_row t) \<Longrightarrow> key_of r = key_of (tk_row t) \<Longrightarrow>
    i_aggregate_version r = i_aggregate_version (tk_row t) + 1 \<Longrightarrow>
    db_invocations (rs_db s') = update_row i_id r (db_invocations (rs_db s)) \<Longrightarrow>
    db_outbox (rs_db s') = db_outbox (rs_db s) @ [e] \<Longrightarrow> aggregate_event ''invocation'' (i_id r) (i_aggregate_version r) e \<Longrightarrow>
    rs_tasks s' = ts @ us \<or> uncalled t \<and> in_flight_status (i_status r) \<and> (\<exists>t'. tk_row t' = r \<and> rs_tasks s' = ts @ t' # us) \<Longrightarrow>
    rs_calls s' = rs_calls s \<Longrightarrow> invocation_change s s'"
| progressed: "rs_tasks s = ts @ t # us \<Longrightarrow> rs_db s' = rs_db s \<Longrightarrow>
    rs_tasks s' = ts @ us \<and> rs_calls s' = rs_calls s \<or>
    (\<exists>t'. tk_row t' = tk_row t \<and> \<not> uncalled t' \<and> rs_tasks s' = ts @ t' # us) \<and>
      (rs_calls s' = rs_calls s \<or> uncalled t \<and> rs_calls s' = rs_calls s @ [key_of (tk_row t)]) \<Longrightarrow> invocation_change s s'"

lemma invocation_same:
  "db_invocations (rs_db s') = db_invocations (rs_db s) \<Longrightarrow> rs_tasks s' = rs_tasks s \<Longrightarrow> rs_calls s' = rs_calls s \<Longrightarrow>
    db_outbox (rs_db s') = db_outbox (rs_db s) @ evs \<Longrightarrow> \<forall>e \<in> set evs. o_aggregate_type e \<noteq> ''invocation'' \<Longrightarrow> invocation_change s s'"
  by (rule invocation_change.same [where evs = evs]) simp_all

lemma step_invocations:
  assumes "registry_step reg s s'" and "distinct (map o_id (db_outbox (rs_db s)))"
  shows "invocation_change s s'"
  using assms
proof (induction rule: registry_step.induct)
  case (transition db w cid target event actor ten reason key db' res ts cs)
  from transition(1) show ?case
  proof (cases rule: apply_transition_cases)
    case (repeated row tr)
    then show ?thesis by (intro invocation_same [where evs = "[]"]) simp_all
  next
    case (moved row tr)
    then show ?thesis
      by (intro invocation_same [where evs = "[last (db_outbox db')]"]) (simp_all add: enqueue_def new_event_def)
  qed
next
  case (create st env db w caller p db' view ts cs)
  from create(1) show ?case
    by (cases rule: create_connector_Inr, intro invocation_same [where evs = "[last (db_outbox db')]"])
      (simp_all add: commit_creation_def enqueue_def new_event_def)
next
  case (deletion py db w caller cid db' ts cs)
  obtain evs where "db_outbox db' = db_outbox db @ evs" "\<forall>e \<in> set evs. o_aggregate_type e \<noteq> ''invocation''"
    "db_invocations db' = db_invocations db"
    using deletion(1) by (auto simp: request_connector_deletion_def enqueue_def new_event_def Let_def split: sum.splits if_splits)
  then show ?case by (intro invocation_same) simp_all
next
  case (capability db ts cs cid report)
  show ?case
    by (intro invocation_same [where evs = "[]"]) (simp_all add: store_capability_def split: option.split)
next
  case (accepted seen cid args c db w db' r ts cs payload)
  from accepted(2) show ?case
  proof (cases rule: accept_cases)
    case insert
    from insert(2) show ?thesis
    proof (cases rule: accept_insert_cases)
      case fresh
      obtain e where e: "db_outbox db' = db_outbox db @ [e]" "aggregate_event ''invocation'' (w_row_id w) 1 e"
        using emit_event [of "db_outbox db" w "new_invocation w c args" "''connector.invocation.accepted''" None] fresh(5)
        by auto
      from fresh(2) have "key_of r \<notin> key_of ` set (db_invocations db)"
        using fresh(1) by (simp add: find_existing_None)
      with e fresh accepted(4) show ?thesis
        by (intro invocation_change.made [of r _ _ e "\<lparr>tk_row = r, tk_connector = c, tk_payload = payload, tk_phase = TaskAccepted\<rparr>"])
          (simp_all add: in_flight_status_def)
    qed simp_all
  qed simp
next
  case (unregistered c known db ts r payload us cs py)
  show ?case
    by (rule invocation_change.progressed [of _ ts "\<lparr>tk_row = r, tk_connector = c, tk_payload = payload, tk_phase = TaskAccepted\<rparr>" us])
      (simp_all add: uncalled_def)
next
  case (started c a db w r db' r' ts payload us cs)
  obtain e where e: "db_outbox db' = db_outbox db @ [e]" "aggregate_event ''invocation'' (i_id r') (i_aggregate_version r') e"
    using emit_event [of "db_outbox db" w r' "''connector.invocation.started''" None] start_invocation_simps(2) [OF started(2)]
    by auto
  have "i_id r' = i_id r" "key_of r' = key_of r" "i_aggregate_version r' = i_aggregate_version r + 1" "i_status r' = status_value RUNNING"
    by (simp_all add: start_invocation_simps(1) [OF started(2)] key_of_def)
  with e start_invocation_simps(2) [OF started(2)] show ?case
    by (intro invocation_change.rewritten [of _ ts "\<lparr>tk_row = r, tk_connector = c, tk_payload = payload, tk_phase = TaskAccepted\<rparr>" us r' _ e])
      (auto simp: uncalled_def in_flight_status_def)
next
  case (called c a ce r payload sent res db ts us cs)
  show ?case
    by (rule invocation_change.progressed [of _ ts "\<lparr>tk_row = r, tk_connector = c, tk_payload = payload, tk_phase = TaskStarted\<rparr>" us])
      (simp_all add: uncalled_def)
next
  case (settled db w r res db' out ts c payload us cs)
  from settled(1) show ?case
  proof (cases rule: finalise_cases)
    case (stored event)
    obtain e where e: "db_outbox db' = db_outbox db @ [e]"
      "aggregate_event ''invocation'' (i_id r) (i_aggregate_version r + 1) e"
      using emit_event [of "db_outbox db" w "finalised w r res" event None] stored(4) by auto
    with stored(4) show ?thesis
      by (intro invocation_change.rewritten [of _ ts "\<lparr>tk_row = r, tk_connector = c, tk_payload = payload, tk_phase = TaskAnswered res\<rparr>"
          us "finalised w r res" _ e]) simp_all
  next
    case rejected
    then show ?thesis
      by (intro invocation_change.progressed [of _ ts "\<lparr>tk_row = r, tk_connector = c, tk_payload = payload, tk_phase = TaskAnswered res\<rparr>" us])
        simp_all
  next
    case no_event
    then show ?thesis
      by (intro invocation_change.progressed [of _ ts "\<lparr>tk_row = r, tk_connector = c, tk_payload = payload, tk_phase = TaskAnswered res\<rparr>" us])
        simp_all
  qed
next
  case (crashed db ts t us cs)
  show ?case by (rule invocation_change.progressed [of _ ts t us]) simp_all
next
  case (drained db ts cs p env now locked n le)
  then show ?case by (intro invocation_change.same [where evs = "[]"]) (simp_all add: drain_events)
qed

lemma update_row_other: "x \<in> set rows \<Longrightarrow> key x \<noteq> key r \<Longrightarrow> x \<in> set (update_row key r rows)"
  by (auto simp: update_row_def)

lemma tasks_okD:
  assumes "tasks_ok s" "t \<in> set (rs_tasks s)"
  shows "tk_row t \<in> set (db_invocations (rs_db s))" "in_flight_status (i_status (tk_row t))"
    "uncalled t \<Longrightarrow> key_of (tk_row t) \<notin> set (rs_calls s)"
  using assms by (auto simp: tasks_ok_def)

lemma task_find:
  assumes "tables_ok (rs_db s)" "tasks_ok s" "t \<in> set (rs_tasks s)"
  shows "find_row i_id (i_id (tk_row t)) (db_invocations (rs_db s)) = Some (tk_row t)"
  using assms(1) tasks_okD(1) [OF assms(2,3)] by (intro find_row_distinct) (simp_all add: tables_ok_def)

lemma invocation_change_evolves:
  assumes "invocation_change s s'" and "tables_ok (rs_db s)" "tasks_ok s"
  shows "evolves i_id i_aggregate_version ''invocation'' (db_invocations (rs_db s)) (db_outbox (rs_db s))
    (db_invocations (rs_db s')) (db_outbox (rs_db s'))"
  using assms(1)
proof (cases rule: invocation_change.cases)
  case (same evs)
  then show ?thesis by (intro evolves.silent [where evs = evs]) simp_all
next
  case (made r e t)
  show ?thesis
    unfolding made(6,7) using made by (intro evolves.created) (auto simp: aggregate_unused_def)
next
  case (rewritten ts t us r e)
  have "find_row i_id (i_id r) (db_invocations (rs_db s)) = Some (tk_row t)"
    using task_find [OF assms(2,3), of t] rewritten(1,2) by simp
  then show ?thesis
    unfolding rewritten(5,6) using rewritten by (intro evolves.advanced) simp_all
next
  case (progressed ts t us)
  then show ?thesis by (intro evolves.silent [where evs = "[]"]) simp_all
qed

lemma invocation_change_keys:
  assumes "invocation_change s s'" and ok: "tables_ok (rs_db s)" "tasks_ok s"
  shows "distinct (map i_id (db_invocations (rs_db s'))) \<and> keys_unique (rs_db s') \<and>
    key_of ` set (db_invocations (rs_db s)) \<subseteq> key_of ` set (db_invocations (rs_db s'))"
  using assms(1)
proof (cases rule: invocation_change.cases)
  case (rewritten ts t us r e)
  have "find_row i_id (i_id r) (db_invocations (rs_db s)) = Some (tk_row t)"
    using task_find [OF ok, of t] rewritten(1,2) by simp
  then have "map key_of (db_invocations (rs_db s')) = map key_of (db_invocations (rs_db s))"
    unfolding rewritten(5) using ok rewritten(3) by (intro map_update_row_same) (simp_all add: tables_ok_def)
  moreover from this have "key_of ` set (db_invocations (rs_db s')) = key_of ` set (db_invocations (rs_db s))"
    by (metis set_map)
  ultimately show ?thesis
    using ok(1) rewritten(5) by (simp add: keys_unique_def tables_ok_def)
qed (use ok in \<open>auto simp: keys_unique_def tables_ok_def\<close>)

text \<open>Rows that no task holds are never touched.\<close>

lemma invocation_change_unheld:
  assumes "invocation_change s s'" and ok: "tables_ok (rs_db s)" "tasks_ok s"
    and r: "r \<in> set (db_invocations (rs_db s))" "\<forall>t \<in> set (rs_tasks s). key_of (tk_row t) \<noteq> key_of r"
  shows "r \<in> set (db_invocations (rs_db s')) \<and> (\<forall>t \<in> set (rs_tasks s'). key_of (tk_row t) \<noteq> key_of r)"
  using assms(1)
proof (cases rule: invocation_change.cases)
  case (same evs)
  then show ?thesis using r by simp
next
  case (made r' e t)
  then show ?thesis using r by auto
next
  case (rewritten ts t us r' e)
  have t: "t \<in> set (rs_tasks s)"
    using rewritten(1) by simp
  have "i_id r \<noteq> i_id r'"
  proof
    assume "i_id r = i_id r'"
    then have "r = tk_row t"
      using ok(1) r(1) tasks_okD(1) [OF ok(2) t] rewritten(2) by (auto simp: tables_ok_def distinct_map inj_on_def)
    with r(2) t show False by blast
  qed
  then show ?thesis
    using rewritten r by (auto intro: update_row_other)
next
  case (progressed ts t us)
  then show ?thesis using r by auto
qed

lemma other_task_keys:
  assumes "tasks_ok s" "rs_tasks s = ts @ t # us" "t' \<in> set (ts @ us)"
  shows "key_of (tk_row t') \<noteq> key_of (tk_row t)"
proof -
  let ?f = "\<lambda>t. key_of (tk_row t)"
  have "distinct (map ?f (ts @ t # us))"
    using assms(1,2) by (simp add: tasks_ok_def)
  then have "?f t \<notin> ?f ` set (ts @ us)"
    by auto
  with assms(3) show ?thesis by (metis image_eqI)
qed

lemma invocation_change_tasks:
  assumes "invocation_change s s'" and ok: "tables_ok (rs_db s)" "tasks_ok s"
  shows "tasks_ok s'"
  using assms(1)
proof (cases rule: invocation_change.cases)
  case (same evs)
  then show ?thesis using ok by (simp add: tasks_ok_def)
next
  case (made r e t)
  have "key_of r \<notin> set (rs_calls s)"
    using made(2) ok(2) by (auto simp: tasks_ok_def)
  moreover have "key_of r \<noteq> key_of (tk_row t')" if "t' \<in> set (rs_tasks s)" for t'
    using made(2) tasks_okD(1) [OF ok(2) that] by (metis image_eqI)
  ultimately show ?thesis
    using ok(2) made by (auto simp: tasks_ok_def)
next
  case (rewritten ts t us r e)
  have t: "t \<in> set (rs_tasks s)"
    using rewritten(1) by simp
  have keys: "key_of (tk_row t') \<noteq> key_of r" if "t' \<in> set (ts @ us)" for t'
    using other_task_keys [OF ok(2) rewritten(1) that] rewritten(3) by simp
  have other: "tk_row t' \<in> set (db_invocations (rs_db s'))" if "t' \<in> set (ts @ us)" for t'
  proof -
    have row: "tk_row t' \<in> set (db_invocations (rs_db s))"
      using tasks_okD(1) [OF ok(2), of t'] rewritten(1) that by auto
    have "i_id (tk_row t') \<noteq> i_id r"
    proof
      assume "i_id (tk_row t') = i_id r"
      then have "tk_row t' = tk_row t"
        using ok(1) row tasks_okD(1) [OF ok(2) t] rewritten(2) by (auto simp: tables_ok_def distinct_map inj_on_def)
      with keys [OF that] rewritten(3) show False by simp
    qed
    with row show ?thesis unfolding rewritten(5) by (rule update_row_other)
  qed
  have "r \<in> set (db_invocations (rs_db s'))"
    unfolding rewritten(5) using tasks_okD(1) [OF ok(2) t] rewritten(2) by (intro update_row_mem) force
  moreover have "set (rs_calls s') \<subseteq> key_of ` set (db_invocations (rs_db s'))"
    using invocation_change_keys [OF assms] ok(2) rewritten(9) unfolding tasks_ok_def by auto
  ultimately show ?thesis
    using rewritten(8) keys other ok(2) rewritten(1,3,9) by (auto simp: tasks_ok_def)
next
  case (progressed ts t us)
  have t: "t \<in> set (rs_tasks s)"
    using progressed(1) by simp
  have row: "key_of (tk_row t) \<in> key_of ` set (db_invocations (rs_db s))"
    using tasks_okD(1) [OF ok(2) t] by simp
  have keys: "key_of (tk_row t') \<noteq> key_of (tk_row t)" if "t' \<in> set (ts @ us)" for t'
    using other_task_keys [OF ok(2) progressed(1) that] .
  show ?thesis
    using progressed(3)
  proof (elim disjE conjE exE)
    assume "rs_tasks s' = ts @ us" "rs_calls s' = rs_calls s"
    with ok(2) progressed(1,2) show ?thesis by (auto simp: tasks_ok_def)
  next
    fix t' assume t': "tk_row t' = tk_row t" "\<not> uncalled t'" "rs_tasks s' = ts @ t' # us" "rs_calls s' = rs_calls s"
    with ok(2) progressed(1,2) show ?thesis by (auto simp: tasks_ok_def)
  next
    fix t' assume t': "tk_row t' = tk_row t" "\<not> uncalled t'" "rs_tasks s' = ts @ t' # us" "uncalled t"
      "rs_calls s' = rs_calls s @ [key_of (tk_row t)]"
    with ok(2) progressed(1,2) row keys show ?thesis by (auto simp: tasks_ok_def)
  qed
qed

lemma outbox_ids_step:
  assumes "registry_step reg s s'" and "distinct (map o_id (db_outbox (rs_db s)))"
  shows "distinct (map o_id (db_outbox (rs_db s')))"
  using assms
proof (induction rule: registry_step.induct)
  case (transition db w cid target event actor ten reason key db' res ts cs)
  from transition(1) show ?case
  proof (cases rule: apply_transition_cases)
    case (repeated row tr)
    with transition show ?thesis by simp
  next
    case (moved row tr)
    with transition show ?thesis by (simp add: event_unused_def)
  qed
next
  case (create st env db w caller p db' view ts cs)
  from create(1) show ?case
    by (cases rule: create_connector_Inr) (use create(2,4) in \<open>simp add: commit_creation_def event_unused_def\<close>)
next
  case (deletion py db w caller cid db' ts cs)
  have "map o_id (db_outbox db') = map o_id (db_outbox db) \<or>
      map o_id (db_outbox db') = map o_id (db_outbox db) @ [w_event_id w]"
    using deletion(1) by (auto simp: request_connector_deletion_def Let_def split: sum.splits if_splits)
  with deletion(2,3) show ?case by (auto simp: event_unused_def)
next
  case (capability db ts cs cid report)
  then show ?case by (simp add: store_capability_def split: option.split)
next
  case (accepted seen cid args c db w db' r ts cs payload)
  from accepted(2) show ?case
  proof (cases rule: accept_cases)
    case insert
    from insert(2) show ?thesis
      by (cases rule: accept_insert_cases) (use accepted(3,5) in \<open>simp_all add: event_unused_def\<close>)
  qed simp
next
  case (started c a db w r db' r' ts payload us cs)
  then show ?case
    using start_invocation_simps(2) [OF started(2)] by (simp add: event_unused_def)
next
  case (settled db w r res db' out ts c payload us cs)
  from settled(1) show ?case
    by (cases rule: finalise_cases) (use settled(2,3) in \<open>simp_all add: event_unused_def\<close>)
next
  case (drained db ts cs p env now locked n le)
  then show ?case by (simp add: drain_ids)
qed simp_all

lemma system_ok_step:
  assumes "system_ok s" and "registry_step reg s s'"
  shows "system_ok s'"
proof -
  have ok: "tables_ok (rs_db s)" "audit_ok (rs_db s)" "tasks_ok s" "distinct (map o_id (db_outbox (rs_db s)))"
    "distinct (map c_id (db_connectors (rs_db s)))"
    using assms(1) by (auto simp: system_ok_def tables_ok_def)
  note change = step_change [OF assms(2) ok(4)] and invs = step_invocations [OF assms(2) ok(4)]
  have "tables_ok (rs_db s')"
    using outbox_ids_step [OF assms(2) ok(4)] connector_change_ids [OF change ok(5)] invocation_change_keys [OF invs ok(1,3)]
    by (simp add: tables_ok_def)
  moreover have "audit_ok (rs_db s')"
    using connector_change_audit_ok [OF change ok(2)] .
  moreover have "tasks_ok s'"
    using invocation_change_tasks [OF invs ok(1,3)] .
  ultimately show ?thesis by (simp add: system_ok_def)
qed

lemma system_ok_empty: "system_ok empty_registry"
  by (simp add: system_ok_def tables_ok_def audit_ok_def tasks_ok_def empty_registry_def empty_db_def keys_unique_def)

lemma empty_registry_simps [simp]:
  "db_connectors (rs_db empty_registry) = []" "db_invocations (rs_db empty_registry) = []"
  "db_audit (rs_db empty_registry) = []" "db_outbox (rs_db empty_registry) = []"
  "rs_tasks empty_registry = []" "rs_calls empty_registry = []"
  by (simp_all add: empty_registry_def empty_db_def)

interpretation connector_rows: versioned_aggregate "registry_step reg" empty_registry "\<lambda>s. db_connectors (rs_db s)"
  "\<lambda>s. db_outbox (rs_db s)" c_id c_version "''connector''" system_ok for reg
proof unfold_locales
  show "evolves c_id c_version ''connector'' (db_connectors (rs_db s)) (db_outbox (rs_db s))
      (db_connectors (rs_db s')) (db_outbox (rs_db s'))" if "system_ok s" "registry_step reg s s'" for s s'
    using that connector_change_evolves [OF step_change] by (simp add: system_ok_def tables_ok_def)
qed (auto intro: system_ok_empty system_ok_step)

interpretation invocation_rows: versioned_aggregate "registry_step reg" empty_registry "\<lambda>s. db_invocations (rs_db s)"
  "\<lambda>s. db_outbox (rs_db s)" i_id i_aggregate_version "''invocation''" system_ok for reg
proof unfold_locales
  show "evolves i_id i_aggregate_version ''invocation'' (db_invocations (rs_db s)) (db_outbox (rs_db s))
      (db_invocations (rs_db s')) (db_outbox (rs_db s'))" if "system_ok s" "registry_step reg s s'" for s s'
    using that invocation_change_evolves [OF step_invocations] by (simp add: system_ok_def tables_ok_def)
qed (auto intro: system_ok_empty system_ok_step)

lemma reachable_system_ok: "reachable_registry reg s \<Longrightarrow> system_ok s"
  unfolding reachable_registry_def by (rule connector_rows.reachable_ok)

lemma steps_system_ok: "(registry_step reg)\<^sup>*\<^sup>* s s' \<Longrightarrow> system_ok s \<Longrightarrow> system_ok s'"
  by (induction rule: rtranclp_induct) (auto intro: system_ok_step)

section \<open>Properties\<close>


text \<open>
  C1. At most one call per key.  Whatever races, retries and crashes occur, an adapter is called
  at most once for one idempotency key of a tenant and a connector, and only for a key whose
  invocation is recorded.
\<close>

theorem at_most_one_call_per_key:
  assumes "reachable_registry reg s"
  shows "distinct (rs_calls s) \<and> set (rs_calls s) \<subseteq> key_of ` set (db_invocations (rs_db s)) \<and>
    distinct (map key_of (db_invocations (rs_db s)))"
  using reachable_system_ok [OF assms] by (simp add: system_ok_def tasks_ok_def tables_ok_def keys_unique_def)

text \<open>
  The audit trail never tells two stories about one version: in every reachable state no two
  audit rows share a connector and a version, and no row names a version its connector has not
  reached.
\<close>

theorem audit_trail_is_consistent:
  assumes "reachable_registry reg s"
  shows "distinct (map audit_key (db_audit (rs_db s))) \<and>
    (\<forall>a \<in> set (db_audit (rs_db s)). \<exists>c. find_row c_id (a_connector_id a) (db_connectors (rs_db s)) = Some c \<and>
       a_aggregate_version a \<le> c_version c)"
  using reachable_system_ok [OF assms] by (simp add: system_ok_def audit_ok_def)


text \<open>
  An orphaned invocation never settles.  If the process that runs an invocation dies after
  accepting it, its row stays in flight in every later state, and every later request under its key
  is answered with it: no step of the system recovers it.
\<close>

theorem orphaned_invocation_never_settles:
  assumes "reachable_registry reg s" and "(registry_step reg)\<^sup>*\<^sup>* s s'"
    and "r \<in> set (db_invocations (rs_db s))" "in_flight_status (i_status r)"
    and "\<forall>t \<in> set (rs_tasks s). key_of (tk_row t) \<noteq> key_of r"
    and "key_of r = (aa_tenant_id args, c_id c, aa_idempotency_key args)"
  shows "r \<in> set (db_invocations (rs_db s')) \<and> accept (rs_db s') db w c args = (db, Replayed r True)"
proof -
  have "r \<in> set (db_invocations (rs_db s')) \<and> (\<forall>t \<in> set (rs_tasks s'). key_of (tk_row t) \<noteq> key_of r)"
    using assms(2)
  proof (induction rule: rtranclp_induct)
    case base
    then show ?case using assms(3,5) by blast
  next
    case (step s1 s2)
    have ok: "system_ok s1"
      using steps_system_ok [OF step.hyps(1) reachable_system_ok [OF assms(1)]] .
    then have "invocation_change s1 s2"
      using step_invocations [OF step.hyps(2)] by (simp add: system_ok_def tables_ok_def)
    then show ?case
      using invocation_change_unheld [of s1 s2 r] ok step.IH by (simp add: system_ok_def)
  qed
  moreover have "keys_unique (rs_db s')"
    using steps_system_ok [OF assms(2) reachable_system_ok [OF assms(1)]] by (simp add: system_ok_def tables_ok_def)
  ultimately have "find_existing (rs_db s') (aa_tenant_id args) (c_id c) (aa_idempotency_key args) = Some r"
    using find_existing_unique [of "rs_db s'" r] assms(6) by (simp add: key_of_def)
  with assms(4) \<open>r \<in> set (db_invocations (rs_db s')) \<and> _\<close> show ?thesis
    by (simp add: accept_def accept_lookup_def)
qed

section \<open>The life of an invocation\<close>

text \<open>A stored invocation: accepted, running or settled, with the columns that state has.\<close>

definition settled_status :: "string list" where
  "settled_status = [''succeeded'', ''failed_retryable'', ''failed_terminal'', ''timed_out'']"

definition invocation_wf :: "invocation \<Rightarrow> bool" where
  "invocation_wf r \<longleftrightarrow>
     i_status r = ''accepted'' \<and> i_aggregate_version r = 1 \<and> i_started_at r = None \<and> i_completed_at r = None \<and> i_error_code r = None \<or>
     i_status r = ''running'' \<and> i_aggregate_version r = 2 \<and> i_started_at r \<noteq> None \<and> i_completed_at r = None \<and> i_error_code r = None \<or>
     i_status r \<in> set settled_status \<and> i_aggregate_version r \<in> {2, 3} \<and> i_started_at r \<noteq> None \<and> i_completed_at r \<noteq> None \<and>
       (i_status r = ''succeeded'' \<longleftrightarrow> i_error_code r = None)"

definition task_wf :: "task \<Rightarrow> bool" where
  "task_wf t \<longleftrightarrow> invocation_wf (tk_row t) \<and>
     (case tk_phase t of
        TaskAccepted \<Rightarrow> i_status (tk_row t) = ''accepted''
      | TaskStarted \<Rightarrow> i_status (tk_row t) = ''running''
      | TaskAnswered res \<Rightarrow> i_status (tk_row t) \<in> {''accepted'', ''running''} \<and> result_ok res)"

definition rows_wf :: "registry_system \<Rightarrow> bool" where
  "rows_wf s \<longleftrightarrow> (\<forall>r \<in> set (db_invocations (rs_db s)). invocation_wf r) \<and> (\<forall>t \<in> set (rs_tasks s). task_wf t)"

lemma accepted_wf: "invocation_wf (new_invocation w c args)" "i_status (new_invocation w c args) = ''accepted''"
  by (simp_all add: invocation_wf_def new_invocation_def)

lemma started_wf:
  "invocation_wf r \<Longrightarrow> i_status r = ''accepted'' \<Longrightarrow> start_invocation db w r = (db', r') \<Longrightarrow>
     invocation_wf r' \<and> i_status r' = ''running''"
  by (drule start_invocation_simps(1)) (simp add: invocation_wf_def settled_status_def)

lemma finalised_wf:
  assumes "invocation_wf r" "i_status r \<in> {''accepted'', ''running''}" "result_ok res"
  shows "invocation_wf (finalised w r res)"
proof -
  have version: "i_aggregate_version r \<in> {1, 2}"
    using assms(1,2) by (auto simp: invocation_wf_def settled_status_def)
  have "status_value (ir_status res) \<in> set settled_status"
    using result_ok_status [OF assms(3)] by (cases "ir_status res") (simp_all add: settled_status_def)
  moreover have "status_value (ir_status res) = ''succeeded'' \<longleftrightarrow> ir_error_code res = None"
    using assms(3) by (cases "ir_error_code res"; cases "ir_status res")
      (simp_all add: result_ok_def failure_status_def split: if_splits)
  moreover have "i_started_at (finalised w r res) \<noteq> None" "i_completed_at (finalised w r res) \<noteq> None"
    by (simp_all add: finalised_def split: option.split)
  ultimately show ?thesis
    using version by (auto simp: invocation_wf_def)
qed

lemma invocations_wf_update:
  "\<forall>r \<in> set rows. invocation_wf r \<Longrightarrow> invocation_wf r' \<Longrightarrow> \<forall>r \<in> set (update_row i_id r' rows). invocation_wf r"
  by (auto dest!: set_update_row)

lemma rows_wf_same:
  "rows_wf s \<Longrightarrow> db_invocations (rs_db s') = db_invocations (rs_db s) \<Longrightarrow> set (rs_tasks s') \<subseteq> set (rs_tasks s) \<Longrightarrow> rows_wf s'"
  by (auto simp: rows_wf_def)

lemma rows_wf_step:
  assumes "registry_step (build_registry services) s s'" and "rows_wf s"
  shows "rows_wf s'"
  using assms
proof (induction rule: registry_step.induct)
  case (transition db w cid target event actor ten reason key db' res ts cs)
  have "db_invocations db' = db_invocations db"
    using transition(1) by (cases rule: apply_transition_cases) simp_all
  then show ?case by (intro rows_wf_same [OF transition(3)]) simp_all
next
  case (create st env db w caller p db' view ts cs)
  have "db_invocations db' = db_invocations db"
    using create(1) by (cases rule: create_connector_Inr) (simp add: commit_creation_def)
  then show ?case by (intro rows_wf_same [OF create(4)]) simp_all
next
  case (deletion py db w caller cid db' ts cs)
  have "db_invocations db' = db_invocations db"
    using deletion(1) by (auto simp: request_connector_deletion_def Let_def split: sum.splits if_splits)
  then show ?case by (intro rows_wf_same [OF deletion(3)]) simp_all
next
  case (capability db ts cs cid report)
  have "db_invocations (store_capability db cid report) = db_invocations db"
    by (simp add: store_capability_def split: option.split)
  then show ?case by (intro rows_wf_same [OF capability(1)]) simp_all
next
  case (accepted seen cid args c db w db' r ts cs payload)
  have "r = new_invocation w c args" "db_invocations db' = db_invocations db @ [r]"
    using accepted(2) by (auto elim!: accept_cases accept_insert_cases)
  with accepted(5) accepted_wf show ?case by (auto simp: rows_wf_def task_wf_def)
next
  case (unregistered c known db ts r payload us cs py)
  then show ?case by (auto simp: rows_wf_def task_wf_def)
next
  case (started c a db w r db' r' ts payload us cs)
  have r: "invocation_wf r" "i_status r = ''accepted''"
    using started(4) by (simp_all add: rows_wf_def task_wf_def)
  have "db_invocations db' = update_row i_id r' (db_invocations db)"
    using start_invocation_simps(2) [OF started(2)] by simp
  with started(4) started_wf [OF r started(2)] invocations_wf_update [of "db_invocations db" r'] show ?case
    by (auto simp: rows_wf_def task_wf_def)
next
  case (called c a ce r payload sent res db ts us cs)
  have "result_ok res"
    using call_adapter_ok [OF registered_adapter [OF called(1)] called(2)] .
  with called(3) show ?case by (auto simp: rows_wf_def task_wf_def)
next
  case (settled db w r res db' out ts c payload us cs)
  have r: "invocation_wf r" "i_status r \<in> {''accepted'', ''running''}" "result_ok res"
    using settled(3) by (simp_all add: rows_wf_def task_wf_def)
  from settled(1) show ?case
  proof (cases rule: finalise_cases)
    case (stored event)
    then have "db_invocations db' = update_row i_id (finalised w r res) (db_invocations db)"
      by simp
    with settled(3) invocations_wf_update [of "db_invocations db", OF _ finalised_wf [OF r]] show ?thesis
      by (auto simp: rows_wf_def)
  qed (use settled(3) in \<open>auto simp: rows_wf_def\<close>)
next
  case (crashed db ts t us cs)
  show ?case by (rule rows_wf_same [OF crashed(1)]) auto
next
  case (drained db ts cs p env now locked n le)
  show ?case by (rule rows_wf_same [OF drained(1)]) simp_all
qed


section \<open>The handlers refine the steps\<close>

definition draws_fresh :: "registry_db \<Rightarrow> invocation_world \<Rightarrow> bool" where
  "draws_fresh db iw \<longleftrightarrow>
     distinct [w_event_id (iw_accept iw), w_event_id (iw_start iw), w_event_id (iw_final iw)] \<and>
     (\<forall>w \<in> {iw_accept iw, iw_start iw, iw_final iw}. event_unused (w_event_id w) (db_outbox db)) \<and>
     aggregate_unused ''invocation'' (w_row_id (iw_accept iw)) (db_outbox db)"

lemma steps_three: "r a b \<Longrightarrow> r b c \<Longrightarrow> r c d \<Longrightarrow> r\<^sup>*\<^sup>* a d"
  by (blast intro: converse_rtranclp_into_rtranclp)

lemma steps_four: "r a b \<Longrightarrow> r b c \<Longrightarrow> r c d \<Longrightarrow> r d e \<Longrightarrow> r\<^sup>*\<^sup>* a e"
  by (blast intro: converse_rtranclp_into_rtranclp)

lemma event_unused_ids: "event_unused u rows \<longleftrightarrow> u \<notin> set (map o_id rows)"
  by (simp add: event_unused_def)

text \<open>
  C9. The invocation handler is the composition of the system's steps.  Run alone, from acceptance
  to its reply, it takes the database where a sequence of the system's steps takes it, leaves no task
  behind, and calls an adapter at most once; so what holds of every reachable state holds of every
  state the handler produces.
\<close>

theorem invocation_refines_steps:
  assumes run: "run_invocation st iw (rs_db s) c args payload = (sent, db', out)"
    and auth: "authorise_invocation (rs_db s) cid (aa_tenant_id args) = Inr c"
    and alone: "iw_before iw = id" "iw_during iw = id" and fresh: "draws_fresh (rs_db s) iw"
  shows "\<exists>cs. length cs \<le> 1 \<and>
    (registry_step (as_adapters st))\<^sup>*\<^sup>* s \<lparr>rs_db = db', rs_tasks = rs_tasks s, rs_calls = rs_calls s @ cs\<rparr>"
proof -
  let ?step = "registry_step (as_adapters st)"
  let ?db = "rs_db s" and ?task = "\<lambda>r ph. \<lparr>tk_row = r, tk_connector = c, tk_payload = payload, tk_phase = ph\<rparr>"
  let ?s = "\<lambda>db ts cs. \<lparr>rs_db = db, rs_tasks = rs_tasks s @ ts, rs_calls = rs_calls s @ cs\<rparr>"
  have same: "\<lparr>rs_db = ?db, rs_tasks = rs_tasks s, rs_calls = rs_calls s @ []\<rparr> = s"
    by simp
  have surj: "\<lparr>rs_db = ?db, rs_tasks = rs_tasks s, rs_calls = rs_calls s\<rparr> = s"
    by simp
  have stays: "?step\<^sup>*\<^sup>* s \<lparr>rs_db = ?db, rs_tasks = rs_tasks s, rs_calls = rs_calls s @ []\<rparr>"
    unfolding same by (rule rtranclp.rtrancl_refl)
  obtain db1 acc where acc: "accept ?db ?db (iw_accept iw) c args = (db1, acc)"
    by (cases "accept ?db ?db (iw_accept iw) c args") auto
  show ?thesis
  proof (cases acc)
    case (Replayed r in_flight)
    then have "db' = ?db"
      using run acc alone by (auto simp: run_invocation_def elim!: accept_cases accept_insert_cases)
    with stays show ?thesis by (intro exI [of _ "[]"]) (simp only: list.size le0 simp_thms)
  next
    case (AcceptRaises e)
    then have "db' = ?db"
      using run acc alone by (auto simp: run_invocation_def elim!: accept_cases accept_insert_cases)
    with stays show ?thesis by (intro exI [of _ "[]"]) (simp only: list.size le0 simp_thms)
  next
    case (Fresh r)
    have ids1: "map o_id (db_outbox db1) = map o_id (db_outbox ?db) @ [w_event_id (iw_accept iw)]"
      using acc Fresh by (auto elim!: accept_cases accept_insert_cases)
    have step1: "?step (?s ?db [] []) (?s db1 [?task r TaskAccepted] [])"
      using registry_step.accepted [OF auth acc [unfolded Fresh], of "as_adapters st" "rs_tasks s" "rs_calls s" payload] fresh
      by (simp add: draws_fresh_def)
    show ?thesis
    proof (cases "get_adapter (as_adapters st) (c_kind c)")
      case (Inl known)
      let ?res = "failure UNKNOWN_KIND (unknown_kind_text (ae_py (ce_adapter (iw_call iw))) (c_kind c) known) None None None []"
      have "\<exists>out'. finalise db1 (iw_start iw) r ?res = (db', out')"
        using run acc Fresh alone Inl by (auto simp: run_invocation_def execute_def split: prod.splits sum.splits)
      then obtain out' where fin: "finalise db1 (iw_start iw) r ?res = (db', out')"
        by blast
      have step2: "?step (?s db1 [?task r TaskAccepted] []) (?s db1 [?task r (TaskAnswered ?res)] [])"
        by (rule registry_step.unregistered [OF Inl])
      have step3: "?step (?s db1 [?task r (TaskAnswered ?res)] []) (?s db' [] [])"
        by (rule registry_step.settled [OF fin]) (use fresh ids1 in \<open>auto simp: draws_fresh_def event_unused_ids\<close>)
      have "?step\<^sup>*\<^sup>* (?s ?db [] []) (?s db' [] [])"
        by (rule steps_three [where r = ?step, OF step1 step2 step3])
      then show ?thesis by (intro exI [of _ "[]"]) (simp add: surj)
    next
      case (Inr a)
      obtain db2 r2 where start: "start_invocation db1 (iw_start iw) r = (db2, r2)"
        by (cases "start_invocation db1 (iw_start iw) r") auto
      obtain sent' res where call: "call_adapter a (iw_call iw) c r2 payload = (sent', res)"
        by (cases "call_adapter a (iw_call iw) c r2 payload") auto
      have "\<exists>out'. finalise db2 (iw_final iw) r2 res = (db', out')"
        using run acc Fresh alone Inr start call by (auto simp: run_invocation_def execute_def split: prod.splits sum.splits)
      then obtain out' where fin: "finalise db2 (iw_final iw) r2 res = (db', out')"
        by blast
      have ids2: "map o_id (db_outbox db2) = map o_id (db_outbox db1) @ [w_event_id (iw_start iw)]"
        using start_invocation_simps(2) [OF start] by simp
      have step2: "?step (?s db1 [?task r TaskAccepted] []) (?s db2 [?task r2 TaskStarted] [])"
        by (rule registry_step.started [OF Inr start]) (use fresh ids1 in \<open>auto simp: draws_fresh_def event_unused_ids\<close>)
      have step3: "?step (?s db2 [?task r2 TaskStarted] []) (?s db2 [?task r2 (TaskAnswered res)] [key_of r2])"
        using registry_step.called [OF Inr call] by simp
      have step4: "?step (?s db2 [?task r2 (TaskAnswered res)] [key_of r2]) (?s db' [] [key_of r2])"
        by (rule registry_step.settled [OF fin]) (use fresh ids1 ids2 in \<open>auto simp: draws_fresh_def event_unused_ids\<close>)
      have "?step\<^sup>*\<^sup>* (?s ?db [] []) (?s db' [] [key_of r2])"
        by (rule steps_four [where r = ?step, OF step1 step2 step3 step4])
      then show ?thesis by (intro exI [of _ "[key_of r2]"]) (simp add: surj)
    qed
  qed
qed

section \<open>Witnesses\<close>

text \<open>A connector is created enabled, an invocation of it is accepted, and its process dies.\<close>

definition live_create :: connector_create where
  "live_create = example_create\<lparr>cr_status := ENABLED\<rparr>"

definition live_connector :: connector where
  "live_connector = new_connector example_world ''t1'' live_create service_config (validation_ok True GATEWAY_DEDUP_ONLY)"

lemma live_connector [simp]:
  "c_id live_connector = ''r''" "c_tenant_id live_connector = ''t1''" "c_status live_connector = ''enabled''"
  "c_kind live_connector = ''internal''" "c_version live_connector = 1"
  by (simp_all add: live_connector_def new_connector_def live_create_def example_create_def example_world_def)

lemma registry_step_db:
  "registry_step reg s (s\<lparr>rs_db := db'\<rparr>)" if "registry_step reg \<lparr>rs_db = rs_db s, rs_tasks = rs_tasks s, rs_calls = rs_calls s\<rparr>
     \<lparr>rs_db = db', rs_tasks = rs_tasks s, rs_calls = rs_calls s\<rparr>"
  using that by (cases s) simp

lemma trace_created:
  "\<exists>s. reachable_registry reg s \<and> db_connectors (rs_db s) = [live_connector] \<and> db_invocations (rs_db s) = [] \<and>
     rs_tasks s = [] \<and> rs_calls s = [] \<and> length (db_audit (rs_db s)) = 1 \<and> map o_id (db_outbox (rs_db s)) = [''e''] \<and>
     (\<forall>e \<in> set (db_outbox (rs_db s)). o_aggregate_type e = ''connector'')"
proof -
  have create: "create_errors (ae_py example_env) live_create = []" "cr_kind live_create = ''internal''"
    "cr_config live_create = service_config" "cr_base_url live_create = None"
    by code_simp+
  have valid: "ad_validate (internal_adapter services) example_env service_config = Inr (validation_ok True GATEWAY_DEDUP_ONLY)"
    by (simp add: internal_adapter_def service_validates)
  have storable: "connector_storable (example_caller ''t1'') live_connector"
    unfolding live_connector_def by code_simp
  let ?db = "commit_creation (ae_py example_env) empty_db example_world (example_caller ''t1'') live_connector"
  have "create_connector example_settings example_env empty_db example_world (example_caller ''t1'') live_create =
      (?db, Inr (to_schema (ae_py example_env) live_connector))"
    using storable
    by (simp add: create_connector_def create valid get_internal_adapter name_taken_def Let_def validation_ok_def empty_db_def
        live_connector_def)
  then have "registry_step reg empty_registry \<lparr>rs_db = ?db, rs_tasks = [], rs_calls = []\<rparr>"
    unfolding empty_registry_def
    by (rule registry_step.create) (simp_all add: event_unused_def aggregate_unused_def empty_db_def)
  then have "reachable_registry reg \<lparr>rs_db = ?db, rs_tasks = [], rs_calls = []\<rparr>"
    unfolding reachable_registry_def by blast
  moreover have "w_event_id example_world = ''e''"
    by (simp add: example_world_def)
  ultimately show ?thesis
    by (intro exI [of _ "\<lparr>rs_db = ?db, rs_tasks = [], rs_calls = []\<rparr>"])
      (simp add: commit_creation_def empty_db_def enqueue_def new_event_def)
qed

definition later_world :: world where
  "later_world = \<lparr>w_now = 6, w_row_id = ''r2'', w_audit_id = ''a2'', w_event_id = ''e2''\<rparr>"

lemma later_world [simp]: "w_row_id later_world = ''r2''" "w_event_id later_world = ''e2''"
  by (simp_all add: later_world_def)

definition live_invocation :: invocation where
  "live_invocation = new_invocation later_world live_connector service_args"

lemma live_invocation [simp]:
  "key_of live_invocation = (''t1'', ''r'', ''key-0001'')" "i_status live_invocation = ''accepted''"
  by (simp_all add: live_invocation_def)

lemma trace_accepted:
  "\<exists>s payload. reachable_registry reg s \<and> db_connectors (rs_db s) = [live_connector] \<and> db_invocations (rs_db s) = [live_invocation] \<and>
     rs_tasks s = [\<lparr>tk_row = live_invocation, tk_connector = live_connector, tk_payload = payload, tk_phase = TaskAccepted\<rparr>]"
proof -
  obtain s where s: "reachable_registry reg s" "db_connectors (rs_db s) = [live_connector]" "db_invocations (rs_db s) = []"
    "rs_tasks s = []" "rs_calls s = []" "map o_id (db_outbox (rs_db s)) = [''e'']"
    "\<forall>e \<in> set (db_outbox (rs_db s)). o_aggregate_type e = ''connector''"
    using trace_created [of reg] by (elim exE conjE) (rule that)
  have auth: "authorise_invocation (rs_db s) ''r'' (aa_tenant_id service_args) = Inr live_connector"
    by (simp add: authorise_invocation_Inr s(2))
  have fits: "row_fits live_invocation"
    by (simp add: live_invocation_def row_fits_def fits_def fits_opt_def new_invocation_def service_args_def)
  have "i_id live_invocation = ''r2''"
    by (simp add: live_invocation_def)
  with fits obtain db' where acc: "accept (rs_db s) (rs_db s) later_world live_connector service_args = (db', Fresh live_invocation)"
    "db_connectors db' = [live_connector]" "db_invocations db' = [live_invocation]"
    using s(2,3) by (simp add: accept_def accept_lookup_def accept_insert_def Let_def find_existing_def flip: live_invocation_def)
  have unused: "event_unused (w_event_id later_world) (db_outbox (rs_db s))"
    using s(6) by (auto simp: event_unused_def simp flip: set_map)
  have "registry_step reg \<lparr>rs_db = rs_db s, rs_tasks = [], rs_calls = []\<rparr>
      \<lparr>rs_db = db', rs_tasks = [] @ [\<lparr>tk_row = live_invocation, tk_connector = live_connector, tk_payload = [], tk_phase = TaskAccepted\<rparr>],
       rs_calls = []\<rparr>"
    by (rule registry_step.accepted [OF auth acc(1) unused]) (use s(7) in \<open>auto simp: aggregate_unused_def\<close>)
  moreover have "s = \<lparr>rs_db = rs_db s, rs_tasks = [], rs_calls = []\<rparr>"
    using s(4,5) by simp
  ultimately have "reachable_registry reg
      \<lparr>rs_db = db', rs_tasks = [\<lparr>tk_row = live_invocation, tk_connector = live_connector, tk_payload = [], tk_phase = TaskAccepted\<rparr>],
       rs_calls = []\<rparr>"
    using s(1) unfolding reachable_registry_def by (metis append_Nil rtranclp.rtrancl_into_rtrancl)
  with acc show ?thesis by force
qed


theorem at_most_one_call_per_key_witness:
  "\<exists>s. reachable_registry [] s \<and> db_invocations (rs_db s) = [live_invocation] \<and> set (rs_calls s) \<subseteq> {(''t1'', ''r'', ''key-0001'')}"
proof -
  obtain s where s: "reachable_registry [] s" "db_invocations (rs_db s) = [live_invocation]"
    using trace_accepted by blast
  with at_most_one_call_per_key [OF s(1)] show ?thesis
    by auto
qed

theorem audit_trail_is_consistent_witness:
  "\<exists>s. reachable_registry [] s \<and> length (db_audit (rs_db s)) = 1 \<and> (\<forall>a \<in> set (db_audit (rs_db s)). a_aggregate_version a \<le> 1)"
proof -
  obtain s where s: "reachable_registry [] s" "length (db_audit (rs_db s)) = 1" "db_connectors (rs_db s) = [live_connector]"
    using trace_created by blast
  with audit_trail_is_consistent [OF s(1)] show ?thesis
    by (fastforce split: if_splits)
qed


theorem orphaned_invocation_never_settles_witness:
  "\<exists>s. reachable_registry [] s \<and> rs_tasks s = [] \<and> accept (rs_db s) (rs_db s) later_world live_connector service_args =
     (rs_db s, Replayed live_invocation True)"
proof -
  obtain s payload where s: "reachable_registry [] s" "db_invocations (rs_db s) = [live_invocation]"
    "rs_tasks s = [\<lparr>tk_row = live_invocation, tk_connector = live_connector, tk_payload = payload, tk_phase = TaskAccepted\<rparr>]"
    using trace_accepted by blast
  let ?s = "\<lparr>rs_db = rs_db s, rs_tasks = [], rs_calls = rs_calls s\<rparr>"
  have "registry_step [] \<lparr>rs_db = rs_db s, rs_tasks = [] @ hd (rs_tasks s) # [], rs_calls = rs_calls s\<rparr>
      \<lparr>rs_db = rs_db s, rs_tasks = [] @ [], rs_calls = rs_calls s\<rparr>"
    by (rule registry_step.crashed)
  moreover have "s = \<lparr>rs_db = rs_db s, rs_tasks = [] @ hd (rs_tasks s) # [], rs_calls = rs_calls s\<rparr>"
    using s(3) by simp
  ultimately have reach: "reachable_registry [] ?s"
    using s(1) unfolding reachable_registry_def by (metis append_Nil rtranclp.rtrancl_into_rtrancl)
  have "key_of live_invocation = (aa_tenant_id service_args, c_id live_connector, aa_idempotency_key service_args)"
    by simp
  from orphaned_invocation_never_settles [OF reach rtranclp.rtrancl_refl, of live_invocation, OF _ _ _ this] s(2)
  show ?thesis
    using reach by (intro exI [of _ ?s]) (simp add: in_flight_status_def)
qed


text \<open>The handler on the connector of the trace, past its deadline.\<close>

lemma example_draws_fresh:
  "map o_id (db_outbox db) = [''e''] \<Longrightarrow> \<forall>e \<in> set (db_outbox db). o_aggregate_type e = ''connector'' \<Longrightarrow>
     draws_fresh db (example_iw ce\<lparr>iw_accept := later_world, iw_start := later_world\<lparr>w_event_id := ''e3''\<rparr>,
       iw_final := later_world\<lparr>w_event_id := ''e4''\<rparr>\<rparr>)"
  by (simp add: draws_fresh_def event_unused_ids aggregate_unused_def)

theorem invocation_refines_steps_witness:
  "\<exists>s sent db' out cs. reachable_registry (build_registry services) s \<and>
     run_invocation example_settings (example_iw late_call\<lparr>iw_accept := later_world, iw_start := later_world\<lparr>w_event_id := ''e3''\<rparr>,
       iw_final := later_world\<lparr>w_event_id := ''e4''\<rparr>\<rparr>) (rs_db s) live_connector service_args [] = (sent, db', out) \<and>
     reachable_registry (build_registry services) \<lparr>rs_db = db', rs_tasks = [], rs_calls = cs\<rparr>"
proof -
  let ?iw = "example_iw late_call\<lparr>iw_accept := later_world, iw_start := later_world\<lparr>w_event_id := ''e3''\<rparr>,
    iw_final := later_world\<lparr>w_event_id := ''e4''\<rparr>\<rparr>"
  obtain s where s: "reachable_registry (build_registry services) s" "db_connectors (rs_db s) = [live_connector]"
    "rs_tasks s = []" "map o_id (db_outbox (rs_db s)) = [''e'']"
    "\<forall>e \<in> set (db_outbox (rs_db s)). o_aggregate_type e = ''connector''"
    using trace_created [of "build_registry services"] by (elim exE conjE) (rule that)
  obtain sent db' out where run: "run_invocation example_settings ?iw (rs_db s) live_connector service_args [] = (sent, db', out)"
    by (cases "run_invocation example_settings ?iw (rs_db s) live_connector service_args []") auto
  have "authorise_invocation (rs_db s) ''r'' (aa_tenant_id service_args) = Inr live_connector"
    by (simp add: authorise_invocation_Inr s(2))
  from invocation_refines_steps [OF run this _ _ example_draws_fresh [OF s(4,5)]] obtain cs where
    "(registry_step (build_registry services))\<^sup>*\<^sup>* s \<lparr>rs_db = db', rs_tasks = [], rs_calls = rs_calls s @ cs\<rparr>"
    using s(3) by auto
  then have "reachable_registry (build_registry services) \<lparr>rs_db = db', rs_tasks = [], rs_calls = rs_calls s @ cs\<rparr>"
    using s(1) unfolding reachable_registry_def by (meson rtranclp_trans)
  with s run show ?thesis by blast
qed

end
