(* ===== verification/TenantIsolation.thy ===== *)
theory TenantIsolation
  imports RegistrySystem
begin

text \<open>
  Tenants as separate views of one database.  A tenant's view is its connectors, its invocations and
  its audit rows; what a route answers is a function of the caller's view, and what a route writes
  leaves every other view as it is.
\<close>

record tenant_view =
  tv_connectors :: "connector list"
  tv_invocations :: "invocation list"
  tv_audit :: "audit_entry list"

definition view :: "string \<Rightarrow> registry_db \<Rightarrow> tenant_view" where
  "view t db =
     \<lparr>tv_connectors = filter (\<lambda>c. c_tenant_id c = t) (db_connectors db),
      tv_invocations = filter (\<lambda>r. i_tenant_id r = t) (db_invocations db),
      tv_audit = filter (\<lambda>a. a_tenant_id a = t) (db_audit db)\<rparr>"

section \<open>Looking up within a view\<close>

lemma find_row_filter:
  "distinct (map key rows) \<Longrightarrow>
     find_row key i (filter P rows) = (case find_row key i rows of Some r \<Rightarrow> if P r then Some r else None | None \<Rightarrow> None)"
proof (induction rows)
  case Nil
  then show ?case by (simp add: find_row_def)
next
  case (Cons r rows)
  have "find_row key i rows = None" if "key r = i"
    using Cons.prems that by (auto simp: find_row_None)
  with Cons show ?case by (auto simp: find_row_def)
qed

lemma tenant_connector_view:
  "distinct (map c_id (db_connectors db)) \<Longrightarrow>
     tenant_connector db cid t =
       (case find_row c_id cid (tv_connectors (view t db)) of None \<Rightarrow> Inl not_found | Some c \<Rightarrow> Inr c)"
  by (simp add: view_def find_row_filter tenant_connector_def not_found_def split: option.split)

lemma filter_twice: "filter P xs = filter P (filter Q xs)" if "\<And>x. P x \<Longrightarrow> Q x"
  by (induction xs) (auto dest: that)

lemma audit_trail_view: "audit_trail db cid t = sort_key a_aggregate_version (filter (\<lambda>a. a_connector_id a = cid) (tv_audit (view t db)))"
  by (simp add: audit_trail_def view_def conj_commute)

lemma list_connectors_view:
  "list_connectors py db include_deleted t =
     map (to_schema py) (sort_key c_created_at
       (filter (\<lambda>c. include_deleted \<or> c_status c \<noteq> state_value DELETED) (tv_connectors (view t db))))"
  by (simp add: list_connectors_def view_def)

lemma list_invocations_view:
  "list_invocations py db cid status limit before t =
     list_invocations py (db\<lparr>db_invocations := tv_invocations (view t db)\<rparr>) cid status limit before t"
  by (simp add: list_invocations_def view_def)

lemma find_existing_view: "find_existing db t cid key = List.find (same_key t cid key) (tv_invocations (view t db))"
proof -
  have "List.find (same_key t cid key) rows = List.find (same_key t cid key) (filter (\<lambda>r. i_tenant_id r = t) rows)" for rows
    by (induction rows) (auto simp: same_key_def)
  then show ?thesis by (simp add: find_existing_def view_def)
qed

text \<open>
  C13. Answers depend on the caller's tenant alone.  Two databases that agree on a tenant's view give
  its callers the same answer on every reading route, the same health report, the same decision on
  whether an invocation may run, and the same replay; nothing another tenant stores can be observed.
\<close>

theorem answers_depend_on_own_view:
  assumes same: "view t db = view t db'"
    and ids: "distinct (map c_id (db_connectors db))" "distinct (map c_id (db_connectors db'))"
      "distinct (map i_id (db_invocations db))" "distinct (map i_id (db_invocations db'))"
  shows "list_connectors py db include_deleted t = list_connectors py db' include_deleted t \<and>
    get_connector py db cid t = get_connector py db' cid t \<and>
    connector_audit py db cid t = connector_audit py db' cid t \<and>
    connector_health s env db cid t = connector_health s env db' cid t \<and>
    authorise_invocation db cid t = authorise_invocation db' cid t \<and>
    find_existing db t cid key = find_existing db' t cid key \<and>
    list_invocations py db conn status limit before t = list_invocations py db' conn status limit before t \<and>
    get_invocation py db iid t = get_invocation py db' iid t"
proof -
  have connector: "tenant_connector db cid t = tenant_connector db' cid t"
    using same ids by (simp add: tenant_connector_view)
  have "tv_invocations (view t db) = tv_invocations (view t db')"
    using same by simp
  then have lists: "list_invocations py db conn status limit before t = list_invocations py db' conn status limit before t"
    by (subst (1 2) list_invocations_view) (simp add: list_invocations_def)
  have invocation: "get_invocation py d iid t =
      (case find_row i_id iid (tv_invocations (view t d)) of
         None \<Rightarrow> Inl (HTTPException 404 (JStr ''Invocation not found'')) | Some r \<Rightarrow> Inr (invocation_schema py r))"
    if "distinct (map i_id (db_invocations d))" for d
    using that by (simp add: get_invocation_def view_def find_row_filter split: option.split)
  have "audit_trail db cid t = audit_trail db' cid t"
    using same by (simp add: audit_trail_view)
  with connector have "connector_audit py db cid t = connector_audit py db' cid t"
    by (simp add: connector_audit_def split: sum.split)
  moreover have "get_connector py db cid t = get_connector py db' cid t"
    "connector_health s env db cid t = connector_health s env db' cid t"
    "authorise_invocation db cid t = authorise_invocation db' cid t"
    using connector by (simp_all add: get_connector_def connector_health_def authorise_invocation_def)
  moreover have "list_connectors py db include_deleted t = list_connectors py db' include_deleted t"
    "find_existing db t cid key = find_existing db' t cid key"
    using same by (simp_all add: list_connectors_view find_existing_view)
  moreover have "get_invocation py db iid t = get_invocation py db' iid t"
    using same ids by (simp add: invocation)
  ultimately show ?thesis
    using lists by blast
qed

section \<open>Writing within a view\<close>

lemma filter_update_row:
  assumes "distinct (map key rows)" "find_row key (key r) rows = Some r0" "\<not> P r0" "\<not> P r"
  shows "filter P (update_row key r rows) = filter P rows"
proof -
  have "filter P (map (\<lambda>x. if key x = key r then r else x) xs) = filter P xs"
    if "\<forall>x \<in> set xs. key x = key r \<longrightarrow> \<not> P x" for xs
    using that assms(4) by (induction xs) auto
  moreover have "x = r0" if "x \<in> set rows" "key x = key r" for x
    using find_row_distinct [OF assms(1) that(1)] that(2) assms(2) by simp
  ultimately show ?thesis
    using assms(3) by (auto simp: update_row_def)
qed

lemma view_apply_transition:
  assumes "apply_transition db w cid target event actor ten reason key = Inr (db', res)"
    and "distinct (map c_id (db_connectors db))" "t \<noteq> ten"
  shows "view t db' = view t db"
  using assms(1)
proof (cases rule: apply_transition_cases)
  case (repeated row tr)
  then show ?thesis by simp
next
  case (moved row tr)
  have id: "c_id row = cid"
    using find_row_Some [OF moved(1)] by simp
  have "filter (\<lambda>c. c_tenant_id c = t) (update_row c_id (move_connector w tr reason row) (db_connectors db)) =
      filter (\<lambda>c. c_tenant_id c = t) (db_connectors db)"
    using assms(2,3) moved(1,2) id by (intro filter_update_row [where ?r0.0 = row]) simp_all
  with assms(3) show ?thesis
    by (simp add: moved(8) view_def audit_row_def)
qed

lemma view_store_capability:
  assumes "tenant_connector db cid ten = Inr c" "distinct (map c_id (db_connectors db))" "t \<noteq> ten"
  shows "view t (store_capability db cid report) = view t db"
proof -
  let ?c = "c\<lparr>c_supports_idempotency := vr_supports_idempotency report, c_idempotency_mode := mode_value (vr_idempotency_mode report)\<rparr>"
  have row: "find_row c_id cid (db_connectors db) = Some c" "c_tenant_id c = ten" "c_id c = cid"
    using assms(1) find_row_Some [of c_id cid "db_connectors db" c] by (auto simp: tenant_connector_Inr)
  have "filter (\<lambda>c. c_tenant_id c = t) (update_row c_id ?c (db_connectors db)) =
      filter (\<lambda>c. c_tenant_id c = t) (db_connectors db)"
    using assms(2,3) row by (intro filter_update_row [where ?r0.0 = c]) simp_all
  with row(1) show ?thesis
    by (simp add: store_capability_def view_def)
qed

lemma view_transition_handler:
  assumes "distinct (map c_id (db_connectors db))" "t \<noteq> ci_tenant_id caller"
  shows "view t (fst (transition_handler py db w cid caller target event body)) = view t db"
  using view_apply_transition [OF _ assms]
  by (auto simp: transition_handler_def Let_def split: sum.split prod.split option.split)

lemma view_create_connector:
  assumes "t \<noteq> ci_tenant_id caller"
  shows "view t (fst (create_connector s env db w caller p)) = view t db"
proof (cases "create_connector s env db w caller p")
  case (Pair db' out)
  show ?thesis
  proof (cases out)
    case (Inl e)
    with Pair have "db' = db"
      by (auto simp: create_connector_def Let_def split: if_splits sum.splits raised.splits)
    with Pair show ?thesis by simp
  next
    case (Inr v)
    from Pair [unfolded Inr] show ?thesis
      by (cases rule: create_connector_Inr)
        (use Pair assms in \<open>simp add: view_def commit_creation_def creation_audit_def new_connector_def\<close>)
  qed
qed

lemma view_deletion:
  assumes "distinct (map c_id (db_connectors db))" "t \<noteq> ci_tenant_id caller"
  shows "view t (fst (request_connector_deletion py db w caller cid)) = view t db"
proof (cases "tenant_connector db cid (ci_tenant_id caller)")
  case (Inl e)
  then show ?thesis by (simp add: request_connector_deletion_def)
next
  case (Inr c)
  then have row: "find_row c_id cid (db_connectors db) = Some c" "c_tenant_id c = ci_tenant_id caller" "c_id c = cid"
    using find_row_Some [of c_id cid "db_connectors db" c] by (auto simp: tenant_connector_Inr)
  have "filter (\<lambda>c. c_tenant_id c = t) (update_row c_id (request_deletion w caller c) (db_connectors db)) =
      filter (\<lambda>c. c_tenant_id c = t) (db_connectors db)"
    using assms row by (intro filter_update_row [where ?r0.0 = c]) (simp_all add: request_deletion_def)
  with Inr show ?thesis
    by (simp add: request_connector_deletion_def Let_def view_def)
qed

lemma apply_transition_tenant:
  assumes "apply_transition db w cid target event actor ten reason key = Inr (db', res)"
    "tenant_connector db cid ten = Inr c" "distinct (map c_id (db_connectors db))"
  shows "distinct (map c_id (db_connectors db')) \<and> (\<exists>c'. tenant_connector db' cid ten = Inr c')"
  using assms(1)
proof (cases rule: apply_transition_cases)
  case (repeated row tr)
  with assms show ?thesis by simp
next
  case (moved row tr)
  have "c_id row = cid"
    using find_row_Some [OF moved(1)] by simp
  then have "find_row c_id cid (db_connectors db') = Some (move_connector w tr reason row)"
    using find_row_updated [OF moved(1), of "move_connector w tr reason row"] by (simp add: moved(8))
  with moved(2,8) assms(3) show ?thesis
    by (simp add: tenant_connector_Inr)
qed

lemma view_validate_connector:
  assumes ids: "distinct (map c_id (db_connectors db))" and t: "t \<noteq> ci_tenant_id caller"
  shows "view t (fst (validate_connector s env db w caller cid)) = view t db"
proof (cases "tenant_connector db cid (ci_tenant_id caller)")
  case (Inl e)
  then show ?thesis by (simp add: validate_connector_def)
next
  case c: (Inr c)
  show ?thesis
  proof (cases "validate_connector s env db w caller cid")
    case (Pair db' out)
    show ?thesis
    proof (cases out)
      case (Inl e)
      with Pair c have "db' = db"
        by (auto simp: validate_connector_def split: sum.splits raised.splits apply_error.splits prod.splits)
      with Pair show ?thesis by simp
    next
      case (Inr report)
      obtain a where a: "get_adapter (as_adapters s) (c_kind c) = Inr a"
        using Pair Inr c by (auto simp: validate_connector_def split: sum.splits)
      obtain r where r: "ad_validate a env (c_config c) = Inr r"
        using Pair Inr c a by (cases "ad_validate a env (c_config c)") (auto simp: validate_connector_def split: raised.splits)
      note out = validate_connector_report [OF Pair [unfolded Inr] c a r]
      show ?thesis
      proof (cases "db' = store_capability db cid r")
        case True
        then show ?thesis
          using view_store_capability [OF c ids t] Pair by simp
      next
        case False
        then obtain target event reason db1 res where
          app: "apply_transition db w cid target event (ci_actor_id caller) (ci_tenant_id caller) reason None = Inr (db1, res)"
          and db': "db' = store_capability db1 cid r"
          using out by (auto split: sum.splits)
        obtain c1 where "distinct (map c_id (db_connectors db1))" "tenant_connector db1 cid (ci_tenant_id caller) = Inr c1"
          using apply_transition_tenant [OF app c ids] by blast
        then show ?thesis
          using view_store_capability t view_apply_transition [OF app ids t] Pair by (simp add: db')
      qed
    qed
  qed
qed

lemma view_invocations:
  assumes "distinct (map i_id (db_invocations d))" "find_row i_id (i_id r) (db_invocations d) = Some r0"
    "i_tenant_id r0 \<noteq> t" "i_tenant_id r \<noteq> t"
  shows "view t (d\<lparr>db_invocations := update_row i_id r (db_invocations d), db_outbox := out\<rparr>) = view t d"
proof -
  have "filter (\<lambda>r. i_tenant_id r = t) (update_row i_id r (db_invocations d)) = filter (\<lambda>r. i_tenant_id r = t) (db_invocations d)"
    using assms by (intro filter_update_row [where ?r0.0 = r0]) simp_all
  then show ?thesis by (simp add: view_def)
qed

lemma view_finalise:
  assumes "distinct (map i_id (db_invocations d))" "find_row i_id (i_id r) (db_invocations d) = Some r0"
    "i_tenant_id r0 \<noteq> t" "i_tenant_id r \<noteq> t" "finalise d w r res = (d', out)"
  shows "view t d' = view t d"
  using assms(5)
proof (cases rule: finalise_cases)
  case (stored event)
  have "i_tenant_id (finalised w r res) \<noteq> t"
    using assms(4) by (simp add: finalised_def)
  then show ?thesis
    unfolding stored(4) using assms(1-3) by (intro view_invocations [where ?r0.0 = r0]) simp_all
qed simp_all

lemma view_run_invocation:
  assumes run: "run_invocation s iw db c args payload = (sent, db', out)" and ids: "distinct (map i_id (db_invocations db))"
    and t: "t \<noteq> aa_tenant_id args" and alone: "iw_before iw = id" "iw_during iw = id"
  shows "view t db' = view t db"
proof -
  obtain db1 acc where acc: "accept db db (iw_accept iw) c args = (db1, acc)"
    by (cases "accept db db (iw_accept iw) c args") auto
  show ?thesis
  proof (cases acc)
    case (Fresh r)
    from acc [unfolded Fresh] obtain fresh: "r = new_invocation (iw_accept iw) c args" "i_id r \<notin> i_id ` set (db_invocations db)"
      "db_invocations db1 = db_invocations db @ [r]" "db_connectors db1 = db_connectors db" "db_audit db1 = db_audit db"
      by (auto elim!: accept_cases accept_insert_cases)
    have tenant: "i_tenant_id r \<noteq> t"
      using t by (simp add: fresh(1) new_invocation_def)
    have view1: "view t db1 = view t db"
      using tenant fresh by (simp add: view_def)
    have ids1: "distinct (map i_id (db_invocations db1))" and row: "find_row i_id (i_id r) (db_invocations db1) = Some r"
      using ids fresh(2) find_row_None [of i_id "i_id r" "db_invocations db"] by (simp_all add: fresh(3) find_row_append)
    show ?thesis
    proof (cases "get_adapter (as_adapters s) (c_kind c)")
      case (Inl known)
      then obtain res out' where "finalise db1 (iw_start iw) r res = (db', out')"
        using run acc Fresh alone by (auto simp: run_invocation_def execute_def split: prod.splits sum.splits)
      from view_finalise [OF ids1 row tenant tenant this] view1 show ?thesis by simp
    next
      case (Inr a)
      obtain db2 r2 where start: "start_invocation db1 (iw_start iw) r = (db2, r2)"
        by (cases "start_invocation db1 (iw_start iw) r") auto
      note r2 = start_invocation_simps [OF start]
      obtain res out' where fin: "finalise db2 (iw_final iw) r2 res = (db', out')"
        using run acc Fresh alone Inr start by (auto simp: run_invocation_def execute_def split: prod.splits sum.splits)
      have same: "i_id r2 = i_id r" "i_tenant_id r2 = i_tenant_id r"
        by (simp_all add: r2(1))
      have "view t db2 = view t db1"
        unfolding r2(2) using ids1 row tenant same by (intro view_invocations [where ?r0.0 = r]) simp_all
      moreover have "distinct (map i_id (db_invocations db2))" "find_row i_id (i_id r2) (db_invocations db2) = Some r2"
        using ids1 find_row_updated [OF row, of r2] same by (simp_all add: r2(2))
      ultimately show ?thesis
        using view_finalise [OF _ _ _ _ fin] tenant same view1 by metis
    qed
  qed (use run acc alone in \<open>auto simp: run_invocation_def elim!: accept_cases accept_insert_cases\<close>)
qed

text \<open>
  C14. Writes stay within the caller's tenant.  Whatever a request of one tenant asks for and however
  it ends, creating, moving, validating, deleting, rotating and invoking on either route leave every
  other tenant's connectors, invocations and audit rows exactly as they are.
\<close>

theorem writes_stay_in_own_view:
  assumes t: "t \<noteq> ci_tenant_id caller" and ids: "distinct (map c_id (db_connectors db))" "distinct (map i_id (db_invocations db))"
    and alone: "iw_before iw = id" "iw_during iw = id"
  shows "view t (fst (create_connector s env db w caller p)) = view t db \<and>
    view t (fst (lifecycle_handler py ep db w cid caller body)) = view t db \<and>
    view t (fst (rotate_connector_credentials py db w cid caller body)) = view t db \<and>
    view t (fst (validate_connector s env db w caller cid)) = view t db \<and>
    view t (fst (request_connector_deletion py db w caller cid)) = view t db \<and>
    view t (fst (snd (invoke_connector_v1 s iw db caller cid q rid tp))) = view t db \<and>
    view t (fst (snd (invoke_connector_internal s iw db token (ci_tenant_id caller) cid payload))) = view t db"
proof -
  have run: "view t db' = view t db"
    if "run_invocation s iw db c args body = (sent, db', out)" "aa_tenant_id args = ci_tenant_id caller" for c args body sent db' out
    using view_run_invocation [OF that(1) ids(2) _ alone] that(2) t by simp
  have "view t (fst (snd (invoke_connector_v1 s iw db caller cid q rid tp))) = view t db"
    using run by (auto simp: invoke_connector_v1_def Let_def split: prod.split sum.split)
  moreover have "view t (fst (snd (invoke_connector_internal s iw db token (ci_tenant_id caller) cid payload))) = view t db"
    using run
    by (auto simp: invoke_connector_internal_def Let_def split: prod.split sum.split option.split pyfloat.split)
  moreover have "view t (fst (lifecycle_handler py ep db w cid caller body)) = view t db"
    "view t (fst (rotate_connector_credentials py db w cid caller body)) = view t db"
    using view_transition_handler [OF ids(1) t]
    by (simp_all add: lifecycle_handler_def rotate_connector_credentials_def split: prod.split sum.split option.split)
  ultimately show ?thesis
    using view_create_connector [OF t] view_validate_connector [OF ids(1) t] view_deletion [OF ids(1) t] by blast
qed

section \<open>Witnesses\<close>

text \<open>To tenant t2 the service with a connector of t1 is an empty one, and t1's calls are invisible.\<close>

lemma service_view: "view ''t2'' service_db = view ''t2'' empty_db"
  by (simp add: view_def service_db_def empty_db_def)

theorem answers_depend_on_own_view_witness:
  "list_connectors example_python service_db True ''t2'' = list_connectors example_python empty_db True ''t2'' \<and>
   get_connector example_python service_db ''c1'' ''t2'' = get_connector example_python empty_db ''c1'' ''t2''"
  using answers_depend_on_own_view [OF service_view] by (simp add: empty_db_def)

theorem writes_stay_in_own_view_witness:
  "view ''t2'' (fst (snd (invoke_connector_v1 example_settings (example_iw prompt_call) service_db (example_caller ''t1'') ''c1''
     example_call None None))) = view ''t2'' empty_db"
  using writes_stay_in_own_view [of "''t2''" "example_caller ''t1''" service_db "example_iw prompt_call"] service_view
  by simp

end
