(* ===== verification/Schema.thy ===== *)
theory Schema
  imports Prelude
begin

text \<open>
  A relational schema and the statements the migrations under \<open>services/*/migrations/versions\<close> are
  written in.  A database is a schema (tables with their columns, constraints, indexes and triggers)
  and, per table, its rows; a row is the list of its cells in column order.  A statement first changes
  the schema and then the rows, and is refused when a row breaks a constraint, as SQL prescribes;
  \<open>NULL\<close> follows three-valued logic.  The schema a statement leaves does not depend on the rows.
\<close>

section \<open>Values, columns, tables\<close>

datatype sqlval = SNull | SText string | SBool bool | SInt int | STime time | SJson json | SArray "string list"

datatype coltype =
    UUID_TYPE | STRING_TYPE nat | TEXT_TYPE | BOOLEAN_TYPE | INTEGER_TYPE | BIGINTEGER_TYPE
  | DATETIME_TYPE | JSONB_TYPE | STRING_ARRAY_TYPE

datatype server_default = NoDefault | DefaultText string | DefaultBool bool | DefaultNow

datatype column = Column (cl_name: string) (cl_type: coltype) (cl_nullable: bool) (cl_default: server_default)

datatype check = In_values (ck_name: string) (ck_column: string) (ck_values: "string list")

datatype unique = Unique (uq_name: string) (uq_columns: "string list")

datatype foreign_key = Restrict (fk_column: string) (fk_table: string) (fk_target: string)

datatype index_key = Ascending (key_column: string) | Descending (key_column: string)

datatype index = Index (ix_name: string) (ix_keys: "index_key list") (ix_where: "(string \<times> string) option")

record table =
  tb_columns :: "column list"
  tb_primary :: "string list"
  tb_checks :: "check list"
  tb_uniques :: "unique list"
  tb_foreign :: "foreign_key list"
  tb_indexes :: "index list"
  tb_triggers :: "(string \<times> string) list"

record schema =
  sc_tables :: "(string \<times> table) list"
  sc_functions :: "string list"

type_synonym row = "(string \<times> sqlval) list"
type_synonym data = "string \<Rightarrow> row list"

definition cell :: "string \<Rightarrow> row \<Rightarrow> sqlval" where
  "cell c r = (case map_of r c of Some v \<Rightarrow> v | None \<Rightarrow> SNull)"

definition set_cell :: "string \<Rightarrow> sqlval \<Rightarrow> row \<Rightarrow> row" where
  "set_cell c v r = map (\<lambda>(k, x). (k, if k = c then v else x)) r"

definition drop_cell :: "string \<Rightarrow> row \<Rightarrow> row" where
  "drop_cell c r = filter (\<lambda>(k, x). k \<noteq> c) r"

definition find_table :: "string \<Rightarrow> schema \<Rightarrow> table option" where
  "find_table t s = map_of (sc_tables s) t"

section \<open>Defaults\<close>

definition digits_value :: "string \<Rightarrow> int" where
  "digits_value s = foldl (\<lambda>n c. 10 * n + (int (of_char c) - 48)) 0 s"

fun default_value :: "time \<Rightarrow> coltype \<Rightarrow> server_default \<Rightarrow> sqlval" where
  "default_value now ty NoDefault = SNull"
| "default_value now ty (DefaultBool b) = SBool b"
| "default_value now ty DefaultNow = STime now"
| "default_value now INTEGER_TYPE (DefaultText s) = SInt (digits_value s)"
| "default_value now BIGINTEGER_TYPE (DefaultText s) = SInt (digits_value s)"
| "default_value now JSONB_TYPE (DefaultText s) = SJson (if s = ''{}'' then JObj [] else JStr s)"
| "default_value now STRING_ARRAY_TYPE (DefaultText s) = SArray []"
| "default_value now ty (DefaultText s) = SText s"

section \<open>Constraints\<close>

fun check_ok :: "check \<Rightarrow> row \<Rightarrow> bool" where
  "check_ok (In_values n c vs) r = (case cell c r of SNull \<Rightarrow> True | SText s \<Rightarrow> s \<in> set vs | _ \<Rightarrow> False)"

fun unique_ok :: "unique \<Rightarrow> row list \<Rightarrow> bool" where
  "unique_ok (Unique n cs) rows =
     distinct (map (\<lambda>r. map (\<lambda>c. cell c r) cs) (filter (\<lambda>r. \<forall>c \<in> set cs. cell c r \<noteq> SNull) rows))"

definition not_null_ok :: "column \<Rightarrow> row \<Rightarrow> bool" where
  "not_null_ok c r \<longleftrightarrow> cl_nullable c \<or> cell (cl_name c) r \<noteq> SNull"

definition row_ok :: "table \<Rightarrow> row \<Rightarrow> bool" where
  "row_ok tb r \<longleftrightarrow> map fst r = map cl_name (tb_columns tb) \<and>
     list_all (\<lambda>c. not_null_ok c r) (tb_columns tb) \<and> list_all (\<lambda>c. check_ok c r) (tb_checks tb)"

definition table_ok :: "table \<Rightarrow> row list \<Rightarrow> bool" where
  "table_ok tb rows \<longleftrightarrow> list_all (row_ok tb) rows \<and> list_all (\<lambda>u. unique_ok u rows) (tb_uniques tb)"

definition data_ok :: "schema \<Rightarrow> data \<Rightarrow> bool" where
  "data_ok s d \<longleftrightarrow> list_all (\<lambda>(t, tb). table_ok tb (d t)) (sc_tables s)"

section \<open>Expressions and statements on rows\<close>

datatype sqlexpr =
    Cell string
  | Value sqlval
  | Equals sqlexpr sqlexpr
  | In_list sqlexpr "string list"
  | Case_when sqlexpr sqlexpr sqlexpr

fun eval :: "row \<Rightarrow> sqlexpr \<Rightarrow> sqlval" where
  "eval r (Cell c) = cell c r"
| "eval r (Value v) = v"
| "eval r (Equals a b) =
     (if eval r a = SNull \<or> eval r b = SNull then SNull else SBool (eval r a = eval r b))"
| "eval r (In_list a vs) =
     (if eval r a = SNull then SNull else SBool (eval r a \<in> set (map SText vs)))"
| "eval r (Case_when c a b) = (if eval r c = SBool True then eval r a else eval r b)"

definition holds :: "sqlexpr \<Rightarrow> row \<Rightarrow> bool" where
  "holds e r \<longleftrightarrow> eval r e = SBool True"

datatype statement =
    Insert_into string row
  | Update_set string string sqlexpr sqlexpr
  | Delete_from string sqlexpr

datatype sql_error =
    Undefined string
  | Duplicate string
  | Not_null_violation string
  | Constraint_violation string
  | Row_violation string
  | Foreign_key_violation string
  | Trigger_raised string
  | Dependent_objects string

definition references_ok :: "table \<Rightarrow> data \<Rightarrow> row \<Rightarrow> bool" where
  "references_ok tb d r \<longleftrightarrow>
     list_all (\<lambda>f. cell (fk_column f) r = SNull \<or> cell (fk_column f) r \<in> set (map (cell (fk_target f)) (d (fk_table f))))
       (tb_foreign tb)"

text \<open>Whether a row of table \<open>t\<close> is the target of a foreign key, through a column that satisfies \<open>p\<close>.\<close>

definition referenced :: "schema \<Rightarrow> data \<Rightarrow> string \<Rightarrow> (string \<Rightarrow> bool) \<Rightarrow> row \<Rightarrow> bool" where
  "referenced s d t p r \<longleftrightarrow>
     list_ex (\<lambda>(t', tb). list_ex (\<lambda>f. fk_table f = t \<and> p (fk_target f) \<and> cell (fk_target f) r \<noteq> SNull \<and>
         cell (fk_target f) r \<in> set (map (cell (fk_column f)) (d t'))) (tb_foreign tb)) (sc_tables s)"

text \<open>The triggers of the migrations fire before every row that is updated or deleted, and raise.\<close>

definition run_statement :: "statement \<Rightarrow> schema \<Rightarrow> data \<Rightarrow> sql_error + data" where
  "run_statement st s d =
     (case st of
        Insert_into t r \<Rightarrow>
          (case find_table t s of
             None \<Rightarrow> Inl (Undefined t)
           | Some tb \<Rightarrow>
               if \<not> table_ok tb (d t @ [r]) then Inl (Row_violation t)
               else if \<not> references_ok tb d r then Inl (Foreign_key_violation t)
               else Inr (d(t := d t @ [r])))
      | Update_set t c e cond \<Rightarrow>
          (case find_table t s of
             None \<Rightarrow> Inl (Undefined t)
           | Some tb \<Rightarrow>
               if list_ex (holds cond) (d t) \<and> tb_triggers tb \<noteq> [] then Inl (Trigger_raised (snd (hd (tb_triggers tb))))
               else
                 (let rows = map (\<lambda>r. if holds cond r then set_cell c (eval r e) r else r) (d t)
                  in if \<not> table_ok tb rows then Inl (Row_violation t)
                     else if \<not> list_all (references_ok tb d) rows \<or>
                       list_ex (\<lambda>r. holds cond r \<and> eval r e \<noteq> cell c r \<and> referenced s d t (\<lambda>k. k = c) r) (d t)
                     then Inl (Foreign_key_violation t)
                     else Inr (d(t := rows))))
      | Delete_from t cond \<Rightarrow>
          (case find_table t s of
             None \<Rightarrow> Inl (Undefined t)
           | Some tb \<Rightarrow>
               if list_ex (holds cond) (d t) \<and> tb_triggers tb \<noteq> [] then Inl (Trigger_raised (snd (hd (tb_triggers tb))))
               else if list_ex (\<lambda>r. holds cond r \<and> referenced s d t (\<lambda>k. True) r) (d t) then Inl (Foreign_key_violation t)
               else Inr (d(t := filter (\<lambda>r. \<not> holds cond r) (d t)))))"

section \<open>Statements on the schema\<close>

datatype ddl =
    Create_table string "column list" "string list" "unique list" "check list" "foreign_key list"
  | Drop_table string
  | Add_column string column
  | Drop_column string string
  | Create_check string string string "string list"
  | Create_unique string string "string list"
  | Drop_constraint string string
  | Create_index string string "index_key list" "(string \<times> string) option"
  | Drop_index string string
  | Create_function string
  | Drop_function string
  | Create_trigger string string string
  | Drop_trigger string string
  | Execute statement

definition on_table :: "string \<Rightarrow> (table \<Rightarrow> sql_error + table) \<Rightarrow> schema \<Rightarrow> sql_error + schema" where
  "on_table t f s =
     (case find_table t s of
        None \<Rightarrow> Inl (Undefined t)
      | Some tb \<Rightarrow>
          (case f tb of
             Inl e \<Rightarrow> Inl e
           | Inr tb' \<Rightarrow> Inr (s\<lparr>sc_tables := map (\<lambda>(n, x). (n, if n = t then tb' else x)) (sc_tables s)\<rparr>)))"

definition constraint_names :: "table \<Rightarrow> string list" where
  "constraint_names tb = map ck_name (tb_checks tb) @ map uq_name (tb_uniques tb)"

definition index_names :: "schema \<Rightarrow> string list" where
  "index_names s = concat (map (\<lambda>(t, tb). map ix_name (tb_indexes tb) @ map uq_name (tb_uniques tb)) (sc_tables s))"

text \<open>Dropping a column drops the constraints and indexes that involve it.\<close>

definition without_column :: "string \<Rightarrow> table \<Rightarrow> table" where
  "without_column c tb = tb\<lparr>
     tb_columns := filter (\<lambda>x. cl_name x \<noteq> c) (tb_columns tb),
     tb_checks := filter (\<lambda>x. ck_column x \<noteq> c) (tb_checks tb),
     tb_uniques := filter (\<lambda>x. c \<notin> set (uq_columns x)) (tb_uniques tb),
     tb_foreign := filter (\<lambda>x. fk_column x \<noteq> c) (tb_foreign tb),
     tb_indexes := filter (\<lambda>x. c \<notin> set (map key_column (ix_keys x)) \<and>
       (case ix_where x of None \<Rightarrow> True | Some (k, v) \<Rightarrow> k \<noteq> c)) (tb_indexes tb)\<rparr>"

definition schema_op :: "ddl \<Rightarrow> schema \<Rightarrow> sql_error + schema" where
  "schema_op op s =
     (case op of
        Create_table t cols pk uqs cks fks \<Rightarrow>
          if find_table t s \<noteq> None then Inl (Duplicate t)
          else if list_ex (\<lambda>f. find_table (fk_table f) s = None) fks then Inl (Undefined t)
          else Inr (s\<lparr>sc_tables := sc_tables s @ [(t, \<lparr>tb_columns = cols, tb_primary = pk, tb_checks = cks,
                 tb_uniques = Unique (t @ ''_pkey'') pk # uqs, tb_foreign = fks, tb_indexes = [], tb_triggers = []\<rparr>)]\<rparr>)
      | Drop_table t \<Rightarrow>
          if find_table t s = None then Inl (Undefined t)
          else if list_ex (\<lambda>(n, tb). n \<noteq> t \<and> list_ex (\<lambda>f. fk_table f = t) (tb_foreign tb)) (sc_tables s)
          then Inl (Dependent_objects t)
          else Inr (s\<lparr>sc_tables := filter (\<lambda>(n, tb). n \<noteq> t) (sc_tables s)\<rparr>)
      | Add_column t c \<Rightarrow>
          on_table t (\<lambda>tb. if cl_name c \<in> set (map cl_name (tb_columns tb)) then Inl (Duplicate (cl_name c))
                           else Inr (tb\<lparr>tb_columns := tb_columns tb @ [c]\<rparr>)) s
      | Drop_column t c \<Rightarrow>
          on_table t (\<lambda>tb. if c \<notin> set (map cl_name (tb_columns tb)) then Inl (Undefined c)
                           else Inr (without_column c tb)) s
      | Create_check n t c vs \<Rightarrow>
          on_table t (\<lambda>tb. if n \<in> set (constraint_names tb) then Inl (Duplicate n)
                           else if c \<notin> set (map cl_name (tb_columns tb)) then Inl (Undefined c)
                           else Inr (tb\<lparr>tb_checks := tb_checks tb @ [In_values n c vs]\<rparr>)) s
      | Create_unique n t cs \<Rightarrow>
          on_table t (\<lambda>tb. if n \<in> set (constraint_names tb) \<or> n \<in> set (index_names s) then Inl (Duplicate n)
                           else if \<not> set cs \<subseteq> set (map cl_name (tb_columns tb)) then Inl (Undefined n)
                           else Inr (tb\<lparr>tb_uniques := tb_uniques tb @ [Unique n cs]\<rparr>)) s
      | Drop_constraint n t \<Rightarrow>
          on_table t (\<lambda>tb. if n \<notin> set (constraint_names tb) then Inl (Undefined n)
                           else Inr (tb\<lparr>tb_checks := filter (\<lambda>x. ck_name x \<noteq> n) (tb_checks tb),
                                        tb_uniques := filter (\<lambda>x. uq_name x \<noteq> n) (tb_uniques tb)\<rparr>)) s
      | Create_index n t ks w \<Rightarrow>
          on_table t (\<lambda>tb. if n \<in> set (index_names s) then Inl (Duplicate n)
                           else if \<not> set (map key_column ks) \<subseteq> set (map cl_name (tb_columns tb)) then Inl (Undefined n)
                           else Inr (tb\<lparr>tb_indexes := tb_indexes tb @ [Index n ks w]\<rparr>)) s
      | Drop_index n t \<Rightarrow>
          on_table t (\<lambda>tb. if n \<notin> set (map ix_name (tb_indexes tb)) then Inl (Undefined n)
                           else Inr (tb\<lparr>tb_indexes := filter (\<lambda>x. ix_name x \<noteq> n) (tb_indexes tb)\<rparr>)) s
      | Create_function f \<Rightarrow> Inr (s\<lparr>sc_functions := List.insert f (sc_functions s)\<rparr>)
      | Drop_function f \<Rightarrow>
          if list_ex (\<lambda>(n, tb). f \<in> set (map snd (tb_triggers tb))) (sc_tables s) then Inl (Dependent_objects f)
          else Inr (s\<lparr>sc_functions := removeAll f (sc_functions s)\<rparr>)
      | Create_trigger n t f \<Rightarrow>
          if f \<notin> set (sc_functions s) then Inl (Undefined f)
          else on_table t (\<lambda>tb. Inr (tb\<lparr>tb_triggers := tb_triggers tb @ [(n, f)]\<rparr>)) s
      | Drop_trigger n t \<Rightarrow>
          on_table t (\<lambda>tb. Inr (tb\<lparr>tb_triggers := filter (\<lambda>(m, f). m \<noteq> n) (tb_triggers tb)\<rparr>)) s
      | Execute st \<Rightarrow> Inr s)"

definition data_op :: "time \<Rightarrow> ddl \<Rightarrow> schema \<Rightarrow> data \<Rightarrow> sql_error + data" where
  "data_op now op s d =
     (case op of
        Create_table t cols pk uqs cks fks \<Rightarrow> Inr (d(t := []))
      | Drop_table t \<Rightarrow> Inr (d(t := []))
      | Add_column t c \<Rightarrow>
          (let v = default_value now (cl_type c) (cl_default c)
           in if \<not> cl_nullable c \<and> v = SNull \<and> d t \<noteq> [] then Inl (Not_null_violation (cl_name c))
              else Inr (d(t := map (\<lambda>r. r @ [(cl_name c, v)]) (d t))))
      | Drop_column t c \<Rightarrow> Inr (d(t := map (drop_cell c) (d t)))
      | Create_check n t c vs \<Rightarrow>
          if list_all (check_ok (In_values n c vs)) (d t) then Inr d else Inl (Constraint_violation n)
      | Create_unique n t cs \<Rightarrow>
          if unique_ok (Unique n cs) (d t) then Inr d else Inl (Constraint_violation n)
      | Execute st \<Rightarrow> run_statement st s d
      | _ \<Rightarrow> Inr d)"

section \<open>Running a migration\<close>

fun schema_ops :: "ddl list \<Rightarrow> schema \<Rightarrow> sql_error + schema" where
  "schema_ops [] s = Inr s"
| "schema_ops (op # ops) s = (case schema_op op s of Inl e \<Rightarrow> Inl e | Inr s' \<Rightarrow> schema_ops ops s')"

fun run_ops :: "time \<Rightarrow> ddl list \<Rightarrow> schema \<times> data \<Rightarrow> sql_error + (schema \<times> data)" where
  "run_ops now [] (s, d) = Inr (s, d)"
| "run_ops now (op # ops) (s, d) =
     (case schema_op op s of
        Inl e \<Rightarrow> Inl e
      | Inr s' \<Rightarrow> (case data_op now op s d of Inl e \<Rightarrow> Inl e | Inr d' \<Rightarrow> run_ops now ops (s', d')))"

lemma run_ops_schema:
  "run_ops now ops (s, d) = Inr (s', d') \<Longrightarrow> schema_ops ops s = Inr s'"
  by (induction ops arbitrary: s d) (auto split: sum.splits)

lemma run_ops_append:
  "run_ops now (xs @ ys) sd = (case run_ops now xs sd of Inl e \<Rightarrow> Inl e | Inr sd' \<Rightarrow> run_ops now ys sd')"
  by (induction xs arbitrary: sd) (auto split: sum.splits)

section \<open>The rows of a migration\<close>

text \<open>Apart from \<open>Execute\<close>, what happens to the rows does not depend on the schema.\<close>

fun no_execute :: "ddl \<Rightarrow> bool" where
  "no_execute (Execute st) = False"
| "no_execute op = True"

fun data_ops :: "time \<Rightarrow> ddl list \<Rightarrow> data \<Rightarrow> sql_error + data" where
  "data_ops now [] d = Inr d"
| "data_ops now (op # ops) d =
     (case data_op now op \<lparr>sc_tables = [], sc_functions = []\<rparr> d of Inl e \<Rightarrow> Inl e | Inr d' \<Rightarrow> data_ops now ops d')"

lemma data_op_schema: "no_execute op \<Longrightarrow> data_op now op s d = data_op now op s' d"
  by (cases op) (auto simp: data_op_def)

lemma run_ops_rows:
  "list_all no_execute ops \<Longrightarrow> schema_ops ops s = Inr s' \<Longrightarrow>
     run_ops now ops (s, d) = (case data_ops now ops d of Inl e \<Rightarrow> Inl e | Inr d' \<Rightarrow> Inr (s', d'))"
proof (induction ops arbitrary: s d)
  case Nil
  then show ?case by simp
next
  case (Cons op ops)
  then obtain s1 where s1: "schema_op op s = Inr s1" "schema_ops ops s1 = Inr s'"
    by (auto split: sum.splits)
  have "data_op now op s d = data_op now op \<lparr>sc_tables = [], sc_functions = []\<rparr> d"
    using Cons.prems(1) by (intro data_op_schema) simp
  with Cons s1 show ?case by (simp split: sum.split)
qed

lemma run_update:
  assumes "find_table t s = Some tb" "tb_triggers tb = []" "tb_foreign tb = []"
    and "list_all (\<lambda>(n, x). list_all (\<lambda>f. fk_table f \<noteq> t \<or> fk_target f \<noteq> c) (tb_foreign x)) (sc_tables s)"
    and "table_ok tb (map (\<lambda>r. if holds cond r then set_cell c (eval r e) r else r) (d t))"
  shows "run_statement (Update_set t c e cond) s d =
    Inr (d(t := map (\<lambda>r. if holds cond r then set_cell c (eval r e) r else r) (d t)))"
proof -
  have "\<not> referenced s d t (\<lambda>k. k = c) r" for r
    using assms(4) by (fastforce simp: referenced_def list_all_iff list_ex_iff)
  then have "\<not> list_ex (\<lambda>r. holds cond r \<and> eval r e \<noteq> cell c r \<and> referenced s d t (\<lambda>k. k = c) r) (d t)"
    by (simp add: list_ex_iff)
  moreover have "list_all (references_ok tb d) rows" for rows
    by (simp add: references_ok_def assms(3) list_all_iff)
  ultimately show ?thesis
    using assms(1,2,5) by (simp add: run_statement_def Let_def)
qed

section \<open>Cells\<close>

lemma cell_append:
  "k \<in> fst ` set r \<Longrightarrow> cell k (r @ [(c, v)]) = cell k r"
  by (induction r) (auto simp: cell_def)

lemma cell_appended: "c \<notin> fst ` set r \<Longrightarrow> cell c (r @ [(c, v)]) = v"
  by (simp add: cell_def map_add_def map_of_eq_None_iff [THEN iffD2] split: option.split)

lemma cell_append_old: "k \<in> fst ` set r \<Longrightarrow> cell k (r @ xs) = cell k r"
  by (induction r) (auto simp: cell_def)

lemma cell_append_new: "k \<notin> fst ` set r \<Longrightarrow> cell k (r @ xs) = cell k xs"
  by (induction r) (auto simp: cell_def)

lemma set_cell_append [simp]: "set_cell c v (r @ xs) = set_cell c v r @ set_cell c v xs"
  by (simp add: set_cell_def)

lemma drop_cell_append [simp]: "drop_cell c (r @ xs) = drop_cell c r @ drop_cell c xs"
  by (simp add: drop_cell_def)

lemma set_cell_id: "c \<notin> fst ` set r \<Longrightarrow> set_cell c v r = r"
  by (induction r) (auto simp: set_cell_def)

lemma cell_drop: "k \<noteq> c \<Longrightarrow> cell k (drop_cell c r) = cell k r"
proof (induction r)
  case Nil
  then show ?case by (simp add: drop_cell_def)
next
  case (Cons x r)
  then show ?case by (cases x) (auto simp: drop_cell_def cell_def)
qed

lemma keys_drop: "map fst (drop_cell c r) = filter (\<lambda>k. k \<noteq> c) (map fst r)"
proof (induction r)
  case Nil
  then show ?case by (simp add: drop_cell_def)
next
  case (Cons x r)
  then show ?case by (cases x) (auto simp: drop_cell_def)
qed

lemma keys_set_cell [simp]: "map fst (set_cell c v r) = map fst r"
  by (simp add: set_cell_def case_prod_unfold comp_def)

lemma cell_set_cell: "cell k (set_cell c v r) = (if k = c \<and> c \<in> fst ` set r then v else cell k r)"
proof (induction r)
  case Nil
  then show ?case by (simp add: set_cell_def)
next
  case (Cons x r)
  then show ?case by (cases x) (force simp: set_cell_def cell_def)
qed

lemma cell_SNull: "k \<notin> fst ` set r \<Longrightarrow> cell k r = SNull"
  by (simp add: cell_def map_of_eq_None_iff [THEN iffD2])

section \<open>Integrity\<close>

text \<open>Every accepted statement keeps the rows within the constraints of the schema it leaves.\<close>

definition table_wf :: "table \<Rightarrow> bool" where
  "table_wf tb \<longleftrightarrow> distinct (map cl_name (tb_columns tb)) \<and>
     list_all (\<lambda>x. ck_column x \<in> set (map cl_name (tb_columns tb))) (tb_checks tb) \<and>
     list_all (\<lambda>x. set (uq_columns x) \<subseteq> set (map cl_name (tb_columns tb))) (tb_uniques tb)"

definition schema_wf :: "schema \<Rightarrow> bool" where
  "schema_wf s \<longleftrightarrow> distinct (map fst (sc_tables s)) \<and> list_all (\<lambda>(t, tb). table_wf tb) (sc_tables s)"

lemma check_ok_cong: "cell (ck_column x) r = cell (ck_column x) r' \<Longrightarrow> check_ok x r = check_ok x r'"
  by (cases x) simp

lemma unique_ok_map:
  "(\<And>r c. r \<in> set rows \<Longrightarrow> c \<in> set (uq_columns u) \<Longrightarrow> cell c (f r) = cell c r) \<Longrightarrow>
     unique_ok u (map f rows) = unique_ok u rows"
proof (cases u)
  case (Unique n cs)
  assume same: "\<And>r c. r \<in> set rows \<Longrightarrow> c \<in> set (uq_columns u) \<Longrightarrow> cell c (f r) = cell c r"
  have "map (\<lambda>r. map (\<lambda>c. cell c r) cs) (filter (\<lambda>r. \<forall>c \<in> set cs. cell c r \<noteq> SNull) (map f rows)) =
      map (\<lambda>r. map (\<lambda>c. cell c r) cs) (filter (\<lambda>r. \<forall>c \<in> set cs. cell c r \<noteq> SNull) rows)"
    using same by (induction rows) (auto simp: Unique)
  then show ?thesis by (simp add: Unique)
qed

lemma unique_ok_filter: "unique_ok u rows \<Longrightarrow> unique_ok u (filter p rows)"
proof (cases u)
  case (Unique n cs)
  assume ok: "unique_ok u rows"
  have "filter q (filter p rows) = filter p (filter q rows)" for q
    by (simp add: conj_commute)
  with ok show ?thesis
    by (simp add: Unique distinct_map_filter del: filter_filter)
qed

lemma table_ok_filter: "table_ok tb rows \<Longrightarrow> table_ok tb (filter p rows)"
  by (auto simp: table_ok_def list_all_iff unique_ok_filter)

lemma table_ok_Nil [simp]: "table_ok tb []"
proof -
  have "unique_ok u []" for u by (cases u) simp
  then show ?thesis by (simp add: table_ok_def list_all_iff)
qed

lemma table_ok_add_column:
  assumes "table_ok tb rows" "table_wf tb" "cl_name c \<notin> set (map cl_name (tb_columns tb))"
    and "\<not> cl_nullable c \<Longrightarrow> v = SNull \<Longrightarrow> rows = []"
  shows "table_ok (tb\<lparr>tb_columns := tb_columns tb @ [c]\<rparr>) (map (\<lambda>r. r @ [(cl_name c, v)]) rows)"
proof -
  have keys: "map fst r = map cl_name (tb_columns tb)" if "r \<in> set rows" for r
    using assms(1) that by (auto simp: table_ok_def row_ok_def list_all_iff)
  have old: "cell k (r @ [(cl_name c, v)]) = cell k r" if "r \<in> set rows" "k \<in> set (map cl_name (tb_columns tb))" for r k
    using that keys [OF that(1)] by (intro cell_append) (metis list.set_map)
  have new: "cell (cl_name c) (r @ [(cl_name c, v)]) = v" if "r \<in> set rows" for r
    using that assms(3) keys [OF that] by (intro cell_appended) (metis list.set_map)
  have "row_ok (tb\<lparr>tb_columns := tb_columns tb @ [c]\<rparr>) (r @ [(cl_name c, v)])" if r: "r \<in> set rows" for r
  proof -
    have "not_null_ok x (r @ [(cl_name c, v)])" if "x \<in> set (tb_columns tb)" for x
      using assms(1) r that old [OF r, of "cl_name x"] by (auto simp: table_ok_def row_ok_def list_all_iff not_null_ok_def)
    moreover have "not_null_ok c (r @ [(cl_name c, v)])"
      using assms(4) r new [OF r] by (auto simp: not_null_ok_def)
    moreover have "check_ok x (r @ [(cl_name c, v)])" if "x \<in> set (tb_checks tb)" for x
      using assms(1,2) r that check_ok_cong [OF old [OF r, of "ck_column x"]]
      by (auto simp: table_ok_def row_ok_def list_all_iff table_wf_def)
    ultimately show ?thesis
      using keys [OF r] by (simp add: row_ok_def list_all_iff)
  qed
  moreover have "unique_ok u (map (\<lambda>r. r @ [(cl_name c, v)]) rows)" if "u \<in> set (tb_uniques tb)" for u
  proof (subst unique_ok_map)
    show "cell k (r @ [(cl_name c, v)]) = cell k r" if "r \<in> set rows" "k \<in> set (uq_columns u)" for r k
      using that assms(2) \<open>u \<in> _\<close> by (intro old) (auto simp: table_wf_def list_all_iff)
    show "unique_ok u rows"
      using assms(1) that by (auto simp: table_ok_def list_all_iff)
  qed
  ultimately show ?thesis
    by (simp add: table_ok_def list_all_iff)
qed

lemma table_ok_drop_column:
  assumes "table_ok tb rows"
  shows "table_ok (without_column c tb) (map (drop_cell c) rows)"
proof -
  have "map fst (drop_cell c r) = map cl_name (tb_columns (without_column c tb))" if "r \<in> set rows" for r
    using assms that by (auto simp: table_ok_def row_ok_def list_all_iff keys_drop without_column_def filter_map comp_def)
  moreover have "not_null_ok x (drop_cell c r)" if "r \<in> set rows" "x \<in> set (tb_columns (without_column c tb))" for r x
    using assms that by (auto simp: table_ok_def row_ok_def list_all_iff without_column_def not_null_ok_def cell_drop)
  moreover have "check_ok x (drop_cell c r)" if "r \<in> set rows" "x \<in> set (tb_checks (without_column c tb))" for r x
    using assms that check_ok_cong [OF cell_drop, of x c r]
    by (auto simp: table_ok_def row_ok_def list_all_iff without_column_def)
  moreover have "unique_ok u (map (drop_cell c) rows)" if "u \<in> set (tb_uniques (without_column c tb))" for u
    using assms that
    by (subst unique_ok_map) (auto simp: table_ok_def list_all_iff without_column_def intro!: cell_drop)
  ultimately show ?thesis
    by (simp add: table_ok_def list_all_iff row_ok_def)
qed

lemma data_ok_table: "data_ok s d \<Longrightarrow> find_table t s = Some tb \<Longrightarrow> table_ok tb (d t)"
  by (auto simp: data_ok_def find_table_def list_all_iff dest!: map_of_SomeD)

lemma table_wf_find: "schema_wf s \<Longrightarrow> find_table t s = Some tb \<Longrightarrow> table_wf tb"
  by (auto simp: schema_wf_def find_table_def list_all_iff dest!: map_of_SomeD)

lemma on_table_Inr:
  assumes "on_table t f s = Inr s'"
  obtains tb tb' where "find_table t s = Some tb" "f tb = Inr tb'"
    "s' = s\<lparr>sc_tables := map (\<lambda>(n, x). (n, if n = t then tb' else x)) (sc_tables s)\<rparr>"
  using assms that by (auto simp: on_table_def split: option.splits sum.splits)

lemma data_ok_on_table:
  assumes "data_ok s d" "table_ok tb' rows" "\<And>n. n \<noteq> t \<Longrightarrow> d' n = d n" "d' t = rows"
  shows "data_ok (s\<lparr>sc_tables := map (\<lambda>(n, x). (n, if n = t then tb' else x)) (sc_tables s)\<rparr>) d'"
  using assms by (auto simp: data_ok_def list_all_iff)

lemma data_ok_update:
  assumes "data_ok s d" "schema_wf s" "find_table t s = Some tb" "table_ok tb rows"
  shows "data_ok s (d(t := rows))"
proof -
  have "x = tb" if "(t, x) \<in> set (sc_tables s)" for x
    using assms(2,3) that by (auto simp: schema_wf_def find_table_def dest: map_of_is_SomeI)
  then show ?thesis
    using assms(1,4) by (auto simp: data_ok_def list_all_iff)
qed

lemma statement_keeps_integrity:
  assumes "data_ok s d" "schema_wf s" "run_statement st s d = Inr d'"
  shows "data_ok s d'"
proof (cases st)
  case (Insert_into t r)
  then show ?thesis
    using assms by (auto simp: run_statement_def Let_def intro!: data_ok_update split: option.splits if_splits)
next
  case (Update_set t c e cond)
  then show ?thesis
    using assms by (auto simp: run_statement_def Let_def intro!: data_ok_update split: option.splits if_splits)
next
  case (Delete_from t cond)
  then obtain tb where "find_table t s = Some tb" "d' = d(t := filter (\<lambda>r. \<not> holds cond r) (d t))"
    using assms(3) by (auto simp: run_statement_def split: option.splits if_splits)
  then show ?thesis
    using assms(1,2) data_ok_table by (auto intro!: data_ok_update table_ok_filter)
qed

lemma table_ok_set_cell:
  assumes "table_ok tb rows" "\<forall>u \<in> set (tb_uniques tb). c \<notin> set (uq_columns u)"
    and "\<And>r. r \<in> set rows \<Longrightarrow> p r \<Longrightarrow> v r \<noteq> SNull"
    and "\<And>r x. r \<in> set rows \<Longrightarrow> p r \<Longrightarrow> x \<in> set (tb_checks tb) \<Longrightarrow> ck_column x = c \<Longrightarrow> check_ok x (set_cell c (v r) r)"
  shows "table_ok tb (map (\<lambda>r. if p r then set_cell c (v r) r else r) rows)"
proof -
  have row: "row_ok tb (set_cell c (v r) r)" if "r \<in> set rows" "p r" for r
  proof -
    have ok: "row_ok tb r"
      using assms(1) that(1) by (auto simp: table_ok_def list_all_iff)
    have "check_ok x (set_cell c (v r) r)" if "x \<in> set (tb_checks tb)" for x
    proof (cases "ck_column x = c")
      case True
      with assms(4) \<open>r \<in> set rows\<close> \<open>p r\<close> that show ?thesis by blast
    next
      case False
      then have "check_ok x (set_cell c (v r) r) = check_ok x r"
        by (intro check_ok_cong) (simp add: cell_set_cell)
      with ok that show ?thesis by (simp add: row_ok_def list_all_iff)
    qed
    with ok assms(3) [OF that] show ?thesis
      by (auto simp: row_ok_def list_all_iff not_null_ok_def cell_set_cell)
  qed
  have "unique_ok u (map (\<lambda>r. if p r then set_cell c (v r) r else r) rows)" if "u \<in> set (tb_uniques tb)" for u
  proof (subst unique_ok_map)
    show "cell k (if p r then set_cell c (v r) r else r) = cell k r" if "r \<in> set rows" "k \<in> set (uq_columns u)" for r k
      using assms(2) \<open>u \<in> _\<close> that(2) by (auto simp: cell_set_cell)
    show "unique_ok u rows"
      using assms(1) that by (auto simp: table_ok_def list_all_iff)
  qed
  with row assms(1) show ?thesis
    by (auto simp: table_ok_def list_all_iff)
qed

lemma table_ok_weaken:
  "table_ok tb rows \<Longrightarrow> tb_columns tb' = tb_columns tb \<Longrightarrow> set (tb_checks tb') \<subseteq> set (tb_checks tb) \<Longrightarrow>
     set (tb_uniques tb') \<subseteq> set (tb_uniques tb) \<Longrightarrow> table_ok tb' rows"
  by (auto simp: table_ok_def row_ok_def list_all_iff)

lemma unique_ok_superkey:
  assumes "unique_ok (Unique n cs) rows" "set cs \<subseteq> set cs'"
  shows "unique_ok (Unique n' cs') rows"
proof -
  let ?p = "\<lambda>cs r. \<forall>c \<in> set cs. cell c r \<noteq> SNull"
  have sub: "filter (?p cs') rows = filter (?p cs') (filter (?p cs) rows)"
    using assms(2) by (auto intro!: filter_cong)
  have distinct: "distinct (map (\<lambda>r. map (\<lambda>c. cell c r) cs) (filter (?p cs') rows))"
    using assms(1) by (subst sub) (simp add: distinct_map_filter del: filter_filter)
  have "inj_on (\<lambda>r. map (\<lambda>c. cell c r) cs') (set (filter (?p cs') rows))"
  proof (rule inj_onI)
    fix x y
    assume xy: "x \<in> set (filter (?p cs') rows)" "y \<in> set (filter (?p cs') rows)"
      and "map (\<lambda>c. cell c x) cs' = map (\<lambda>c. cell c y) cs'"
    then have "map (\<lambda>c. cell c x) cs = map (\<lambda>c. cell c y) cs"
      using assms(2) by auto
    with distinct xy show "x = y"
      by (auto simp: distinct_map dest: inj_onD)
  qed
  with distinct show ?thesis
    by (simp add: distinct_map)
qed

lemma table_okD:
  assumes "table_ok tb rows"
  shows "r \<in> set rows \<Longrightarrow> map fst r = map cl_name (tb_columns tb)"
    and "r \<in> set rows \<Longrightarrow> c \<in> cl_name ` set (tb_columns tb) \<Longrightarrow> c \<in> fst ` set r"
    and "r \<in> set rows \<Longrightarrow> x \<in> set (tb_checks tb) \<Longrightarrow> check_ok x r"
    and "u \<in> set (tb_uniques tb) \<Longrightarrow> unique_ok u rows"
    and "r \<in> set rows \<Longrightarrow> col \<in> set (tb_columns tb) \<Longrightarrow> not_null_ok col r"
proof -
  show keys: "map fst r = map cl_name (tb_columns tb)" if "r \<in> set rows" for r
    using assms that by (auto simp: table_ok_def row_ok_def list_all_iff)
  show "c \<in> fst ` set r" if "r \<in> set rows" "c \<in> cl_name ` set (tb_columns tb)"
    using keys [OF that(1)] that(2) by (metis list.set_map)
qed (use assms in \<open>auto simp: table_ok_def row_ok_def list_all_iff\<close>)

lemma unique_ok_Nil [simp]: "unique_ok u []"
  by (cases u) simp

fun op_wf :: "ddl \<Rightarrow> bool" where
  "op_wf (Create_table t cols pk uqs cks fks) =
     (distinct (map cl_name cols) \<and> set pk \<subseteq> set (map cl_name cols) \<and>
      list_all (\<lambda>x. ck_column x \<in> set (map cl_name cols)) cks \<and>
      list_all (\<lambda>x. set (uq_columns x) \<subseteq> set (map cl_name cols)) uqs)"
| "op_wf op = True"

lemma schema_wf_on_table:
  assumes "on_table t f s = Inr s'" "schema_wf s"
    and "\<And>tb tb'. find_table t s = Some tb \<Longrightarrow> table_wf tb \<Longrightarrow> f tb = Inr tb' \<Longrightarrow> table_wf tb'"
  shows "schema_wf s'"
proof -
  obtain tb tb' where tb: "find_table t s = Some tb" "f tb = Inr tb'"
    and s': "s' = s\<lparr>sc_tables := map (\<lambda>(n, x). (n, if n = t then tb' else x)) (sc_tables s)\<rparr>"
    using on_table_Inr [OF assms(1)] .
  have "table_wf tb'"
    using assms(3) [OF tb(1) table_wf_find [OF assms(2) tb(1)] tb(2)] .
  moreover have "map fst (sc_tables s') = map fst (sc_tables s)"
    by (simp add: s' case_prod_unfold comp_def)
  moreover have "distinct (map fst (sc_tables s))" "list_all (\<lambda>(t, tb). table_wf tb) (sc_tables s)"
    using assms(2) by (simp_all add: schema_wf_def)
  ultimately show ?thesis
    unfolding schema_wf_def by (auto simp: s' list_all_iff simp del: map_map)
qed

lemma table_wf_without: "table_wf tb \<Longrightarrow> table_wf (without_column c tb)"
proof -
  have names: "map cl_name (tb_columns (without_column c tb)) = filter (\<lambda>k. k \<noteq> c) (map cl_name (tb_columns tb))"
    by (simp add: without_column_def filter_map comp_def)
  show "table_wf tb \<Longrightarrow> table_wf (without_column c tb)"
    unfolding table_wf_def names
    by (auto simp: list_all_iff without_column_def simp del: set_map)
qed

lemma schema_wf_op:
  assumes "schema_wf s" "op_wf op" "schema_op op s = Inr s'"
  shows "schema_wf s'"
proof (cases op)
  case (Create_table t cols pk uqs cks fks)
  let ?tb = "\<lparr>tb_columns = cols, tb_primary = pk, tb_checks = cks, tb_uniques = Unique (t @ ''_pkey'') pk # uqs,
    tb_foreign = fks, tb_indexes = [], tb_triggers = []\<rparr>"
  have "table_wf ?tb"
    using assms(2) by (auto simp: Create_table table_wf_def list_all_iff)
  then show ?thesis
    using assms(1,3) by (auto simp: Create_table schema_op_def schema_wf_def find_table_def map_of_eq_None_iff split: if_splits)
next
  case (Drop_table t)
  then show ?thesis
    using assms by (auto simp: schema_op_def schema_wf_def list_all_iff distinct_map_filter split: if_splits)
next
  case (Add_column t c)
  with assms show ?thesis
    by (elim schema_wf_on_table [rotated])
      (auto simp: schema_op_def table_wf_def list_all_iff subset_iff split: if_splits)
next
  case (Drop_column t c)
  with assms show ?thesis
    by (elim schema_wf_on_table [rotated]) (auto simp: schema_op_def table_wf_without split: if_splits)
next
  case (Create_check n t c vs)
  with assms show ?thesis
    by (elim schema_wf_on_table [rotated]) (auto simp: schema_op_def table_wf_def list_all_iff subset_iff split: if_splits)
next
  case (Create_unique n t cs)
  with assms show ?thesis
    by (elim schema_wf_on_table [rotated]) (auto simp: schema_op_def table_wf_def list_all_iff subset_iff split: if_splits)
next
  case (Drop_constraint n t)
  with assms show ?thesis
    by (elim schema_wf_on_table [rotated]) (auto simp: schema_op_def table_wf_def list_all_iff subset_iff split: if_splits)
next
  case (Create_index n t ks w)
  with assms show ?thesis
    by (elim schema_wf_on_table [rotated]) (auto simp: schema_op_def table_wf_def list_all_iff subset_iff split: if_splits)
next
  case (Drop_index n t)
  with assms show ?thesis
    by (elim schema_wf_on_table [rotated]) (auto simp: schema_op_def table_wf_def list_all_iff subset_iff split: if_splits)
next
  case (Create_trigger n t f)
  with assms show ?thesis
    by (elim schema_wf_on_table [rotated]) (auto simp: schema_op_def table_wf_def list_all_iff subset_iff split: if_splits)
next
  case (Drop_trigger n t)
  with assms show ?thesis
    by (elim schema_wf_on_table [rotated]) (auto simp: schema_op_def table_wf_def list_all_iff subset_iff split: if_splits)
qed (use assms in \<open>auto simp: schema_op_def schema_wf_def split: if_splits\<close>)

lemma data_ok_altered:
  assumes "data_ok s d" "schema_wf s" "on_table t f s = Inr s'"
    and "\<And>tb tb'. find_table t s = Some tb \<Longrightarrow> table_wf tb \<Longrightarrow> table_ok tb (d t) \<Longrightarrow> f tb = Inr tb' \<Longrightarrow> table_ok tb' (d' t)"
    and "\<And>n. n \<noteq> t \<Longrightarrow> d' n = d n"
  shows "data_ok s' d'"
proof -
  obtain tb tb' where tb: "find_table t s = Some tb" "f tb = Inr tb'"
    and s': "s' = s\<lparr>sc_tables := map (\<lambda>(n, x). (n, if n = t then tb' else x)) (sc_tables s)\<rparr>"
    using on_table_Inr [OF assms(3)] .
  have "table_ok tb' (d' t)"
    using assms(4) [OF tb(1) table_wf_find [OF assms(2) tb(1)] data_ok_table [OF assms(1) tb(1)] tb(2)] .
  from data_ok_on_table [OF assms(1) this assms(5)] show ?thesis
    by (simp add: s')
qed

lemma op_keeps_integrity:
  assumes "data_ok s d" "schema_wf s" "schema_op op s = Inr s'" "data_op now op s d = Inr d'"
  shows "data_ok s' d'"
proof (cases op)
  case (Create_table t cols pk uqs cks fks)
  then show ?thesis
    using assms by (auto simp: schema_op_def data_op_def data_ok_def list_all_iff split: if_splits)
next
  case (Drop_table t)
  then show ?thesis
    using assms by (auto simp: schema_op_def data_op_def data_ok_def list_all_iff split: if_splits)
next
  case (Add_column t c)
  let ?v = "default_value now (cl_type c) (cl_default c)"
  have d': "d' = d(t := map (\<lambda>r. r @ [(cl_name c, ?v)]) (d t))" "\<not> cl_nullable c \<Longrightarrow> ?v = SNull \<Longrightarrow> d t = []"
    using assms(4) by (auto simp: Add_column data_op_def Let_def split: if_splits)
  show ?thesis
  proof (rule data_ok_altered [OF assms(1,2)])
    show "on_table t (\<lambda>tb. if cl_name c \<in> set (map cl_name (tb_columns tb)) then Inl (Duplicate (cl_name c))
        else Inr (tb\<lparr>tb_columns := tb_columns tb @ [c]\<rparr>)) s = Inr s'"
      using assms(3) by (simp add: Add_column schema_op_def)
  qed (auto simp: d' intro!: table_ok_add_column split: if_splits)
next
  case (Drop_column t c)
  show ?thesis
  proof (rule data_ok_altered [OF assms(1,2)])
    show "on_table t (\<lambda>tb. if c \<notin> set (map cl_name (tb_columns tb)) then Inl (Undefined c)
        else Inr (without_column c tb)) s = Inr s'"
      using assms(3) by (simp add: Drop_column schema_op_def)
  qed (use assms(4) in \<open>auto simp: Drop_column data_op_def intro!: table_ok_drop_column split: if_splits\<close>)
next
  case (Create_check n t c vs)
  with assms(3) have on: "on_table t (\<lambda>tb. if n \<in> set (constraint_names tb) then Inl (Duplicate n)
      else if c \<notin> set (map cl_name (tb_columns tb)) then Inl (Undefined c)
      else Inr (tb\<lparr>tb_checks := tb_checks tb @ [In_values n c vs]\<rparr>)) s = Inr s'"
    by (simp add: schema_op_def)
  show ?thesis
    by (rule data_ok_altered [OF assms(1,2) on])
      (use assms(4) in \<open>auto simp: Create_check data_op_def table_ok_def row_ok_def list_all_iff split: if_splits\<close>)
next
  case (Create_unique n t cs)
  with assms(3) have on: "on_table t (\<lambda>tb. if n \<in> set (constraint_names tb) \<or> n \<in> set (index_names s) then Inl (Duplicate n)
      else if \<not> set cs \<subseteq> set (map cl_name (tb_columns tb)) then Inl (Undefined n)
      else Inr (tb\<lparr>tb_uniques := tb_uniques tb @ [Unique n cs]\<rparr>)) s = Inr s'"
    by (simp add: schema_op_def)
  show ?thesis
    by (rule data_ok_altered [OF assms(1,2) on])
      (use assms(4) in \<open>auto simp: Create_unique data_op_def table_ok_def row_ok_def list_all_iff split: if_splits\<close>)
next
  case (Execute st)
  then show ?thesis
    using assms statement_keeps_integrity by (simp add: schema_op_def data_op_def)
next
  case (Drop_constraint n t)
  with assms(3) have on: "on_table t (\<lambda>tb. if n \<notin> set (constraint_names tb) then Inl (Undefined n)
      else Inr (tb\<lparr>tb_checks := filter (\<lambda>x. ck_name x \<noteq> n) (tb_checks tb),
                   tb_uniques := filter (\<lambda>x. uq_name x \<noteq> n) (tb_uniques tb)\<rparr>)) s = Inr s'"
    by (simp add: schema_op_def)
  show ?thesis
    by (rule data_ok_altered [OF assms(1,2) on])
      (use assms(4) in \<open>auto simp: Drop_constraint data_op_def elim!: table_ok_weaken split: if_splits\<close>)
next
  case (Create_index n t ks w)
  with assms(3) have on: "on_table t (\<lambda>tb. if n \<in> set (index_names s) then Inl (Duplicate n)
      else if \<not> set (map key_column ks) \<subseteq> set (map cl_name (tb_columns tb)) then Inl (Undefined n)
      else Inr (tb\<lparr>tb_indexes := tb_indexes tb @ [Index n ks w]\<rparr>)) s = Inr s'"
    by (simp add: schema_op_def)
  show ?thesis
    by (rule data_ok_altered [OF assms(1,2) on])
      (use assms(4) in \<open>auto simp: Create_index data_op_def elim!: table_ok_weaken split: if_splits\<close>)
next
  case (Drop_index n t)
  with assms(3) have on: "on_table t (\<lambda>tb. if n \<notin> set (map ix_name (tb_indexes tb)) then Inl (Undefined n)
      else Inr (tb\<lparr>tb_indexes := filter (\<lambda>x. ix_name x \<noteq> n) (tb_indexes tb)\<rparr>)) s = Inr s'"
    by (simp add: schema_op_def)
  show ?thesis
    by (rule data_ok_altered [OF assms(1,2) on])
      (use assms(4) in \<open>auto simp: Drop_index data_op_def elim!: table_ok_weaken split: if_splits\<close>)
next
  case (Create_trigger n t f)
  with assms(3) have on: "on_table t (\<lambda>tb. Inr (tb\<lparr>tb_triggers := tb_triggers tb @ [(n, f)]\<rparr>)) s = Inr s'"
    by (simp add: schema_op_def split: if_splits)
  show ?thesis
    by (rule data_ok_altered [OF assms(1,2) on])
      (use assms(4) in \<open>auto simp: Create_trigger data_op_def elim!: table_ok_weaken\<close>)
next
  case (Drop_trigger n t)
  with assms(3) have on: "on_table t (\<lambda>tb. Inr (tb\<lparr>tb_triggers := filter (\<lambda>(m, f). m \<noteq> n) (tb_triggers tb)\<rparr>)) s = Inr s'"
    by (simp add: schema_op_def)
  show ?thesis
    by (rule data_ok_altered [OF assms(1,2) on])
      (use assms(4) in \<open>auto simp: Drop_trigger data_op_def elim!: table_ok_weaken\<close>)
qed (use assms in \<open>auto simp: schema_op_def data_op_def data_ok_def split: if_splits\<close>)

lemma run_ops_keep_integrity:
  "run_ops now ops (s, d) = Inr (s', d') \<Longrightarrow> data_ok s d \<Longrightarrow> schema_wf s \<Longrightarrow> list_all op_wf ops \<Longrightarrow> data_ok s' d'"
proof (induction ops arbitrary: s d)
  case Nil
  then show ?case by simp
next
  case (Cons op ops)
  then obtain s1 d1 where step: "schema_op op s = Inr s1" "data_op now op s d = Inr d1"
    and "run_ops now ops (s1, d1) = Inr (s', d')"
    by (auto split: sum.splits)
  moreover have "data_ok s1 d1" "schema_wf s1"
    using op_keeps_integrity [OF Cons.prems(2,3) step] schema_wf_op [OF Cons.prems(3) _ step(1)] Cons.prems(4)
    by simp_all
  ultimately show ?case
    using Cons.IH Cons.prems(4) by simp
qed

end
