(* ===== verification/Migrations.thy ===== *)
theory Migrations
  imports Schema Lifecycle
begin

text \<open>
  \<open>services/connector-registry/migrations/versions\<close> and \<open>services/orchestrator/migrations/versions\<close>:
  every revision's \<open>upgrade\<close> and \<open>downgrade\<close> as the list of its statements, the chain of revisions, and
  the tables the ORM models declare (\<open>app/models.py\<close>, \<open>favl_outbox/models.py\<close>).  Indexes keep their keys
  and predicate; comments on types and the text of the trigger's exception are left out.
\<close>

section \<open>The registry's revisions\<close>

definition registry_0001_upgrade :: "ddl list" where
  "registry_0001_upgrade =
     [Create_table ''connectors''
        [Column ''id'' UUID_TYPE False NoDefault,
         Column ''name'' (STRING_TYPE 80) False NoDefault,
         Column ''kind'' (STRING_TYPE 16) False NoDefault,
         Column ''base_url'' (STRING_TYPE 2048) True NoDefault,
         Column ''scopes'' STRING_ARRAY_TYPE False (DefaultText ''{}''),
         Column ''enabled'' BOOLEAN_TYPE False (DefaultBool True),
         Column ''created_at'' DATETIME_TYPE False DefaultNow]
        [''id''] []
        [In_values ''ck_connectors_kind'' ''kind'' [''http'', ''mcp'', ''webhook'', ''internal'']] [],
      Create_unique ''uq_connectors_name'' ''connectors'' [''name''],
      Create_index ''ix_connectors_created_at'' ''connectors'' [Ascending ''created_at''] None]"

definition registry_0001_downgrade :: "ddl list" where
  "registry_0001_downgrade =
     [Drop_index ''ix_connectors_created_at'' ''connectors'',
      Drop_constraint ''uq_connectors_name'' ''connectors'',
      Drop_table ''connectors'']"

definition registry_0002_upgrade :: "ddl list" where
  "registry_0002_upgrade =
     [Create_table ''outbox_events''
        [Column ''id'' UUID_TYPE False NoDefault,
         Column ''aggregate_type'' (STRING_TYPE 64) False NoDefault,
         Column ''aggregate_id'' (STRING_TYPE 64) True NoDefault,
         Column ''subject'' (STRING_TYPE 255) False NoDefault,
         Column ''payload'' JSONB_TYPE False NoDefault,
         Column ''status'' (STRING_TYPE 16) False (DefaultText ''pending''),
         Column ''attempts'' INTEGER_TYPE False (DefaultText ''0''),
         Column ''max_attempts'' INTEGER_TYPE False (DefaultText ''8''),
         Column ''next_attempt_at'' DATETIME_TYPE False DefaultNow,
         Column ''last_error'' TEXT_TYPE True NoDefault,
         Column ''created_at'' DATETIME_TYPE False DefaultNow,
         Column ''published_at'' DATETIME_TYPE True NoDefault,
         Column ''stream_seq'' BIGINTEGER_TYPE True NoDefault]
        [''id''] []
        [In_values ''ck_outbox_events_status'' ''status'' [''pending'', ''published'', ''dead'']] [],
      Create_index ''ix_outbox_events_due'' ''outbox_events'' [Ascending ''next_attempt_at''] (Some (''status'', ''pending'')),
      Create_index ''ix_outbox_events_status'' ''outbox_events'' [Ascending ''status''] None]"

definition registry_0002_downgrade :: "ddl list" where
  "registry_0002_downgrade =
     [Drop_index ''ix_outbox_events_status'' ''outbox_events'',
      Drop_index ''ix_outbox_events_due'' ''outbox_events'',
      Drop_table ''outbox_events'']"

definition registry_0003_upgrade :: "ddl list" where
  "registry_0003_upgrade =
     [Add_column ''outbox_events'' (Column ''aggregate_version'' INTEGER_TYPE False (DefaultText ''1'')),
      Add_column ''outbox_events'' (Column ''schema_version'' INTEGER_TYPE False (DefaultText ''1'')),
      Add_column ''connectors'' (Column ''version'' INTEGER_TYPE False (DefaultText ''1'')),
      Create_index ''ix_outbox_events_aggregate'' ''outbox_events''
        [Ascending ''aggregate_type'', Ascending ''aggregate_id'', Ascending ''aggregate_version''] None]"

definition registry_0003_downgrade :: "ddl list" where
  "registry_0003_downgrade =
     [Drop_index ''ix_outbox_events_aggregate'' ''outbox_events'',
      Drop_column ''connectors'' ''version'',
      Drop_column ''outbox_events'' ''schema_version'',
      Drop_column ''outbox_events'' ''aggregate_version'']"

definition registry_0004_upgrade :: "ddl list" where
  "registry_0004_upgrade =
     [Add_column ''connectors'' (Column ''config'' JSONB_TYPE False (DefaultText ''{}'')),
      Add_column ''connectors'' (Column ''status'' (STRING_TYPE 24) False (DefaultText ''enabled'')),
      Add_column ''connectors'' (Column ''deletion_requested_at'' DATETIME_TYPE True NoDefault),
      Add_column ''connectors'' (Column ''deleted_at'' DATETIME_TYPE True NoDefault),
      Add_column ''connectors'' (Column ''deleted_by'' (STRING_TYPE 255) True NoDefault),
      Execute (Update_set ''connectors'' ''status''
        (Case_when (Cell ''enabled'') (Value (SText ''enabled'')) (Value (SText ''disabled''))) (Value (SBool True))),
      Drop_column ''connectors'' ''enabled'',
      Create_check ''ck_connectors_status'' ''connectors'' ''status''
        [''draft'', ''enabled'', ''disabled'', ''deletion_requested'', ''deleted''],
      Create_table ''invocations''
        [Column ''id'' UUID_TYPE False NoDefault,
         Column ''connector_id'' UUID_TYPE False NoDefault,
         Column ''connector_version'' INTEGER_TYPE False NoDefault,
         Column ''adapter_kind'' (STRING_TYPE 16) False NoDefault,
         Column ''idempotency_key'' (STRING_TYPE 255) False NoDefault,
         Column ''actor_id'' (STRING_TYPE 255) False NoDefault,
         Column ''tenant_id'' (STRING_TYPE 255) False NoDefault,
         Column ''operation'' (STRING_TYPE 255) False (DefaultText ''''),
         Column ''status'' (STRING_TYPE 24) False NoDefault,
         Column ''attempt'' INTEGER_TYPE False (DefaultText ''1''),
         Column ''aggregate_version'' INTEGER_TYPE False (DefaultText ''1''),
         Column ''deadline_at'' DATETIME_TYPE False NoDefault,
         Column ''started_at'' DATETIME_TYPE True NoDefault,
         Column ''completed_at'' DATETIME_TYPE True NoDefault,
         Column ''provider_request_id'' (STRING_TYPE 255) True NoDefault,
         Column ''error_code'' (STRING_TYPE 64) True NoDefault,
         Column ''error_detail'' TEXT_TYPE True NoDefault,
         Column ''retryable'' BOOLEAN_TYPE True NoDefault,
         Column ''trace_id'' (STRING_TYPE 64) True NoDefault,
         Column ''output'' JSONB_TYPE True NoDefault,
         Column ''audit_metadata'' JSONB_TYPE False (DefaultText ''{}''),
         Column ''created_at'' DATETIME_TYPE False DefaultNow]
        [''id''] []
        [In_values ''ck_invocations_status'' ''status''
           [''accepted'', ''running'', ''succeeded'', ''failed_retryable'', ''failed_terminal'', ''timed_out'', ''cancelled'']]
        [Restrict ''connector_id'' ''connectors'' ''id''],
      Create_unique ''uq_invocations_idempotency'' ''invocations'' [''tenant_id'', ''connector_id'', ''idempotency_key''],
      Create_index ''ix_invocations_connector'' ''invocations'' [Ascending ''connector_id'', Ascending ''created_at''] None,
      Create_index ''ix_invocations_status'' ''invocations'' [Ascending ''status''] None]"

definition registry_0004_downgrade :: "ddl list" where
  "registry_0004_downgrade =
     [Drop_index ''ix_invocations_status'' ''invocations'',
      Drop_index ''ix_invocations_connector'' ''invocations'',
      Drop_constraint ''uq_invocations_idempotency'' ''invocations'',
      Drop_table ''invocations'',
      Add_column ''connectors'' (Column ''enabled'' BOOLEAN_TYPE False (DefaultBool True)),
      Execute (Update_set ''connectors'' ''enabled''
        (Equals (Cell ''status'') (Value (SText ''enabled''))) (Value (SBool True))),
      Drop_constraint ''ck_connectors_status'' ''connectors'',
      Drop_column ''connectors'' ''deleted_by'',
      Drop_column ''connectors'' ''deleted_at'',
      Drop_column ''connectors'' ''deletion_requested_at'',
      Drop_column ''connectors'' ''status'',
      Drop_column ''connectors'' ''config'']"

definition registry_0005_upgrade :: "ddl list" where
  "registry_0005_upgrade =
     [Create_index ''ix_outbox_events_claim'' ''outbox_events'' [Ascending ''created_at''] (Some (''status'', ''pending'')),
      Create_index ''ix_invocations_created_desc'' ''invocations'' [Descending ''created_at''] None,
      Create_index ''ix_invocations_status_created'' ''invocations'' [Ascending ''status'', Descending ''created_at''] None]"

definition registry_0005_downgrade :: "ddl list" where
  "registry_0005_downgrade =
     [Drop_index ''ix_invocations_status_created'' ''invocations'',
      Drop_index ''ix_invocations_created_desc'' ''invocations'',
      Drop_index ''ix_outbox_events_claim'' ''outbox_events'']"

definition registry_0006_upgrade :: "ddl list" where
  "registry_0006_upgrade =
     [Add_column ''connectors'' (Column ''supports_idempotency'' BOOLEAN_TYPE False (DefaultBool False)),
      Add_column ''connectors'' (Column ''idempotency_mode'' (STRING_TYPE 32) False (DefaultText ''unsupported''))]"

definition registry_0006_downgrade :: "ddl list" where
  "registry_0006_downgrade =
     [Drop_column ''connectors'' ''idempotency_mode'',
      Drop_column ''connectors'' ''supports_idempotency'']"

definition registry_0007_upgrade :: "ddl list" where
  "registry_0007_upgrade =
     [Add_column ''connectors'' (Column ''tenant_id'' (STRING_TYPE 255) False (DefaultText ''default'')),
      Drop_constraint ''uq_connectors_name'' ''connectors'',
      Create_unique ''uq_connectors_tenant_name'' ''connectors'' [''tenant_id'', ''name''],
      Create_index ''ix_connectors_tenant'' ''connectors'' [Ascending ''tenant_id'', Ascending ''created_at''] None]"

definition registry_0007_downgrade :: "ddl list" where
  "registry_0007_downgrade =
     [Drop_index ''ix_connectors_tenant'' ''connectors'',
      Drop_constraint ''uq_connectors_tenant_name'' ''connectors'',
      Create_unique ''uq_connectors_name'' ''connectors'' [''name''],
      Drop_column ''connectors'' ''tenant_id'']"

definition STATES :: "string list" where
  "STATES =
     [''draft'', ''installed'', ''configured'', ''validated'', ''enabled'', ''disabled'', ''revoked'',
      ''deletion_requested'', ''archived'', ''deleted'']"

definition registry_0008_upgrade :: "ddl list" where
  "registry_0008_upgrade =
     [Drop_constraint ''ck_connectors_status'' ''connectors'',
      Create_check ''ck_connectors_status'' ''connectors'' ''status'' STATES,
      Add_column ''connectors'' (Column ''revoked_at'' DATETIME_TYPE True NoDefault),
      Add_column ''connectors'' (Column ''archived_at'' DATETIME_TYPE True NoDefault),
      Add_column ''connectors'' (Column ''credentials_rotated_at'' DATETIME_TYPE True NoDefault),
      Add_column ''connectors'' (Column ''state_reason'' TEXT_TYPE True NoDefault),
      Create_table ''connector_audit''
        [Column ''id'' UUID_TYPE False NoDefault,
         Column ''connector_id'' UUID_TYPE False NoDefault,
         Column ''tenant_id'' (STRING_TYPE 255) False NoDefault,
         Column ''from_state'' (STRING_TYPE 24) False NoDefault,
         Column ''to_state'' (STRING_TYPE 24) False NoDefault,
         Column ''event'' (STRING_TYPE 64) False NoDefault,
         Column ''actor_id'' (STRING_TYPE 255) False NoDefault,
         Column ''reason'' TEXT_TYPE True NoDefault,
         Column ''aggregate_version'' INTEGER_TYPE False NoDefault,
         Column ''idempotency_key'' (STRING_TYPE 255) True NoDefault,
         Column ''recorded_at'' DATETIME_TYPE False DefaultNow]
        [''id''] [] [] [Restrict ''connector_id'' ''connectors'' ''id''],
      Create_index ''ix_connector_audit_connector'' ''connector_audit''
        [Ascending ''connector_id'', Ascending ''aggregate_version''] None,
      Create_index ''ix_connector_audit_tenant'' ''connector_audit''
        [Ascending ''tenant_id'', Ascending ''recorded_at''] None,
      Create_unique ''uq_connector_audit_version'' ''connector_audit'' [''connector_id'', ''aggregate_version''],
      Create_function ''connector_audit_is_append_only'',
      Create_trigger ''connector_audit_immutable'' ''connector_audit'' ''connector_audit_is_append_only'']"

definition registry_0008_downgrade :: "ddl list" where
  "registry_0008_downgrade =
     [Drop_trigger ''connector_audit_immutable'' ''connector_audit'',
      Drop_function ''connector_audit_is_append_only'',
      Drop_constraint ''uq_connector_audit_version'' ''connector_audit'',
      Drop_index ''ix_connector_audit_tenant'' ''connector_audit'',
      Drop_index ''ix_connector_audit_connector'' ''connector_audit'',
      Drop_table ''connector_audit'',
      Drop_column ''connectors'' ''state_reason'',
      Drop_column ''connectors'' ''credentials_rotated_at'',
      Drop_column ''connectors'' ''archived_at'',
      Drop_column ''connectors'' ''revoked_at'',
      Execute (Update_set ''connectors'' ''status'' (Value (SText ''disabled''))
        (In_list (Cell ''status'') [''installed'', ''configured'', ''validated'', ''revoked'', ''archived''])),
      Drop_constraint ''ck_connectors_status'' ''connectors'',
      Create_check ''ck_connectors_status'' ''connectors'' ''status''
        [''draft'', ''enabled'', ''disabled'', ''deletion_requested'', ''deleted'']]"

section \<open>The orchestrator's revisions\<close>

text \<open>Its outbox revisions are the registry's, in files of its own.\<close>

definition orchestrator_0001_upgrade :: "ddl list" where
  "orchestrator_0001_upgrade =
     [Create_table ''agents''
        [Column ''id'' UUID_TYPE False NoDefault,
         Column ''name'' (STRING_TYPE 80) False NoDefault,
         Column ''description'' TEXT_TYPE False (DefaultText ''''),
         Column ''connector_ids'' STRING_ARRAY_TYPE False (DefaultText ''{}''),
         Column ''created_at'' DATETIME_TYPE False DefaultNow]
        [''id''] [] [] [],
      Create_unique ''uq_agents_name'' ''agents'' [''name''],
      Create_index ''ix_agents_created_at'' ''agents'' [Ascending ''created_at''] None]"

definition orchestrator_0001_downgrade :: "ddl list" where
  "orchestrator_0001_downgrade =
     [Drop_index ''ix_agents_created_at'' ''agents'',
      Drop_constraint ''uq_agents_name'' ''agents'',
      Drop_table ''agents'']"

definition orchestrator_0002_upgrade :: "ddl list" where
  "orchestrator_0002_upgrade = registry_0002_upgrade"

definition orchestrator_0002_downgrade :: "ddl list" where
  "orchestrator_0002_downgrade = registry_0002_downgrade"

definition orchestrator_0003_upgrade :: "ddl list" where
  "orchestrator_0003_upgrade =
     [Add_column ''outbox_events'' (Column ''aggregate_version'' INTEGER_TYPE False (DefaultText ''1'')),
      Add_column ''outbox_events'' (Column ''schema_version'' INTEGER_TYPE False (DefaultText ''1'')),
      Add_column ''agents'' (Column ''version'' INTEGER_TYPE False (DefaultText ''1'')),
      Create_index ''ix_outbox_events_aggregate'' ''outbox_events''
        [Ascending ''aggregate_type'', Ascending ''aggregate_id'', Ascending ''aggregate_version''] None]"

definition orchestrator_0003_downgrade :: "ddl list" where
  "orchestrator_0003_downgrade =
     [Drop_index ''ix_outbox_events_aggregate'' ''outbox_events'',
      Drop_column ''agents'' ''version'',
      Drop_column ''outbox_events'' ''schema_version'',
      Drop_column ''outbox_events'' ''aggregate_version'']"

definition orchestrator_0004_upgrade :: "ddl list" where
  "orchestrator_0004_upgrade =
     [Create_index ''ix_outbox_events_claim'' ''outbox_events'' [Ascending ''created_at''] (Some (''status'', ''pending''))]"

definition orchestrator_0004_downgrade :: "ddl list" where
  "orchestrator_0004_downgrade = [Drop_index ''ix_outbox_events_claim'' ''outbox_events'']"

definition orchestrator_0005_upgrade :: "ddl list" where
  "orchestrator_0005_upgrade =
     [Add_column ''agents'' (Column ''tenant_id'' (STRING_TYPE 255) False (DefaultText ''default'')),
      Drop_constraint ''uq_agents_name'' ''agents'',
      Create_unique ''uq_agents_tenant_name'' ''agents'' [''tenant_id'', ''name''],
      Create_index ''ix_agents_tenant'' ''agents'' [Ascending ''tenant_id'', Ascending ''created_at''] None]"

definition orchestrator_0005_downgrade :: "ddl list" where
  "orchestrator_0005_downgrade =
     [Drop_index ''ix_agents_tenant'' ''agents'',
      Drop_constraint ''uq_agents_tenant_name'' ''agents'',
      Create_unique ''uq_agents_name'' ''agents'' [''name''],
      Drop_column ''agents'' ''tenant_id'']"

section \<open>The chains of revisions\<close>

record migration =
  mg_revision :: string
  mg_down_revision :: "string option"
  mg_upgrade :: "ddl list"
  mg_downgrade :: "ddl list"

definition revision :: "string \<Rightarrow> string option \<Rightarrow> ddl list \<Rightarrow> ddl list \<Rightarrow> migration" where
  "revision n down up dn = \<lparr>mg_revision = n, mg_down_revision = down, mg_upgrade = up, mg_downgrade = dn\<rparr>"

definition registry_migrations :: "migration list" where
  "registry_migrations =
     [revision ''0001'' None registry_0001_upgrade registry_0001_downgrade,
      revision ''0002'' (Some ''0001'') registry_0002_upgrade registry_0002_downgrade,
      revision ''0003'' (Some ''0002'') registry_0003_upgrade registry_0003_downgrade,
      revision ''0004'' (Some ''0003'') registry_0004_upgrade registry_0004_downgrade,
      revision ''0005'' (Some ''0004'') registry_0005_upgrade registry_0005_downgrade,
      revision ''0006'' (Some ''0005'') registry_0006_upgrade registry_0006_downgrade,
      revision ''0007'' (Some ''0006'') registry_0007_upgrade registry_0007_downgrade,
      revision ''0008'' (Some ''0007'') registry_0008_upgrade registry_0008_downgrade]"

definition orchestrator_migrations :: "migration list" where
  "orchestrator_migrations =
     [revision ''0001'' None orchestrator_0001_upgrade orchestrator_0001_downgrade,
      revision ''0002'' (Some ''0001'') orchestrator_0002_upgrade orchestrator_0002_downgrade,
      revision ''0003'' (Some ''0002'') orchestrator_0003_upgrade orchestrator_0003_downgrade,
      revision ''0004'' (Some ''0003'') orchestrator_0004_upgrade orchestrator_0004_downgrade,
      revision ''0005'' (Some ''0004'') orchestrator_0005_upgrade orchestrator_0005_downgrade]"

text \<open>The schema after the first \<open>n\<close> revisions of a chain.\<close>

definition empty_schema :: schema where
  "empty_schema = \<lparr>sc_tables = [], sc_functions = []\<rparr>"

definition schema_at :: "migration list \<Rightarrow> nat \<Rightarrow> sql_error + schema" where
  "schema_at ms n = schema_ops (concat (map mg_upgrade (take n ms))) empty_schema"

section \<open>What the models declare\<close>

definition connector_model :: "ddl list" where
  "connector_model =
     [Create_table ''connectors''
        [Column ''id'' UUID_TYPE False NoDefault,
         Column ''tenant_id'' (STRING_TYPE 255) False (DefaultText ''default''),
         Column ''name'' (STRING_TYPE 80) False NoDefault,
         Column ''kind'' (STRING_TYPE 16) False NoDefault,
         Column ''base_url'' (STRING_TYPE 2048) True NoDefault,
         Column ''scopes'' STRING_ARRAY_TYPE False NoDefault,
         Column ''config'' JSONB_TYPE False (DefaultText ''{}''),
         Column ''status'' (STRING_TYPE 24) False (DefaultText ''enabled''),
         Column ''version'' INTEGER_TYPE False (DefaultText ''1''),
         Column ''supports_idempotency'' BOOLEAN_TYPE False (DefaultBool False),
         Column ''idempotency_mode'' (STRING_TYPE 32) False (DefaultText ''unsupported''),
         Column ''deletion_requested_at'' DATETIME_TYPE True NoDefault,
         Column ''deleted_at'' DATETIME_TYPE True NoDefault,
         Column ''deleted_by'' (STRING_TYPE 255) True NoDefault,
         Column ''revoked_at'' DATETIME_TYPE True NoDefault,
         Column ''archived_at'' DATETIME_TYPE True NoDefault,
         Column ''credentials_rotated_at'' DATETIME_TYPE True NoDefault,
         Column ''state_reason'' TEXT_TYPE True NoDefault,
         Column ''created_at'' DATETIME_TYPE False DefaultNow]
        [''id'']
        [Unique ''uq_connectors_tenant_name'' [''tenant_id'', ''name'']]
        [In_values ''ck_connectors_status'' ''status''
           [''draft'', ''installed'', ''configured'', ''validated'', ''enabled'', ''disabled'', ''revoked'',
            ''deletion_requested'', ''archived'', ''deleted''],
         In_values ''ck_connectors_kind'' ''kind'' [''http'', ''mcp'', ''webhook'', ''internal'']]
        [],
      Create_index ''ix_connectors_tenant'' ''connectors'' [Ascending ''tenant_id'', Ascending ''created_at''] None]"

definition invocation_model :: "ddl list" where
  "invocation_model =
     [Create_table ''invocations''
        [Column ''id'' UUID_TYPE False NoDefault,
         Column ''connector_id'' UUID_TYPE False NoDefault,
         Column ''connector_version'' INTEGER_TYPE False NoDefault,
         Column ''adapter_kind'' (STRING_TYPE 16) False NoDefault,
         Column ''idempotency_key'' (STRING_TYPE 255) False NoDefault,
         Column ''actor_id'' (STRING_TYPE 255) False NoDefault,
         Column ''tenant_id'' (STRING_TYPE 255) False NoDefault,
         Column ''operation'' (STRING_TYPE 255) False NoDefault,
         Column ''status'' (STRING_TYPE 24) False NoDefault,
         Column ''attempt'' INTEGER_TYPE False NoDefault,
         Column ''aggregate_version'' INTEGER_TYPE False NoDefault,
         Column ''deadline_at'' DATETIME_TYPE False NoDefault,
         Column ''started_at'' DATETIME_TYPE True NoDefault,
         Column ''completed_at'' DATETIME_TYPE True NoDefault,
         Column ''provider_request_id'' (STRING_TYPE 255) True NoDefault,
         Column ''error_code'' (STRING_TYPE 64) True NoDefault,
         Column ''error_detail'' TEXT_TYPE True NoDefault,
         Column ''retryable'' BOOLEAN_TYPE True NoDefault,
         Column ''trace_id'' (STRING_TYPE 64) True NoDefault,
         Column ''output'' JSONB_TYPE True NoDefault,
         Column ''audit_metadata'' JSONB_TYPE False (DefaultText ''{}''),
         Column ''created_at'' DATETIME_TYPE False DefaultNow]
        [''id'']
        [Unique ''uq_invocations_idempotency'' [''tenant_id'', ''connector_id'', ''idempotency_key'']]
        [In_values ''ck_invocations_status'' ''status''
           [''accepted'', ''running'', ''succeeded'', ''failed_retryable'', ''failed_terminal'', ''timed_out'', ''cancelled'']]
        [Restrict ''connector_id'' ''connectors'' ''id''],
      Create_index ''ix_invocations_connector'' ''invocations'' [Ascending ''connector_id'', Ascending ''created_at''] None,
      Create_index ''ix_invocations_status'' ''invocations'' [Ascending ''status''] None]"

definition audit_model :: "ddl list" where
  "audit_model =
     [Create_table ''connector_audit''
        [Column ''id'' UUID_TYPE False NoDefault,
         Column ''connector_id'' UUID_TYPE False NoDefault,
         Column ''tenant_id'' (STRING_TYPE 255) False NoDefault,
         Column ''from_state'' (STRING_TYPE 24) False NoDefault,
         Column ''to_state'' (STRING_TYPE 24) False NoDefault,
         Column ''event'' (STRING_TYPE 64) False NoDefault,
         Column ''actor_id'' (STRING_TYPE 255) False NoDefault,
         Column ''reason'' TEXT_TYPE True NoDefault,
         Column ''aggregate_version'' INTEGER_TYPE False NoDefault,
         Column ''idempotency_key'' (STRING_TYPE 255) True NoDefault,
         Column ''recorded_at'' DATETIME_TYPE False DefaultNow]
        [''id'']
        [Unique ''uq_connector_audit_version'' [''connector_id'', ''aggregate_version'']] []
        [Restrict ''connector_id'' ''connectors'' ''id''],
      Create_index ''ix_connector_audit_connector'' ''connector_audit''
        [Ascending ''connector_id'', Ascending ''aggregate_version''] None,
      Create_index ''ix_connector_audit_tenant'' ''connector_audit''
        [Ascending ''tenant_id'', Ascending ''recorded_at''] None]"

definition outbox_model :: "ddl list" where
  "outbox_model =
     [Create_table ''outbox_events''
        [Column ''id'' UUID_TYPE False NoDefault,
         Column ''aggregate_type'' (STRING_TYPE 64) False NoDefault,
         Column ''aggregate_id'' (STRING_TYPE 64) True NoDefault,
         Column ''aggregate_version'' INTEGER_TYPE False (DefaultText ''1''),
         Column ''subject'' (STRING_TYPE 255) False NoDefault,
         Column ''schema_version'' INTEGER_TYPE False (DefaultText ''1''),
         Column ''payload'' JSONB_TYPE False NoDefault,
         Column ''status'' (STRING_TYPE 16) False (DefaultText ''pending''),
         Column ''attempts'' INTEGER_TYPE False (DefaultText ''0''),
         Column ''max_attempts'' INTEGER_TYPE False (DefaultText ''8''),
         Column ''next_attempt_at'' DATETIME_TYPE False DefaultNow,
         Column ''last_error'' TEXT_TYPE True NoDefault,
         Column ''created_at'' DATETIME_TYPE False DefaultNow,
         Column ''published_at'' DATETIME_TYPE True NoDefault,
         Column ''stream_seq'' BIGINTEGER_TYPE True NoDefault]
        [''id''] []
        [In_values ''ck_outbox_events_status'' ''status'' [''pending'', ''published'', ''dead'']] [],
      Create_index ''ix_outbox_events_due'' ''outbox_events'' [Ascending ''next_attempt_at''] (Some (''status'', ''pending'')),
      Create_index ''ix_outbox_events_claim'' ''outbox_events'' [Ascending ''created_at''] (Some (''status'', ''pending'')),
      Create_index ''ix_outbox_events_status'' ''outbox_events'' [Ascending ''status''] None]"

definition agent_model :: "ddl list" where
  "agent_model =
     [Create_table ''agents''
        [Column ''id'' UUID_TYPE False NoDefault,
         Column ''tenant_id'' (STRING_TYPE 255) False (DefaultText ''default''),
         Column ''name'' (STRING_TYPE 80) False NoDefault,
         Column ''description'' TEXT_TYPE False NoDefault,
         Column ''connector_ids'' STRING_ARRAY_TYPE False NoDefault,
         Column ''version'' INTEGER_TYPE False (DefaultText ''1''),
         Column ''created_at'' DATETIME_TYPE False DefaultNow]
        [''id'']
        [Unique ''uq_agents_tenant_name'' [''tenant_id'', ''name'']] [] [],
      Create_index ''ix_agents_tenant'' ''agents'' [Ascending ''tenant_id'', Ascending ''created_at''] None]"

end
