(* ===== verification/Rollback.thy ===== *)
theory Rollback
  imports MigrationSafety AdapterBase
begin

text \<open>
  Going back a revision, and what the last revision promises about its rows: downgrades restore the schema;
  the downgrades of 0004 and 0008 always run, that of 0007 only while names are unique across tenants; a
  rollback of 0008 makes a revoked connector enableable again; the audit table is append-only; and the
  models declare what the migrations build.
\<close>

section \<open>Downgrading the schema\<close>

lemma connectors_8_columns:
  "tb_columns connectors_8 = tb_columns connectors_7 @
     [Column ''revoked_at'' DATETIME_TYPE True NoDefault,
      Column ''archived_at'' DATETIME_TYPE True NoDefault,
      Column ''credentials_rotated_at'' DATETIME_TYPE True NoDefault,
      Column ''state_reason'' TEXT_TYPE True NoDefault]"
  by (simp add: connectors_8_def)

lemma connectors_7_columns:
  "tb_columns connectors_7 = tb_columns connectors_6 @ [Column ''tenant_id'' (STRING_TYPE 255) False (DefaultText ''default'')]"
  by (simp add: connectors_7_def)

lemma connectors_6_columns:
  "tb_columns connectors_6 = tb_columns connectors_4 @
     [Column ''supports_idempotency'' BOOLEAN_TYPE False (DefaultBool False),
      Column ''idempotency_mode'' (STRING_TYPE 32) False (DefaultText ''unsupported'')]"
  by (simp add: connectors_6_def)

definition mid_0008 :: schema where
  "mid_0008 = tables
     [(''connectors'', connectors_7\<lparr>tb_checks := tb_checks connectors_8\<rparr>), (''outbox_events'', outbox_5),
      (''invocations'', invocations_5)]"

definition parked_states :: "string list" where
  "parked_states = [''installed'', ''configured'', ''validated'', ''revoked'', ''archived'']"

definition park :: statement where
  "park = Update_set ''connectors'' ''status'' (Value (SText ''disabled'')) (In_list (Cell ''status'') parked_states)"

lemma registry_0008_down_split:
  "registry_0008_downgrade = take 10 registry_0008_downgrade @ Execute park # drop 11 registry_0008_downgrade"
  by (simp add: registry_0008_downgrade_def park_def parked_states_def)

lemma mid_0008_schema: "schema_ops (take 10 registry_0008_downgrade) (registry_schemas ! 8) = Inr mid_0008"
  by (simp add: registry_0008_downgrade_def schema_steps audit_8_def connectors_8_columns mid_0008_def)

lemma rest_0008_schema: "schema_ops (drop 11 registry_0008_downgrade) mid_0008 = Inr (registry_schemas ! 7)"
  by (simp add: registry_0008_downgrade_def schema_steps mid_0008_def)
    (auto intro!: table_eqI simp: schema_eval narrow_states_def)

lemma registry_0007_down_schema: "schema_ops registry_0007_downgrade (registry_schemas ! 7) = Inr (registry_schemas ! 6)"
  by (simp add: registry_0007_downgrade_def schema_steps connectors_7_columns)

lemma registry_0006_down_schema: "schema_ops registry_0006_downgrade (registry_schemas ! 6) = Inr (registry_schemas ! 5)"
  by (simp add: registry_0006_downgrade_def schema_steps connectors_6_columns)

lemma registry_0005_down_schema: "schema_ops registry_0005_downgrade (registry_schemas ! 5) = Inr (registry_schemas ! 4)"
  by (simp add: registry_0005_downgrade_def schema_steps)
    (auto intro!: table_eqI simp: outbox_5_def invocations_5_def schema_eval)

lemma registry_0003_down_schema: "schema_ops registry_0003_downgrade (registry_schemas ! 3) = Inr (registry_schemas ! 2)"
  by (simp add: registry_0003_downgrade_def schema_steps connectors_3_def outbox_3_def version_column_def)

lemma registry_0002_down_schema: "schema_ops registry_0002_downgrade (registry_schemas ! 2) = Inr (registry_schemas ! 1)"
  by (simp add: registry_0002_downgrade_def schema_steps)

lemma registry_0001_down_schema: "schema_ops registry_0001_downgrade (registry_schemas ! 1) = Inr (registry_schemas ! 0)"
  by (simp add: registry_0001_downgrade_def schema_steps)

definition enabled_column :: column where
  "enabled_column = Column ''enabled'' BOOLEAN_TYPE False (DefaultBool True)"

definition mid_0004_down :: schema where
  "mid_0004_down = tables
     [(''connectors'', connectors_4\<lparr>tb_columns := tb_columns connectors_4 @ [enabled_column]\<rparr>), (''outbox_events'', outbox_3)]"

text \<open>The column comes back at the end of the table.\<close>

definition schema_3_again :: schema where
  "schema_3_again = tables
     [(''connectors'', connectors_3\<lparr>tb_columns := filter (\<lambda>c. cl_name c \<noteq> ''enabled'') (tb_columns connectors_3) @ [enabled_column]\<rparr>),
      (''outbox_events'', outbox_3)]"

definition restore_enabled :: statement where
  "restore_enabled = Update_set ''connectors'' ''enabled'' (Equals (Cell ''status'') (Value (SText ''enabled''))) (Value (SBool True))"

lemma registry_0004_down_split:
  "registry_0004_downgrade = take 5 registry_0004_downgrade @ Execute restore_enabled # drop 6 registry_0004_downgrade"
  by (simp add: registry_0004_downgrade_def restore_enabled_def)

lemma mid_0004_down_schema: "schema_ops (take 5 registry_0004_downgrade) (registry_schemas ! 4) = Inr mid_0004_down"
  by (simp add: registry_0004_downgrade_def schema_steps mid_0004_down_def enabled_column_def)

lemma connectors_4_columns:
  "tb_columns connectors_4 = filter (\<lambda>c. cl_name c \<noteq> ''enabled'') (tb_columns connectors_3) @ lifecycle_columns"
  by (simp add: connectors_4_def)

lemma rest_0004_down_schema: "schema_ops (drop 6 registry_0004_downgrade) mid_0004_down = Inr schema_3_again"
  by (simp add: registry_0004_downgrade_def schema_steps mid_0004_down_def enabled_column_def connectors_4_columns
      lifecycle_columns_def schema_3_again_def connectors_3_def connectors_1_def version_column_def)

lemma orchestrator_down_schema:
  "schema_ops orchestrator_0001_downgrade (orchestrator_schemas ! 1) = Inr (orchestrator_schemas ! 0)"
  "schema_ops orchestrator_0002_downgrade (orchestrator_schemas ! 2) = Inr (orchestrator_schemas ! 1)"
  "schema_ops orchestrator_0003_downgrade (orchestrator_schemas ! 3) = Inr (orchestrator_schemas ! 2)"
  "schema_ops orchestrator_0004_downgrade (orchestrator_schemas ! 4) = Inr (orchestrator_schemas ! 3)"
  "schema_ops orchestrator_0005_downgrade (orchestrator_schemas ! 5) = Inr (orchestrator_schemas ! 4)"
proof -
  show "schema_ops orchestrator_0001_downgrade (orchestrator_schemas ! 1) = Inr (orchestrator_schemas ! 0)"
    by (simp add: orchestrator_0001_downgrade_def orchestrator_schemas_def schema_steps) (simp add: orchestrator_agents_def)
  show "schema_ops orchestrator_0002_downgrade (orchestrator_schemas ! 2) = Inr (orchestrator_schemas ! 1)"
    by (simp add: orchestrator_0002_downgrade_def registry_0002_downgrade_def orchestrator_schemas_def schema_steps)
      (simp add: orchestrator_agents_def)
  show "schema_ops orchestrator_0003_downgrade (orchestrator_schemas ! 3) = Inr (orchestrator_schemas ! 2)"
    by (simp add: orchestrator_0003_downgrade_def orchestrator_schemas_def schema_steps outbox_3_def orchestrator_agents_def version_column_def)
  show "schema_ops orchestrator_0004_downgrade (orchestrator_schemas ! 4) = Inr (orchestrator_schemas ! 3)"
    by (simp add: orchestrator_0004_downgrade_def orchestrator_schemas_def schema_steps)
      (auto intro!: table_eqI simp: outbox_5_def schema_eval orchestrator_agents_def)
  show "schema_ops orchestrator_0005_downgrade (orchestrator_schemas ! 5) = Inr (orchestrator_schemas ! 4)"
    by (simp add: orchestrator_0005_downgrade_def orchestrator_schemas_def schema_steps orchestrator_agents_def version_column_def)
qed

section \<open>The rows of a rollback\<close>

definition parked :: "sqlval \<Rightarrow> sqlval" where
  "parked v = (if v \<in> SText ` set parked_states then SText ''disabled'' else v)"

definition strip_0008 :: "row \<Rightarrow> row" where
  "strip_0008 r = drop_cell ''revoked_at'' (drop_cell ''archived_at'' (drop_cell ''credentials_rotated_at''
     (drop_cell ''state_reason'' r)))"

definition park_row :: "row \<Rightarrow> row" where
  "park_row r = (if holds (In_list (Cell ''status'') parked_states) r then set_cell ''status'' (SText ''disabled'') r else r)"

lemma data_0008_prefix:
  "data_ops now (take 10 registry_0008_downgrade) d =
     Inr (d(''connector_audit'' := [], ''connectors'' := map strip_0008 (d ''connectors'')))"
  by (simp add: registry_0008_downgrade_def data_op_def comp_def strip_0008_def [abs_def])

lemma cell_strip:
  "c \<notin> {''revoked_at'', ''archived_at'', ''credentials_rotated_at'', ''state_reason''} \<Longrightarrow> cell c (strip_0008 r) = cell c r"
  by (simp add: strip_0008_def cell_drop)

lemma parked_cell:
  assumes "''status'' \<in> fst ` set r"
  shows "cell c (park_row r) = (if c = ''status'' then parked (cell c r) else cell c r)"
  using assms by (auto simp: park_row_def holds_def parked_def cell_set_cell split: if_splits)

lemma parked_narrow:
  assumes "v = SNull \<or> v \<in> SText ` set STATES"
  shows "parked v = SNull \<or> parked v \<in> SText ` set narrow_states"
proof -
  have "w \<in> set parked_states \<or> w \<in> set narrow_states" if "w \<in> set STATES" for w
    using that by (auto simp: STATES_def parked_states_def narrow_states_def)
  moreover have "''disabled'' \<in> set narrow_states"
    by (simp add: narrow_states_def)
  ultimately show ?thesis
    using assms by (auto simp: parked_def image_iff)
qed

lemma check_values: "check_ok (In_values n c vs) r \<longleftrightarrow> cell c r = SNull \<or> cell c r \<in> SText ` set vs"
  by (auto split: sqlval.split)

lemma rollback_0008_runs:
  assumes ok: "data_ok (registry_schemas ! 8) d"
  shows "run_ops now registry_0008_downgrade (registry_schemas ! 8, d) =
    Inr (registry_schemas ! 7, d(''connector_audit'' := [], ''connectors'' := map (\<lambda>r. park_row (strip_0008 r)) (d ''connectors'')))"
proof -
  let ?tb = "connectors_7\<lparr>tb_checks := tb_checks connectors_8\<rparr>"
  let ?d1 = "d(''connector_audit'' := [], ''connectors'' := map strip_0008 (d ''connectors''))"
  let ?d2 = "?d1(''connectors'' := map park_row (?d1 ''connectors''))"
  have pre: "list_all no_execute (take 10 registry_0008_downgrade)" "list_all op_wf (take 10 registry_0008_downgrade)"
    and post: "list_all no_execute (drop 11 registry_0008_downgrade)"
    by (simp_all add: registry_0008_downgrade_def)
  have run1: "run_ops now (take 10 registry_0008_downgrade) (registry_schemas ! 8, d) = Inr (mid_0008, ?d1)"
    using run_ops_rows [OF pre(1) mid_0008_schema, of now d] by (simp add: data_0008_prefix)
  have ok1: "table_ok ?tb (?d1 ''connectors'')"
    using run_ops_keep_integrity [OF run1 ok schemas_wf(1) pre(2)] by (simp add: data_ok_def mid_0008_def tables_def)
  have status: "''status'' \<in> fst ` set r" if "r \<in> set (?d1 ''connectors'')" for r
    using table_okD(2) [OF ok1 that, of "''status''"] by (simp add: schema_eval)
  have ok2: "table_ok ?tb (map park_row (?d1 ''connectors''))"
    unfolding park_row_def
    by (rule table_ok_set_cell [OF ok1])
      (auto simp: schema_eval STATES_def check_values cell_set_cell status simp del: check_ok.simps)
  have "run_statement park mid_0008 ?d1 = Inr ?d2"
    unfolding park_def park_row_def
    by (rule run_update [where tb = ?tb and e = "Value (SText ''disabled'')", unfolded eval.simps])
      (use ok2 in \<open>simp_all add: find_table_def mid_0008_def tables_def schema_eval park_row_def [abs_def]\<close>)
  moreover have "check_ok (In_values n ''status'' narrow_states) r" if "r \<in> set (?d2 ''connectors'')" for n r
  proof -
    obtain r0 where r0: "r0 \<in> set (?d1 ''connectors'')" "r = park_row r0"
      using \<open>r \<in> _\<close> by auto
    have "check_ok (In_values ''ck_connectors_status'' ''status'' STATES) r0"
      by (rule table_okD(3) [OF ok1 r0(1)]) (simp add: schema_eval)
    then show ?thesis
      using parked_narrow [of "cell ''status'' r0"] parked_cell [OF status [OF r0(1)], of "''status''"]
      by (simp add: r0(2) check_values del: check_ok.simps)
  qed
  then have "data_ops now (drop 11 registry_0008_downgrade) ?d2 = Inr ?d2"
    by (simp add: registry_0008_downgrade_def data_op_def narrow_states_def list_all_iff del: check_ok.simps)
  ultimately show ?thesis
    using run_ops_rows [OF post rest_0008_schema, of now ?d2]
    by (subst registry_0008_down_split) (simp add: run_ops_append run1 schema_op_def data_op_def comp_def)
qed

text \<open>
  A rollback of the lifecycle revision always runs.  On every database that satisfies the last
  revision's constraints, the downgrade of 0008 succeeds, leaves rows that satisfy the constraints of 0007,
  keeps every cell of every connector except that the five states 0007 does not know become disabled, keeps
  the other tables, and empties the audit trail.
\<close>

theorem rollback_0008_parks:
  assumes "data_ok (registry_schemas ! 8) d"
  shows "\<exists>d'. run_ops now registry_0008_downgrade (registry_schemas ! 8, d) = Inr (registry_schemas ! 7, d') \<and>
    data_ok (registry_schemas ! 7) d' \<and>
    (\<forall>c \<in> cl_name ` set (tb_columns connectors_7).
       map (cell c) (d' ''connectors'') = map (\<lambda>r. if c = ''status'' then parked (cell c r) else cell c r) (d ''connectors'')) \<and>
    d' ''connector_audit'' = [] \<and> (\<forall>t. t \<notin> {''connectors'', ''connector_audit''} \<longrightarrow> d' t = d t)"
proof -
  let ?d' = "d(''connector_audit'' := [], ''connectors'' := map (\<lambda>r. park_row (strip_0008 r)) (d ''connectors''))"
  note run = rollback_0008_runs [OF assms, of now]
  have ok: "data_ok (registry_schemas ! 7) ?d'"
    by (rule run_ops_keep_integrity [OF run assms schemas_wf(1)]) (simp_all add: registry_0008_downgrade_def)
  have "cell c (park_row (strip_0008 r)) = (if c = ''status'' then parked (cell c r) else cell c r)"
    if "c \<in> cl_name ` set (tb_columns connectors_7)" "r \<in> set (d ''connectors'')" for c r
  proof -
    have "''status'' \<in> fst ` set r"
      using table_okD(2) [OF registry_rows_ok(5) [OF assms refl] that(2), of "''status''"] by (simp add: schema_eval)
    then have "''status'' \<in> fst ` set (strip_0008 r)"
      by (force simp: strip_0008_def drop_cell_def)
    moreover have "c \<notin> {''revoked_at'', ''archived_at'', ''credentials_rotated_at'', ''state_reason''}"
      using that(1) by (auto simp: schema_eval)
    ultimately show ?thesis
      by (simp add: parked_cell cell_strip)
  qed
  with run ok show ?thesis by (intro exI [of _ ?d']) (simp add: comp_def)
qed

definition fresh_0008 :: row where
  "fresh_0008 = [(''revoked_at'', SNull), (''archived_at'', SNull), (''credentials_rotated_at'', SNull), (''state_reason'', SNull)]"

lemma upgrade_0008_runs:
  assumes "data_ok (registry_schemas ! 7) d"
  shows "run_ops now registry_0008_upgrade (registry_schemas ! 7, d) =
    Inr (registry_schemas ! 8, d(''connectors'' := map (\<lambda>r. r @ fresh_0008) (d ''connectors''), ''connector_audit'' := []))"
proof -
  have "check_ok (In_values n ''status'' STATES) r" if "r \<in> set (d ''connectors'')" for r n
    using table_okD(3) [OF registry_rows_ok(4) [OF assms refl] that, of "In_values ''ck_connectors_status'' ''status'' narrow_states"]
      narrow_in_STATES by (auto simp: schema_eval check_values simp del: check_ok.simps)
  then have "data_ops now registry_0008_upgrade d =
      Inr (d(''connectors'' := map (\<lambda>r. r @ fresh_0008) (d ''connectors''), ''connector_audit'' := []))"
    by (simp add: registry_0008_upgrade_def data_op_def Let_def list_all_iff fresh_0008_def comp_def fun_upd_twist del: check_ok.simps)
  then show ?thesis
    using run_ops_rows [OF no_execute_upgrades(7) registry_0008_schema, of now d] by simp
qed

lemma enable_edges:
  "find_transition (state_value REVOKED) (state_value ENABLED) None = Inl NotPermitted"
  "find_transition (state_value ARCHIVED) (state_value ENABLED) None = Inl NotPermitted"
  "find_transition (state_value DISABLED) (state_value ENABLED) None =
     Inr (Transition DISABLED ENABLED ''connector.enabled'' False False False)"
  by code_simp+

text \<open>
  C30. A rollback undoes revocations.  A connector that is revoked or archived, which no transition takes
  back to an executable state, is disabled after the lifecycle revision is rolled back and applied again,
  under its own id, and from there one transition without any condition makes it executable.
\<close>

theorem rollback_reopens_revoked:
  assumes "data_ok (registry_schemas ! 8) d" and "r \<in> set (d ''connectors'')"
    and "cell ''status'' r = SText (state_value s)" "s \<in> {REVOKED, ARCHIVED}"
  shows "(\<exists>e. find_transition (state_value s) (state_value ENABLED) None = Inl e) \<and>
    (\<exists>d7 d8 r8. run_ops now registry_0008_downgrade (registry_schemas ! 8, d) = Inr (registry_schemas ! 7, d7) \<and>
      run_ops later registry_0008_upgrade (registry_schemas ! 7, d7) = Inr (registry_schemas ! 8, d8) \<and>
      r8 \<in> set (d8 ''connectors'') \<and> cell ''id'' r8 = cell ''id'' r \<and> cell ''status'' r8 = SText (state_value DISABLED)) \<and>
    (\<exists>t. find_transition (state_value DISABLED) (state_value ENABLED) None = Inr t \<and> \<not> t_requires_reason t \<and> \<not> t_privileged t) \<and>
    is_executable (state_value ENABLED)"
proof -
  let ?d7 = "d(''connector_audit'' := [], ''connectors'' := map (\<lambda>r. park_row (strip_0008 r)) (d ''connectors''))"
  let ?d8 = "?d7(''connectors'' := map (\<lambda>r. r @ fresh_0008) (?d7 ''connectors''), ''connector_audit'' := [])"
  let ?r8 = "park_row (strip_0008 r) @ fresh_0008"
  note down = rollback_0008_runs [OF assms(1), of now]
  have ok: "data_ok (registry_schemas ! 7) ?d7"
    by (rule run_ops_keep_integrity [OF down assms(1) schemas_wf(1)]) (simp_all add: registry_0008_downgrade_def)
  have keys: "fst ` set r = cl_name ` set (tb_columns connectors_8)"
    using table_okD(1) [OF registry_rows_ok(5) [OF assms(1) refl] assms(2)] by (metis list.set_map)
  have old: "c \<in> fst ` set (park_row (strip_0008 r))" if "c \<in> {''id'', ''status''}" for c
  proof -
    have "fst ` set (park_row x) = fst ` set x" for x
      by (simp add: park_row_def flip: set_map)
    moreover have "c \<in> fst ` set r"
      using that by (auto simp: keys schema_eval)
    then have "c \<in> fst ` set (strip_0008 r)"
      using that by (force simp: strip_0008_def drop_cell_def)
    ultimately show ?thesis by simp
  qed
  have "''status'' \<in> fst ` set (strip_0008 r)"
    using old [of "''status''"] by (simp add: park_row_def flip: set_map split: if_splits)
  note at = parked_cell [OF this]
  have "parked (SText (state_value s)) = SText (state_value DISABLED)"
    using assms(4) by (auto simp: parked_def parked_states_def)
  then have "cell ''id'' ?r8 = cell ''id'' r" "cell ''status'' ?r8 = SText (state_value DISABLED)"
    using assms(3) by (simp_all add: cell_append_old [OF old] at cell_strip)
  moreover have "\<exists>e. find_transition (state_value s) (state_value ENABLED) None = Inl e"
    using assms(4) enable_edges(1,2) by blast
  moreover have "\<exists>t. find_transition (state_value DISABLED) (state_value ENABLED) None = Inr t \<and> \<not> t_requires_reason t \<and> \<not> t_privileged t"
    by (simp add: enable_edges(3) Transition_def del: state_value.simps)
  moreover have "is_executable (state_value ENABLED)"
    by code_simp
  moreover have "?r8 \<in> set (?d8 ''connectors'')"
    using assms(2) by simp
  ultimately show ?thesis
    using down upgrade_0008_runs [OF ok, of later] by blast
qed

text \<open>
  The tenant revision can be rolled back only while no two tenants share a name.  The downgrade of
  0007 succeeds exactly when the names of all connectors are distinct, and otherwise fails on the global
  constraint it restores, leaving the database at 0007.
\<close>

theorem rollback_0007_iff:
  assumes "data_ok (registry_schemas ! 7) d"
  shows "if distinct (map (cell ''name'') (d ''connectors''))
    then \<exists>d'. run_ops now registry_0007_downgrade (registry_schemas ! 7, d) = Inr (registry_schemas ! 6, d') \<and>
      data_ok (registry_schemas ! 6) d'
    else run_ops now registry_0007_downgrade (registry_schemas ! 7, d) = Inl (Constraint_violation ''uq_connectors_name'')"
proof -
  let ?rows = "d ''connectors''"
  have name: "cell ''name'' r \<noteq> SNull" if "r \<in> set ?rows" for r
  proof -
    have "Column ''name'' (STRING_TYPE 80) False NoDefault \<in> set (tb_columns connectors_7)"
      by (simp add: connectors_7_def connectors_6_def connectors_4_def connectors_3_def connectors_1_def)
    from table_okD(5) [OF registry_rows_ok(4) [OF assms refl] that this] show ?thesis
      by (simp add: not_null_ok_def)
  qed
  then have "unique_ok (Unique n [''name'']) ?rows \<longleftrightarrow> distinct (map (\<lambda>r. [cell ''name'' r]) ?rows)" for n
    by (simp add: filter_id_conv [THEN iffD2])
  moreover have "distinct (map (\<lambda>r. [cell ''name'' r]) ?rows) \<longleftrightarrow> distinct (map (cell ''name'') ?rows)"
    by (auto simp: distinct_map inj_on_def)
  ultimately have unique: "unique_ok (Unique n [''name'']) ?rows \<longleftrightarrow> distinct (map (cell ''name'') ?rows)" for n
    by blast
  have no: "list_all no_execute registry_0007_downgrade" "list_all op_wf registry_0007_downgrade"
    by (simp_all add: registry_0007_downgrade_def)
  note run = run_ops_rows [OF no(1) registry_0007_down_schema, of now d]
  show ?thesis
  proof (cases "distinct (map (cell ''name'') ?rows)")
    case True
    then have "\<exists>d'. data_ops now registry_0007_downgrade d = Inr d'"
      using unique by (simp add: registry_0007_downgrade_def data_op_def del: unique_ok.simps)
    with run obtain d' where d': "run_ops now registry_0007_downgrade (registry_schemas ! 7, d) = Inr (registry_schemas ! 6, d')"
      by auto
    with run_ops_keep_integrity [OF d' assms schemas_wf(1) no(2)] True show ?thesis by auto
  next
    case False
    then have "data_ops now registry_0007_downgrade d = Inl (Constraint_violation ''uq_connectors_name'')"
      using unique by (simp add: registry_0007_downgrade_def data_op_def del: unique_ok.simps)
    with run False show ?thesis by simp
  qed
qed

section \<open>The flag and its status\<close>

definition restore_row :: "row \<Rightarrow> row" where
  "restore_row r = set_cell ''enabled'' (eval r (Equals (Cell ''status'') (Value (SText ''enabled'')))) r"

definition strip_0004 :: "row \<Rightarrow> row" where
  "strip_0004 r = drop_cell ''config'' (drop_cell ''status'' (drop_cell ''deletion_requested_at'' (drop_cell ''deleted_at''
     (drop_cell ''deleted_by'' r))))"

lemma rollback_0004_runs:
  assumes ok: "data_ok (registry_schemas ! 4) d"
  shows "\<exists>d'. run_ops now registry_0004_downgrade (registry_schemas ! 4, d) = Inr (schema_3_again, d') \<and>
    d' ''connectors'' = map (\<lambda>r. strip_0004 (restore_row (r @ [(''enabled'', SBool True)]))) (d ''connectors'')"
proof -
  let ?tb = "connectors_4\<lparr>tb_columns := tb_columns connectors_4 @ [enabled_column]\<rparr>"
  let ?d1 = "d(''invocations'' := [], ''connectors'' := map (\<lambda>r. r @ [(''enabled'', SBool True)]) (d ''connectors''))"
  let ?d2 = "?d1(''connectors'' := map restore_row (?d1 ''connectors''))"
  have pre: "list_all no_execute (take 5 registry_0004_downgrade)" "list_all op_wf (take 5 registry_0004_downgrade)"
    and post: "list_all no_execute (drop 6 registry_0004_downgrade)"
    by (simp_all add: registry_0004_downgrade_def)
  have "data_ops now (take 5 registry_0004_downgrade) d = Inr ?d1"
    by (simp add: registry_0004_downgrade_def data_op_def Let_def)
  then have run1: "run_ops now (take 5 registry_0004_downgrade) (registry_schemas ! 4, d) = Inr (mid_0004_down, ?d1)"
    using run_ops_rows [OF pre(1) mid_0004_down_schema, of now d] by simp
  have ok1: "table_ok ?tb (?d1 ''connectors'')"
    using run_ops_keep_integrity [OF run1 ok schemas_wf(1) pre(2)] by (simp add: data_ok_def mid_0004_down_def tables_def)
  have status: "cell ''status'' r \<noteq> SNull" if "r \<in> set (?d1 ''connectors'')" for r
  proof -
    have "Column ''status'' (STRING_TYPE 24) False (DefaultText ''enabled'') \<in> set (tb_columns ?tb)"
      by (simp add: connectors_4_def lifecycle_columns_def)
    from table_okD(5) [OF ok1 that this] show ?thesis by (simp add: not_null_ok_def)
  qed
  have all: "map (\<lambda>r. if holds (Value (SBool True)) r then set_cell ''enabled'' (eval r (Equals (Cell ''status'')
      (Value (SText ''enabled'')))) r else r) (?d1 ''connectors'') = map restore_row (?d1 ''connectors'')"
    by (simp add: holds_def restore_row_def [abs_def])
  have "table_ok ?tb (map restore_row (?d1 ''connectors''))"
    unfolding all [symmetric] by (rule table_ok_set_cell [OF ok1]) (use status in \<open>auto simp: schema_eval\<close>)
  then have "run_statement restore_enabled mid_0004_down ?d1 = Inr ?d2"
    unfolding restore_enabled_def
    by (subst run_update [where tb = ?tb])
      (simp_all only: all, simp_all add: find_table_def mid_0004_down_def tables_def schema_eval)
  moreover have "\<exists>d'. data_ops now (drop 6 registry_0004_downgrade) ?d2 = Inr d' \<and>
      d' ''connectors'' = map (\<lambda>r. strip_0004 (restore_row (r @ [(''enabled'', SBool True)]))) (d ''connectors'')"
    by (simp add: registry_0004_downgrade_def data_op_def comp_def strip_0004_def)
  ultimately show ?thesis
    using run_ops_rows [OF post rest_0004_down_schema, of now ?d2]
    by (subst registry_0004_down_split) (auto simp: run_ops_append run1 schema_op_def data_op_def)
qed

lemma cell_strip_0004:
  "c \<notin> {''config'', ''status'', ''deletion_requested_at'', ''deleted_at'', ''deleted_by''} \<Longrightarrow> cell c (strip_0004 r) = cell c r"
  by (simp add: strip_0004_def cell_drop)

lemma restored_flag:
  assumes "map fst r = map cl_name (tb_columns connectors_3)"
  shows "cell ''enabled'' (strip_0004 (restore_row (drop_cell ''enabled'' (flag_row r) @ [(''enabled'', SBool True)]))) =
    SBool (cell ''enabled'' r = SBool True)"
proof -
  let ?x = "drop_cell ''enabled'' (flag_row r)"
  let ?y = "?x @ [(''enabled'', SBool True)]"
  have status: "cell ''status'' ?x = (if cell ''enabled'' r = SBool True then SText ''enabled'' else SText ''disabled'')"
    by (rule flag_status [OF assms])
  then have "''status'' \<in> fst ` set ?x"
    using cell_SNull [of "''status''" ?x] by (auto split: if_splits)
  then have "cell ''status'' ?y = cell ''status'' ?x"
    by (rule cell_append_old)
  with status have "eval ?y (Equals (Cell ''status'') (Value (SText ''enabled''))) = SBool (cell ''enabled'' r = SBool True)"
    by simp
  then have "cell ''enabled'' (restore_row ?y) = SBool (cell ''enabled'' r = SBool True)"
    unfolding restore_row_def by (subst cell_set_cell) simp
  then show ?thesis
    by (simp add: cell_strip_0004)
qed

lemma restored_rest:
  assumes "map fst r = map cl_name (tb_columns connectors_3)" "c \<in> cl_name ` set (tb_columns connectors_3) - {''enabled''}"
  shows "cell c (strip_0004 (restore_row (drop_cell ''enabled'' (flag_row r) @ [(''enabled'', SBool True)]))) = cell c r"
proof -
  have "c \<in> fst ` set r"
    using assms by (metis DiffD1 list.set_map)
  moreover have c: "c \<noteq> ''enabled''" "c \<notin> {''config'', ''status'', ''deletion_requested_at'', ''deleted_at'', ''deleted_by''}"
    using assms(2) by (auto simp: schema_eval)
  ultimately have "c \<in> fst ` set (drop_cell ''enabled'' r)"
    by (force simp: drop_cell_def)
  then have "cell c (drop_cell ''enabled'' (flag_row r) @ [(''enabled'', SBool True)]) = cell c r"
    using c(1) by (simp add: flag_row_def cell_append_old cell_drop)
  then show ?thesis
    using c by (simp add: cell_strip_0004 restore_row_def cell_set_cell del: set_cell_append)
qed

text \<open>
  C29. The old flag survives the change to a status and back.  Revision 0004 makes a connector executable
  exactly when its flag was set, never otherwise, and its downgrade gives every connector the flag and the
  other cells it had before.
\<close>

theorem flag_roundtrip:
  assumes "data_ok (registry_schemas ! 3) d"
  shows "\<exists>d4 d3. run_ops now registry_0004_upgrade (registry_schemas ! 3, d) = Inr (registry_schemas ! 4, d4) \<and>
    map (\<lambda>r. \<exists>s. cell ''status'' r = SText s \<and> is_executable s) (d4 ''connectors'') =
      map (\<lambda>r. cell ''enabled'' r = SBool True) (d ''connectors'') \<and>
    run_ops later registry_0004_downgrade (registry_schemas ! 4, d4) = Inr (schema_3_again, d3) \<and>
    map (\<lambda>r. cell ''enabled'' r = SBool True) (d3 ''connectors'') = map (\<lambda>r. cell ''enabled'' r = SBool True) (d ''connectors'') \<and>
    (\<forall>c \<in> cl_name ` set (tb_columns connectors_3) - {''enabled''}.
       map (cell c) (d3 ''connectors'') = map (cell c) (d ''connectors''))"
proof -
  obtain d4 where up: "run_ops now registry_0004_upgrade (registry_schemas ! 3, d) = Inr (registry_schemas ! 4, d4)"
    and rows4: "d4 ''connectors'' = map (\<lambda>r. drop_cell ''enabled'' (flag_row r)) (d ''connectors'')"
    using registry_0004_run [OF assms] by blast
  have ok4: "data_ok (registry_schemas ! 4) d4"
    by (rule run_ops_keep_integrity [OF up assms schemas_wf(1) op_wf_upgrades(4)]) simp
  obtain d3 where down: "run_ops later registry_0004_downgrade (registry_schemas ! 4, d4) = Inr (schema_3_again, d3)"
    and rows3: "d3 ''connectors'' = map (\<lambda>r. strip_0004 (restore_row (r @ [(''enabled'', SBool True)]))) (d4 ''connectors'')"
    using rollback_0004_runs [OF ok4] by blast
  have keys: "map fst r = map cl_name (tb_columns connectors_3)" if "r \<in> set (d ''connectors'')" for r
    using table_okD(1) [OF registry_rows_ok(1) [OF assms refl] that] .
  have exec: "(\<exists>s. (if b then SText ''enabled'' else SText ''disabled'') = SText s \<and> is_executable s) = b" for b
  proof -
    have "is_executable ''enabled''" "\<not> is_executable ''disabled''" by code_simp+
    then show ?thesis by simp
  qed
  let ?r3 = "\<lambda>r. strip_0004 (restore_row (drop_cell ''enabled'' (flag_row r) @ [(''enabled'', SBool True)]))"
  have flag: "(cell ''enabled'' (?r3 r) = SBool True) = (cell ''enabled'' r = SBool True)" if "r \<in> set (d ''connectors'')" for r
    using restored_flag [OF keys [OF that]] by simp
  have rest: "cell c (?r3 r) = cell c r" if "r \<in> set (d ''connectors'')" "c \<in> cl_name ` set (tb_columns connectors_3) - {''enabled''}" for c r
    using restored_rest [OF keys [OF that(1)] that(2)] .
  show ?thesis
    using up down flag rest flag_status [OF keys] exec
    by (intro exI [of _ d4] exI [of _ d3] conjI) (auto simp: rows4 rows3)
qed

section \<open>The audit trail\<close>

fun run_statements :: "statement list \<Rightarrow> schema \<Rightarrow> data \<Rightarrow> sql_error + data" where
  "run_statements [] s d = Inr d"
| "run_statements (st # sts) s d = (case run_statement st s d of Inl e \<Rightarrow> Inl e | Inr d' \<Rightarrow> run_statements sts s d')"

lemma head_tables:
  "find_table ''connectors'' (registry_schemas ! 8) = Some connectors_8"
  "find_table ''connector_audit'' (registry_schemas ! 8) = Some audit_8"
  "find_table t (registry_schemas ! 8) = Some tb \<Longrightarrow> tb_triggers tb \<noteq> [] \<longleftrightarrow> t = ''connector_audit''"
  by (auto simp: registry_schemas_def find_table_def tables_def schema_eval audit_8_def split: if_splits)

lemma statement_appends_audit:
  assumes "run_statement st (registry_schemas ! 8) d = Inr d'"
  shows "prefix (d ''connector_audit'') (d' ''connector_audit'')"
proof (cases st)
  case (Insert_into t r)
  with assms show ?thesis
    by (auto simp: run_statement_def split: option.splits if_splits)
next
  case (Update_set t c e cond)
  show ?thesis
  proof (cases "t = ''connector_audit''")
    case True
    then have "\<not> list_ex (holds cond) (d ''connector_audit'')"
      using assms by (auto simp: Update_set run_statement_def head_tables audit_8_def split: if_splits)
    then have "map (\<lambda>r. if holds cond r then set_cell c (eval r e) r else r) (d ''connector_audit'') = d ''connector_audit''"
      by (auto simp: list_ex_iff intro!: map_idI)
    then show ?thesis
      using assms True by (auto simp: Update_set run_statement_def Let_def head_tables split: if_splits)
  next
    case False
    then show ?thesis
      using assms by (auto simp: Update_set run_statement_def Let_def split: option.splits if_splits)
  qed
next
  case (Delete_from t cond)
  show ?thesis
  proof (cases "t = ''connector_audit''")
    case True
    then have "\<not> list_ex (holds cond) (d ''connector_audit'')"
      using assms by (auto simp: Delete_from run_statement_def head_tables audit_8_def split: if_splits)
    then have "filter (\<lambda>r. \<not> holds cond r) (d ''connector_audit'') = d ''connector_audit''"
      by (auto simp: list_ex_iff filter_id_conv)
    then show ?thesis
      using assms True by (auto simp: Delete_from run_statement_def head_tables split: if_splits)
  next
    case False
    then show ?thesis
      using assms by (auto simp: Delete_from run_statement_def split: option.splits if_splits)
  qed
qed

lemma referencedI:
  assumes "(t', tb) \<in> set (sc_tables s)" "f \<in> set (tb_foreign tb)" "fk_table f = t" "p (fk_target f)"
    and "cell (fk_target f) r \<noteq> SNull" "cell (fk_target f) r \<in> cell (fk_column f) ` set (d t')"
  shows "referenced s d t p r"
proof -
  have "list_ex (\<lambda>f. fk_table f = t \<and> p (fk_target f) \<and> cell (fk_target f) r \<noteq> SNull \<and>
      cell (fk_target f) r \<in> set (map (cell (fk_column f)) (d t'))) (tb_foreign tb)"
    unfolding list_ex_iff using assms(2-6) by (intro bexI [of _ f]) simp_all
  then show ?thesis
    unfolding referenced_def list_ex_iff [of _ "sc_tables s"] using assms(1) by blast
qed

lemma audit_references:
  "(''connector_audit'', audit_8) \<in> set (sc_tables (registry_schemas ! 8))"
  "Restrict ''connector_id'' ''connectors'' ''id'' \<in> set (tb_foreign audit_8)"
  by (simp_all add: registry_schemas_def audit_8_def)

lemma referenced_by_audit:
  assumes "a \<in> set (d ''connector_audit'')" "cell ''connector_id'' a = cell ''id'' r" "cell ''id'' r \<noteq> SNull" "p ''id''"
  shows "referenced (registry_schemas ! 8) d ''connectors'' p r"
  by (rule referencedI [OF audit_references]) (use assms in \<open>simp_all add: rev_image_eqI\<close>)

lemma statement_keeps_subject:
  assumes "run_statement st (registry_schemas ! 8) d = Inr d'" "a \<in> set (d ''connector_audit'')"
    and "cell ''connector_id'' a = i" "i \<noteq> SNull" "i \<in> cell ''id'' ` set (d ''connectors'')"
  shows "i \<in> cell ''id'' ` set (d' ''connectors'')"
proof -
  obtain r where r: "r \<in> set (d ''connectors'')" "cell ''id'' r = i"
    using assms(5) by blast
  have ref: "referenced (registry_schemas ! 8) d ''connectors'' p r" if "p ''id''" for p
    using referenced_by_audit [of a d r p] assms(2) assms(3,4) r(2) that by simp
  show ?thesis
  proof (cases st)
    case (Insert_into t x)
    with assms(1,5) show ?thesis
      by (auto simp: run_statement_def split: option.splits if_splits)
  next
    case (Update_set t c e cond)
    show ?thesis
    proof (cases "t = ''connectors''")
      case True
      let ?f = "\<lambda>r. if holds cond r then set_cell c (eval r e) r else r"
      have d': "d' ''connectors'' = map ?f (d ''connectors'')"
        and "\<not> list_ex (\<lambda>r. holds cond r \<and> eval r e \<noteq> cell c r \<and> referenced (registry_schemas ! 8) d ''connectors'' (\<lambda>k. k = c) r)
          (d ''connectors'')"
        using assms(1) True by (auto simp: Update_set run_statement_def Let_def head_tables split: if_splits)
      then have "\<not> holds cond r \<or> eval r e = cell c r \<or> c \<noteq> ''id''"
        using r(1) ref [of "\<lambda>k. k = c"] by (auto simp: list_ex_iff)
      then have "cell ''id'' (?f r) = i"
        using r(2) by (auto simp: cell_set_cell)
      with r(1) show ?thesis
        unfolding d' by (metis (no_types, lifting) image_eqI image_set)
    next
      case False
      with assms(1,5) show ?thesis
        by (auto simp: Update_set run_statement_def Let_def split: option.splits if_splits)
    qed
  next
    case (Delete_from t cond)
    show ?thesis
    proof (cases "t = ''connectors''")
      case True
      have d': "d' ''connectors'' = filter (\<lambda>r. \<not> holds cond r) (d ''connectors'')"
        and "\<not> list_ex (\<lambda>r. holds cond r \<and> referenced (registry_schemas ! 8) d ''connectors'' (\<lambda>k. True) r) (d ''connectors'')"
        using assms(1) True by (auto simp: Delete_from run_statement_def head_tables split: if_splits)
      then have "\<not> holds cond r"
        using r(1) ref [of "\<lambda>k. True"] by (auto simp: list_ex_iff)
      with r show ?thesis by (auto simp: d')
    next
      case False
      with assms(1,5) show ?thesis
        by (auto simp: Delete_from run_statement_def split: option.splits if_splits)
    qed
  qed
qed


section \<open>Models and revisions\<close>

text \<open>A live table serves a model: the same columns, keys and constraints, and every index the model declares.\<close>

definition shape :: "column \<Rightarrow> string \<times> coltype \<times> bool" where
  "shape c = (cl_name c, cl_type c, cl_nullable c)"

definition serves :: "table \<Rightarrow> table \<Rightarrow> bool" where
  "serves live model \<longleftrightarrow>
     shape ` set (tb_columns live) = shape ` set (tb_columns model) \<and>
     tb_primary live = tb_primary model \<and>
     set (tb_checks live) = set (tb_checks model) \<and>
     set (tb_uniques live) = set (tb_uniques model) \<and>
     set (tb_foreign live) = set (tb_foreign model) \<and>
     set (tb_indexes model) \<subseteq> set (tb_indexes live)"

definition schema_serves :: "schema \<Rightarrow> schema \<Rightarrow> bool" where
  "schema_serves live model \<longleftrightarrow>
     (\<forall>(t, tb) \<in> set (sc_tables model). \<exists>l. find_table t live = Some l \<and> serves l tb)"

lemma shape_Column [simp]: "shape (Column n t b v) = (n, t, b)"
  by (simp add: shape_def)

lemmas model_eval = connector_model_def invocation_model_def audit_model_def outbox_model_def agent_model_def empty_schema_def
  schema_op_def on_table_def find_table_def constraint_names_def index_names_def schema_serves_def serves_def
  registry_schemas_def orchestrator_schemas_def tables_def

lemmas live_tables = connectors_8_def connectors_7_def connectors_6_def connectors_4_def connectors_3_def connectors_1_def
  version_column_def lifecycle_columns_def outbox_5_def outbox_3_def outbox_2_def invocations_5_def invocations_4_def
  audit_8_def orchestrator_agents_def STATES_def

lemma registry_models:
  "\<exists>m. schema_ops (connector_model @ invocation_model @ audit_model @ outbox_model) empty_schema = Inr m \<and>
     schema_serves (registry_schemas ! 8) m"
  by (simp add: model_eval, simp add: live_tables, simp only: insert_commute)

lemma orchestrator_models:
  "\<exists>m. schema_ops (agent_model @ outbox_model) empty_schema = Inr m \<and> schema_serves (orchestrator_schemas ! 5) m"
  by (simp add: model_eval, simp add: live_tables, simp only: insert_commute)

lemma schema_ops_append:
  "schema_ops (xs @ ys) s = (case schema_ops xs s of Inl e \<Rightarrow> Inl e | Inr s' \<Rightarrow> schema_ops ys s')"
  by (induction xs arbitrary: s) (auto split: sum.splits)

lemma registry_head: "schema_at registry_migrations 8 = Inr (registry_schemas ! 8)"
proof -
  have empty: "empty_schema = registry_schemas ! 0"
    by (simp add: empty_schema_def registry_schemas_def tables_def)
  show ?thesis
    unfolding schema_at_def empty
    by (simp add: registry_migrations_def revision_def schema_ops_append registry_0001_schema registry_0002_schema
        registry_0003_schema registry_0004_schema registry_0005_schema registry_0006_schema registry_0007_schema
        registry_0008_schema del: One_nat_def)
qed

lemma orchestrator_head: "schema_at orchestrator_migrations 5 = Inr (orchestrator_schemas ! 5)"
proof -
  have empty: "empty_schema = orchestrator_schemas ! 0"
    by (simp add: empty_schema_def orchestrator_schemas_def tables_def)
  show ?thesis
    unfolding schema_at_def empty
    by (simp add: orchestrator_migrations_def revision_def schema_ops_append orchestrator_schema del: One_nat_def)
qed


section \<open>Undoing an upgrade\<close>

definition same_table :: "table \<Rightarrow> table \<Rightarrow> bool" where
  "same_table a b \<longleftrightarrow>
     set (tb_columns a) = set (tb_columns b) \<and> tb_primary a = tb_primary b \<and> tb_checks a = tb_checks b \<and>
     tb_uniques a = tb_uniques b \<and> tb_foreign a = tb_foreign b \<and> tb_indexes a = tb_indexes b \<and> tb_triggers a = tb_triggers b"

definition same_schema :: "schema \<Rightarrow> schema \<Rightarrow> bool" where
  "same_schema s s' \<longleftrightarrow>
     list_all2 (\<lambda>(t, a) (t', b). t = t' \<and> same_table a b) (sc_tables s) (sc_tables s') \<and> sc_functions s = sc_functions s'"

lemma same_schema_refl [simp]: "same_schema s s"
  by (auto simp: same_schema_def same_table_def intro: list_all2_refl)

lemma schema_3_restored: "same_schema schema_3_again (registry_schemas ! 3)"
proof -
  have "set (filter (\<lambda>c. cl_name c \<noteq> ''enabled'') (tb_columns connectors_3) @ [enabled_column]) = set (tb_columns connectors_3)"
    by (simp add: connectors_3_def connectors_1_def version_column_def enabled_column_def, simp only: insert_commute)
  then show ?thesis
    by (simp add: same_schema_def same_table_def schema_3_again_def registry_schemas_def tables_def)
qed

lemma registry_0004_down_schema: "schema_ops registry_0004_downgrade (registry_schemas ! 4) = Inr schema_3_again"
  by (subst registry_0004_down_split)
    (simp add: schema_ops_append mid_0004_down_schema, simp add: schema_op_def rest_0004_down_schema)

lemma registry_0008_down_schema: "schema_ops registry_0008_downgrade (registry_schemas ! 8) = Inr (registry_schemas ! 7)"
  by (subst registry_0008_down_split)
    (simp add: schema_ops_append mid_0008_schema, simp add: schema_op_def rest_0008_schema)

text \<open>
  A downgrade undoes its upgrade on the schema.  For every revision of either service, upgrading gives
  the next schema and downgrading from there gives back the same tables, keys, constraints, indexes and
  triggers, with the same columns in some order.
\<close>

theorem downgrades_undo_upgrades:
  assumes "chain_of ms ss" and "k < length ms"
  shows "schema_ops (mg_upgrade (ms ! k)) (ss ! k) = Inr (ss ! Suc k) \<and>
    (\<exists>s. schema_ops (mg_downgrade (ms ! k)) (ss ! Suc k) = Inr s \<and> same_schema s (ss ! k))"
proof -
  consider "ms = registry_migrations" "ss = registry_schemas" "k < 8" |
    "ms = orchestrator_migrations" "ss = orchestrator_schemas" "k < 5"
    using assms by (auto simp: chain_of_def registry_migrations_def orchestrator_migrations_def)
  then show ?thesis
  proof cases
    case 1
    note up = registry_0001_schema registry_0002_schema registry_0003_schema registry_0004_schema registry_0005_schema
      registry_0006_schema registry_0007_schema registry_0008_schema
    note down = registry_0001_down_schema registry_0002_down_schema registry_0003_down_schema registry_0004_down_schema
      registry_0005_down_schema registry_0006_down_schema registry_0007_down_schema registry_0008_down_schema
    from less_8_cases [OF 1(3)] show ?thesis
      unfolding 1(1,2)
      using up [unfolded One_nat_def numeral_eq_Suc pred_numeral_simps BitM.simps]
        down [unfolded One_nat_def numeral_eq_Suc pred_numeral_simps BitM.simps] schema_3_restored
      by (auto simp: registry_migrations_def revision_def numeral_eq_Suc)
  next
    case 2
    from less_5_cases [OF 2(3)] show ?thesis
      unfolding 2(1,2)
      using orchestrator_schema orchestrator_down_schema
      by (auto simp: orchestrator_migrations_def revision_def numeral_eq_Suc)
  qed
qed

section \<open>Witnesses\<close>

text \<open>A database of each of the revisions 3, 7 and 8, and a statement that moves its connector.\<close>

definition connectors_data :: "row list \<Rightarrow> data" where
  "connectors_data rows t = (if t = ''connectors'' then rows else [])"

definition old_row :: "string \<Rightarrow> bool \<Rightarrow> row" where
  "old_row i b = [(''id'', SText i), (''name'', SText i), (''kind'', SText ''http''), (''base_url'', SNull),
     (''scopes'', SArray []), (''enabled'', SBool b), (''created_at'', STime 0), (''version'', SInt 1)]"

definition tenant_row :: "string \<Rightarrow> string \<Rightarrow> string \<Rightarrow> row" where
  "tenant_row i t status = [(''id'', SText i), (''name'', SText ''github''), (''kind'', SText ''http''), (''base_url'', SNull),
     (''scopes'', SArray []), (''created_at'', STime 0), (''version'', SInt 1), (''config'', SJson (JObj [])),
     (''status'', SText status), (''deletion_requested_at'', SNull), (''deleted_at'', SNull), (''deleted_by'', SNull),
     (''supports_idempotency'', SBool False), (''idempotency_mode'', SText ''unsupported''), (''tenant_id'', SText t)]"

lemma witness_3: "data_ok (registry_schemas ! 3) (connectors_data [old_row ''c1'' True, old_row ''c2'' False])"
  by (simp add: data_ok_def registry_schemas_def tables_def connectors_data_def table_ok_def row_ok_def old_row_def cell_def
      not_null_ok_def schema_eval) (simp add: connectors_3_def connectors_1_def version_column_def cell_def not_null_ok_def)

lemma witness_7: "data_ok (registry_schemas ! 7) (connectors_data [tenant_row ''c1'' ''t1'' ''enabled'', tenant_row ''c2'' ''t2'' ''enabled''])"
  by (simp add: data_ok_def registry_schemas_def tables_def connectors_data_def table_ok_def row_ok_def tenant_row_def cell_def
      not_null_ok_def schema_eval narrow_states_def)
    (simp add: connectors_7_def connectors_6_def connectors_4_def connectors_3_def connectors_1_def version_column_def
      lifecycle_columns_def cell_def not_null_ok_def)

lemma witness_8: "data_ok (registry_schemas ! 8) (connectors_data [tenant_row ''c1'' ''t1'' ''revoked'' @ fresh_0008])"
  by (simp add: data_ok_def registry_schemas_def tables_def connectors_data_def table_ok_def row_ok_def tenant_row_def cell_def
      not_null_ok_def schema_eval STATES_def fresh_0008_def)
    (simp add: connectors_8_def connectors_7_def connectors_6_def connectors_4_def connectors_3_def connectors_1_def
      version_column_def lifecycle_columns_def cell_def not_null_ok_def list_all_iff)


theorem flag_roundtrip_witness:
  "\<exists>d4. run_ops 0 registry_0004_upgrade (registry_schemas ! 3, connectors_data [old_row ''c1'' True, old_row ''c2'' False]) =
      Inr (registry_schemas ! 4, d4) \<and>
    map (\<lambda>r. \<exists>s. cell ''status'' r = SText s \<and> is_executable s) (d4 ''connectors'') = [True, False]"
  using flag_roundtrip [OF witness_3, of 0 0] by (auto simp: connectors_data_def old_row_def cell_def)

theorem rollback_0008_parks_witness:
  "\<exists>d'. run_ops 0 registry_0008_downgrade (registry_schemas ! 8, connectors_data [tenant_row ''c1'' ''t1'' ''revoked'' @ fresh_0008]) =
      Inr (registry_schemas ! 7, d') \<and> map (cell ''status'') (d' ''connectors'') = [SText ''disabled'']"
proof -
  have "''status'' \<in> cl_name ` set (tb_columns connectors_7)"
    by (simp add: schema_eval)
  with rollback_0008_parks [OF witness_8, of 0] show ?thesis
    by (fastforce simp: connectors_data_def tenant_row_def cell_def parked_def parked_states_def)
qed

theorem rollback_reopens_revoked_witness:
  "\<exists>d7 d8 r8. run_ops 0 registry_0008_downgrade (registry_schemas ! 8, connectors_data [tenant_row ''c1'' ''t1'' ''revoked'' @ fresh_0008]) =
      Inr (registry_schemas ! 7, d7) \<and>
    run_ops 1 registry_0008_upgrade (registry_schemas ! 7, d7) = Inr (registry_schemas ! 8, d8) \<and>
    r8 \<in> set (d8 ''connectors'') \<and> cell ''status'' r8 = SText (state_value DISABLED)"
proof -
  have row: "tenant_row ''c1'' ''t1'' ''revoked'' @ fresh_0008 \<in> set (connectors_data [tenant_row ''c1'' ''t1'' ''revoked'' @ fresh_0008] ''connectors'')"
    "cell ''status'' (tenant_row ''c1'' ''t1'' ''revoked'' @ fresh_0008) = SText (state_value REVOKED)"
    by (simp_all add: connectors_data_def tenant_row_def cell_def)
  show ?thesis
    using rollback_reopens_revoked [OF witness_8 row, of 0 1] by blast
qed

theorem rollback_0007_iff_witness:
  "run_ops 0 registry_0007_downgrade
     (registry_schemas ! 7, connectors_data [tenant_row ''c1'' ''t1'' ''enabled'', tenant_row ''c2'' ''t2'' ''enabled'']) =
   Inl (Constraint_violation ''uq_connectors_name'')"
  using rollback_0007_iff [OF witness_7, of 0] by (simp add: connectors_data_def tenant_row_def cell_def)

definition audit_row_8 :: row where
  "audit_row_8 = [(''id'', SText ''a1''), (''connector_id'', SText ''c1''), (''tenant_id'', SText ''t1''),
     (''from_state'', SText ''enabled''), (''to_state'', SText ''revoked''), (''event'', SText ''connector.revoked''),
     (''actor_id'', SText ''u1''), (''reason'', SText ''leaked''), (''aggregate_version'', SInt 2), (''idempotency_key'', SNull),
     (''recorded_at'', STime 0)]"

definition audited_data :: data where
  "audited_data t =
     (if t = ''connector_audit'' then [audit_row_8] else connectors_data [tenant_row ''c1'' ''t1'' ''revoked'' @ fresh_0008] t)"

lemma delete_nothing:
  "run_statement (Delete_from ''connectors'' (Equals (Cell ''id'') (Value (SText ''c9'')))) (registry_schemas ! 8) audited_data =
     Inr audited_data"
  by (simp add: run_statement_def head_tables(1) connectors_8_sel audited_data_def connectors_data_def tenant_row_def cell_def
      holds_def fresh_0008_def fun_eq_iff)


theorem downgrades_undo_upgrades_witness:
  "\<exists>s. schema_ops registry_0004_downgrade (registry_schemas ! 4) = Inr s \<and> same_schema s (registry_schemas ! 3)"
  using downgrades_undo_upgrades [of registry_migrations registry_schemas 3]
  by (simp add: chain_of_def registry_migrations_def revision_def)

end
