(* ===== verification/Metrics.thy ===== *)
theory Metrics
  imports Delivery
begin

text \<open>
  \<open>favl_outbox/metrics.py\<close> and what the publisher records in it.  \<open>samples\<close> is the exporter's state:
  the value of each series, that is of a metric with its label values; a series appears when it is
  first touched.  Of a histogram only the number of observations is kept, since the durations come
  from \<open>perf_counter\<close>.
\<close>

datatype instrument = Counter | Gauge | Histogram "rat list"

record metric =
  me_name :: string
  me_labels :: "string list"
  me_instrument :: instrument

section \<open>The declared metrics\<close>

definition PUBLISH :: metric where
  "PUBLISH = \<lparr>me_name = ''favl_outbox_publish_total'', me_labels = [''service'', ''subject'', ''result''],
     me_instrument = Counter\<rparr>"

definition RETRY :: metric where
  "RETRY = \<lparr>me_name = ''favl_outbox_retry_total'', me_labels = [''service'', ''subject''], me_instrument = Counter\<rparr>"

definition DEAD_LETTER :: metric where
  "DEAD_LETTER = \<lparr>me_name = ''favl_outbox_dead_letter_total'', me_labels = [''service'', ''subject''],
     me_instrument = Counter\<rparr>"

definition CLAIMED :: metric where
  "CLAIMED = \<lparr>me_name = ''favl_outbox_claimed_total'', me_labels = [''service''], me_instrument = Counter\<rparr>"

definition CLAIM_TIMEOUT :: metric where
  "CLAIM_TIMEOUT = \<lparr>me_name = ''favl_outbox_claim_timeout_total'', me_labels = [''service''], me_instrument = Counter\<rparr>"

definition PENDING :: metric where
  "PENDING = \<lparr>me_name = ''favl_outbox_pending'', me_labels = [''service''], me_instrument = Gauge\<rparr>"

definition DEAD :: metric where
  "DEAD = \<lparr>me_name = ''favl_outbox_dead'', me_labels = [''service''], me_instrument = Gauge\<rparr>"

definition OLDEST_PENDING :: metric where
  "OLDEST_PENDING = \<lparr>me_name = ''favl_outbox_oldest_pending_seconds'', me_labels = [''service''], me_instrument = Gauge\<rparr>"

definition WINDOW_UTILISATION :: metric where
  "WINDOW_UTILISATION = \<lparr>me_name = ''favl_outbox_duplicate_window_utilisation'', me_labels = [''service''],
     me_instrument = Gauge\<rparr>"

definition PUBLISH_LATENCY :: metric where
  "PUBLISH_LATENCY = \<lparr>me_name = ''favl_outbox_publish_latency_seconds'', me_labels = [''service''],
     me_instrument = Histogram [1/1000, 5/1000, 1/100, 25/1000, 5/100, 1/10, 25/100, 5/10, 1, 25/10, 5]\<rparr>"

definition DRAIN_LATENCY :: metric where
  "DRAIN_LATENCY = \<lparr>me_name = ''favl_outbox_drain_latency_seconds'', me_labels = [''service''],
     me_instrument = Histogram [1/1000, 1/100, 5/100, 1/10, 5/10, 1, 5]\<rparr>"

lemmas metric_defs = PUBLISH_def RETRY_def DEAD_LETTER_def CLAIMED_def CLAIM_TIMEOUT_def PENDING_def
  DEAD_def OLDEST_PENDING_def WINDOW_UTILISATION_def PUBLISH_LATENCY_def DRAIN_LATENCY_def

section \<open>Samples\<close>

type_synonym samples = "(string \<times> string list) \<rightharpoonup> rat"

definition sample :: "samples \<Rightarrow> metric \<Rightarrow> string list \<Rightarrow> rat" where
  "sample s m ls = (case s (me_name m, ls) of None \<Rightarrow> 0 | Some v \<Rightarrow> v)"

definition set_gauge :: "metric \<Rightarrow> string list \<Rightarrow> rat \<Rightarrow> samples \<Rightarrow> samples" where
  "set_gauge m ls v s = s((me_name m, ls) \<mapsto> v)"

definition inc :: "metric \<Rightarrow> string list \<Rightarrow> nat \<Rightarrow> samples \<Rightarrow> samples" where
  "inc m ls n s = s((me_name m, ls) \<mapsto> sample s m ls + of_nat n)"

definition observe :: "metric \<Rightarrow> string list \<Rightarrow> samples \<Rightarrow> samples" where
  "observe m ls s = s((me_name m @ ''_count'', ls) \<mapsto> (case s (me_name m @ ''_count'', ls) of None \<Rightarrow> 0 | Some v \<Rightarrow> v) + 1)"

section \<open>What a batch records\<close>

text \<open>One row, in the status its publish left it.\<close>

definition row_metrics :: "string \<Rightarrow> outbox_row \<Rightarrow> samples \<Rightarrow> samples" where
  "row_metrics service row s =
     (let ls = [service, o_subject row]
      in if o_status row = STATUS_PUBLISHED
         then inc PUBLISH (ls @ [''success'']) 1 (observe PUBLISH_LATENCY [service] s)
         else if o_status row = STATUS_DEAD
         then inc DEAD_LETTER ls 1 (inc PUBLISH (ls @ [''failure'']) 1 s)
         else inc RETRY ls 1 (inc PUBLISH (ls @ [''failure'']) 1 s))"

definition claimed_metrics :: "string \<Rightarrow> nat \<Rightarrow> samples \<Rightarrow> samples" where
  "claimed_metrics service n s = (if n = 0 then s else inc CLAIMED [service] n s)"

definition rows_metrics :: "string \<Rightarrow> outbox_row list \<Rightarrow> samples \<Rightarrow> samples" where
  "rows_metrics service rows s = fold (row_metrics service) rows s"

definition stats_metrics :: "string \<Rightarrow> outbox_stats \<Rightarrow> samples \<Rightarrow> samples" where
  "stats_metrics service st s =
     set_gauge OLDEST_PENDING [service]
       (case os_oldest_pending_age_seconds st of None \<Rightarrow> 0 | Some age \<Rightarrow> age)
       (set_gauge DEAD [service] (of_nat (os_dead st))
         (set_gauge PENDING [service] (of_nat (os_pending st)) s))"

section \<open>Reading samples back\<close>

named_theorems sample_simps

lemma sample_inc [sample_simps]:
  "sample (inc m ls n s) m' ls' =
     sample s m' ls' + (if me_name m' = me_name m \<and> ls' = ls then of_nat n else 0)"
  by (auto simp: sample_def inc_def)

lemma sample_set_gauge [sample_simps]:
  "sample (set_gauge m ls v s) m' ls' = (if me_name m' = me_name m \<and> ls' = ls then v else sample s m' ls')"
  by (auto simp: sample_def set_gauge_def)

text \<open>The five counters are different series, and neither histogram's count is one of them.\<close>

lemma counter_names [sample_simps]:
  "me_name PUBLISH \<noteq> me_name RETRY" "me_name RETRY \<noteq> me_name PUBLISH"
  "me_name PUBLISH \<noteq> me_name DEAD_LETTER" "me_name DEAD_LETTER \<noteq> me_name PUBLISH"
  "me_name PUBLISH \<noteq> me_name CLAIMED" "me_name CLAIMED \<noteq> me_name PUBLISH"
  "me_name RETRY \<noteq> me_name DEAD_LETTER" "me_name DEAD_LETTER \<noteq> me_name RETRY"
  "me_name RETRY \<noteq> me_name CLAIMED" "me_name CLAIMED \<noteq> me_name RETRY"
  "me_name DEAD_LETTER \<noteq> me_name CLAIMED" "me_name CLAIMED \<noteq> me_name DEAD_LETTER"
  by (simp_all add: metric_defs)

lemma gauge_names [sample_simps]:
  "me_name PENDING \<noteq> me_name DEAD" "me_name DEAD \<noteq> me_name PENDING"
  "me_name PENDING \<noteq> me_name OLDEST_PENDING" "me_name OLDEST_PENDING \<noteq> me_name PENDING"
  "me_name DEAD \<noteq> me_name OLDEST_PENDING" "me_name OLDEST_PENDING \<noteq> me_name DEAD"
  by (simp_all add: metric_defs)

lemma gauges_are_not_counters:
  assumes "m \<in> {PUBLISH, RETRY, DEAD_LETTER, CLAIMED}" "m' \<in> {PENDING, DEAD, OLDEST_PENDING, CLAIM_TIMEOUT}"
  shows "me_name m \<noteq> me_name m'"
  using assms by (elim insertE emptyE; simp add: metric_defs)

lemma sample_observe [sample_simps]:
  assumes "m \<in> {PUBLISH_LATENCY, DRAIN_LATENCY}" "m' \<in> {PUBLISH, RETRY, DEAD_LETTER, CLAIMED}"
  shows "sample (observe m ls s) m' ls' = sample s m' ls'"
proof -
  have "me_name m' \<noteq> me_name m @ ''_count''"
    using assms by (elim insertE emptyE; simp add: metric_defs)
  then show ?thesis by (auto simp: sample_def observe_def)
qed

text \<open>A settled row counts one attempt of its subject, and a retry or a dead letter with a failed one.\<close>

abbreviation published :: "outbox_row \<Rightarrow> bool" where
  "published r \<equiv> o_status r = STATUS_PUBLISHED"

lemma row_metrics_sample [sample_simps]:
  "sample (row_metrics service row s) PUBLISH [w, q, result] = sample s PUBLISH [w, q, result] +
     (if w = service \<and> q = o_subject row \<and> result = (if published row then ''success'' else ''failure'') then 1 else 0)"
  "sample (row_metrics service row s) DEAD_LETTER [w, q] = sample s DEAD_LETTER [w, q] +
     (if w = service \<and> q = o_subject row \<and> o_status row = STATUS_DEAD then 1 else 0)"
  "sample (row_metrics service row s) RETRY [w, q] = sample s RETRY [w, q] +
     (if w = service \<and> q = o_subject row \<and> \<not> published row \<and> o_status row \<noteq> STATUS_DEAD then 1 else 0)"
  "sample (row_metrics service row s) CLAIMED ls = sample s CLAIMED ls"
  by (simp_all add: row_metrics_def Let_def sample_simps)

lemma rows_metrics_sample [sample_simps]:
  "sample (rows_metrics service rows s) PUBLISH [service, q, ''success''] = sample s PUBLISH [service, q, ''success''] +
     of_nat (length (filter (\<lambda>r. o_subject r = q \<and> published r) rows))"
  "sample (rows_metrics service rows s) PUBLISH [service, q, ''failure''] = sample s PUBLISH [service, q, ''failure''] +
     of_nat (length (filter (\<lambda>r. o_subject r = q \<and> \<not> published r) rows))"
  "sample (rows_metrics service rows s) DEAD_LETTER [service, q] = sample s DEAD_LETTER [service, q] +
     of_nat (length (filter (\<lambda>r. o_subject r = q \<and> o_status r = STATUS_DEAD) rows))"
  "sample (rows_metrics service rows s) RETRY [service, q] = sample s RETRY [service, q] +
     of_nat (length (filter (\<lambda>r. o_subject r = q \<and> \<not> published r \<and> o_status r \<noteq> STATUS_DEAD) rows))"
  "sample (rows_metrics service rows s) CLAIMED ls = sample s CLAIMED ls"
  unfolding rows_metrics_def by (induction rows arbitrary: s) (simp_all add: sample_simps)

lemma stats_metrics_sample [sample_simps]:
  "sample (stats_metrics service st s) PENDING [service] = of_nat (os_pending st)"
  "sample (stats_metrics service st s) DEAD [service] = of_nat (os_dead st)"
  "sample (stats_metrics service st s) OLDEST_PENDING [service] =
     (case os_oldest_pending_age_seconds st of None \<Rightarrow> 0 | Some age \<Rightarrow> age)"
  by (simp_all add: stats_metrics_def sample_simps)

lemma stats_metrics_counters [sample_simps]:
  assumes "m \<in> {PUBLISH, RETRY, DEAD_LETTER, CLAIMED}"
  shows "sample (stats_metrics service st s) m ls = sample s m ls"
proof -
  have "me_name m \<noteq> me_name PENDING" "me_name m \<noteq> me_name DEAD" "me_name m \<noteq> me_name OLDEST_PENDING"
    by (rule gauges_are_not_counters [OF assms]; simp)+
  then show ?thesis
    unfolding stats_metrics_def sample_set_gauge by simp
qed

end
