(* ===== verification/ServiceLife.thy ===== *)
theory ServiceLife
  imports Metrics RegistryApi Orchestrator Migrations
begin

text \<open>
  The process around the handlers, the same in both services: \<open>app/outbox.py\<close> and \<open>app/db.py\<close> (what the
  import of the module reads and refuses), the lifespan of \<open>app/main.py\<close>, the polling task of
  \<open>publisher.py\<close>, its statistics and the process endpoints.  \<open>service\<close> is one replica with the database
  table and the stream it works on.  An iteration of the loop is one step; \<open>iteration\<close> is what the outside
  world does in it: the broker's answers, the database's failures, the clocks.  The connection's flag is
  read once per batch.  Cancellation in the middle of a batch is \<open>cut_batch\<close>: the transaction is rolled back,
  what was published stays published.
\<close>

section \<open>Import: settings and the gate\<close>

record outbox_settings =
  st_service :: string
  st_broker :: broker_settings
  st_database_url :: string
  st_utilisation :: rat
  st_policy :: retry_policy
  st_delays :: operational_delays
  st_batch_size :: int
  st_poll_interval :: rat
  st_idle_interval :: rat

datatype boot_error = Gate gate_error | RuntimeError string

definition database_url :: "getenv \<Rightarrow> boot_error + string" where
  "database_url getenv =
     (case getenv ''DATABASE_URL'' of
        None \<Rightarrow> Inl (RuntimeError ''DATABASE_URL is not set'')
      | Some url \<Rightarrow> if url = [] then Inl (RuntimeError ''DATABASE_URL is not set'') else Inr url)"

definition import_outbox ::
  "string \<Rightarrow> getenv \<Rightarrow> (string \<Rightarrow> int option) \<Rightarrow> (string \<Rightarrow> rat option) \<Rightarrow> boot_error + outbox_settings" where
  "import_outbox service getenv to_int to_float =
     (case broker_settings_from_env getenv to_float of Inl e \<Rightarrow> Inl (Gate e) | Inr bs \<Rightarrow>
      case database_url getenv of Inl e \<Rightarrow> Inl e | Inr url \<Rightarrow>
      case enforce_duplicate_window_invariant getenv to_int to_float bs of Inl e \<Rightarrow> Inl (Gate e) | Inr u \<Rightarrow>
      case retry_policy_from_env getenv to_int to_float of Inl e \<Rightarrow> Inl (Gate e) | Inr policy \<Rightarrow>
      case operational_delays_from_env getenv to_float bs of Inl e \<Rightarrow> Inl (Gate e) | Inr delays \<Rightarrow>
      case env_read getenv to_int ''OUTBOX_BATCH_SIZE'' 100 of Inl e \<Rightarrow> Inl (Gate e) | Inr batch \<Rightarrow>
      case env_read getenv to_float ''OUTBOX_POLL_INTERVAL'' (1 / 4) of Inl e \<Rightarrow> Inl (Gate e) | Inr poll \<Rightarrow>
      case env_read getenv to_float ''OUTBOX_IDLE_INTERVAL'' 1 of Inl e \<Rightarrow> Inl (Gate e) | Inr idle \<Rightarrow>
      Inr \<lparr>st_service = service, st_broker = bs, st_database_url = url, st_utilisation = u, st_policy = policy,
           st_delays = delays, st_batch_size = batch, st_poll_interval = poll, st_idle_interval = idle\<rparr>)"

definition registry_outbox where "registry_outbox = import_outbox ''connector-registry''"

definition orchestrator_outbox where "orchestrator_outbox = import_outbox ''orchestrator''"

section \<open>The publisher's task\<close>

datatype task = Polling | Finished "string option"  \<comment> \<open>ended, with the exception if it was not cancelled\<close>

record service =
  sv_settings :: outbox_settings
  sv_connection :: connection
  sv_task :: "task option"
  sv_stop :: bool
  sv_last_error :: "string option"
  sv_samples :: samples
  sv_engine_disposed :: bool
  sv_rows :: "outbox_row list"
  sv_stream :: "message list"

definition boot :: "outbox_settings \<Rightarrow> outbox_row list \<Rightarrow> message list \<Rightarrow> service" where
  "boot settings rows stream =
     \<lparr>sv_settings = settings, sv_connection = new_connection, sv_task = None, sv_stop = False,
      sv_last_error = None,
      sv_samples = set_gauge WINDOW_UTILISATION [st_service settings] (st_utilisation settings) Map.empty,
      sv_engine_disposed = False, sv_rows = rows, sv_stream = stream\<rparr>"

definition start :: "service \<Rightarrow> service" where
  "start sv = (if sv_task sv \<noteq> None then sv else sv\<lparr>sv_task := Some Polling, sv_stop := False\<rparr>)"

text \<open>Awaiting a task that ended with an exception raises it, before the task is forgotten.\<close>

definition stop :: "service \<Rightarrow> call_result \<times> service" where
  "stop sv =
     (case sv_task sv of
        None \<Rightarrow> (Returns, sv)
      | Some (Finished (Some m)) \<Rightarrow> (Raises m, sv\<lparr>sv_stop := True\<rparr>)
      | Some t \<Rightarrow> (Returns, sv\<lparr>sv_stop := True, sv_task := None\<rparr>))"

definition running :: "service \<Rightarrow> bool" where
  "running sv = (sv_task sv = Some Polling)"

section \<open>One iteration of the loop\<close>

datatype db_failure = SQLAlchemyError string | OtherError string  \<comment> \<open>with \<open>str(exc)\<close>\<close>

primrec message_text :: "db_failure \<Rightarrow> string" where
  "message_text (SQLAlchemyError m) = m"
| "message_text (OtherError m) = m"

record iteration =
  it_env :: publish_env
  it_now :: time
  it_locked :: "uuid list"
  it_claim_error :: "db_failure option"
  it_limit_error :: string  \<comment> \<open>the database's answer to a negative LIMIT\<close>
  it_commit_error :: "db_failure option"
  it_stats_now :: time
  it_stats_error :: "db_failure option"

definition iteration_env :: "iteration \<Rightarrow> service \<Rightarrow> publish_env" where
  "iteration_env it sv = (it_env it)\<lparr>pe_connection := sv_connection sv\<rparr>"

definition batch_size :: "service \<Rightarrow> nat" where
  "batch_size sv = nat (st_batch_size (sv_settings sv))"

definition claimed_rows :: "iteration \<Rightarrow> service \<Rightarrow> outbox_row list" where
  "claimed_rows it sv = claim (it_now it) (it_locked it) (batch_size sv) (sv_rows sv)"

definition claim_failure :: "iteration \<Rightarrow> service \<Rightarrow> db_failure option" where
  "claim_failure it sv =
     (case it_claim_error it of
        Some e \<Rightarrow> Some e
      | None \<Rightarrow> if st_batch_size (sv_settings sv) < 0 then Some (SQLAlchemyError (it_limit_error it)) else None)"

text \<open>The first \<open>k\<close> claimed rows are published, inside the transaction.\<close>

definition publish_rows :: "nat \<Rightarrow> iteration \<Rightarrow> service \<Rightarrow> drain_state" where
  "publish_rows k it sv =
     fold (publish_row (st_policy (sv_settings sv)) (iteration_env it sv)) (take k (claimed_rows it sv))
       \<lparr>ds_table = sv_rows sv, ds_result = no_result\<lparr>dr_claimed := length (claimed_rows it sv)\<rparr>,
        ds_last_error = sv_last_error sv, ds_log = []\<rparr>"

definition published_so_far :: "nat \<Rightarrow> iteration \<Rightarrow> service \<Rightarrow> service" where
  "published_so_far k it sv =
     (let svc = st_service (sv_settings sv); cs = claimed_rows it sv
      in sv\<lparr>sv_last_error := ds_last_error (publish_rows k it sv),
            sv_stream := sv_stream sv @ ds_log (publish_rows k it sv),
            sv_samples := rows_metrics svc
              (map (settle_row (st_policy (sv_settings sv)) (iteration_env it sv)) (take k cs))
              (claimed_metrics svc (length cs) (sv_samples sv))\<rparr>)"

definition count_claim_timeout :: "db_failure \<Rightarrow> service \<Rightarrow> service" where
  "count_claim_timeout e sv =
     (case e of
        SQLAlchemyError m \<Rightarrow> sv\<lparr>sv_samples := inc CLAIM_TIMEOUT [st_service (sv_settings sv)] 1 (sv_samples sv)\<rparr>
      | OtherError m \<Rightarrow> sv)"

definition drain_step :: "iteration \<Rightarrow> service \<Rightarrow> (string + drain_result) \<times> service" where
  "drain_step it sv =
     (case claim_failure it sv of
        Some e \<Rightarrow> (Inl (message_text e), count_claim_timeout e sv)
      | None \<Rightarrow>
          let n = length (claimed_rows it sv); sent = published_so_far n it sv
          in case it_commit_error it of
               Some e \<Rightarrow> (Inl (message_text e), count_claim_timeout e sent)
             | None \<Rightarrow> (Inr (ds_result (publish_rows n it sv)),
                 sent\<lparr>sv_rows := ds_table (publish_rows n it sv),
                      sv_samples := observe DRAIN_LATENCY [st_service (sv_settings sv)] (sv_samples sent)\<rparr>))"

definition refresh_stats :: "time \<Rightarrow> service \<Rightarrow> service" where
  "refresh_stats now sv =
     sv\<lparr>sv_samples := stats_metrics (st_service (sv_settings sv)) (stats now (sv_rows sv)) (sv_samples sv)\<rparr>"

text \<open>Every failure is caught and remembered; the loop waits the returned delay, or for the stop signal.\<close>

definition run_once :: "iteration \<Rightarrow> service \<Rightarrow> rat \<times> service" where
  "run_once it sv =
     (let poll = st_poll_interval (sv_settings sv); idle = st_idle_interval (sv_settings sv)
      in case drain_step it sv of
           (Inl m, sv') \<Rightarrow> (next_delay poll idle (Inl m), sv'\<lparr>sv_last_error := Some m\<rparr>)
         | (Inr r, sv') \<Rightarrow>
             (case it_stats_error it of
                Some e \<Rightarrow> (next_delay poll idle (Inl (message_text e)), sv'\<lparr>sv_last_error := Some (message_text e)\<rparr>)
              | None \<Rightarrow> (next_delay poll idle (Inr r), refresh_stats (it_stats_now it) sv')))"

text \<open>A batch interrupted after \<open>k\<close> rows; \<open>mid\<close> says that the next publish had reached the broker.\<close>

definition cut_batch :: "nat \<Rightarrow> bool \<Rightarrow> iteration \<Rightarrow> service \<Rightarrow> service" where
  "cut_batch k mid it sv =
     (let sent = published_so_far k it sv
      in if mid then sent\<lparr>sv_stream := sv_stream sent @
           concat (map (stored_messages (iteration_env it sv)) (take 1 (drop k (claimed_rows it sv))))\<rparr>
         else sent)"

section \<open>Lifespan and process endpoints\<close>

definition startup :: "getenv \<Rightarrow> call_result \<Rightarrow> stream_info \<Rightarrow> call_result \<Rightarrow> call_result \<Rightarrow> service \<Rightarrow> service" where
  "startup getenv nats_connect info add_stream update_stream sv =
     (let sv' = sv\<lparr>sv_connection := connect nats_connect info add_stream update_stream (sv_connection sv)\<rparr>
      in if publisher_enabled getenv then start sv' else sv')"

definition close_connection :: "call_result \<Rightarrow> connection \<Rightarrow> call_result \<times> connection" where
  "close_connection nats_drain c =
     (if connected c then case nats_drain of Returns \<Rightarrow> (Returns, close c) | Raises m \<Rightarrow> (Raises m, c)
      else (Returns, close c))"

definition shutdown :: "call_result \<Rightarrow> service \<Rightarrow> call_result \<times> service" where
  "shutdown nats_drain sv =
     (case stop sv of
        (Raises m, sv') \<Rightarrow> (Raises m, sv')
      | (Returns, sv') \<Rightarrow>
          (case close_connection nats_drain (sv_connection sv') of
             (Raises m, c) \<Rightarrow> (Raises m, sv')
           | (Returns, c) \<Rightarrow> (Returns, sv'\<lparr>sv_connection := c, sv_engine_disposed := True\<rparr>)))"

definition live :: jobj where
  "live = [(''status'', JStr ''live'')]"

text \<open>The scrape: only database errors of SQLAlchemy are swallowed.\<close>

definition prometheus_metrics :: "db_failure option \<Rightarrow> time \<Rightarrow> service \<Rightarrow> service \<times> (string + samples)" where
  "prometheus_metrics db now sv =
     (case db of
        Some (OtherError m) \<Rightarrow> (sv, Inl m)
      | Some (SQLAlchemyError m) \<Rightarrow> (sv, Inr (sv_samples sv))
      | None \<Rightarrow> (let sv' = refresh_stats now sv in (sv', Inr (sv_samples sv'))))"

definition REGISTRY_EXPECTED_MIGRATION :: "getenv \<Rightarrow> string" where
  "REGISTRY_EXPECTED_MIGRATION getenv = (case getenv ''EXPECTED_MIGRATION'' of None \<Rightarrow> ''0008'' | Some v \<Rightarrow> v)"

definition ORCHESTRATOR_EXPECTED_MIGRATION :: "getenv \<Rightarrow> string" where
  "ORCHESTRATOR_EXPECTED_MIGRATION getenv = (case getenv ''EXPECTED_MIGRATION'' of None \<Rightarrow> ''0005'' | Some v \<Rightarrow> v)"

text \<open>
  What a readiness handler finds in its process; the migration head and the failures of the two queries
  come from the database.
\<close>

definition service_probe :: "string option option \<Rightarrow> bool \<Rightarrow> time \<Rightarrow> service \<Rightarrow> probe" where
  "service_probe head stats_fail now sv =
     \<lparr>pb_head = head, pb_stats = (if stats_fail then None else Some (stats now (sv_rows sv))),
      pb_publisher_running = running sv, pb_publisher_last_error = sv_last_error sv,
      pb_connection = sv_connection sv\<rparr>"

definition orchestrator_readiness :: "string \<Rightarrow> probe \<Rightarrow> jobj" where
  "orchestrator_readiness expected_migration pb = readiness expected_migration None pb"

definition orchestrator_public_ready :: "jobj \<Rightarrow> int \<times> jobj" where
  "orchestrator_public_ready detail = public_ready detail"

definition readyz :: "jobj \<Rightarrow> int \<times> jobj" where
  "readyz detail = (ready_status detail, detail)"

text \<open>The orchestrator's lifespan, scrape and switch are the same code in its own file.\<close>

definition orchestrator_startup ::
  "getenv \<Rightarrow> call_result \<Rightarrow> stream_info \<Rightarrow> call_result \<Rightarrow> call_result \<Rightarrow> service \<Rightarrow> service" where
  "orchestrator_startup getenv nats_connect info add_stream update_stream sv =
     startup getenv nats_connect info add_stream update_stream sv"

definition orchestrator_shutdown :: "call_result \<Rightarrow> service \<Rightarrow> call_result \<times> service" where
  "orchestrator_shutdown nats_drain sv = shutdown nats_drain sv"

definition orchestrator_metrics :: "db_failure option \<Rightarrow> time \<Rightarrow> service \<Rightarrow> service \<times> (string + samples)" where
  "orchestrator_metrics db now sv = prometheus_metrics db now sv"

definition orchestrator_publisher_enabled :: "getenv \<Rightarrow> bool" where
  "orchestrator_publisher_enabled getenv = publisher_enabled getenv"

text \<open>The orchestrator's middleware: a caller's request id is kept, and set on the response whatever it held.\<close>

definition request_context ::
  "response_headers \<Rightarrow> uuid \<Rightarrow> raised + (int \<times> response_headers) \<Rightarrow> raised + (int \<times> response_headers)" where
  "request_context request_headers uuid4 handled =
     (let request_id = (case map_of request_headers ''x-request-id'' of None \<Rightarrow> uuid4 | Some v \<Rightarrow> v)
      in case handled of
           Inl e \<Rightarrow> Inl e
         | Inr (code, hs) \<Rightarrow> Inr (code, filter (\<lambda>(k, _). k \<noteq> ''x-request-id'') hs @ [(''x-request-id'', request_id)]))"

section \<open>The steps of a running process\<close>

inductive service_step :: "(time \<Rightarrow> string) \<Rightarrow> service \<Rightarrow> service \<Rightarrow> bool" for fmt :: "time \<Rightarrow> string" where
  commits: "uuid4 \<notin> o_id ` set (sv_rows sv) \<Longrightarrow>
    service_step fmt sv (sv\<lparr>sv_rows := enqueue (sv_rows sv) uuid4 now subject payload aty aid v\<rparr>)"
| polls: "running sv \<Longrightarrow> pe_isoformat (it_env it) = fmt \<Longrightarrow> service_step fmt sv (snd (run_once it sv))"
| link: "cn_nc (sv_connection sv) = Some b \<Longrightarrow>
    service_step fmt sv (sv\<lparr>sv_connection := (sv_connection sv)\<lparr>cn_nc := Some b'\<rparr>\<rparr>)"
| scrape: "service_step fmt sv (fst (prometheus_metrics db now sv))"
| dies: "running sv \<Longrightarrow> pe_isoformat (it_env it) = fmt \<Longrightarrow>
    service_step fmt sv ((cut_batch k mid it sv)\<lparr>sv_task := Some (Finished m)\<rparr>)"
| shuts_down: "service_step fmt sv (snd (shutdown nats_drain sv))"
| shuts_down_in_batch: "running sv \<Longrightarrow> pe_isoformat (it_env it) = fmt \<Longrightarrow>
    service_step fmt sv (snd (shutdown nats_drain (cut_batch k mid it sv)))"

inductive_cases service_stepE: "service_step fmt sv sv'"

section \<open>What an iteration does\<close>

named_theorems process_simps

lemma stop_fields [process_simps]:
  "sv_rows (snd (stop sv)) = sv_rows sv" "sv_stream (snd (stop sv)) = sv_stream sv"
  "sv_settings (snd (stop sv)) = sv_settings sv" "sv_connection (snd (stop sv)) = sv_connection sv"
  by (simp_all add: stop_def split: option.splits task.splits)

lemma shutdown_fields [process_simps]:
  "sv_rows (snd (shutdown nats_drain sv)) = sv_rows sv" "sv_stream (snd (shutdown nats_drain sv)) = sv_stream sv"
  "sv_settings (snd (shutdown nats_drain sv)) = sv_settings sv"
  using stop_fields [of sv]
  by (cases "stop sv"; auto simp: shutdown_def split: prod.splits call_result.splits)+

lemma published_fields [process_simps]:
  "sv_rows (published_so_far k it sv) = sv_rows sv" "sv_settings (published_so_far k it sv) = sv_settings sv"
  "sv_connection (published_so_far k it sv) = sv_connection sv" "sv_task (published_so_far k it sv) = sv_task sv"
  "sv_stream (published_so_far k it sv) =
     sv_stream sv @ concat (map (stored_messages (iteration_env it sv)) (take k (claimed_rows it sv)))"
  by (simp_all add: published_so_far_def publish_rows_def fold_publish_row Let_def)

lemma cut_fields [process_simps]:
  "sv_rows (cut_batch k mid it sv) = sv_rows sv" "sv_settings (cut_batch k mid it sv) = sv_settings sv"
  "sv_connection (cut_batch k mid it sv) = sv_connection sv"
  by (simp_all add: cut_batch_def Let_def process_simps)

lemma count_fields [process_simps]:
  "sv_rows (count_claim_timeout e sv) = sv_rows sv" "sv_stream (count_claim_timeout e sv) = sv_stream sv"
  "sv_settings (count_claim_timeout e sv) = sv_settings sv" "sv_connection (count_claim_timeout e sv) = sv_connection sv"
  "sv_task (count_claim_timeout e sv) = sv_task sv" "sv_last_error (count_claim_timeout e sv) = sv_last_error sv"
  by (simp_all add: count_claim_timeout_def split: db_failure.split)

text \<open>A whole batch is the publisher's; a cut one is the crash of the outbox system.\<close>

lemma publish_all_rows:
  "publish_rows (length (claimed_rows it sv)) it sv =
     drain_once (st_policy (sv_settings sv)) (iteration_env it sv) (it_now it) (it_locked it) (batch_size sv)
       (sv_rows sv) (sv_last_error sv)"
  by (simp add: publish_rows_def drain_once_def claimed_rows_def Let_def)

lemma cut_stream [process_simps]:
  "sv_stream (cut_batch k mid it sv) = sv_stream sv @
     drain_crash (iteration_env it sv) (it_now it) (it_locked it) (batch_size sv) (if mid then k + 1 else k) (sv_rows sv)"
proof -
  have "take (k + 1) xs = take k xs @ take 1 (drop k xs)" for xs :: "outbox_row list"
    using take_add [of k 1 xs] .
  then show ?thesis
    by (simp add: cut_batch_def drain_crash_def process_simps claimed_rows_def Let_def)
qed

end
