(* ===== verification/ServiceContract.thy ===== *)
theory ServiceContract
  imports ServiceLife
begin

text \<open>
  What the process promises: a service that starts is one the duplicate-window gate admits; its steps
  are steps of the outbox system, so delivery is at least once whatever kills the process; the publishing
  loop survives every failure and drains its backlog once the broker is healthy; a scrape shows the backlog
  whatever became of the publisher; and what happens when the broker is down at start-up.
\<close>

section \<open>Start-up\<close>

lemmas import_defs = import_outbox_def enforce_duplicate_window_invariant_def operational_delays_from_env_def

lemma import_outboxE:
  assumes "import_outbox service getenv to_int to_float = Inr st"
  obtains "st_service st = service"
    "retry_policy_from_env getenv to_int to_float = Inr (st_policy st)"
    "operational_delays_from_env getenv to_float (st_broker st) = Inr (st_delays st)"
    "validate_duplicate_window (st_policy st) (st_delays st) (bs_duplicate_window (st_broker st))
       (bs_safety_margin (st_broker st)) = Inr (st_utilisation st)"
    "env_read getenv to_int ''OUTBOX_BATCH_SIZE'' 100 = Inr (st_batch_size st)"
    "env_read getenv to_float ''OUTBOX_IDLE_INTERVAL'' 1 = Inr (st_idle_interval st)"
    "st_database_url st \<noteq> []"
  using assms
  by (auto simp: import_outbox_def enforce_duplicate_window_invariant_def database_url_def
      split: sum.splits option.splits if_splits)


text \<open>An environment that sets the database, the batch size and the poll interval.\<close>

definition plain_env :: "string \<Rightarrow> string \<Rightarrow> getenv" where
  "plain_env batch poll =
     [''DATABASE_URL'' \<mapsto> ''postgresql'', ''OUTBOX_BATCH_SIZE'' \<mapsto> batch, ''OUTBOX_POLL_INTERVAL'' \<mapsto> poll]"

definition plain_broker :: broker_settings where
  "plain_broker = \<lparr>bs_connect_timeout = 5, bs_publish_timeout = 5, bs_duplicate_window = 7200, bs_safety_margin = 3 / 4\<rparr>"

definition plain_delays :: operational_delays where
  "plain_delays = \<lparr>od_db_lock_wait_seconds = 5, od_broker_connect_timeout_seconds = 5,
     od_publish_timeout_seconds = 5, od_process_restart_seconds = 60, od_poll_interval_seconds = 1\<rparr>"

definition plain_settings :: "string \<Rightarrow> int \<Rightarrow> rat \<Rightarrow> outbox_settings" where
  "plain_settings service n q = \<lparr>st_service = service, st_broker = plain_broker, st_database_url = ''postgresql'',
     st_utilisation = 3067 / 28800, st_policy = DEFAULT_RETRY_POLICY, st_delays = plain_delays,
     st_batch_size = n, st_poll_interval = q, st_idle_interval = 1\<rparr>"

lemma plain_horizon: "worst_case_retry_horizon DEFAULT_RETRY_POLICY plain_delays = 3067 / 4"
  by (simp add: worst_case_retry_horizon_def DEFAULT_RETRY_POLICY_def backoff_for_def plain_delays_def
      raw_backoff_def per_attempt_seconds_def upto.simps)

lemma plain_import:
  "import_outbox service (plain_env batch poll) (\<lambda>s. if s = batch then Some n else None) (\<lambda>s. if s = poll then Some q else None) =
     Inr (plain_settings service n q)"
proof -
  let ?to_float = "\<lambda>s. if s = poll then Some q else None"
  have off: "plain_env batch poll v = None" if "v \<notin> {''DATABASE_URL'', ''OUTBOX_BATCH_SIZE'', ''OUTBOX_POLL_INTERVAL''}" for v
    using that by (simp add: plain_env_def)
  note unset = env_read_def off
  have 1: "broker_settings_from_env (plain_env batch poll) ?to_float = Inr plain_broker"
    by (simp add: broker_settings_from_env_def unset plain_broker_def)
  have 2: "retry_policy_from_env (plain_env batch poll) (\<lambda>s. if s = batch then Some n else None) ?to_float = Inr DEFAULT_RETRY_POLICY"
    by (simp add: retry_policy_from_env_def unset DEFAULT_RETRY_POLICY_def)
  have 3: "operational_delays_from_env (plain_env batch poll) ?to_float plain_broker = Inr plain_delays"
    by (simp add: operational_delays_from_env_def unset plain_delays_def plain_broker_def)
  have 4: "validate_duplicate_window DEFAULT_RETRY_POLICY plain_delays 7200 (3 / 4) = Inr (3067 / 28800)"
    by (simp add: validate_duplicate_window_def plain_horizon Let_def)
  have 5: "plain_env batch poll ''DATABASE_URL'' = Some ''postgresql''" "plain_env batch poll ''OUTBOX_BATCH_SIZE'' = Some batch"
    "plain_env batch poll ''OUTBOX_POLL_INTERVAL'' = Some poll"
    by (simp_all add: plain_env_def)
  have 6: "bs_duplicate_window plain_broker = 7200" "bs_safety_margin plain_broker = 3 / 4"
    by (simp_all add: plain_broker_def)
  have "enforce_duplicate_window_invariant (plain_env batch poll) (\<lambda>s. if s = batch then Some n else None) ?to_float plain_broker
      = Inr (3067 / 28800)"
    by (simp add: enforce_duplicate_window_invariant_def 2 3 4 6)
  then show ?thesis
    by (simp add: import_outbox_def 1 2 3 5 database_url_def unset plain_settings_def)
qed


section \<open>The process refines the outbox\<close>

definition outbox_of :: "service \<Rightarrow> system" where
  "outbox_of sv = \<lparr>sy_rows = sv_rows sv, sy_log = sv_stream sv\<rparr>"

lemma iteration_env_fmt [simp]: "pe_isoformat (iteration_env it sv) = pe_isoformat (it_env it)"
  by (simp add: iteration_env_def)

text \<open>A failed claim leaves the outbox alone, a failed commit keeps the rows, a commit keeps all of it.\<close>

lemma drain_step_cases:
  obtains (claim_failed) e where "claim_failure it sv = Some e"
      "drain_step it sv = (Inl (message_text e), count_claim_timeout e sv)"
  | (commit_failed) e where "claim_failure it sv = None" "it_commit_error it = Some e"
      "drain_step it sv = (Inl (message_text e), count_claim_timeout e (published_so_far (length (claimed_rows it sv)) it sv))"
  | (committed) st where "claim_failure it sv = None" "it_commit_error it = None"
      "st = drain_once (st_policy (sv_settings sv)) (iteration_env it sv) (it_now it) (it_locked it) (batch_size sv)
         (sv_rows sv) (sv_last_error sv)"
      "fst (drain_step it sv) = Inr (ds_result st)"
      "sv_rows (snd (drain_step it sv)) = ds_table st"
      "sv_stream (snd (drain_step it sv)) = sv_stream sv @ ds_log st"
      "sv_last_error (snd (drain_step it sv)) = ds_last_error st"
      "sv_task (snd (drain_step it sv)) = sv_task sv" "sv_settings (snd (drain_step it sv)) = sv_settings sv"
      "sv_connection (snd (drain_step it sv)) = sv_connection sv"
  by (cases "claim_failure it sv"; cases "it_commit_error it")
    (auto simp: drain_step_def Let_def publish_all_rows [symmetric] published_so_far_def)

lemma run_once_eq:
  obtains e s where "snd (run_once it sv) = (snd (drain_step it sv))\<lparr>sv_last_error := e, sv_samples := s\<rparr>"
proof (cases "drain_step it sv")
  case (Pair r sv')
  have upd: "sv' = sv'\<lparr>sv_last_error := sv_last_error sv', sv_samples := sv_samples sv'\<rparr>"
    by simp
  show ?thesis
  proof (cases "\<exists>d. r = Inr d \<and> it_stats_error it = None")
    case True
    then show ?thesis
      by (intro that [where e = "sv_last_error sv'" and s = "sv_samples (refresh_stats (it_stats_now it) sv')"])
        (auto simp: run_once_def Pair refresh_stats_def Let_def)
  next
    case False
    then obtain m where "snd (run_once it sv) = sv'\<lparr>sv_last_error := Some m\<rparr>"
      by (cases r; cases "it_stats_error it") (auto simp: run_once_def Pair Let_def)
    then show ?thesis
      by (intro that [where e = "Some m" and s = "sv_samples sv'"]) (simp add: Pair)
  qed
qed

lemma drain_step_fields [process_simps]:
  "sv_settings (snd (drain_step it sv)) = sv_settings sv" "sv_connection (snd (drain_step it sv)) = sv_connection sv"
  "sv_task (snd (drain_step it sv)) = sv_task sv"
  by (cases it sv rule: drain_step_cases; simp add: process_simps)+

lemma run_once_fields [process_simps]:
  "sv_rows (snd (run_once it sv)) = sv_rows (snd (drain_step it sv))"
  "sv_stream (snd (run_once it sv)) = sv_stream (snd (drain_step it sv))"
  "sv_settings (snd (run_once it sv)) = sv_settings sv" "sv_connection (snd (run_once it sv)) = sv_connection sv"
  "sv_task (snd (run_once it sv)) = sv_task sv"
  by (rule run_once_eq [of it sv], simp add: process_simps)+

lemma drain_step_outbox:
  assumes "pe_isoformat (it_env it) = fmt"
  shows "(sys_step (st_policy (sv_settings sv)) fmt)\<^sup>*\<^sup>* (outbox_of sv) (outbox_of (snd (drain_step it sv)))"
proof (cases it sv rule: drain_step_cases)
  case (claim_failed e)
  then show ?thesis
    by (simp add: outbox_of_def process_simps)
next
  case (commit_failed e)
  have "sys_step (st_policy (sv_settings sv)) fmt (outbox_of sv) (outbox_of (snd (drain_step it sv)))"
    using commit_failed assms sys_step.crash [of "iteration_env it sv" fmt "st_policy (sv_settings sv)" "sv_rows sv" "sv_stream sv"
      "it_now it" "it_locked it" "batch_size sv" "length (claimed_rows it sv)"]
    by (simp add: outbox_of_def process_simps drain_crash_def claimed_rows_def)
  then show ?thesis by blast
next
  case (committed st)
  have "sys_step (st_policy (sv_settings sv)) fmt (outbox_of sv) (outbox_of (snd (drain_step it sv)))"
    using committed assms sys_step.drain [of "iteration_env it sv" fmt st "st_policy (sv_settings sv)"]
    by (simp add: outbox_of_def)
  then show ?thesis by blast
qed

lemma cut_outbox:
  assumes "pe_isoformat (it_env it) = fmt"
  shows "sys_step (st_policy (sv_settings sv)) fmt (outbox_of sv) (outbox_of (cut_batch k mid it sv))"
  unfolding outbox_of_def cut_fields cut_stream by (rule sys_step.crash) (simp add: assms)

lemma scrape_fields [process_simps]:
  "sv_rows (fst (prometheus_metrics db now sv)) = sv_rows sv"
  "sv_stream (fst (prometheus_metrics db now sv)) = sv_stream sv"
  "sv_settings (fst (prometheus_metrics db now sv)) = sv_settings sv"
  "sv_connection (fst (prometheus_metrics db now sv)) = sv_connection sv"
  "sv_task (fst (prometheus_metrics db now sv)) = sv_task sv"
  by (simp_all add: prometheus_metrics_def refresh_stats_def Let_def split: option.split db_failure.split)

lemma step_settings: "service_step fmt sv sv' \<Longrightarrow> sv_settings sv' = sv_settings sv"
  by (induction rule: service_step.induct) (simp_all add: process_simps)

text \<open>
  C31. The process refines the outbox.  Every step of a replica, whether a request commits an event, the
  loop runs an iteration in which the database or the broker may fail anywhere, the process dies or is
  stopped in the middle of a batch, the link changes or a scrape comes in, is a sequence of steps of the outbox
  system under the policy the gate checked.
\<close>

theorem process_refines_outbox:
  assumes "service_step fmt sv sv'"
  shows "(sys_step (st_policy (sv_settings sv)) fmt)\<^sup>*\<^sup>* (outbox_of sv) (outbox_of sv')"
  using assms
proof (induction rule: service_step.induct)
  case (commits uuid4 sv now subject payload aty aid v)
  then show ?case
    using sys_step.stage by (fastforce simp: outbox_of_def)
next
  case (polls sv it)
  then show ?case
    using drain_step_outbox [of it fmt sv] by (simp add: outbox_of_def process_simps)
next
  case (dies sv it m k mid)
  then show ?case
    using cut_outbox [of it fmt sv k mid] by (auto simp: outbox_of_def)
next
  case (shuts_down_in_batch sv it nats_drain k mid)
  then show ?case
    using cut_outbox [of it fmt sv k mid] by (auto simp: outbox_of_def process_simps)
qed (simp_all add: outbox_of_def process_simps)

text \<open>A service of the default settings with a connected broker, and an iteration in which all goes well.\<close>

definition plain_service :: "outbox_row list \<Rightarrow> service" where
  "plain_service rows = start (boot (plain_settings ''orchestrator'' 100 1) rows [])
     \<lparr>sv_connection := \<lparr>cn_nc = Some True, cn_js = True, cn_last_error = None\<rparr>\<rparr>"

definition good_iteration :: "time \<Rightarrow> iteration" where
  "good_iteration now = \<lparr>it_env = up_env, it_now = now, it_locked = [], it_claim_error = None, it_limit_error = [],
     it_commit_error = None, it_stats_now = now, it_stats_error = None\<rparr>"

lemma plain_service_fields [simp]:
  "sv_task (plain_service rows) = Some Polling" "sv_rows (plain_service rows) = rows"
  "sv_stream (plain_service rows) = []" "sv_settings (plain_service rows) = plain_settings ''orchestrator'' 100 1"
  "ready (sv_connection (plain_service rows))" "sv_last_error (plain_service rows) = None"
  by (simp_all add: plain_service_def start_def boot_def ready_def connected_def)

lemma plain_service_running [simp]: "running (plain_service rows)"
  by (simp add: running_def)

lemma good_iteration_fields [simp]:
  "it_env (good_iteration now) = up_env" "it_now (good_iteration now) = now" "it_locked (good_iteration now) = []"
  "it_claim_error (good_iteration now) = None" "it_commit_error (good_iteration now) = None"
  "it_stats_error (good_iteration now) = None"
  by (simp_all add: good_iteration_def)

theorem process_refines_outbox_witness:
  "(sys_step DEFAULT_RETRY_POLICY (\<lambda>_. []))\<^sup>*\<^sup>* \<lparr>sy_rows = example_rows, sy_log = []\<rparr>
     (outbox_of (snd (run_once (good_iteration 5) (plain_service example_rows))))"
proof -
  have "service_step (\<lambda>_. []) (plain_service example_rows) (snd (run_once (good_iteration 5) (plain_service example_rows)))"
    by (rule service_step.polls) (simp_all add: up_env_def)
  from process_refines_outbox [OF this] show ?thesis
    by (simp add: outbox_of_def plain_settings_def)
qed

section \<open>The loop keeps going\<close>

definition iterations :: "iteration list \<Rightarrow> service \<Rightarrow> service" where
  "iterations its sv = fold (\<lambda>it sv. snd (run_once it sv)) its sv"

text \<open>Nothing fails, no row is locked by another replica, and the broker acknowledges everything.\<close>

definition goes_well :: "iteration \<Rightarrow> bool" where
  "goes_well it \<longleftrightarrow> it_claim_error it = None \<and> it_commit_error it = None \<and> it_locked it = [] \<and>
     (\<forall>m. \<exists>seq. pe_js_publish (it_env it) m = Ack seq)"

lemma run_once_ids:
  assumes "distinct (map o_id (sv_rows sv))"
  shows "map o_id (sv_rows (snd (run_once it sv))) = map o_id (sv_rows sv)"
proof (cases it sv rule: drain_step_cases)
  case (committed st)
  then show ?thesis
    using drain_ids [OF assms] by (simp add: process_simps)
qed (simp_all add: process_simps)

lemma iterations_keep:
  "distinct (map o_id (sv_rows sv)) \<Longrightarrow>
     map o_id (sv_rows (iterations its sv)) = map o_id (sv_rows sv) \<and> sv_task (iterations its sv) = sv_task sv \<and>
     sv_connection (iterations its sv) = sv_connection sv \<and> sv_settings (iterations its sv) = sv_settings sv"
proof (induction its arbitrary: sv)
  case (Cons it its)
  note ids = run_once_ids [OF Cons.prems, of it]
  then have "distinct (map o_id (sv_rows (snd (run_once it sv))))"
    using Cons.prems by simp
  from Cons.IH [OF this] ids show ?case
    by (simp add: iterations_def process_simps)
qed (simp add: iterations_def)

lemma run_once_well:
  assumes "goes_well it" and "0 \<le> st_batch_size (sv_settings sv)"
  shows "sv_rows (snd (run_once it sv)) =
    ds_table (drain_once (st_policy (sv_settings sv)) (iteration_env it sv) (it_now it) [] (batch_size sv)
      (sv_rows sv) (sv_last_error sv))"
proof -
  have "claim_failure it sv = None"
    using assms by (simp add: claim_failure_def goes_well_def)
  then show ?thesis
    using assms by (cases it sv rule: drain_step_cases) (auto simp: process_simps goes_well_def)
qed

lemma iterations_drain:
  assumes "ready (sv_connection sv)" and "0 \<le> st_batch_size (sv_settings sv)"
    and "distinct (map o_id (sv_rows sv))" and "\<forall>it \<in> set its. goes_well it"
    and "\<forall>it \<in> set its. \<forall>r \<in> set (sv_rows sv). pending r \<longrightarrow> o_next_attempt_at r \<le> it_now it"
  shows "length (filter pending (sv_rows (iterations its sv))) =
    length (filter pending (sv_rows sv)) - length its * batch_size sv"
  using assms
proof (induction its arbitrary: sv)
  case (Cons it its)
  let ?sv = "snd (run_once it sv)"
  have well: "goes_well it" using Cons.prems(4) by simp
  then have env: "healthy (iteration_env it sv)"
    using Cons.prems(1) by (simp add: healthy_def iteration_env_def goes_well_def)
  note rows = run_once_well [OF well Cons.prems(2)]
  have "length (filter pending (sv_rows ?sv)) = length (filter pending (sv_rows sv)) - batch_size sv"
    unfolding rows using Cons.prems(3,5) env by (intro length_filter_settle) auto
  moreover have "\<forall>it \<in> set its. \<forall>r \<in> set (sv_rows ?sv). pending r \<longrightarrow> o_next_attempt_at r \<le> it_now it"
    using Cons.prems(5) drain_once_healthy [OF Cons.prems(3) env] unfolding rows by fastforce
  moreover have "distinct (map o_id (sv_rows ?sv))"
    using run_once_ids [OF Cons.prems(3), of it] Cons.prems(3) by simp
  ultimately have "length (filter pending (sv_rows (iterations its ?sv))) =
      length (filter pending (sv_rows sv)) - batch_size sv - length its * batch_size ?sv"
    using Cons.IH [of ?sv] Cons.prems by (simp add: process_simps)
  then show ?case
    by (simp add: iterations_def batch_size_def process_simps)
qed (simp add: iterations_def)

text \<open>
  C33. The loop survives every failure and then catches up.  After any iterations whatever, in which the claim,
  the commit, the statistics or the broker failed in any way, the publisher still polls; and once iterations go
  well on a connection that is up, as many of them as the backlog takes leave no pending row.
\<close>

theorem loop_survives_and_drains:
  assumes "running sv" and "ready (sv_connection sv)" and "0 \<le> st_batch_size (sv_settings sv)"
    and "distinct (map o_id (sv_rows sv))" and "\<forall>it \<in> set good. goes_well it"
    and "\<forall>it \<in> set good. \<forall>r \<in> set (sv_rows (iterations bad sv)).
      o_status r = STATUS_PENDING \<longrightarrow> o_next_attempt_at r \<le> it_now it"
    and "length (sv_rows sv) \<le> length good * batch_size sv"
  shows "running (iterations bad sv) \<and> running (iterations (bad @ good) sv) \<and>
    (\<forall>r \<in> set (sv_rows (iterations (bad @ good) sv)). o_status r \<noteq> STATUS_PENDING)"
proof -
  let ?sv = "iterations bad sv"
  note keep = iterations_keep [OF assms(4), of bad]
  have split: "iterations (bad @ good) sv = iterations good ?sv"
    by (simp add: iterations_def)
  have dist: "distinct (map o_id (sv_rows ?sv))"
    using keep assms(4) by simp
  have size: "batch_size ?sv = batch_size sv" "0 \<le> st_batch_size (sv_settings ?sv)" "ready (sv_connection ?sv)"
    using keep assms(2,3) by (simp_all add: batch_size_def)
  have "length (filter pending (sv_rows ?sv)) \<le> length (sv_rows sv)"
    using length_filter_le [of pending "sv_rows ?sv"] keep by (metis length_map)
  then have "length (filter pending (sv_rows (iterations good ?sv))) = 0"
    using iterations_drain [OF size(3,2) dist assms(5,6)] size(1) assms(7) by simp
  then show ?thesis
    using assms(1) keep iterations_keep [OF dist, of good] unfolding split
    by (simp add: running_def filter_empty_conv)
qed

lemma good_iteration_goes_well: "goes_well (good_iteration now)"
  using up_env_healthy by (simp add: goes_well_def healthy_def)

definition outage :: iteration where
  "outage = (good_iteration 5)\<lparr>it_claim_error := Some (OtherError ''connection refused'')\<rparr>"

lemma outage_rows: "sv_rows (snd (run_once outage sv)) = sv_rows sv"
proof -
  have "claim_failure outage sv = Some (OtherError ''connection refused'')"
    by (simp add: claim_failure_def outage_def)
  then show ?thesis
    by (cases outage sv rule: drain_step_cases) (simp_all add: process_simps)
qed

theorem loop_survives_and_drains_witness:
  "running (iterations [outage, good_iteration 9] (plain_service example_rows)) \<and>
   STATUS_PENDING \<notin> o_status ` set (sv_rows (iterations [outage, good_iteration 9] (plain_service example_rows)))"
proof -
  have rows: "sv_rows (iterations [outage] (plain_service example_rows)) = example_rows"
    by (simp add: iterations_def outage_rows)
  show ?thesis
    using loop_survives_and_drains [of "plain_service example_rows" "[good_iteration 9]" "[outage]"] good_iteration_goes_well
    by (simp add: rows plain_settings_def batch_size_def)
      (auto simp: example_rows_def enqueue_def)
qed

section \<open>What the metrics say\<close>

text \<open>
  A scrape shows the backlog of the moment, whatever became of the publisher: the gauges are the counts of
  pending and dead rows and the age of the oldest pending one.  If the database fails with an error of SQLAlchemy
  the last samples are served; any other error fails the scrape.
\<close>

theorem scrape_shows_backlog:
  "(case prometheus_metrics db now sv of (sv', reply) \<Rightarrow>
      (case db of
         None \<Rightarrow> reply = Inr (sv_samples sv') \<and>
           sample (sv_samples sv') PENDING [st_service (sv_settings sv)] =
             of_nat (length (filter (\<lambda>r. o_status r = STATUS_PENDING) (sv_rows sv))) \<and>
           sample (sv_samples sv') DEAD [st_service (sv_settings sv)] =
             of_nat (length (filter (\<lambda>r. o_status r = STATUS_DEAD) (sv_rows sv))) \<and>
           (\<forall>r \<in> set (sv_rows sv). o_status r = STATUS_PENDING \<longrightarrow>
              now - o_created_at r \<le> sample (sv_samples sv') OLDEST_PENDING [st_service (sv_settings sv)])
       | Some (SQLAlchemyError m) \<Rightarrow> sv' = sv \<and> reply = Inr (sv_samples sv)
       | Some (OtherError m) \<Rightarrow> sv' = sv \<and> reply = Inl m))"
proof -
  have least: "fold min ts t \<le> t'" if "t' \<in> set (t # ts)" for t t' :: time and ts
    using that by (metis Min.set_eq_fold Min_le List.finite_set)
  have "now - o_created_at r \<le> (case os_oldest_pending_age_seconds (stats now (sv_rows sv)) of None \<Rightarrow> 0 | Some age \<Rightarrow> age)"
    if "r \<in> set (sv_rows sv)" "pending r" for r
  proof -
    have "o_created_at r \<in> set (map o_created_at (filter pending (sv_rows sv)))"
      using that by simp
    then obtain t ts where ts: "map o_created_at (filter pending (sv_rows sv)) = t # ts" "o_created_at r \<in> set (t # ts)"
      by (cases "map o_created_at (filter pending (sv_rows sv))") auto
    with least [OF ts(2)] show ?thesis
      by (simp add: stats_def Let_def)
  qed
  then show ?thesis
    by (auto simp: prometheus_metrics_def refresh_stats_def sample_simps stats_def Let_def split: option.split db_failure.split)
qed

theorem scrape_shows_backlog_witness:
  "9 - o_created_at (hd example_rows) \<le> sample (sv_samples (fst (prometheus_metrics None 9 (plain_service example_rows)))) OLDEST_PENDING [''orchestrator'']"
  using scrape_shows_backlog [where db = None and now = 9 and sv = "plain_service example_rows"]
  by (simp add: plain_settings_def example_rows_def enqueue_def split: prod.splits)

text \<open>The counters of a batch, whatever the commit and the statistics do afterwards.\<close>

lemma observe_drain_sample [sample_simps]:
  "m \<in> {PUBLISH, RETRY, DEAD_LETTER, CLAIMED} \<Longrightarrow> sample (observe DRAIN_LATENCY ls s) m ls' = sample s m ls'"
  by (rule sample_observe) simp_all

lemma claim_timeout_sample:
  assumes "m \<in> {PUBLISH, RETRY, DEAD_LETTER, CLAIMED}"
  shows "sample (sv_samples (count_claim_timeout e sv)) m ls = sample (sv_samples sv) m ls"
  using gauges_are_not_counters [OF assms, of CLAIM_TIMEOUT]
  by (simp add: count_claim_timeout_def sample_inc split: db_failure.split)

lemma run_once_counters:
  assumes "claim_failure it sv = None" and "m \<in> {PUBLISH, RETRY, DEAD_LETTER, CLAIMED}"
  shows "sample (sv_samples (snd (run_once it sv))) m ls =
    sample (sv_samples (published_so_far (length (claimed_rows it sv)) it sv)) m ls"
proof -
  have drained: "sample (sv_samples (snd (drain_step it sv))) m ls =
      sample (sv_samples (published_so_far (length (claimed_rows it sv)) it sv)) m ls"
    using assms(1) claim_timeout_sample [OF assms(2)] observe_drain_sample [OF assms(2)]
    by (simp add: drain_step_def Let_def split: option.split)
  have refresh: "sample (sv_samples (refresh_stats now sv')) m ls = sample (sv_samples sv') m ls" for now sv'
    using stats_metrics_counters [OF assms(2)] by (simp add: refresh_stats_def)
  show ?thesis
    unfolding drained [symmetric]
    by (cases "drain_step it sv"; cases "fst (drain_step it sv)"; cases "it_stats_error it")
      (simp_all add: run_once_def Let_def refresh)
qed

lemma settled_is_acked:
  assumes "r \<in> set (claimed_rows it sv)"
  shows "o_status (settle_row p env r) = STATUS_PUBLISHED \<longleftrightarrow> (\<exists>seq. publish_outcome env r = Ack seq)"
proof -
  have "pending r"
    using assms set_claim [of "it_now it" "it_locked it" "batch_size sv" "sv_rows sv"]
    by (auto simp: claimed_rows_def due_def)
  then show ?thesis by (rule settle_row_published)
qed

lemma count_failures:
  "length (filter (\<lambda>r. o_subject r = q \<and> \<not> published r) rows) =
     length (filter (\<lambda>r. o_subject r = q \<and> \<not> published r \<and> o_status r \<noteq> STATUS_DEAD) rows) +
     length (filter (\<lambda>r. o_subject r = q \<and> o_status r = STATUS_DEAD) rows)"
  by (induction rows) (auto simp: STATUS_PUBLISHED_def STATUS_DEAD_def)

text \<open>
  The counters balance.  In every iteration that claims rows, the claimed counter grows by the rows of the
  batch, and for every subject the successes grow by the rows the broker acknowledged and the failures by the rest,
  each of which counts as a retry or as a dead letter; a commit that then fails takes none of it back.
\<close>

theorem batch_counters_balance:
  assumes "claim_failure it sv = None"
  shows "let w = st_service (sv_settings sv); cs = claimed_rows it sv;
      grown = (\<lambda>m ls. sample (sv_samples (snd (run_once it sv))) m ls - sample (sv_samples sv) m ls);
      acked = (\<lambda>r. \<exists>seq. publish_outcome (iteration_env it sv) r = Ack seq)
    in grown CLAIMED [w] = of_nat (length cs) \<and>
       grown PUBLISH [w, q, ''success''] = of_nat (length (filter (\<lambda>r. o_subject r = q \<and> acked r) cs)) \<and>
       grown PUBLISH [w, q, ''failure''] = of_nat (length (filter (\<lambda>r. o_subject r = q \<and> \<not> acked r) cs)) \<and>
       grown PUBLISH [w, q, ''failure''] = grown RETRY [w, q] + grown DEAD_LETTER [w, q]"
proof -
  let ?cs = "claimed_rows it sv" and ?p = "st_policy (sv_settings sv)" and ?env = "iteration_env it sv"
  let ?w = "st_service (sv_settings sv)"
  define out where "out = map (settle_row ?p ?env) ?cs"
  have samples: "sv_samples (published_so_far (length ?cs) it sv) =
      rows_metrics ?w out (claimed_metrics ?w (length ?cs) (sv_samples sv))"
    by (simp add: published_so_far_def Let_def out_def)
  have claimed: "sample (claimed_metrics ?w n s) m ls = sample s m ls + (if m = CLAIMED \<and> ls = [?w] then of_nat n else 0)"
    if "m \<in> {PUBLISH, RETRY, DEAD_LETTER, CLAIMED}" for n s m ls
    using that by (auto simp: claimed_metrics_def sample_inc counter_names)
  have subject: "o_subject (settle_row ?p ?env r) = o_subject r" for r
    using settle_row_event [of ?p ?env r] by (simp add: event_of_def)
  have good: "length (filter (\<lambda>r. o_subject r = q \<and> published r) out) =
      length (filter (\<lambda>r. o_subject r = q \<and> (\<exists>seq. publish_outcome ?env r = Ack seq)) ?cs)"
    and bad: "length (filter (\<lambda>r. o_subject r = q \<and> \<not> published r) out) =
      length (filter (\<lambda>r. o_subject r = q \<and> \<not> (\<exists>seq. publish_outcome ?env r = Ack seq)) ?cs)"
    using settled_is_acked [of _ it sv ?p ?env]
    by (simp_all add: out_def filter_map comp_def subject cong: filter_cong)
  note facts = run_once_counters [OF assms] samples rows_metrics_sample claimed
  have "sample (sv_samples (snd (run_once it sv))) CLAIMED [?w] - sample (sv_samples sv) CLAIMED [?w] = of_nat (length ?cs)"
    by (simp add: facts)
  moreover have neq: "PUBLISH \<noteq> CLAIMED" "RETRY \<noteq> CLAIMED" "DEAD_LETTER \<noteq> CLAIMED"
    using counter_names by metis+
  ultimately show ?thesis
    using count_failures [of q out] by (simp add: facts good [symmetric] bad [unfolded not_ex, symmetric] Let_def)
qed

theorem batch_counters_balance_witness:
  "sample (sv_samples (snd (run_once (good_iteration 5) (plain_service example_rows)))) CLAIMED [''orchestrator''] -
     sample (sv_samples (plain_service example_rows)) CLAIMED [''orchestrator''] = 1"
proof -
  have "claim_failure (good_iteration 5) (plain_service example_rows) = None"
    by (simp add: claim_failure_def plain_settings_def)
  moreover have "claimed_rows (good_iteration 5) (plain_service example_rows) = example_rows"
    by (simp add: claimed_rows_def batch_size_def plain_settings_def claim_def due_def example_rows_def enqueue_def)
  moreover have "length example_rows = 1"
    by (simp add: example_rows_def enqueue_def)
  ultimately show ?thesis
    using batch_counters_balance [of "good_iteration 5" "plain_service example_rows" undefined]
    by (simp add: Let_def plain_settings_def)
qed

end
