(* ===== verification/BrokerOutage.thy ===== *)
theory BrokerOutage
  imports ServiceContract
begin

text \<open>
  Three behaviours of the process that its comments do not promise.  A broker that is down when the service
  starts is never connected to again, so every event is dead-lettered.  The last error outlives the recovery.
  And the time a row waits behind the other rows of its batch is not in the horizon the gate checks.
\<close>

section \<open>A broker that is down at start-up\<close>

definition never_connected :: "service \<Rightarrow> bool" where
  "never_connected sv \<longleftrightarrow> cn_nc (sv_connection sv) = None"

lemma never_ready: "never_connected sv \<Longrightarrow> \<not> ready (sv_connection sv)"
  by (simp add: never_connected_def ready_def connected_def)

lemma failed_connect:
  assumes "nats_connect = Raises m \<or> ensure_stream info add_stream update_stream = Raises m"
  shows "never_connected (startup getenv nats_connect info add_stream update_stream sv)"
  using assms by (cases nats_connect)
    (auto simp: startup_def never_connected_def start_def connect_def Let_def split: call_result.split)

lemma startup_fields [process_simps]:
  "sv_rows (startup g a b c d sv) = sv_rows sv" "sv_stream (startup g a b c d sv) = sv_stream sv"
  "sv_settings (startup g a b c d sv) = sv_settings sv"
  by (simp_all add: startup_def start_def Let_def)

lemma shutdown_never_connected: "never_connected sv \<Longrightarrow> never_connected (snd (shutdown nats_drain sv))"
  using stop_fields(4) [of sv]
  by (cases "stop sv")
    (auto simp: shutdown_def never_connected_def close_connection_def connected_def close_def
      split: prod.splits call_result.splits)

lemma step_never_connected: "service_step fmt sv sv' \<Longrightarrow> never_connected sv \<Longrightarrow> never_connected sv'"
  by (induction rule: service_step.induct)
    (auto simp: process_simps never_connected_def
      intro: shutdown_never_connected [unfolded never_connected_def])

lemma blind_outcome:
  "never_connected sv \<Longrightarrow> publish_outcome (iteration_env it sv) r = PublishRaises ''ConnectionError'' ''jetstream unavailable''"
  using never_ready [of sv] by (simp add: publish_outcome_def connection_publish_def iteration_env_def)

lemma blind_messages: "never_connected sv \<Longrightarrow> stored_messages (iteration_env it sv) r = []"
  using never_ready [of sv] by (simp add: stored_messages_def iteration_env_def)

lemma blind_crash: "never_connected sv \<Longrightarrow> drain_crash (iteration_env it sv) now locked n k rows = []"
  by (simp add: drain_crash_def blind_messages)

text \<open>What a step can do to the table and the stream then.\<close>

definition unpublished_since :: "outbox_row list \<Rightarrow> message list \<Rightarrow> service \<Rightarrow> bool" where
  "unpublished_since rows stream sv \<longleftrightarrow>
     never_connected sv \<and> distinct (map o_id (sv_rows sv)) \<and> sv_stream sv = stream \<and>
     (\<forall>r \<in> set (sv_rows sv). published r \<longrightarrow> r \<in> set rows)"

lemma drain_step_blind:
  assumes "unpublished_since rows stream sv"
  shows "sv_stream (snd (drain_step it sv)) = stream \<and>
    (\<forall>r \<in> set (sv_rows (snd (drain_step it sv))). published r \<longrightarrow> r \<in> set rows) \<and>
    map o_id (sv_rows (snd (drain_step it sv))) = map o_id (sv_rows sv)"
proof (cases it sv rule: drain_step_cases)
  case (committed st)
  have nc: "never_connected sv" and dist: "distinct (map o_id (sv_rows sv))"
    using assms by (simp_all add: unpublished_since_def)
  have "r' \<in> set rows" if row: "r' \<in> set (ds_table st)" and pub: "published r'" for r'
    using row [unfolded committed(3)]
  proof (cases rule: drain_row_cases [OF dist, consumes 1, case_names claimed other])
    case (claimed r)
    then show ?thesis
      using pub settle_row_published [of r] blind_outcome [OF nc] by auto
  next
    case other
    then show ?thesis using assms pub by (simp add: unpublished_since_def)
  qed
  then show ?thesis
    using committed assms drain_ids [OF dist] blind_messages [OF nc]
    by (simp add: unpublished_since_def drain_log)
qed (use assms in \<open>simp_all add: unpublished_since_def process_simps blind_messages\<close>)

lemma step_unpublished:
  assumes "service_step fmt sv sv'" and "unpublished_since rows stream sv"
  shows "unpublished_since rows stream sv'"
proof -
  have nc: "never_connected sv'"
    using assms step_never_connected by (auto simp: unpublished_since_def)
  have "distinct (map o_id (sv_rows sv')) \<and> sv_stream sv' = stream \<and> (\<forall>r \<in> set (sv_rows sv'). published r \<longrightarrow> r \<in> set rows)"
    using assms
  proof (induction rule: service_step.induct)
    case (commits uuid4 sv now subject payload aty aid v)
    then show ?case
      by (auto simp: unpublished_since_def enqueue_def)
  next
    case (polls sv it)
    then show ?case
      using drain_step_blind [of rows stream sv it]
      by (auto simp: unpublished_since_def process_simps)
  qed (auto simp: unpublished_since_def process_simps blind_crash)
  with nc show ?thesis by (simp add: unpublished_since_def)
qed

lemma steps_unpublished:
  "(service_step fmt)\<^sup>*\<^sup>* sv sv' \<Longrightarrow> unpublished_since rows stream sv \<Longrightarrow> unpublished_since rows stream sv'"
  by (induction rule: rtranclp_induct) (auto intro: step_unpublished)

section \<open>The backlog dies\<close>

text \<open>How many failures the pending rows can still take.\<close>

definition attempts_left :: "retry_policy \<Rightarrow> outbox_row \<Rightarrow> nat" where
  "attempts_left p r =
     (if pending r then nat (max 1 (min (rp_max_attempts p) (o_max_attempts r) - o_attempts r)) else 0)"

lemma attempts_left_fails:
  "pending r \<Longrightarrow> attempts_left p (record_failure p t u e r) < attempts_left p r"
  by (auto simp: attempts_left_def record_failure_status STATUS_PENDING_def STATUS_DEAD_def)

lemma sum_list_decreases:
  fixes f g :: "'a \<Rightarrow> nat"
  assumes "\<And>x. x \<in> set xs \<Longrightarrow> f x \<le> g x" and "x \<in> set xs" and "f x < g x"
  shows "sum_list (map f xs) < sum_list (map g xs)"
  using assms
proof (induction xs)
  case (Cons y ys)
  have "sum_list (map f ys) \<le> sum_list (map g ys)"
    using Cons.prems(1) by (intro sum_list_mono) simp
  moreover have "f y \<le> g y"
    using Cons.prems(1) by simp
  moreover have "f y < g y \<or> sum_list (map f ys) < sum_list (map g ys)"
    using Cons by (cases "x = y") auto
  ultimately show ?case by auto
qed simp

definition blind_iteration :: "(time \<Rightarrow> string) \<Rightarrow> time \<Rightarrow> iteration" where
  "blind_iteration fmt now = (good_iteration now)\<lparr>it_env := up_env\<lparr>pe_isoformat := fmt\<rparr>\<rparr>"

lemma blind_iteration_well: "goes_well (blind_iteration fmt now)"
  using good_iteration_goes_well [of now] by (simp add: goes_well_def blind_iteration_def up_env_def)

lemma blind_iteration_fields [simp]:
  "it_now (blind_iteration fmt now) = now" "pe_isoformat (it_env (blind_iteration fmt now)) = fmt"
  by (simp_all add: blind_iteration_def)

lemma blind_iteration_decreases:
  assumes "never_connected sv" and "distinct (map o_id (sv_rows sv))" and "0 < st_batch_size (sv_settings sv)"
    and "r \<in> set (sv_rows sv)" and "pending r" and "\<forall>r \<in> set (sv_rows sv). o_next_attempt_at r \<le> now"
  defines "p \<equiv> st_policy (sv_settings sv)"
  shows "sum_list (map (attempts_left p) (sv_rows (snd (run_once (blind_iteration fmt now) sv))))
    < sum_list (map (attempts_left p) (sv_rows sv))"
proof -
  let ?it = "blind_iteration fmt now" and ?c = "claim now [] (batch_size sv) (sv_rows sv)"
  let ?f = "\<lambda>r. if r \<in> set ?c then settle_row p (iteration_env ?it sv) r else r"
  have "sv_rows (snd (run_once ?it sv)) = map ?f (sv_rows sv)"
    using run_once_well [OF blind_iteration_well, of sv fmt now] assms(3) drain_table [OF assms(2)]
    by (simp add: p_def)
  moreover have "sum_list (map (\<lambda>r. attempts_left p (?f r)) (sv_rows sv)) < sum_list (map (attempts_left p) (sv_rows sv))"
  proof -
    have less: "attempts_left p (settle_row p (iteration_env ?it sv) r) < attempts_left p r" if "r \<in> set ?c" for r
    proof -
      have "pending r" using that set_claim by (fastforce simp: due_def)
      from attempts_left_fails [OF this] show ?thesis
        by (simp add: settle_row_def blind_outcome [OF assms(1)])
    qed
    have "filter (due now []) (sv_rows sv) \<noteq> []"
      using assms(4-6) by (auto simp: filter_empty_conv due_def)
    then have "length ?c \<noteq> 0"
      using assms(3) by (simp add: length_claim batch_size_def)
    then obtain x where x: "x \<in> set ?c"
      by (cases ?c) auto
    then have "x \<in> set (sv_rows sv)"
      using set_claim by blast
    then show ?thesis
      by (rule sum_list_decreases [rotated]) (use x less in \<open>auto intro: less_imp_le\<close>)
  qed
  ultimately show ?thesis by (simp add: comp_def)
qed

lemma blind_backlog_dies:
  assumes "never_connected sv" and "distinct (map o_id (sv_rows sv))" and "0 < st_batch_size (sv_settings sv)"
    and "running sv"
  shows "\<exists>sv'. (service_step fmt)\<^sup>*\<^sup>* sv sv' \<and> map o_id (sv_rows sv') = map o_id (sv_rows sv) \<and>
    (\<forall>r \<in> set (sv_rows sv'). \<not> pending r)"
  using assms
proof (induction "sum_list (map (attempts_left (st_policy (sv_settings sv))) (sv_rows sv))" arbitrary: sv rule: less_induct)
  case less
  show ?case
  proof (cases "\<exists>r \<in> set (sv_rows sv). pending r")
    case False
    then show ?thesis by blast
  next
    case True
    then obtain r where r: "r \<in> set (sv_rows sv)" "pending r" by blast
    define now where "now = Max (o_next_attempt_at ` set (sv_rows sv))"
    have due: "\<forall>r \<in> set (sv_rows sv). o_next_attempt_at r \<le> now"
      by (simp add: now_def)
    let ?sv = "snd (run_once (blind_iteration fmt now) sv)"
    have step: "service_step fmt sv ?sv"
      by (rule service_step.polls [OF less.prems(4)]) simp
    note dec = blind_iteration_decreases [OF less.prems(1-3) r due, of fmt]
    have ids: "map o_id (sv_rows ?sv) = map o_id (sv_rows sv)"
      by (rule run_once_ids [OF less.prems(2)])
    have "\<exists>sv'. (service_step fmt)\<^sup>*\<^sup>* ?sv sv' \<and> map o_id (sv_rows sv') = map o_id (sv_rows ?sv) \<and>
        (\<forall>r \<in> set (sv_rows sv'). \<not> pending r)"
    proof (rule less.hyps)
      show "never_connected ?sv"
        using step_never_connected [OF step less.prems(1)] .
      show "distinct (map o_id (sv_rows ?sv))"
        using less.prems(2) unfolding ids .
    qed (use dec less.prems in \<open>simp_all add: process_simps running_def\<close>)
    then show ?thesis
      using step ids by (metis converse_rtranclp_into_rtranclp)
  qed
qed


definition unreachable :: "outbox_row list \<Rightarrow> service" where
  "unreachable rows = startup (plain_env ''100'' ''1'') (Raises ''refused'') StreamNotFound Returns Returns
     (boot (plain_settings ''orchestrator'' 100 1) rows [])"


section \<open>An error that outlives the recovery\<close>

lemma idle_iteration:
  assumes "goes_well it" and "it_stats_error it = None" and "0 \<le> st_batch_size (sv_settings sv)"
    and "\<forall>r \<in> set (sv_rows sv). \<not> pending r"
  shows "sv_rows (snd (run_once it sv)) = sv_rows sv \<and> sv_last_error (snd (run_once it sv)) = sv_last_error sv"
proof -
  have none: "claimed_rows it sv = []"
    using assms(4) by (simp add: claimed_rows_def claim_def due_def)
  have "claim_failure it sv = None" "it_commit_error it = None"
    using assms(1,3) by (simp_all add: claim_failure_def goes_well_def)
  then show ?thesis
    using assms(2) none
    by (simp add: run_once_def drain_step_def publish_rows_def published_so_far_def refresh_stats_def Let_def)
qed

lemma idle_iterations:
  assumes "\<forall>it \<in> set its. goes_well it \<and> it_stats_error it = None" and "0 \<le> st_batch_size (sv_settings sv)"
    and "\<forall>r \<in> set (sv_rows sv). \<not> pending r"
  shows "sv_last_error (iterations its sv) = sv_last_error sv \<and> sv_connection (iterations its sv) = sv_connection sv"
  using assms
proof (induction its arbitrary: sv)
  case (Cons it its)
  have "sv_rows (snd (run_once it sv)) = sv_rows sv \<and> sv_last_error (snd (run_once it sv)) = sv_last_error sv"
    using Cons.prems by (intro idle_iteration) auto
  then show ?case
    using Cons.IH [of "snd (run_once it sv)"] Cons.prems by (simp add: iterations_def process_simps)
qed (simp add: iterations_def)

text \<open>
  The last error outlives the recovery.  After one failed claim, and however many iterations then go well
  with nothing to publish, the detailed readiness of a service that is ready still reports the old error.
\<close>

theorem error_outlives_recovery:
  assumes "claim_failure it sv = Some e" and "message_text e \<noteq> []" and "ready (sv_connection sv)"
    and "\<forall>it \<in> set its. goes_well it \<and> it_stats_error it = None" and "0 \<le> st_batch_size (sv_settings sv)"
    and "\<forall>r \<in> set (sv_rows sv). o_status r \<noteq> STATUS_PENDING"
  shows "let body = readiness expected adapter_kinds (service_probe (Some (Some expected)) False now (iterations (it # its) sv))
    in fst (readyz body) = 200 \<and> jget ''outbox_last_error'' body = Some (JStr (message_text e))"
proof -
  let ?sv = "snd (run_once it sv)"
  have rows: "sv_rows ?sv = sv_rows sv" and err: "sv_last_error ?sv = Some (message_text e)"
    using assms(1) by (simp_all add: run_once_def drain_step_def Let_def process_simps)
  have "sv_last_error (iterations its ?sv) = sv_last_error ?sv \<and> sv_connection (iterations its ?sv) = sv_connection ?sv"
    using assms(4-6) rows by (intro idle_iterations) (simp_all add: process_simps)
  then have last: "sv_last_error (iterations (it # its) sv) = Some (message_text e)"
    and conn: "ready (sv_connection (iterations (it # its) sv))"
    using err assms(3) by (simp_all add: iterations_def process_simps)
  show ?thesis
    using assms(2) conn last
    by (auto simp: readyz_def ready_status_def readiness_def service_probe_def jget_def truthy_text_def Let_def
        split: option.split)
qed

theorem error_outlives_recovery_witness:
  "jget ''outbox_last_error'' (readiness ''0005'' None (service_probe (Some (Some ''0005'')) False 10
     (iterations [outage, good_iteration 9] (plain_service [])))) = Some (JStr ''connection refused'')"
  using error_outlives_recovery [of outage "plain_service []" "OtherError ''connection refused''" "[good_iteration 9]" "''0005''" None 10]
    good_iteration_goes_well
  by (simp add: claim_failure_def outage_def plain_settings_def Let_def)

section \<open>Waiting in the batch\<close>

text \<open>The broker takes \<open>T\<close> seconds for each publish of a batch, one after the other.\<close>

definition sequential :: "rat \<Rightarrow> iteration \<Rightarrow> service \<Rightarrow> bool" where
  "sequential T it sv \<longleftrightarrow> (\<forall>k < length (claimed_rows it sv).
     pe_now (it_env it) (o_id (claimed_rows it sv ! k)) = it_now it + of_nat (k + 1) * T)"

text \<open>A backlog of \<open>n\<close> events of one instant, and a broker that stores each message and loses the acknowledgement.\<close>

definition name_of :: "nat \<Rightarrow> uuid" where
  "name_of k = replicate k CHR ''x''"

definition backlog :: "nat \<Rightarrow> outbox_row list" where
  "backlog n = map (\<lambda>k. new_event (name_of k) 0 ''agent.created'' [] ''agent'' None 1 1 None) [0..<n]"

definition slow_iteration :: "time \<Rightarrow> rat \<Rightarrow> iteration" where
  "slow_iteration now T = (good_iteration now)\<lparr>it_env := up_env\<lparr>
     pe_js_publish := \<lambda>_. PublishRaises ''TimeoutError'' [], pe_now := \<lambda>i. now + of_nat (length i + 1) * T\<rparr>\<rparr>"

lemma backlog_nth: "k < n \<Longrightarrow> o_id (backlog n ! k) = name_of k"
  by (simp add: backlog_def)

lemma length_backlog [simp]: "length (backlog n) = n"
  by (simp add: backlog_def)

lemma record_failure_id [simp]: "o_id (record_failure p t u e r) = o_id r"
  by (rule event_of_id) simp

lemma length_name_of [simp]: "length (name_of k) = k"
  by (simp add: name_of_def)

lemma backlog_fields:
  "r \<in> set (backlog n) \<Longrightarrow> pending r \<and> o_attempts r = 0 \<and> o_max_attempts r = 8 \<and> o_created_at r = 0 \<and> o_next_attempt_at r = 0"
  by (auto simp: backlog_def new_event_def DEFAULT_MAX_ATTEMPTS_def)

lemma backlog_ids: "map o_id (backlog n) = map name_of [0..<n]"
  by (simp add: backlog_def comp_def)

lemma distinct_backlog: "distinct (map o_id (backlog n))"
  by (auto simp: backlog_ids distinct_map inj_on_def name_of_def)

text \<open>Rows of one instant that are all due are claimed in the order of the table.\<close>

lemma claim_all:
  assumes "\<forall>r \<in> set rows. pending r \<and> o_created_at r = 0 \<and> o_next_attempt_at r \<le> now"
  shows "claim now [] (length rows) rows = rows"
proof -
  have "filter (due now []) rows = rows"
    using assms by (simp add: filter_id_conv due_def)
  moreover have "sorted (map o_created_at rows)"
    using assms by (auto simp: sorted_iff_nth_mono)
  then have "sort_key o_created_at rows = rows"
    by (rule sort_key_id_if_sorted)
  ultimately show ?thesis by (simp add: claim_def)
qed

definition slow_service :: "outbox_settings \<Rightarrow> nat \<Rightarrow> service" where
  "slow_service st n = start (boot st (backlog n) [])
     \<lparr>sv_connection := \<lparr>cn_nc = Some True, cn_js = True, cn_last_error = None\<rparr>\<rparr>"

lemma slow_service_fields [simp]:
  "sv_settings (slow_service st n) = st" "sv_rows (slow_service st n) = backlog n"
  "running (slow_service st n)" "ready (sv_connection (slow_service st n))"
  by (simp_all add: slow_service_def start_def boot_def running_def ready_def connected_def)

lemma slow_iteration_fields [simp]:
  "it_now (slow_iteration now T) = now" "it_locked (slow_iteration now T) = []" "it_commit_error (slow_iteration now T) = None"
  "it_claim_error (slow_iteration now T) = None" "it_stats_error (slow_iteration now T) = None"
  "pe_now (it_env (slow_iteration now T)) i = now + of_nat (length i + 1) * T"
  by (simp_all add: slow_iteration_def good_iteration_def)

lemma slow_outcome:
  "ready (sv_connection sv) \<Longrightarrow> publish_outcome (iteration_env (slow_iteration now T) sv) r = PublishRaises ''TimeoutError'' []"
  "ready (sv_connection sv) \<Longrightarrow> stored_messages (iteration_env (slow_iteration now T) sv) r = [message_of (\<lambda>_. []) r]"
  by (simp_all add: publish_outcome_def connection_publish_def stored_messages_def iteration_env_def slow_iteration_def up_env_def)

lemma claimed_backlog:
  assumes "st_batch_size st = int n" and "0 \<le> now"
  shows "claimed_rows (slow_iteration now T) (slow_service st n) = backlog n"
proof -
  have "\<forall>r \<in> set (backlog n). pending r \<and> o_created_at r = 0 \<and> o_next_attempt_at r \<le> now"
    using backlog_fields assms(2) by simp
  from claim_all [OF this] show ?thesis
    by (simp add: claimed_rows_def batch_size_def assms(1))
qed

text \<open>The table after the first batch: each row has failed once, at the end of its own publish.\<close>

definition failed_backlog :: "outbox_settings \<Rightarrow> nat \<Rightarrow> rat \<Rightarrow> outbox_row list" where
  "failed_backlog st n T = map (\<lambda>r. record_failure (st_policy st) (of_nat (length (o_id r) + 1) * T) 0 ''TimeoutError: '' r) (backlog n)"

lemma first_batch:
  assumes "st_batch_size st = int n"
  shows "sv_rows (snd (run_once (slow_iteration 0 T) (slow_service st n))) = failed_backlog st n T"
proof -
  let ?it = "slow_iteration 0 T" and ?sv = "slow_service st n"
  have fine: "claim_failure ?it ?sv = None"
    by (simp add: claim_failure_def assms)
  have cs: "claim 0 [] (batch_size ?sv) (backlog n) = backlog n"
    using claimed_backlog [OF assms, of 0 T] by (simp add: claimed_rows_def)
  have "sv_rows (snd (run_once ?it ?sv)) = map (settle_row (st_policy st) (iteration_env ?it ?sv)) (backlog n)"
  proof (cases ?it ?sv rule: drain_step_cases)
    case (committed s)
    then show ?thesis
      by (simp add: process_simps drain_table distinct_backlog cs cong: map_cong)
  qed (use fine in simp_all)
  moreover have "settle_row (st_policy st) (iteration_env ?it ?sv) r =
      record_failure (st_policy st) (of_nat (length (o_id r) + 1) * T) 0 ''TimeoutError: '' r" for r
    by (simp add: settle_row_def slow_outcome) (simp add: iteration_env_def slow_iteration_def up_env_def)
  ultimately show ?thesis
    by (simp add: failed_backlog_def)
qed

lemma first_delay:
  assumes "st_batch_size st = int n" and "0 < n"
  shows "fst (run_once (slow_iteration 0 T) (slow_service st n)) = st_poll_interval st"
proof -
  let ?it = "slow_iteration 0 T" and ?sv = "slow_service st n"
  have "dr_claimed (ds_result (publish_rows (length (claimed_rows ?it ?sv)) ?it ?sv)) = n"
    using claimed_backlog [OF assms(1), of 0 T] count_rows(1)
    by (simp add: publish_rows_def fold_publish_row)
  moreover have "claim_failure ?it ?sv = None"
    by (simp add: claim_failure_def assms)
  ultimately show ?thesis
    using assms(2) by (simp add: run_once_def drain_step_def next_delay_def Let_def)
qed

lemma fails_once:
  assumes "pending x" "o_attempts x = 0" "o_max_attempts x = 8" "2 \<le> rp_max_attempts p"
  shows "pending (record_failure p t u e x)"
    "o_next_attempt_at (record_failure p t u e x) = t + compute_backoff 1 u p"
    "o_created_at (record_failure p t u e x) = o_created_at x"
  using assms by (simp_all add: record_failure_def Let_def min_def)

lemma failed_backlog_due:
  assumes "r \<in> set (failed_backlog st n T)" and "0 \<le> T" and "2 \<le> rp_max_attempts (st_policy st)"
  shows "pending r \<and> o_created_at r = 0 \<and> o_next_attempt_at r \<le> of_nat n * T + compute_backoff 1 0 (st_policy st)"
proof -
  obtain k where k: "k < n"
      "r = record_failure (st_policy st) (of_nat (k + 1) * T) 0 ''TimeoutError: '' (backlog n ! k)"
    using assms(1) by (auto simp: failed_backlog_def in_set_conv_nth backlog_nth)
  have x: "pending (backlog n ! k)" "o_attempts (backlog n ! k) = 0" "o_max_attempts (backlog n ! k) = 8" "o_created_at (backlog n ! k) = 0"
    using backlog_fields [of "backlog n ! k" n] k(1) by simp_all
  have "of_nat (k + 1) * T \<le> of_nat n * T"
    using k(1) assms(2) by (intro mult_right_mono) simp_all
  then show ?thesis
    unfolding k(2) fails_once [OF x(1-3) assms(3)] x(4) by simp
qed

lemma second_claim:
  assumes "st_batch_size st = int n" and "0 \<le> T" and "2 \<le> rp_max_attempts (st_policy st)"
    and "compute_backoff 1 0 (st_policy st) \<le> q"
  shows "claim (of_nat n * T + q) [] n (failed_backlog st n T) = failed_backlog st n T"
proof -
  have "\<forall>r \<in> set (failed_backlog st n T). pending r \<and> o_created_at r = 0 \<and> o_next_attempt_at r \<le> of_nat n * T + q"
    using failed_backlog_due [OF _ assms(2,3)] assms(4) by (meson add_left_mono order_trans)
  from claim_all [OF this] show ?thesis
    by (simp add: failed_backlog_def)
qed

text \<open>
  C35. The gate does not count the batch.  Take any admitted configuration whose batch, at the publish timeout the
  gate counts once per attempt, takes longer than the duplicate window, and whose first backoff is at most the poll
  interval.  Then two consecutive iterations, in which no publish takes longer than its timeout and the loop waits
  just its interval, send the same message twice, further apart than the window in which the broker recognises it.
\<close>

theorem gate_does_not_count_the_batch:
  assumes "import_outbox service getenv to_int to_float = Inr st"
    and "T = bs_publish_timeout (st_broker st)" and "0 \<le> T"
    and "st_batch_size st = int n" and "0 < n" and "bs_duplicate_window (st_broker st) \<le> of_nat n * T"
    and "2 \<le> rp_max_attempts (st_policy st)" and "compute_backoff 1 0 (st_policy st) \<le> st_poll_interval st"
  shows "\<exists>sv it it' r r'. sv_settings sv = st \<and> running sv \<and> sequential T it sv \<and>
    (let sv1 = snd (run_once it sv) in
       it_now it' = it_now it + of_nat (length (claimed_rows it sv)) * T + fst (run_once it sv) \<and> sequential T it' sv1 \<and>
       r \<in> set (claimed_rows it sv) \<and> r' \<in> set (claimed_rows it' sv1) \<and>
       stored_messages (iteration_env it sv) r = [message_of (\<lambda>_. []) r] \<and>
       stored_messages (iteration_env it' sv1) r' = [message_of (\<lambda>_. []) r] \<and>
       bs_duplicate_window (st_broker st) < pe_now (it_env it') (o_id r') - pe_now (it_env it) (o_id r))"
proof -
  let ?q = "st_poll_interval st" and ?sv = "slow_service st n" and ?it = "slow_iteration 0 T"
  let ?it' = "slow_iteration (of_nat n * T + ?q) T" and ?sv1 = "snd (run_once ?it ?sv)"
  let ?r = "backlog n ! (n - 1)"
  let ?r' = "record_failure (st_policy st) (of_nat (length (o_id ?r) + 1) * T) 0 ''TimeoutError: '' ?r"
  have c1: "claimed_rows ?it ?sv = backlog n" and len: "length (backlog n) = n"
    using claimed_backlog [OF assms(4)] by simp_all
  have c2: "claimed_rows ?it' ?sv1 = failed_backlog st n T"
    using second_claim [OF assms(4,3,7,8)] first_batch [OF assms(4)]
    by (simp add: claimed_rows_def batch_size_def process_simps assms(4))
  have names: "o_id (failed_backlog st n T ! k) = name_of k" if "k < n" for k
    using that by (simp add: failed_backlog_def backlog_nth)
  have "sequential T ?it ?sv" "sequential T ?it' ?sv1"
    unfolding sequential_def c1 c2 by (simp_all add: len backlog_nth failed_backlog_def names [unfolded failed_backlog_def])
  moreover have "?r \<in> set (backlog n)" "?r' \<in> set (failed_backlog st n T)"
    using assms(5) len by (auto simp: failed_backlog_def)
  moreover have "message_of (\<lambda>_. []) ?r' = message_of (\<lambda>_. []) ?r"
    by (rule message_of_event) simp
  moreover have "0 < ?q"
    using assms(8) by (simp add: compute_backoff_def)
  moreover have "pe_now (it_env ?it') (o_id ?r') - pe_now (it_env ?it) (o_id ?r) = of_nat n * T + ?q"
  proof -
    have "o_id ?r = name_of (n - 1)" "o_id ?r' = name_of (n - 1)"
      using backlog_nth [of "n - 1" n] assms(5) by simp_all
    then show ?thesis using assms(5) by simp
  qed
  moreover have "ready (sv_connection ?sv1)"
    by (simp add: process_simps)
  ultimately show ?thesis
    using assms(6) first_delay [OF assms(4,5)] c1 c2 len
    by (intro exI [of _ ?sv] exI [of _ ?it] exI [of _ ?it'] exI [of _ ?r] exI [of _ ?r'])
      (simp add: Let_def slow_outcome)
qed

theorem gate_does_not_count_the_batch_witness:
  "\<exists>sv it it' r r'. sv_settings sv = plain_settings ''orchestrator'' 2000 2 \<and>
     r \<in> set (claimed_rows it sv) \<and> r' \<in> set (claimed_rows it' (snd (run_once it sv))) \<and>
     7200 < pe_now (it_env it') (o_id r') - pe_now (it_env it) (o_id r)"
proof -
  have backoff: "compute_backoff 1 0 DEFAULT_RETRY_POLICY = 1" "rp_max_attempts DEFAULT_RETRY_POLICY = 8"
    by (simp_all add: compute_backoff_def raw_backoff_def DEFAULT_RETRY_POLICY_def)
  show ?thesis
    using gate_does_not_count_the_batch [OF plain_import [of "''orchestrator''" "''2000''" "''2''" 2000 2], of 5 2000]
    by (simp add: plain_settings_def plain_broker_def backoff Let_def) blast
qed

end
