(* ===== verification/TestProvider.thy ===== *)
theory TestProvider
  imports Adapters
begin

text \<open>
  \<open>deploy/testprovider/provider.py\<close>, the provider the development profile runs the adapters against.  A
  handler is a function from the request and the recorded deliveries to the reply and the new deliveries.
  A reply is a JSON payload or raw bytes, a redirect, or the exception that ends the handler.  \<open>parse_qs\<close>,
  \<open>int\<close>, \<open>float\<close> and SHA-256 are arguments, as are JSON and HMAC in \<open>python\<close>.
\<close>

record provider_env =
  pv_python :: python
  pv_getenv :: "string \<Rightarrow> string option"
  pv_parse_qs :: "string \<Rightarrow> (string \<times> string list) list"
  pv_int :: "string \<Rightarrow> int option"
  pv_float :: "string \<Rightarrow> rat option"
  pv_sha256_hex :: "string \<Rightarrow> string"

record provider_request =
  pq_path :: string
  pq_headers :: "(string \<times> string) list"
  pq_stream :: string  \<comment> \<open>the bytes after the headers\<close>

datatype payload = JsonPayload jobj | RawPayload string

datatype provider_reply = Sends int payload | Redirects string | HandlerRaises string

definition SIGNING_SECRET :: "provider_env \<Rightarrow> string" where
  "SIGNING_SECRET pv = (case pv_getenv pv ''WEBHOOK_SIGNING_KEY'' of None \<Rightarrow> ''dev-signing-key'' | Some v \<Rightarrow> v)"

definition expected_signature :: "provider_env \<Rightarrow> string \<Rightarrow> string \<Rightarrow> string \<Rightarrow> string" where
  "expected_signature pv event_id timestamp body =
     ''v1='' @ py_hmac_sha256 (pv_python pv) (SIGNING_SECRET pv) (event_id @ ''.'' @ timestamp @ ''.'' @ body)"

text \<open>Header names are compared without case; the first one counts.\<close>

definition header_get :: "string \<Rightarrow> provider_request \<Rightarrow> string option" where
  "header_get name rq = map_of (map (\<lambda>(k, v). (str_lower k, v)) (pq_headers rq)) (str_lower name)"

definition header_or_empty :: "string \<Rightarrow> provider_request \<Rightarrow> string" where
  "header_or_empty name rq = (case header_get name rq of None \<Rightarrow> [] | Some v \<Rightarrow> v)"

definition saw_authorization :: "provider_request \<Rightarrow> bool" where
  "saw_authorization rq = (''authorization'' \<in> set (map (\<lambda>(k, v). str_lower k) (pq_headers rq)))"

text \<open>\<open>None\<close> is the ValueError of a length that is no number; a negative length reads to the end.\<close>

definition read_body :: "provider_env \<Rightarrow> provider_request \<Rightarrow> string option" where
  "read_body pv rq =
     (case pv_int pv (case header_get ''Content-Length'' rq of None \<Rightarrow> ''0'' | Some v \<Rightarrow> v) of
        None \<Rightarrow> None
      | Some n \<Rightarrow> Some (if n = 0 then [] else if n < 0 then pq_stream rq else take (nat n) (pq_stream rq)))"

definition query_first :: "provider_env \<Rightarrow> string \<Rightarrow> string \<Rightarrow> string \<Rightarrow> string" where
  "query_first pv query name dflt =
     (case map_of (pv_parse_qs pv query) name of None \<Rightarrow> dflt | Some [] \<Rightarrow> dflt | Some (v # vs) \<Rightarrow> v)"

definition quoted :: "string \<Rightarrow> string" where
  "quoted s = [CHR 0x22] @ s @ [CHR 0x22]"

definition do_GET :: "provider_env \<Rightarrow> provider_request \<Rightarrow> jobj list \<Rightarrow> provider_reply" where
  "do_GET pv rq deliveries =
     (case urlparse (pq_path rq) of
        None \<Rightarrow> HandlerRaises ''ValueError''
      | Some route \<Rightarrow>
          if up_path route \<in> {''/health/live'', ''/health''} then Sends 200 (JsonPayload [(''status'', JStr ''live'')])
          else if up_path route = ''/large''
          then (case pv_int pv (query_first pv (up_query route) ''bytes'' ''4000000'') of
                  None \<Rightarrow> HandlerRaises ''ValueError''
                | Some len \<Rightarrow>
                    Sends 200 (RawPayload (''{'' @ quoted ''pad'' @ '':'' @ quoted (replicate (nat len) (CHR ''x'')) @ ''}'')))
          else if up_path route = ''/deliveries''
          then Sends 200 (JsonPayload [(''count'', JInt (int (length deliveries))),
                                       (''deliveries'', JList (map JObj deliveries))])
          else if up_path route = ''/redirect'' then Redirects ''http://169.254.169.254/latest/meta-data/''
          else Sends 404 (JsonPayload [(''error'', JStr ''not found'')]))"

definition delivery :: "provider_env \<Rightarrow> provider_request \<Rightarrow> string \<Rightarrow> bool \<Rightarrow> jobj" where
  "delivery pv rq body valid =
     [(''event_id'', JStr (header_or_empty ''X-FAVL-Event-ID'' rq)),
      (''timestamp'', JStr (header_or_empty ''X-FAVL-Timestamp'' rq)),
      (''attempt'', JStr (header_or_empty ''X-FAVL-Delivery-Attempt'' rq)),
      (''signature_valid'', JBool valid),
      (''has_authorization_header'', JBool (saw_authorization rq)),
      (''body_sha256'', JStr (pv_sha256_hex pv body))]"

definition signature_valid :: "provider_env \<Rightarrow> provider_request \<Rightarrow> string \<Rightarrow> bool" where
  "signature_valid pv rq body =
     (expected_signature pv (header_or_empty ''X-FAVL-Event-ID'' rq) (header_or_empty ''X-FAVL-Timestamp'' rq) body
        = header_or_empty ''X-FAVL-Signature'' rq)"

definition json_str :: "string option \<Rightarrow> json" where
  "json_str v = (case v of None \<Rightarrow> JNull | Some s \<Rightarrow> JStr s)"

definition post_route ::
  "provider_env \<Rightarrow> url_parts \<Rightarrow> provider_request \<Rightarrow> string \<Rightarrow> jobj list \<Rightarrow> provider_reply \<times> jobj list" where
  "post_route pv route rq body deliveries =
     (if up_path route = ''/slow''
      then (case pv_float pv (query_first pv (up_query route) ''seconds'' ''30'') of
              None \<Rightarrow> (HandlerRaises ''ValueError'', deliveries)
            | Some q \<Rightarrow> if q < 0 then (HandlerRaises ''ValueError'', deliveries)
                else (Sends 200 (JsonPayload [(''slept'', JBool True)]), deliveries))
      else if up_path route = ''/fail''
      then (case pv_int pv (query_first pv (up_query route) ''code'' ''500'') of
              None \<Rightarrow> (HandlerRaises ''ValueError'', deliveries)
            | Some code \<Rightarrow> (Sends code (JsonPayload [(''error'', JStr ''provider failure'')]), deliveries))
      else if up_path route = ''/webhook''
      then (let valid = signature_valid pv rq body;
                deliveries = deliveries @ [delivery pv rq body valid]
            in if \<not> valid then (Sends 401 (JsonPayload [(''error'', JStr ''invalid signature'')]), deliveries)
               else (Sends 200 (JsonPayload [(''received'', JBool True),
                       (''event_id'', JStr (header_or_empty ''X-FAVL-Event-ID'' rq))]), deliveries))
      else if up_path route \<in> {''/echo'', ''/extract''}
      then (let parsed = (if body = [] then JObj []
                          else case py_loads (pv_python pv) body of
                                 Some v \<Rightarrow> v
                               | None \<Rightarrow> JObj [(''raw'', JStr (py_decode (pv_python pv) body))])
            in (Sends 200 (JsonPayload
                  [(''echoed'', parsed),
                   (''idempotency_key'', json_str (header_get ''X-FAVL-Idempotency-Key'' rq)),
                   (''invocation_id'', json_str (header_get ''X-FAVL-Invocation-ID'' rq)),
                   (''saw_authorization'', JBool (saw_authorization rq))]), deliveries))
      else (Sends 404 (JsonPayload [(''error'', JStr ''not found'')]), deliveries))"

definition do_POST :: "provider_env \<Rightarrow> provider_request \<Rightarrow> jobj list \<Rightarrow> provider_reply \<times> jobj list" where
  "do_POST pv rq deliveries =
     (case urlparse (pq_path rq) of
        None \<Rightarrow> (HandlerRaises ''ValueError'', deliveries)
      | Some route \<Rightarrow>
          (case read_body pv rq of
             None \<Rightarrow> (HandlerRaises ''ValueError'', deliveries)
           | Some body \<Rightarrow> post_route pv route rq body deliveries))"

text \<open>The bytes of a reply, and the response an HTTP client reads.\<close>

definition payload_bytes :: "provider_env \<Rightarrow> payload \<Rightarrow> string" where
  "payload_bytes pv p = (case p of JsonPayload d \<Rightarrow> py_dumps (pv_python pv) (JObj d) | RawPayload b \<Rightarrow> b)"

definition response_of :: "provider_env \<Rightarrow> time \<Rightarrow> provider_reply \<Rightarrow> http_outcome" where
  "response_of pv now reply =
     (case reply of
        Sends code p \<Rightarrow>
          HttpResponse \<lparr>hr_status = code,
            hr_headers = [(''content-type'', ''application/json''),
                          (''content-length'', int_str (int (length (payload_bytes pv p)))),
                          (''x-request-id'', ''provider-'' @ int_str \<lfloor>now * 1000\<rfloor>)],
            hr_chunks = [payload_bytes pv p]\<rparr>
      | Redirects location \<Rightarrow>
          HttpResponse \<lparr>hr_status = 302, hr_headers = [(''location'', location), (''content-length'', ''0'')], hr_chunks = []\<rparr>
      | HandlerRaises e \<Rightarrow> HttpError ''RemoteProtocolError'' e)"

text \<open>What the provider receives of a request the adapters send: the client adds headers of its own.\<close>

definition header_text :: "json \<Rightarrow> string" where
  "header_text v = (case v of JStr s \<Rightarrow> s | _ \<Rightarrow> [])"

definition received :: "string \<Rightarrow> (string \<times> string) list \<Rightarrow> sent_request \<Rightarrow> provider_request" where
  "received path client_headers s =
     (let body = (case sq_body s of RawBody b \<Rightarrow> b | _ \<Rightarrow> [])
      in \<lparr>pq_path = path,
          pq_headers = client_headers @ [(''Content-Length'', int_str (int (length body)))]
            @ map (\<lambda>(k, v). (k, header_text v)) (sq_headers s),
          pq_stream = body\<rparr>)"

section \<open>Routes\<close>

lemma webhook_route: "\<exists>route. urlparse ''/webhook'' = Some route \<and> up_path route = ''/webhook''"
proof -
  have "case urlparse ''/webhook'' of None \<Rightarrow> False | Some route \<Rightarrow> up_path route = ''/webhook''"
    by code_simp
  then show ?thesis by (auto split: option.splits)
qed

lemma redirect_route: "\<exists>route. urlparse ''/redirect'' = Some route \<and> up_path route = ''/redirect''"
proof -
  have "case urlparse ''/redirect'' of None \<Rightarrow> False | Some route \<Rightarrow> up_path route = ''/redirect''"
    by code_simp
  then show ?thesis by (auto split: option.splits)
qed

section \<open>The adapter and the provider agree on signatures\<close>

definition favl_headers :: "string list" where
  "favl_headers = [''x-favl-event-id'', ''x-favl-timestamp'', ''x-favl-signature'', ''x-favl-delivery-attempt'',
     ''content-length'', ''authorization'']"

lemma lower_names:
  "str_lower ''X-FAVL-Event-ID'' = ''x-favl-event-id''" "str_lower ''X-FAVL-Timestamp'' = ''x-favl-timestamp''"
  "str_lower ''X-FAVL-Signature'' = ''x-favl-signature''" "str_lower ''X-FAVL-Delivery-Attempt'' = ''x-favl-delivery-attempt''"
  "str_lower ''Content-Length'' = ''content-length''" "str_lower ''Content-Type'' = ''content-type''"
  "str_lower ''Host'' = ''host''" "str_lower ''authorization'' = ''authorization''"
  by code_simp+

lemma header_append:
  assumes "\<forall>(k, v) \<in> set hs. str_lower k \<noteq> str_lower name"
  shows "header_get name \<lparr>pq_path = p, pq_headers = hs @ hs', pq_stream = b\<rparr> =
    header_get name \<lparr>pq_path = p, pq_headers = hs', pq_stream = b\<rparr>"
  using assms by (induction hs) (auto simp: header_get_def)

text \<open>
  What the webhook adapter signs, a receiver verifies.  Every request a webhook delivery puts on the wire,
  received by the provider's \<open>/webhook\<close> route with the secret the connector's reference resolves to, is
  answered 200 and recorded once, with its own event id, timestamp and attempt, as validly signed and as carrying
  no authorization header, whatever headers of its own the HTTP client adds.
\<close>

theorem signed_delivery_is_accepted:
  assumes "webhook_invoke env rq cc = (sent, out)" and "req \<in> set sent"
    and "signing_secret env cc = SigningSecret (SIGNING_SECRET pv)" and "pv_python pv = ae_py env"
    and "\<And>n. pv_int pv (int_str (int n)) = Some (int n)"
    and "\<forall>(k, v) \<in> set client_headers. str_lower k \<notin> set favl_headers"
  shows "do_POST pv (received ''/webhook'' client_headers req) deliveries =
    (Sends 200 (JsonPayload [(''received'', JBool True), (''event_id'', JStr (rq_invocation_id rq))]),
     deliveries @ [[(''event_id'', JStr (rq_invocation_id rq)), (''timestamp'', JStr (webhook_timestamp env)),
       (''attempt'', JStr (int_str (rq_attempt rq))), (''signature_valid'', JBool True),
       (''has_authorization_header'', JBool False),
       (''body_sha256'', JStr (pv_sha256_hex pv (webhook_body env rq cc)))]])"
proof -
  have "sent \<noteq> []" using assms(2) by auto
  then obtain policy tms secret url res where r: "signing_secret env cc = SigningSecret secret"
    "request (ae_http env) (JStr ''POST'') url policy (RawBody (webhook_body env rq cc))
       (webhook_headers env rq cc secret) tms = (sent, res)"
    by (rule webhook_send_request [OF assms(1)])
  have secret: "secret = SIGNING_SECRET pv"
    using r(1) assms(3) by simp
  obtain i where i: "i < length sent" "req = sent ! i"
    using assms(2) by (auto simp: in_set_conv_nth)
  note reach = request_reaches [OF r(2) i(1)]
  have kept: "sanitise_headers (webhook_headers env rq cc secret) = webhook_headers env rq cc secret"
    by (simp add: sanitise_headers_def webhook_headers_def STRIPPED_REQUEST_HEADERS_def str_lower_def
          char_lower_def)
  obtain host where hs: "sq_headers req = webhook_headers env rq cc secret @ [(''Host'', host)]"
    using reach(3,4) i(2) kept by (metis prod.collapse)
  have body: "sq_body req = RawBody (webhook_body env rq cc)"
    using reach(5) i(2) by simp
  let ?own = "[(''Content-Length'', int_str (int (length (webhook_body env rq cc))))]
     @ map (\<lambda>(k, v). (k, header_text v)) (webhook_headers env rq cc secret @ [(''Host'', host)])"
  have got: "received ''/webhook'' client_headers req =
      \<lparr>pq_path = ''/webhook'', pq_headers = client_headers @ ?own, pq_stream = webhook_body env rq cc\<rparr>"
    by (simp add: received_def body hs Let_def)
  have none: "\<forall>(k, v) \<in> set client_headers. str_lower k \<noteq> str_lower name" if "str_lower name \<in> set favl_headers" for name
    using assms(6) that by auto
  have get: "header_get name (received ''/webhook'' client_headers req) = Some v"
    if "str_lower name \<in> set favl_headers"
      "header_get name \<lparr>pq_path = ''/webhook'', pq_headers = ?own, pq_stream = webhook_body env rq cc\<rparr> = Some v" for name v
    unfolding got header_append [OF none [OF that(1)]] by (rule that(2))
  note lower = header_get_def webhook_headers_def lower_names favl_headers_def header_text_def
  have "header_get ''X-FAVL-Event-ID'' (received ''/webhook'' client_headers req) = Some (rq_invocation_id rq)"
    "header_get ''X-FAVL-Timestamp'' (received ''/webhook'' client_headers req) = Some (webhook_timestamp env)"
    "header_get ''X-FAVL-Delivery-Attempt'' (received ''/webhook'' client_headers req) = Some (int_str (rq_attempt rq))"
    "header_get ''X-FAVL-Signature'' (received ''/webhook'' client_headers req) =
       Some (build_signature (ae_py env) secret (rq_invocation_id rq) (webhook_timestamp env) (webhook_body env rq cc))"
    "header_get ''Content-Length'' (received ''/webhook'' client_headers req) = Some (int_str (int (length (webhook_body env rq cc))))"
    by (rule get; simp add: lower)+
  note headers = this
  have "\<not> saw_authorization (received ''/webhook'' client_headers req)"
    using none [of "''authorization''"] unfolding got saw_authorization_def
    by (auto simp: lower)
  moreover have "read_body pv (received ''/webhook'' client_headers req) = Some (webhook_body env rq cc)"
    using assms(5) headers(5) by (simp add: read_body_def) (simp add: got)
  moreover have "signature_valid pv (received ''/webhook'' client_headers req) (webhook_body env rq cc)"
    by (simp add: signature_valid_def expected_signature_def header_or_empty_def headers assms(4) build_signature_def
        signed_string_def SIGNATURE_VERSION_def secret)
  moreover obtain route where "urlparse ''/webhook'' = Some route" "up_path route = ''/webhook''"
    using webhook_route by blast
  moreover have "pq_path (received ''/webhook'' client_headers req) = ''/webhook''"
    by (simp add: got)
  ultimately show ?thesis
    by (simp add: do_POST_def post_route_def delivery_def header_or_empty_def headers Let_def)
qed

section \<open>The redirect to the metadata service\<close>

definition metadata_url :: string where
  "metadata_url = ''http://169.254.169.254/latest/meta-data/''"

lemma provider_redirects: "do_GET pv (received ''/redirect'' hs req) deliveries = Redirects metadata_url"
proof -
  obtain route where "urlparse ''/redirect'' = Some route" "up_path route = ''/redirect''"
    using redirect_route by blast
  then show ?thesis
    by (simp add: do_GET_def received_def metadata_url_def Let_def)
qed

lemma metadata_parts:
  "(case urlparse metadata_url of None \<Rightarrow> False | Some u \<Rightarrow>
     hostname u = Some ''169.254.169.254'' \<and> up_scheme u = ''http'' \<and> username u = None \<and> password u = None)"
  "(case ip_address (strip_brackets ''169.254.169.254'') of None \<Rightarrow> False | Some a \<Rightarrow> always_forbidden a \<noteq> None \<and> address_is_forbidden a \<noteq> None)"
  by code_simp+

lemma metadata_is_blocked: "\<exists>reason detail. validate_url resolver metadata_url policy = Inl (SSRFBlocked reason detail)"
proof -
  obtain u where u: "urlparse metadata_url = Some u" "hostname u = Some ''169.254.169.254''" "up_scheme u = ''http''"
    "username u = None" "password u = None"
    using metadata_parts(1) by (auto split: option.splits)
  obtain a where a: "ip_address (strip_brackets ''169.254.169.254'') = Some a" "always_forbidden a \<noteq> None" "address_is_forbidden a \<noteq> None"
    using metadata_parts(2) by (auto split: option.splits)
  then obtain why where "classify a (op_allow_private_addresses policy) = Some why"
    by (cases "op_allow_private_addresses policy") (auto simp: classify_def)
  then show ?thesis
    using u a by (auto simp: validate_url_def validate_static_def truthy_text_def Let_def)
qed

text \<open>
  The provider's redirect is refused.  Against the provider's \<open>/redirect\<close> route, under every policy and with every
  resolver, a guarded request ends in an error after at most the one request that was redirected: nothing is sent
  to the metadata service.
\<close>

theorem metadata_redirect_is_refused:
  assumes "\<forall>req. he_client http 0 req = response_of pv now (do_GET pv (received ''/redirect'' hs req) deliveries)"
    and "\<forall>url. he_join http url metadata_url = Some metadata_url"
  shows "\<exists>sent e. request http mthd url policy body headers tms = (sent, Inl e) \<and> length sent \<le> 1"
proof (cases "validate_url (he_resolver http 0) url policy")
  case (Inl e)
  then show ?thesis
    by (simp add: request_def request_loop.simps)
next
  case (Inr target)
  let ?req = "build_request mthd (sanitise_headers headers) body tms target"
  obtain reason detail where "validate_url (he_resolver http 1) metadata_url policy = Inl (SSRFBlocked reason detail)"
    using metadata_is_blocked by blast
  then have second: "request_loop http policy mthd (sanitise_headers headers) body tms (Suc 0) metadata_url =
      ([], Inl (BlockedBySsrf (SSRFBlocked reason detail)))"
    by (subst request_loop.simps) simp
  have first: "he_client http 0 ?req = HttpResponse \<lparr>hr_status = 302,
      hr_headers = [(''location'', metadata_url), (''content-length'', ''0'')], hr_chunks = []\<rparr>"
    using assms(1) by (simp add: response_of_def provider_redirects)
  have "metadata_url \<noteq> []"
    by (simp add: metadata_url_def)
  then have "request http mthd url policy body headers tms =
      ([?req], if 1 > op_max_redirects policy then Inl (TooManyRedirects (op_max_redirects policy))
        else Inl (BlockedBySsrf (SSRFBlocked reason detail)))"
    unfolding request_def
    by (subst request_loop.simps) (simp add: Inr first redirect_status_def assms(2) second Let_def)
  then show ?thesis by auto
qed

definition example_int :: "string \<Rightarrow> int option" where
  "example_int s = (if list_all is_digit s then Some (dec_value s) else None)"

definition example_provider :: provider_env where
  "example_provider = \<lparr>pv_python = example_python, pv_getenv = [''WEBHOOK_SIGNING_KEY'' \<mapsto> ''key''], pv_parse_qs = (\<lambda>_. []),
     pv_int = example_int, pv_float = (\<lambda>_. None), pv_sha256_hex = (\<lambda>_. [])\<rparr>"

lemma ord_digit_char: "0 \<le> n \<Longrightarrow> n < 10 \<Longrightarrow> ord (digit_char n) = 48 + n"
  by (auto simp: ord_def digit_char_def of_char_of)

lemma decimal_roundtrip: "0 \<le> n \<Longrightarrow> list_all is_digit (to_base 10 n) \<and> dec_value (to_base 10 n) = n"
proof (induction "nat n" arbitrary: n rule: less_induct)
  case less
  show ?case
  proof (cases "n < 10")
    case True
    then show ?thesis
      using less.prems ord_digit_char [of n] by (subst (1 2) to_base.simps) (simp add: is_digit_def dec_value_def)
  next
    case False
    then have "list_all is_digit (to_base 10 (n div 10)) \<and> dec_value (to_base 10 (n div 10)) = n div 10"
      by (intro less.hyps) auto
    moreover have "ord (digit_char (n mod 10)) = 48 + n mod 10"
      by (rule ord_digit_char) simp_all
    ultimately show ?thesis
      using False by (subst (1 2) to_base.simps) (simp add: is_digit_def dec_value_def)
  qed
qed

theorem signed_delivery_is_accepted_witness:
  "\<exists>req d. fst (webhook_invoke example_env example_request (example_context webhook_config)) = [req] \<and>
     do_POST example_provider (received ''/webhook'' [(''User-Agent'', ''httpx'')] req) [] =
       (Sends 200 (JsonPayload [(''received'', JBool True), (''event_id'', JStr ''i1'')]), [d])"
proof -
  obtain sent out where r: "webhook_invoke example_env example_request (example_context webhook_config) = (sent, out)"
    by (cases "webhook_invoke example_env example_request (example_context webhook_config)") auto
  then obtain req rest where s: "sent = req # rest"
    using example_webhook_sends by (cases sent) auto
  have secret: "signing_secret example_env (example_context webhook_config) = SigningSecret (SIGNING_SECRET example_provider)"
    by (simp add: signing_secret_def example_context_def webhook_config_def jget_def example_env_def SIGNING_SECRET_def
        example_provider_def)
  have py: "pv_python example_provider = ae_py example_env"
    by (simp add: example_provider_def example_env_def)
  have int: "pv_int example_provider (int_str (int n)) = Some (int n)" for n
    using decimal_roundtrip [of "int n"] by (simp add: example_provider_def example_int_def int_str_def dec_str_def)
  have lower: "str_lower ''User-Agent'' = ''user-agent''"
    by code_simp
  obtain policy tms secret url res where q: "webhook_policy (ae_dp example_env) (cc_config (example_context webhook_config)) = Inr policy"
    "request (ae_http example_env) (JStr ''POST'') url policy (RawBody (webhook_body example_env example_request (example_context webhook_config)))
       (webhook_headers example_env example_request (example_context webhook_config) secret) tms = (sent, res)"
    using webhook_send_request [OF r] s by (metis list.distinct(1))
  have "op_max_redirects policy = 0"
    using webhook_policy_Inr [OF q(1)] by auto
  then have "sent = [req]"
    using request_length [OF q(2)] s by simp
  moreover have "rq_invocation_id example_request = ''i1''"
    by (simp add: example_request_def)
  moreover note signed_delivery_is_accepted [OF r _ secret py int, of req "[(''User-Agent'', ''httpx'')]" "[]"]
  ultimately show ?thesis
    using r by (simp add: lower favl_headers_def)
qed

definition redirecting :: http_env where
  "redirecting = \<lparr>he_resolver = \<lambda>_ _ _. Inr [''93.184.216.34''],
     he_client = \<lambda>_ req. response_of example_provider 0 (do_GET example_provider (received ''/redirect'' [] req) []),
     he_join = \<lambda>_ location. Some location\<rparr>"

theorem metadata_redirect_is_refused_witness:
  "\<exists>req e. request redirecting (JStr ''GET'') ''https://api.example.com/v1'' one_hop_policy NoBody [] no_limits = ([req], Inl e)"
proof -
  obtain sent e where r: "request redirecting (JStr ''GET'') ''https://api.example.com/v1'' one_hop_policy NoBody [] no_limits = (sent, Inl e)"
    and short: "length sent \<le> 1"
    using metadata_redirect_is_refused [of redirecting example_provider 0 "[]" "[]" "JStr ''GET''" "''https://api.example.com/v1''"
      one_hop_policy NoBody "[]" no_limits]
    by (auto simp: redirecting_def)
  have "sent \<noteq> []"
    using r unfolding request_def
    by (subst (asm) request_loop.simps)
      (auto simp: redirecting_def api_target_one_hop response_of_def provider_redirects Let_def split: option.splits if_splits prod.splits)
  with r short show ?thesis
    by (cases sent) auto
qed

end
