(* ===== verification/Regex.thy ===== *)
theory Regex
  imports Prelude
begin

text \<open>
  The part of Python's \<open>re\<close> the repository's scripts search with: classes, sequences, alternatives and
  repetition, over input of code points below 256.  \<open>lang\<close> says what a pattern means, \<open>matches_prefix\<close> and \<open>search\<close>
  decide it by derivatives, and \<open>search_iff\<close> states that they agree: a backtracking engine finds a match exactly
  when some part of the input is in the language.
\<close>

datatype regex =
    Nothing
  | Epsilon
  | Class "char \<Rightarrow> bool"
  | Seq regex regex
  | Alt regex regex
  | Star regex

section \<open>Meaning\<close>

inductive_set star :: "string set \<Rightarrow> string set" for A :: "string set" where
  star_Nil: "[] \<in> star A"
| star_append: "u \<in> A \<Longrightarrow> v \<in> star A \<Longrightarrow> u @ v \<in> star A"

fun lang :: "regex \<Rightarrow> string set" where
  "lang Nothing = {}"
| "lang Epsilon = {[]}"
| "lang (Class p) = {[c] | c. p c}"
| "lang (Seq r s) = {u @ v | u v. u \<in> lang r \<and> v \<in> lang s}"
| "lang (Alt r s) = lang r \<union> lang s"
| "lang (Star r) = star (lang r)"

definition occurs :: "regex \<Rightarrow> string \<Rightarrow> bool" where
  "occurs r input \<longleftrightarrow> (\<exists>a m b. input = a @ m @ b \<and> m \<in> lang r)"

section \<open>Matching\<close>

fun nullable :: "regex \<Rightarrow> bool" where
  "nullable Nothing = False"
| "nullable Epsilon = True"
| "nullable (Class p) = False"
| "nullable (Seq r s) = (nullable r \<and> nullable s)"
| "nullable (Alt r s) = (nullable r \<or> nullable s)"
| "nullable (Star r) = True"

text \<open>Constructors that keep derivatives small.\<close>

fun seq :: "regex \<Rightarrow> regex \<Rightarrow> regex" where
  "seq Nothing s = Nothing"
| "seq Epsilon s = s"
| "seq r s = Seq r s"

fun alt :: "regex \<Rightarrow> regex \<Rightarrow> regex" where
  "alt Nothing s = s"
| "alt r Nothing = r"
| "alt r s = Alt r s"

fun deriv :: "char \<Rightarrow> regex \<Rightarrow> regex" where
  "deriv c Nothing = Nothing"
| "deriv c Epsilon = Nothing"
| "deriv c (Class p) = (if p c then Epsilon else Nothing)"
| "deriv c (Seq r s) = (if nullable r then alt (seq (deriv c r) s) (deriv c s) else seq (deriv c r) s)"
| "deriv c (Alt r s) = alt (deriv c r) (deriv c s)"
| "deriv c (Star r) = seq (deriv c r) (Star r)"

fun matches_prefix :: "regex \<Rightarrow> string \<Rightarrow> bool" where
  "matches_prefix Nothing input = False"
| "matches_prefix r [] = nullable r"
| "matches_prefix r (c # input) = (if nullable r then True else matches_prefix (deriv c r) input)"

fun search :: "regex \<Rightarrow> string \<Rightarrow> bool" where
  "search r [] = nullable r"
| "search r (c # input) = (if matches_prefix r (c # input) then True else search r input)"

section \<open>Correctness\<close>

lemma nullable_iff: "nullable r \<longleftrightarrow> [] \<in> lang r"
  by (induction r) (auto intro: star_Nil)

lemma lang_seq [simp]: "lang (seq r s) = lang (Seq r s)"
  by (cases r) auto

lemma lang_alt [simp]: "lang (alt r s) = lang (Alt r s)"
  by (cases r; cases s) auto

lemma star_Cons:
  "c # w \<in> star A \<longleftrightarrow> (\<exists>u v. w = u @ v \<and> c # u \<in> A \<and> v \<in> star A)"
proof
  show "c # w \<in> star A \<Longrightarrow> \<exists>u v. w = u @ v \<and> c # u \<in> A \<and> v \<in> star A"
    by (induction "c # w" rule: star.induct) (auto simp: append_eq_Cons_conv)
next
  assume "\<exists>u v. w = u @ v \<and> c # u \<in> A \<and> v \<in> star A"
  then show "c # w \<in> star A"
    using star_append [of "c # _"] by fastforce
qed

lemma seq_Cons:
  "c # w \<in> {u @ v | u v. u \<in> A \<and> v \<in> B} \<longleftrightarrow>
     (\<exists>u v. w = u @ v \<and> c # u \<in> A \<and> v \<in> B) \<or> [] \<in> A \<and> c # w \<in> B"
  by (auto simp: Cons_eq_append_conv)

lemma lang_deriv: "w \<in> lang (deriv c r) \<longleftrightarrow> c # w \<in> lang r"
proof (induction r arbitrary: w)
  case (Seq r s)
  have "c # w \<in> lang (Seq r s) \<longleftrightarrow>
      (\<exists>u v. w = u @ v \<and> u \<in> lang (deriv c r) \<and> v \<in> lang s) \<or> nullable r \<and> w \<in> lang (deriv c s)"
    using seq_Cons [of c w "lang r" "lang s"] by (simp add: Seq.IH nullable_iff)
  then show ?case by auto
next
  case (Star r)
  then show ?case by (auto simp: star_Cons)
qed auto

lemma matches_prefix_iff: "matches_prefix r input \<longleftrightarrow> (\<exists>m b. input = m @ b \<and> m \<in> lang r)"
proof (induction input arbitrary: r)
  case Nil
  then show ?case by (cases r) (auto simp: nullable_iff)
next
  case (Cons c input)
  have "(\<exists>m b. c # input = m @ b \<and> m \<in> lang r) \<longleftrightarrow> nullable r \<or> (\<exists>m b. input = m @ b \<and> m \<in> lang (deriv c r))"
    by (auto simp: Cons_eq_append_conv nullable_iff lang_deriv)
  moreover have "matches_prefix r (c # input) \<longleftrightarrow> nullable r \<or> matches_prefix (deriv c r) input"
    by (cases r) auto
  ultimately show ?case
    using Cons.IH by simp
qed

lemma search_iff: "search r input \<longleftrightarrow> occurs r input"
proof (induction input)
  case Nil
  then show ?case by (simp add: occurs_def nullable_iff)
next
  case (Cons c input)
  have "occurs r (c # input) \<longleftrightarrow> (\<exists>m b. c # input = m @ b \<and> m \<in> lang r) \<or> occurs r input"
    unfolding occurs_def by (auto simp: Cons_eq_append_conv) (metis append_Nil)+
  then show ?case
    unfolding matches_prefix_iff [symmetric] using Cons.IH by simp
qed

section \<open>Notation of the patterns\<close>

fun lit :: "string \<Rightarrow> regex" where
  "lit [] = Epsilon"
| "lit (c # s) = Seq (Class (\<lambda>x. x = c)) (lit s)"

fun seqs :: "regex list \<Rightarrow> regex" where
  "seqs [] = Epsilon"
| "seqs (r # rs) = Seq r (seqs rs)"

fun alts :: "regex list \<Rightarrow> regex" where
  "alts [] = Nothing"
| "alts (r # rs) = Alt r (alts rs)"

definition plus_of :: "regex \<Rightarrow> regex" where
  "plus_of r = Seq r (Star r)"

definition opt :: "regex \<Rightarrow> regex" where
  "opt r = Alt r Epsilon"

definition code :: "char \<Rightarrow> int" where
  "code c = of_char c"

text \<open>\<open>\s\<close> and \<open>\w\<close> of a \<open>str\<close> pattern, below code point 256.\<close>

definition re_space :: "char \<Rightarrow> bool" where
  "re_space c \<longleftrightarrow> 9 \<le> code c \<and> code c \<le> 13 \<or> 28 \<le> code c \<and> code c \<le> 32 \<or> code c = 133 \<or> code c = 160"

definition re_word :: "char \<Rightarrow> bool" where
  "re_word c \<longleftrightarrow> 48 \<le> code c \<and> code c \<le> 57 \<or> 65 \<le> code c \<and> code c \<le> 90 \<or> 97 \<le> code c \<and> code c \<le> 122 \<or>
     code c \<in> {95, 170, 178, 179, 181, 185, 186, 188, 189, 190} \<or>
     192 \<le> code c \<and> code c \<noteq> 215 \<and> code c \<noteq> 247"

definition spaces :: regex where "spaces = plus_of (Class re_space)"
definition spaces0 :: regex where "spaces0 = Star (Class re_space)"
definition word_chars0 :: regex where "word_chars0 = Star (Class re_word)"

lemma lang_lit [simp]: "lang (lit s) = {s}"
  by (induction s) auto

lemma lang_alts: "lang (alts rs) = (\<Union>r \<in> set rs. lang r)"
  by (induction rs) auto

lemma occurs_lit: "occurs (lit s) input \<longleftrightarrow> (\<exists>a b. input = a @ s @ b)"
  by (simp add: occurs_def)

lemma occurs_alts: "occurs (alts rs) input \<longleftrightarrow> (\<exists>r \<in> set rs. occurs r input)"
  by (auto simp: occurs_def lang_alts)

lemma occurs_append: "occurs r input \<Longrightarrow> occurs r (before @ input @ after)"
  unfolding occurs_def by (metis append.assoc)

section \<open>Reading text files\<close>

text \<open>\<open>read_text\<close> reads every line end as a newline; \<open>write_text\<close> writes newlines as they are.\<close>

fun universal_newlines :: "string \<Rightarrow> string" where
  "universal_newlines [] = []"
| "universal_newlines (c # s) =
     (if c = CHR 0x0D
      then CHR 0x0A # (case s of [] \<Rightarrow> []
        | d # s' \<Rightarrow> if d = CHR 0x0A then universal_newlines s' else universal_newlines s)
      else c # universal_newlines s)"

lemma universal_newlines_no_CR: "CHR 0x0D \<notin> set (universal_newlines s)"
  by (induction s rule: universal_newlines.induct) (auto split: list.splits)

lemma universal_newlines_id: "CHR 0x0D \<notin> set s \<Longrightarrow> universal_newlines s = s"
  by (induction s rule: universal_newlines.induct) auto

end
