(* ===== verification/DormantObligations.thy ===== *)
theory DormantObligations
  imports Regex "HOL-Library.List_Lexorder" "HOL-Library.Char_ord"
begin

text \<open>
  \<open>scripts/check_dormant_obligations.py\<close>: the tripwires of ADR 0002.  \<open>tree\<close> is the registry's directory, each file
  with the parts of its path and its decoded text; \<open>dormant_main\<close> returns the exit code with the lines it prints.  Prose is
  kept as the UTF-8 bytes it is printed as.  Directories without files, and directories named like a module, are not
  modelled.
\<close>

definition NL :: char where "NL = CHR 0x0A"

definition DASH :: string where "DASH = [CHR 0xE2, CHR 0x80, CHR 0x94]"

record obligation =
  ob_id :: string
  ob_clause :: string
  ob_why_dormant :: string
  ob_triggers :: "(string \<times> regex) list"
  ob_control :: regex
  ob_control_description :: string
  ob_closes_when :: string
  ob_search :: "string list list"

section \<open>The obligations\<close>

definition REV_001 :: obligation where
  "REV_001 =
     \<lparr>ob_id = ''REV-001'',
      ob_clause = ''standard revocation cancels queued invocations'',
      ob_why_dormant = ''Not applicable under synchronous execution. accept() commits ACCEPTED and execute() ''
       @ ''sets RUNNING inside the same request, so no invocation is ever queued and nothing is ''
       @ ''positioned to cancel one. The clause is not satisfied ''
       @ DASH
       @ '' there is nothing for it to be satisfied by.'',
      ob_triggers =
        [(''worker process or background dispatch'',
          alts [lit ''asyncio.create_task('', lit ''BackgroundTasks'', seqs [lit ''def'', spaces, lit ''worker''],
             seqs [lit ''class'', spaces, word_chars0, lit ''Worker'']]),
         (''queue table or claim operation'',
          alts [lit ''FOR UPDATE SKIP LOCKED'', seqs [lit ''def'', spaces, lit ''dequeue''],
             seqs [lit ''def'', spaces, lit ''claim_invocation''],
             seqs [lit ''__tablename__'', spaces0, lit ''='', spaces0, lit [CHR 0x22], word_chars0, lit ''queue'']]),
         (''invocation queue message subject'',
          seqs [lit (CHR 0x22 # ''connector.invocation.''), alts [lit ''queued'', lit ''dispatch'']]),
         (''asynchronous retry scheduler'',
          alts [seqs [lit ''def'', spaces, lit ''schedule_retry''], seqs [lit ''def'', spaces, lit ''retry_scheduler''],
             lit ''next_attempt_at'', lit ''scheduled_for''])],
      ob_control = lit ''revocation_aware_dequeue'',
      ob_control_description = ''revocation-aware dequeue: the connector's executability must be re-read when an ''
       @ ''invocation leaves the queue, BEFORE it reaches RUNNING ''
       @ DASH
       @ '' not only when it was accepted'',
      ob_closes_when = ''an async path exists, cancels ACCEPTED invocations on revocation, and a live test ''
       @ ''revokes BETWEEN accept and start and asserts the invocation never runs ''
       @ DASH
       @ '' observed failing with the control removed'',
      ob_search = [[''app'']]\<rparr>"

definition REV_002 :: obligation where
  "REV_002 =
     \<lparr>ob_id = ''REV-002'',
      ob_clause = ''credentials are unavailable for subsequent retries'',
      ob_why_dormant = ''True only because no internal retry mechanism exists. attempt is always 1 and a caller ''
       @ ''retrying issues a NEW invocation, which passes check_executable. This is an ''
       @ ''architectural absence, not a security control.'',
      ob_triggers =
        [(''attempt is incremented'',
          alts [seqs [lit ''attempt'', spaces0, lit ''+=''],
             seqs [lit ''attempt'', spaces0, lit ''='', spaces0, lit ''record.attempt'', spaces0, lit ''+'']]),
         (''retry scheduler'',
          alts [seqs [lit ''def'', spaces, lit ''schedule_retry''], seqs [lit ''def'', spaces, lit ''retry_invocation'']]),
         (''retryable status re-execution'',
          alts [seqs [lit ''where('', Star (Class (\<lambda>c. c \<noteq> CHR '')'')), lit ''FAILED_RETRYABLE''],
             seqs [lit ''InvocationRecord.status'', spaces0, lit ''=='', spaces0, lit ''InvocationStatus.FAILED_RETRYABLE'']]),
         (''delayed invocation task'',
          alts [seqs [lit ''def'', spaces, lit ''delayed_invocation''], lit ''run_after'', lit ''delay_seconds'']),
         (''provider backoff loop'',
          alts [seqs [lit ''def'', spaces, lit ''backoff''], lit ''exponential_backoff'',
             seqs [lit ''for'', spaces, opt (lit ''_''), lit ''attempt'', spaces, lit ''in'', spaces, lit ''range'']])],
      ob_control = alts [lit ''reauthorise_attempt'', seqs [lit ''def'', spaces, lit ''reauthorise'']],
      ob_control_description = ''a reauthorise_attempt() re-evaluating ALL SIX of: connector status, connector tenant ''
       @ ''ownership, credential status, credential tenant ownership, credential version binding, ''
       @ ''invocation deadline/authority context. Connector and credential tenancy are listed ''
       @ ''separately on purpose ''
       @ DASH
       @ '' checking one and assuming the other is the likely omission, because the connector ''
       @ ''check already exists to be copied. A retry must not inherit credentials or authority ''
       @ ''merely because the first attempt was accepted'',
      ob_closes_when = ''the retry path re-authorises before resolving secrets, and a mutation removing that ''
       @ ''call kills a named test'',
      ob_search = [[''app'']]\<rparr>"

definition REV_003 :: obligation where
  "REV_003 =
     \<lparr>ob_id = ''REV-003'',
      ob_clause = ''emergency revocation re-checks before each external action'',
      ob_why_dormant = ''There is no emergency mode, no actor able to trigger one, and no cancellation ''
       @ ''propagation. Under STANDARD revocation a running invocation is authorised to complete, ''
       @ ''so re-checking revocation between redirect hops would contradict the chosen semantics ''
       @ DASH
       @ '' the absence is correct, not an oversight.'',
      ob_triggers =
        [(''an emergency revocation mode exists'',
          alts [lit ''revocation_mode'', lit ''EMERGENCY'', lit ''emergency_revoke'']),
         (''cancellation propagation'',
          alts [lit ''cancellation_requested'', lit ''termination_requested'', lit (CHR 0x22 # ''connector.invocation.cancell'')]),
         (''credential invalidation'',
          alts [lit ''credentials_invalidated_at'', seqs [lit ''def'', spaces, lit ''invalidate_credential'']])],
      ob_control = lit ''revocation_checkpoint'',
      ob_control_description = ''a revocation_checkpoint() consulted before secret resolution, each provider call, each ''
       @ ''retry, each redirect hop, and each side-effecting step ''
       @ DASH
       @ '' the redirect loop in security/outbound.py being the only genuine multi-hop path today'',
      ob_closes_when = ''emergency revocation exists AND a test proves interruption between redirect hops or ''
       @ ''provider calls ''
       @ DASH
       @ '' not merely that the checkpoint function is called'',
      ob_search = [[''app'']]\<rparr>"

definition OBLIGATIONS :: "obligation list" where
  "OBLIGATIONS = [REV_001, REV_002, REV_003]"

section \<open>Evaluation\<close>

type_synonym tree = "(string list \<times> string) list"

definition is_dir :: "tree \<Rightarrow> string list \<Rightarrow> bool" where
  "is_dir tree base \<longleftrightarrow> (\<exists>(p, _) \<in> set tree. strict_prefix base p)"

text \<open>\<open>sorted(base.rglob("*.py"))\<close> orders paths by their parts.\<close>

definition sources :: "tree \<Rightarrow> obligation \<Rightarrow> tree" where
  "sources tree ob =
     filter (\<lambda>(p, _). ''__pycache__'' \<notin> set p)
       (concat (map (\<lambda>base.
          if is_dir tree base
          then sort_key fst (filter (\<lambda>(p, _). strict_prefix base p \<and> endswith (last p) ''.py'') tree)
          else filter (\<lambda>(p, _). p = base) tree) (ob_search ob)))"

fun join_lines :: "string list \<Rightarrow> string" where
  "join_lines [] = []"
| "join_lines [l] = l"
| "join_lines (l # ls) = l @ NL # join_lines ls"

definition blob :: "tree \<Rightarrow> obligation \<Rightarrow> string" where
  "blob tree ob = join_lines (map snd (sources tree ob))"

definition evaluate :: "tree \<Rightarrow> obligation \<Rightarrow> string list \<times> bool" where
  "evaluate tree ob =
     (let b = blob tree ob
      in (map fst (filter (\<lambda>(name, pattern). search pattern b) (ob_triggers ob)), search (ob_control ob) b))"

definition breached :: "tree \<Rightarrow> obligation \<Rightarrow> bool" where
  "breached tree ob = (case evaluate tree ob of (fired, controlled) \<Rightarrow> fired \<noteq> [] \<and> \<not> controlled)"

section \<open>The command\<close>

definition ascii_upper :: "string \<Rightarrow> string" where
  "ascii_upper s = map (\<lambda>c. if 97 \<le> code c \<and> code c \<le> 122 then char_of (code c - 32) else c) s"

fun join_comma :: "string list \<Rightarrow> string" where
  "join_comma [] = []"
| "join_comma [s] = s"
| "join_comma (s # ss) = s @ '', '' @ join_comma ss"

definition explain :: "obligation \<Rightarrow> string list" where
  "explain ob =
     [ob_id ob @ '' '' @ DASH @ '' '' @ ob_clause ob, [],
      ''  Current status: DORMANT.'', ''    '' @ ob_why_dormant ob, [],
      ''  Activation triggers:'']
     @ map (\<lambda>(name, _). ''    - '' @ name) (ob_triggers ob)
     @ [[], ''  Required control when activated:'', ''    '' @ ob_control_description ob,
        [], ''  Closes when:'', ''    '' @ ob_closes_when ob]"

definition verdict_lines :: "tree \<Rightarrow> obligation \<Rightarrow> string list" where
  "verdict_lines tree ob =
     (case evaluate tree ob of (fired, controlled) \<Rightarrow>
        if fired = [] then [''  dormant  '' @ ob_id ob @ ''  '' @ ob_clause ob]
        else if controlled
        then [''  ACTIVE   '' @ ob_id ob @ ''  '' @ ob_clause ob,
              ''           triggered by: '' @ join_comma fired,
              ''           control present '' @ DASH @ '' close the item once its'',
              ''           failure-injection test exists: '' @ ob_closes_when ob]
        else [''  BREACHED '' @ ob_id ob @ ''  '' @ ob_clause ob,
              ''           triggered by: '' @ join_comma fired,
              ''           MISSING: '' @ ob_control_description ob])"

definition digit_of :: "nat \<Rightarrow> string" where
  "digit_of n = [char_of (48 + n)]"

text \<open>\<open>--list\<close> is parsed and never read; an empty \<open>--explain\<close> is false.\<close>

definition dormant_main :: "tree \<Rightarrow> string option \<Rightarrow> bool \<Rightarrow> int \<times> string list" where
  "dormant_main tree explain_arg list_arg =
     (if explain_arg \<noteq> None \<and> explain_arg \<noteq> Some []
      then (case find (\<lambda>ob. ob_id ob = ascii_upper (the explain_arg)) OBLIGATIONS of
              None \<Rightarrow> (2, [])
            | Some target \<Rightarrow> (0, explain target))
      else (let head = [''checking '' @ digit_of (length OBLIGATIONS) @ '' dormant obligations'', []];
                verdicts = concat (map (verdict_lines tree) OBLIGATIONS);
                failed = filter (breached tree) OBLIGATIONS
            in if failed \<noteq> []
               then (1, head @ verdicts @
                       [[], ''FAILED: '' @ digit_of (length failed) @ '' dormant obligation(s) activated without control'', [],
                        ''A capability was added that one of ADR 0002's clauses constrains,'',
                        ''and the clause is now unenforced rather than inapplicable. Either'',
                        ''add the control, or amend ADR 0002 to say the clause is'',
                        ''deliberately deferred '' @ DASH @ '' with the date and the reason. Do not'',
                        ''delete the trigger to make this pass.''])
               else (0, head @ verdicts @
                       [[], ''all '' @ digit_of (length OBLIGATIONS) @ '' obligations still dormant '' @ DASH
                          @ '' nothing activated them''])))"

section \<open>What the check decides\<close>

lemma evaluate_fired: "name \<in> set (fst (evaluate tree ob)) \<longleftrightarrow> (\<exists>r. (name, r) \<in> set (ob_triggers ob) \<and> occurs r (blob tree ob))"
  by (force simp: evaluate_def search_iff Let_def)

lemma evaluate_controlled: "snd (evaluate tree ob) \<longleftrightarrow> occurs (ob_control ob) (blob tree ob)"
  by (simp add: evaluate_def search_iff Let_def)

lemma breached_iff:
  "breached tree ob \<longleftrightarrow> (\<exists>(name, r) \<in> set (ob_triggers ob). occurs r (blob tree ob)) \<and> \<not> occurs (ob_control ob) (blob tree ob)"
proof -
  have "fst (evaluate tree ob) \<noteq> [] \<longleftrightarrow> (\<exists>name. name \<in> set (fst (evaluate tree ob)))"
    by (cases "fst (evaluate tree ob)") auto
  then show ?thesis
    using evaluate_fired [of _ tree ob] evaluate_controlled [of tree ob]
    by (auto simp: breached_def split: prod.split)
qed


lemma occurs_join: "t \<in> set ts \<Longrightarrow> occurs r t \<Longrightarrow> occurs r (join_lines ts)"
proof (induction ts rule: join_lines.induct)
  case (3 l l' ls)
  have "occurs r (l @ NL # join_lines (l' # ls))" if "occurs r l"
    using occurs_append [OF that, of "[]" "NL # join_lines (l' # ls)"] by simp
  moreover have "occurs r (l @ NL # join_lines (l' # ls))" if "occurs r (join_lines (l' # ls))"
    using occurs_append [OF that, of "l @ [NL]" "[]"] by simp
  ultimately show ?case
    using 3 by auto
qed simp_all

lemma module_is_read:
  assumes "(p, t) \<in> set tree" and "strict_prefix [''app''] p" and "endswith (last p) ''.py''" and "''__pycache__'' \<notin> set p"
    and "ob_search ob = [[''app'']]"
  shows "t \<in> set (map snd (sources tree ob))"
  using assms by (force simp: sources_def is_dir_def)

text \<open>
  No module is overlooked.  If a trigger of an obligation occurs in any module under \<open>app\<close>, at whatever depth, and
  the control of that obligation occurs in no part of the text, then the check fails, whatever else the tree holds.
\<close>

theorem trigger_anywhere_fails:
  assumes "ob \<in> set OBLIGATIONS" and "(name, r) \<in> set (ob_triggers ob)"
    and "(p, source) \<in> set tree" and "strict_prefix [''app''] p" and "endswith (last p) ''.py''" and "''__pycache__'' \<notin> set p"
    and "search r source" and "\<not> search (ob_control ob) (blob tree ob)"
  shows "fst (dormant_main tree None list_arg) = 1"
proof -
  have "ob_search ob = [[''app'']]"
    using assms(1) by (auto simp: OBLIGATIONS_def REV_001_def REV_002_def REV_003_def)
  then have "occurs r (blob tree ob)"
    using occurs_join [OF module_is_read [OF assms(3-6)]] assms(7) by (simp add: blob_def search_iff)
  then have "breached tree ob"
    using assms(2,8) by (auto simp: breached_iff search_iff)
  then have "filter (breached tree) OBLIGATIONS \<noteq> []"
    using assms(1) by (auto simp: filter_empty_conv)
  then show ?thesis
    by (simp add: dormant_main_def Let_def)
qed

definition worker_tree :: "string \<Rightarrow> tree" where
  "worker_tree source = [([''app'', ''jobs'', ''run.py''], source)]"

lemma worker_blob: "blob (worker_tree source) REV_001 = source"
proof -
  have "is_dir (worker_tree source) [''app'']"
    by (simp add: is_dir_def worker_tree_def)
  then show ?thesis
    by (simp add: blob_def sources_def worker_tree_def REV_001_def endswith_def suffix_def)
qed

theorem trigger_anywhere_fails_witness: "fst (dormant_main (worker_tree ''class JobWorker:'') None False) = 1"
proof -
  let ?r = "alts [lit ''asyncio.create_task('', lit ''BackgroundTasks'', seqs [lit ''def'', spaces, lit ''worker''],
    seqs [lit ''class'', spaces, word_chars0, lit ''Worker'']]"
  have "search ?r ''class JobWorker:''"
    by code_simp
  moreover have "\<not> search (ob_control REV_001) (blob (worker_tree ''class JobWorker:'') REV_001)"
    unfolding worker_blob by code_simp
  moreover have "(''worker process or background dispatch'', ?r) \<in> set (ob_triggers REV_001)"
    by (simp add: REV_001_def)
  ultimately show ?thesis
    by (intro trigger_anywhere_fails [of REV_001 "''worker process or background dispatch''" ?r "[''app'', ''jobs'', ''run.py'']"
          "''class JobWorker:''"])
      (simp_all add: OBLIGATIONS_def worker_tree_def endswith_def suffix_def)
qed

text \<open>The queue trigger reads raw SQL: the spelling of SQLAlchemy, which the repository's own publisher uses, does not fire it.\<close>

theorem orm_claim_is_not_detected:
  "list_all (\<lambda>(name, r). \<not> search r ''rows = query.with_for_update(skip_locked=True)'') (ob_triggers REV_001)"
  by code_simp

text \<open>An obligation that is active, with its control in place, is reported so, and then called dormant by the last line.\<close>

theorem active_is_summed_up_as_dormant:
  assumes "\<forall>ob \<in> set OBLIGATIONS. \<not> breached tree ob" and "ob \<in> set OBLIGATIONS" and "fst (evaluate tree ob) \<noteq> []"
  shows "(''  ACTIVE   '' @ ob_id ob @ ''  '' @ ob_clause ob) \<in> set (snd (dormant_main tree None list_arg)) \<and>
    last (snd (dormant_main tree None list_arg)) = ''all 3 obligations still dormant '' @ DASH @ '' nothing activated them''"
proof -
  have none: "filter (breached tree) OBLIGATIONS = []"
    using assms(1) by (simp add: filter_empty_conv)
  have "snd (evaluate tree ob)"
    using assms by (cases "evaluate tree ob") (auto simp: breached_def)
  then have "(''  ACTIVE   '' @ ob_id ob @ ''  '' @ ob_clause ob) \<in> set (verdict_lines tree ob)"
    using assms(3) by (cases "evaluate tree ob") (simp add: verdict_lines_def)
  moreover have "digit_of (length OBLIGATIONS) = ''3''"
    by (simp add: OBLIGATIONS_def) code_simp
  ultimately show ?thesis
    using assms(2) none by (auto simp: dormant_main_def Let_def)
qed

end
