(* ===== verification/MutationRunner.thy ===== *)
theory MutationRunner
  imports NetText Regex
begin

text \<open>
  \<open>scripts/mutate.py\<close>: the mutation tests of \<open>docs/adr/0001-security-invariants.md\<close>.  \<open>tree\<close> is the working tree, each file
  with its bytes; files are valid UTF-8, and every text the script searches for is ASCII.  The run of pytest is an argument:
  it may change the tree, and it raises or returns an exit code.  \<open>mutate_main\<close> returns the tree it leaves, the lines it
  prints, and its exit code or exception.
\<close>

definition NL :: string where "NL = [CHR 0x0A]"

definition QUOTE :: string where "QUOTE = [CHR 0x22]"

record mutation =
  mut_name :: string
  mut_invariant :: string
  mut_file :: string
  mut_find :: string
  mut_replace :: string
  mut_expect_failing :: string

definition mutation :: "string \<Rightarrow> string \<Rightarrow> string \<Rightarrow> string \<Rightarrow> string \<Rightarrow> string \<Rightarrow> mutation" where
  "mutation n violated path pattern substitute expect =
     \<lparr>mut_name = n, mut_invariant = violated, mut_file = path, mut_find = pattern, mut_replace = substitute,
      mut_expect_failing = expect\<rparr>"

section \<open>The mutations\<close>

definition MUTATIONS_I1 :: "mutation list" where
  "MUTATIONS_I1 =
    [mutation ''remove-private-address-clamp'' ''I1''
        ''services/connector-registry/app/security/policy.py''
        (''        allow_private_addresses=operator_allows_private_addresses(),'')
        (''        allow_private_addresses=bool(config.get('allow_private_addresses')),'')
        ''test_operator_policy_ignores_connector_supplied_private_flag'',
     mutation ''remove-response-size-clamp'' ''I1''
        ''services/connector-registry/app/security/policy.py''
        (''            requested_bytes if requested_bytes is not None else bytes_ceiling,'' @ NL
        @ ''            bytes_ceiling,'')
        (''            requested_bytes if requested_bytes is not None else bytes_ceiling,'' @ NL
        @ ''            requested_bytes or bytes_ceiling,'')
        ''test_numeric_bounds_are_clamped_to_the_operator_ceiling'',
     mutation ''remove-host-allowlist-intersection'' ''I1''
        ''services/connector-registry/app/security/policy.py''
        (''    else:'' @ NL @ ''        hosts = connector_hosts'')
        (''    else:'' @ NL @ ''        hosts = connector_hosts'' @ NL
        @ ''    hosts = connector_hosts'')
        ''test_operator_host_allowlist_is_an_upper_bound'']"

definition MUTATIONS_I2 :: "mutation list" where
  "MUTATIONS_I2 =
    [mutation ''remove-embedded-ipv4-normalisation'' ''I2''
        ''services/connector-registry/app/security/ssrf.py''
        (''    mapped = ip.ipv4_mapped'' @ NL @ ''    if mapped is not None:'' @ NL
        @ ''        return mapped'')
        (''    mapped = None'' @ NL @ ''    if mapped is not None:'' @ NL @ ''        return mapped'')
        ''test_embedded_ipv4_forms_are_unwrapped_before_classification'',
     mutation ''allow-loopback-when-private-permitted'' ''I2''
        ''services/connector-registry/app/security/ssrf.py''
        (''    (IPv4Network('' @ QUOTE @ ''127.0.0.0/8'' @ QUOTE @ ''), '' @ QUOTE
        @ ''loopback_address'' @ QUOTE @ ''),'')
        ([])
        ''test_dangerous_ranges_stay_blocked_when_private_is_allowed'',
     mutation ''accept-any-scheme'' ''I2''
        ''services/connector-registry/app/security/ssrf.py''
        (''    if scheme not in policy.allowed_schemes:'' @ NL @ ''        raise SSRFBlocked(''
        @ QUOTE @ ''scheme_not_allowed'' @ QUOTE @ '', scheme or '' @ QUOTE @ ''<none>'' @ QUOTE
        @ '')'')
        (''    pass'')
        ''test_non_http_schemes_are_rejected'']"

definition MUTATIONS_I3 :: "mutation list" where
  "MUTATIONS_I3 =
    [mutation ''remove-address-pinning'' ''I3''
        ''services/connector-registry/app/security/ssrf.py''
        (''    literal = f'' @ QUOTE @ ''[{address}]'' @ QUOTE @ '' if '' @ QUOTE @ '':'' @ QUOTE
        @ '' in address else address'' @ NL @ ''    pinned = parsed._replace(netloc=f'' @ QUOTE
        @ ''{literal}:{port}'' @ QUOTE @ '').geturl()'')
        (''    pinned = url'')
        ''test_connection_is_pinned_to_the_validated_address'',
     mutation ''accept-one-good-address-of-many'' ''I3''
        ''services/connector-registry/app/security/ssrf.py''
        (''        if forbidden:'' @ NL @ ''            raise SSRFBlocked(forbidden, f'' @ QUOTE
        @ ''{host} -> {raw}'' @ QUOTE @ '')'')
        (''        if forbidden:'' @ NL @ ''            continue'')
        ''test_mixed_resolution_is_rejected_entirely'']"

definition MUTATIONS_I6 :: "mutation list" where
  "MUTATIONS_I6 =
    [mutation ''allow-arbitrary-secret-storage'' ''I6''
        ''services/connector-registry/app/security/secrets.py''
        (''    if value.startswith(LEGACY_PREFIXES):'' @ NL @ ''        raise SecretNotPermitted(''
        @ NL @ ''            value,'' @ NL @ ''            '' @ QUOTE
        @ ''direct storage references are no longer accepted; use '' @ QUOTE @ NL @ ''            ''
        @ QUOTE @ ''secret://connector/<name>/<key>'' @ QUOTE @ '','' @ NL @ ''        )'')
        (''    pass'')
        ''test_legacy_env_references_are_refused_not_translated'',
     mutation ''ignore-secret-ownership'' ''I6''
        ''services/connector-registry/app/security/secrets.py''
        (''    if ref.scope == '' @ QUOTE @ ''connector'' @ QUOTE @ '' and ref.owner != owner:'')
        (''    if ref.scope == '' @ QUOTE @ ''connector'' @ QUOTE @ '' and False:'')
        ''test_a_connector_cannot_read_another_connectors_secret'']"

definition MUTATIONS_I7 :: "mutation list" where
  "MUTATIONS_I7 =
    [mutation ''publish-literal-header-values'' ''I7''
        ''services/connector-registry/app/security/redaction.py''
        (''        str(header): (value if _is_reference(value) else REDACTED)'')
        (''        str(header): value'')
        ''test_literal_header_values_are_never_published'',
     mutation ''stop-inheriting-sensitivity'' ''I7''
        ''services/connector-registry/app/security/redaction.py''
        (''    sensitive = parent_sensitive or bool(SENSITIVE_KEY.search(key))'')
        (''    sensitive = bool(SENSITIVE_KEY.search(key))'')
        ''test_sensitivity_is_inherited_by_nested_values'']"

definition MUTATIONS_I8 :: "mutation list" where
  "MUTATIONS_I8 =
    [mutation ''dead-letter-on-the-row-not-the-policy'' ''I8''
        ''packages/favl-outbox/favl_outbox/publisher.py''
        (''        limit = min(self.retry_policy.max_attempts, row.max_attempts)'')
        (''        limit = row.max_attempts'')
        ''test_dead_letter_limit_matches_the_gated_policy'',
     mutation ''skip-the-duplicate-window-gate'' ''I8''
        ''packages/favl-outbox/favl_outbox/timing.py''
        (''    if horizon > limit:'')
        (''    if False:'')
        ''test_invariant_rejects_a_horizon_that_exceeds_the_window'',
     mutation ''accept-any-aggregate-version'' ''I8''
        ''packages/favl-outbox/favl_outbox/consumer.py''
        (''    if incoming == last_applied + 1:'' @ NL @ ''        return APPLY'' @ NL
        @ ''    return QUARANTINE'')
        (''    return APPLY'')
        ''test_a_gap_is_quarantined_rather_than_accepted'',
     mutation ''stop-classifying-malformed-envelopes'' ''I8''
        ''packages/favl-outbox/favl_outbox/consumer.py''
        (''    for required in ('' @ QUOTE @ ''event_id'' @ QUOTE @ '', '' @ QUOTE @ ''event_type''
        @ QUOTE @ ''):'' @ NL @ ''        if not payload.get(required):'' @ NL
        @ ''            SCHEMA_REJECTED.labels('' @ QUOTE @ ''malformed_envelope'' @ QUOTE
        @ '').inc()'' @ NL @ ''            raise MalformedEnvelope(required)'')
        (''    pass'')
        ''test_malformed_v1_envelope_is_classified_not_crashed'',
     mutation ''treat-legacy-events-as-v1'' ''I8''
        ''packages/favl-outbox/favl_outbox/consumer.py''
        (''    if schema_version is None:'' @ NL
        @ ''        return parse_legacy_event(payload, subject)'')
        (''    if schema_version is None:'' @ NL
        @ ''        return parse_v1_event({**payload, 'event_id': 'x', 'event_type': subject or 'x'})'')
        ''test_legacy_event_is_identified_as_version_zero'']"

definition MUTATIONS_I12 :: "mutation list" where
  "MUTATIONS_I12 =
    [mutation ''make-revoked-executable'' ''I12''
        ''services/connector-registry/app/lifecycle.py''
        (''EXECUTABLE_STATES: frozenset[ConnectorState] = frozenset({ConnectorState.ENABLED})'')
        (''EXECUTABLE_STATES: frozenset[ConnectorState] = frozenset('' @ NL
        @ ''    {ConnectorState.ENABLED, ConnectorState.REVOKED}'' @ NL @ '')'')
        ''test_revoked_cannot_serve'',
     mutation ''admit-unknown-states'' ''I12''
        ''services/connector-registry/app/lifecycle.py''
        (''        # An unrecognised state is not executable. A schema migration that'' @ NL
        @ ''        # introduces one must not accidentally open the gate.'' @ NL
        @ ''        return False'')
        (''        return True'')
        ''test_an_unknown_state_is_not_executable'',
     mutation ''consult-refusal-map-before-the-guard'' ''I12''
        ''services/connector-registry/app/invocations.py''
        (''    if is_executable(status):'' @ NL @ ''        return'')
        (''    if status not in _REFUSAL:'' @ NL @ ''        return'')
        ''test_an_unmapped_state_is_refused_not_admitted'',
     mutation ''allow-enable-without-validation'' ''I12''
        ''services/connector-registry/app/lifecycle.py''
        (''    Transition(ConnectorState.VALIDATED, ConnectorState.ENABLED, '' @ QUOTE
        @ ''connector.enabled'' @ QUOTE @ ''),'')
        (''    Transition(ConnectorState.VALIDATED, ConnectorState.ENABLED, '' @ QUOTE
        @ ''connector.enabled'' @ QUOTE @ ''),'' @ NL
        @ ''    Transition(ConnectorState.CONFIGURED, ConnectorState.ENABLED, '' @ QUOTE
        @ ''connector.enabled'' @ QUOTE @ ''),'')
        ''test_a_connector_must_be_validated_before_it_can_be_enabled'',
     mutation ''allow-revoked-to-be-re-enabled'' ''I12''
        ''services/connector-registry/app/lifecycle.py''
        (''    Transition('' @ NL @ ''        ConnectorState.ARCHIVED,'' @ NL
        @ ''        ConnectorState.DELETED,'')
        (''    Transition('' @ NL @ ''        ConnectorState.REVOKED, ConnectorState.ENABLED, ''
        @ QUOTE @ ''connector.enabled'' @ QUOTE @ NL @ ''    ),'' @ NL @ ''    Transition('' @ NL
        @ ''        ConnectorState.ARCHIVED,'' @ NL @ ''        ConnectorState.DELETED,'')
        ''test_revocation_is_one_way'',
     mutation ''drop-the-reason-requirement-on-revocation'' ''I12''
        ''services/connector-registry/app/lifecycle.py''
        (''            idempotent=True,'' @ NL @ ''            requires_reason=True,'' @ NL
        @ ''        )'' @ NL @ ''        for source in ('')
        (''            idempotent=True,'' @ NL @ ''        )'' @ NL @ ''        for source in ('')
        ''test_every_revocation_and_suspension_demands_a_reason'',
     mutation ''let-creation-skip-the-machine'' ''I12''
        ''services/connector-registry/app/lifecycle.py''
        (''CREATABLE_STATES: frozenset[ConnectorState] = frozenset('' @ NL @ ''    {'' @ NL
        @ ''        ConnectorState.DRAFT,'')
        (''CREATABLE_STATES: frozenset[ConnectorState] = frozenset('' @ NL @ ''    {'' @ NL
        @ ''        ConnectorState.REVOKED,'' @ NL @ ''        ConnectorState.ARCHIVED,'' @ NL
        @ ''        ConnectorState.DRAFT,'')
        ''test_creation_cannot_enter_a_guarded_state'',
     mutation ''look-for-a-self-loop-instead-of-an-incoming-edge'' ''I12''
        ''services/connector-registry/app/lifecycle.py''
        (''        if transition.target.value == target and transition.idempotent:'')
        (''        if ('' @ NL @ ''            transition.source.value == target'' @ NL
        @ ''            and transition.target.value == target'' @ NL
        @ ''            and transition.idempotent'' @ NL @ ''        ):'')
        ''test_every_idempotent_target_resolves'']"

definition MUTATIONS :: "mutation list" where
  "MUTATIONS = MUTATIONS_I1 @ MUTATIONS_I2 @ MUTATIONS_I3 @ MUTATIONS_I6 @ MUTATIONS_I7 @ MUTATIONS_I8 @ MUTATIONS_I12"


section \<open>Applying one\<close>

type_synonym tree = "string \<Rightarrow> string option"

datatype run_failure = FileNotFound string | SuiteRaised string

fun replace_first :: "string \<Rightarrow> string \<Rightarrow> string \<Rightarrow> string" where
  "replace_first pattern replacement [] = (if pattern = [] then replacement else [])"
| "replace_first pattern replacement (c # s) =
     (if prefix pattern (c # s) then replacement @ drop (length pattern) (c # s)
      else c # replace_first pattern replacement s)"

definition apply_mutation :: "tree \<Rightarrow> mutation \<Rightarrow> run_failure + (tree \<times> bool)" where
  "apply_mutation tree m =
     (case tree (mut_file m) of
        None \<Rightarrow> Inl (FileNotFound (mut_file m))
      | Some bytes \<Rightarrow>
          let original = universal_newlines bytes
          in if \<not> contains original (mut_find m) then Inr (tree, False)
             else Inr (tree(mut_file m \<mapsto> replace_first (mut_find m) (mut_replace m) original), True))"

section \<open>The run\<close>

text \<open>\<open>pytest -k selector\<close>, run in the tree: what it leaves there, and its exit code or the exception of \<open>subprocess.run\<close>.\<close>

type_synonym suite = "tree \<Rightarrow> string \<Rightarrow> tree \<times> (string + int)"

definition run_suite :: "suite \<Rightarrow> tree \<Rightarrow> string \<Rightarrow> tree \<times> (run_failure + bool)" where
  "run_suite suite tree selector =
     (case suite tree selector of
        (tree', Inl e) \<Rightarrow> (tree', Inl (SuiteRaised e))
      | (tree', Inr returncode) \<Rightarrow> (tree', Inr (returncode = 0)))"

record tally =
  survived :: "mutation list"
  not_applied :: "mutation list"
  killed :: nat
  printed :: "string list"

definition ljust :: "nat \<Rightarrow> string \<Rightarrow> string" where
  "ljust n s = s @ replicate (n - length s) CHR '' ''"

definition bracketed :: "string \<Rightarrow> string" where
  "bracketed s = CHR 0x5B # s @ [CHR 0x5D]"

text \<open>The body of the \<open>try\<close>: the tree it leaves, and the tally or the exception.\<close>

definition try_mutation :: "suite \<Rightarrow> tree \<Rightarrow> tally \<Rightarrow> mutation \<Rightarrow> tree \<times> (run_failure + tally)" where
  "try_mutation suite tree t m =
     (case apply_mutation tree m of
        Inl e \<Rightarrow> (tree, Inl e)
      | Inr (tree', False) \<Rightarrow>
          (tree', Inr (t\<lparr>not_applied := not_applied t @ [m],
             printed := printed t @ [''  ?? '' @ ljust 44 (mut_name m) @ '' pattern no longer present'']\<rparr>))
      | Inr (tree', True) \<Rightarrow>
          (case run_suite suite tree' (mut_expect_failing m) of
             (tree'', Inl e) \<Rightarrow> (tree'', Inl e)
           | (tree'', Inr True) \<Rightarrow>
               (tree'', Inr (t\<lparr>survived := survived t @ [m],
                  printed := printed t @ [''  SURVIVED '' @ ljust 40 (mut_name m) @ '' '' @ bracketed (mut_invariant m)]\<rparr>))
           | (tree'', Inr False) \<Rightarrow>
               (tree'', Inr (t\<lparr>killed := killed t + 1,
                  printed := printed t @ [''  killed   '' @ ljust 40 (mut_name m) @ '' '' @ bracketed (mut_invariant m)]\<rparr>))))"

text \<open>The loop: back up, try, and copy the backup back whatever happened.\<close>

fun run_mutations :: "suite \<Rightarrow> tree \<Rightarrow> tally \<Rightarrow> mutation list \<Rightarrow> tree \<times> tally \<times> run_failure option" where
  "run_mutations suite tree t [] = (tree, t, None)"
| "run_mutations suite tree t (m # ms) =
     (case tree (mut_file m) of
        None \<Rightarrow> (tree, t, Some (FileNotFound (mut_file m)))
      | Some backup \<Rightarrow>
          (case try_mutation suite tree t m of
             (tree', Inl e) \<Rightarrow> (tree'(mut_file m \<mapsto> backup), t, Some e)
           | (tree', Inr t') \<Rightarrow> run_mutations suite (tree'(mut_file m \<mapsto> backup)) t' ms))"

section \<open>The command\<close>

definition selected :: "string \<Rightarrow> mutation list" where
  "selected substring =
     filter (\<lambda>m. substring = [] \<or> contains (mut_name m) substring \<or> contains (str_lower (mut_invariant m)) substring) MUTATIONS"

definition summary :: "nat \<Rightarrow> tally \<Rightarrow> string list" where
  "summary total_count t =
     [[], ''killed '' @ dec_str (int (killed t)) @ ''/'' @ dec_str (int (total_count - length (not_applied t)))]
     @ (if not_applied t = [] then []
        else [[], ''Mutations whose target code has moved '' @ [CHR 0xE2, CHR 0x80, CHR 0x94] @ '' the mutation, not the'',
              ''code, is out of date and must be re-pointed:'']
             @ map (\<lambda>m. ''  '' @ mut_name m @ '' ('' @ mut_file m @ '')'') (not_applied t))
     @ (if survived t = [] then []
        else [[], ''BLIND SPOTS '' @ [CHR 0xE2, CHR 0x80, CHR 0x94] @ '' the control was removed and the suite stayed green:'']
             @ concat (map (\<lambda>m. [''  '' @ mut_invariant m @ '' '' @ mut_name m,
                 ''    expected '' @ mut_expect_failing m @ '' to fail; it passed'']) (survived t)))"

definition start_tally :: "nat \<Rightarrow> tally" where
  "start_tally n =
     \<lparr>survived = [], not_applied = [], killed = 0, printed = [''running '' @ dec_str (int n) @ '' mutations'', []]\<rparr>"

definition mutate_main :: "suite \<Rightarrow> tree \<Rightarrow> bool \<Rightarrow> bool \<Rightarrow> string \<Rightarrow> tree \<times> string list \<times> (run_failure + int)" where
  "mutate_main suite tree venv list_arg substring =
     (let ms = selected substring
      in if list_arg
         then (tree, map (\<lambda>m. ''  '' @ ljust 4 (mut_invariant m) @ '' '' @ ljust 40 (mut_name m) @ '' -> '' @ mut_expect_failing m) ms,
               Inr 0)
         else if \<not> venv then (tree, [], Inr 1)
         else (case run_mutations suite tree (start_tally (length ms)) ms of
                 (tree', t, Some e) \<Rightarrow> (tree', printed t, Inl e)
               | (tree', t, None) \<Rightarrow>
                   (tree', printed t @ summary (length ms) t,
                    Inr (if survived t \<noteq> [] then 1 else if not_applied t \<noteq> [] then 1 else 0))))"

abbreviation tree_left :: "tree \<times> string list \<times> (run_failure + int) \<Rightarrow> tree" where "tree_left \<equiv> fst"

abbreviation exit_of :: "tree \<times> string list \<times> (run_failure + int) \<Rightarrow> run_failure + int" where "exit_of r \<equiv> snd (snd r)"

section \<open>The tree is restored\<close>

lemma run_suite_tree: "fst (run_suite suite tree s) = fst (suite tree s)"
  by (auto simp: run_suite_def split: prod.splits sum.splits)

text \<open>A path outside \<open>W\<close> is one no test run writes.\<close>

lemma try_mutation_elsewhere:
  assumes "\<And>tree s p. p \<notin> W \<Longrightarrow> fst (suite tree s) p = tree p" and "p \<notin> W" and "p \<noteq> mut_file m"
  shows "fst (try_mutation suite tree t m) p = tree p"
proof (cases "apply_mutation tree m")
  case (Inr r)
  obtain tree' applied where r: "r = (tree', applied)"
    by (cases r)
  have unapplied: "tree' p = tree p"
    using Inr r assms(3) by (auto simp: apply_mutation_def Let_def split: option.splits if_splits)
  then have "fst (run_suite suite tree' (mut_expect_failing m)) p = tree p"
    by (simp add: run_suite_tree assms(1,2))
  then show ?thesis
    using Inr r unapplied by (cases "run_suite suite tree' (mut_expect_failing m)")
      (auto simp: try_mutation_def split: bool.splits sum.splits)
qed (simp add: try_mutation_def)

lemma run_mutations_restores:
  assumes "\<And>tree s p. p \<notin> W \<Longrightarrow> fst (suite tree s) p = tree p" and "p \<notin> W"
  shows "fst (run_mutations suite tree t ms) p = tree p"
proof (induction ms arbitrary: tree t)
  case (Cons m ms)
  show ?case
  proof (cases "tree (mut_file m)")
    case (Some backup)
    obtain tree' r where tried: "try_mutation suite tree t m = (tree', r)"
      by (cases "try_mutation suite tree t m")
    have "(tree'(mut_file m \<mapsto> backup)) p = tree p"
      using try_mutation_elsewhere [where suite = suite and m = m and tree = tree and t = t, OF assms] tried Some by (cases "p = mut_file m") auto
    then show ?thesis
      using Some tried Cons.IH by (cases r) auto
  qed simp
qed simp

text \<open>
  The mutated sources are restored.  Whatever the test runs return, also when one raises in the middle, a run
  of the command leaves every file that no test run writes as it found it.
\<close>

theorem sources_are_restored:
  assumes "\<And>tree s p. p \<notin> W \<Longrightarrow> fst (suite tree s) p = tree p" and "p \<notin> W"
  shows "tree_left (mutate_main suite tree venv list_arg substring) p = tree p"
proof -
  have "fst (run_mutations suite tree t ms) p = tree p" for t ms
    by (rule run_mutations_restores [OF assms])
  then have "tree' p = tree p" if "run_mutations suite tree t ms = (tree', t', e)" for tree' t' e t ms
    using that by (metis fst_conv)
  then show ?thesis
    by (auto simp: mutate_main_def Let_def split: prod.splits option.splits)
qed

definition caching_suite :: suite where
  "caching_suite tree s = (tree(''.pytest_cache'' \<mapsto> s), Inl ''KeyboardInterrupt'')"

theorem sources_are_restored_witness:
  "tree_left (mutate_main caching_suite [''app.py'' \<mapsto> ''x''] True False ''i7'') ''app.py'' = Some ''x''"
  using sources_are_restored [of "{''.pytest_cache''}" caching_suite "''app.py''" "[''app.py'' \<mapsto> ''x'']" True False "''i7''"]
  by (simp add: caching_suite_def)

section \<open>What exit code 0 says\<close>

definition is_killed :: "(tree \<Rightarrow> string \<Rightarrow> string + int) \<Rightarrow> tree \<Rightarrow> mutation \<Rightarrow> bool" where
  "is_killed answer tree m =
     (case apply_mutation tree m of
        Inl _ \<Rightarrow> False
      | Inr (mutated, applied) \<Rightarrow>
          applied \<and> (case answer mutated (mut_expect_failing m) of Inl _ \<Rightarrow> False | Inr returncode \<Rightarrow> returncode \<noteq> 0))"

lemma try_mutation_pure:
  assumes "tree (mut_file m) = Some backup"
  shows "(fst (try_mutation (\<lambda>tree s. (tree, answer tree s)) tree t m))(mut_file m \<mapsto> backup) = tree"
proof
  fix p
  show "((fst (try_mutation (\<lambda>tree s. (tree, answer tree s)) tree t m))(mut_file m \<mapsto> backup)) p = tree p"
    using try_mutation_elsewhere [where W = "{}" and suite = "\<lambda>tree s. (tree, answer tree s)" and p = p and m = m and
        tree = tree and t = t] assms by auto
qed

lemma try_mutation_clean:
  "(case snd (try_mutation (\<lambda>tree s. (tree, answer tree s)) tree t m) of
      Inl e \<Rightarrow> False | Inr t' \<Rightarrow> survived t' = [] \<and> not_applied t' = []) \<longleftrightarrow>
   is_killed answer tree m \<and> survived t = [] \<and> not_applied t = []"
  by (auto simp: try_mutation_def is_killed_def run_suite_def split: sum.splits prod.splits bool.splits)

lemma run_mutations_mono:
  "run_mutations suite tree t ms = (tree', t', e) \<Longrightarrow> survived t' = [] \<and> not_applied t' = [] \<Longrightarrow>
     survived t = [] \<and> not_applied t = []"
proof (induction ms arbitrary: tree t)
  case (Cons m ms)
  have "survived t = [] \<and> not_applied t = []"
    if "try_mutation suite tree t m = (tree1, Inr t1)" "survived t1 = [] \<and> not_applied t1 = []" for tree1 t1
    using that by (auto simp: try_mutation_def split: sum.splits prod.splits bool.splits)
  then show ?case
    using Cons by (auto split: option.splits prod.splits sum.splits)
qed simp

lemma run_mutations_clean:
  "(case run_mutations (\<lambda>tree s. (tree, answer tree s)) tree t ms of
      (_, t', e) \<Rightarrow> e = None \<and> survived t' = [] \<and> not_applied t' = []) \<longleftrightarrow>
   list_all (is_killed answer tree) ms \<and> survived t = [] \<and> not_applied t = []"
proof (induction ms arbitrary: t)
  case (Cons m ms)
  show ?case
  proof (cases "tree (mut_file m)")
    case None
    then show ?thesis by (simp add: is_killed_def apply_mutation_def)
  next
    case (Some backup)
    obtain tree' r where tried: "try_mutation (\<lambda>tree s. (tree, answer tree s)) tree t m = (tree', r)"
      by (cases "try_mutation (\<lambda>tree s. (tree, answer tree s)) tree t m")
    have restored: "(fst (try_mutation (\<lambda>tree s. (tree, answer tree s)) tree t m))(mut_file m \<mapsto> backup) = tree"
      using Some by (rule try_mutation_pure)
    show ?thesis
      using Cons.IH try_mutation_clean [of answer tree t m] restored Some tried by (cases r) auto
  qed
qed simp

lemma exit_zero:
  "exit_of (mutate_main (\<lambda>tree s. (tree, answer tree s)) tree True False substring) = Inr 0 \<longleftrightarrow>
     list_all (is_killed answer tree) (selected substring)"
  using run_mutations_clean [of answer tree "start_tally (length (selected substring))" "selected substring"]
  by (auto simp: mutate_main_def Let_def start_tally_def split: prod.splits option.splits)

text \<open>
  Exit code 0 says that every selected mutation was killed: each pattern is still in its file, and pytest, run on the
  tree with that one pattern replaced and everything else as it was, ended with a non-zero code.  (A test run is taken to
  leave the tree alone.)
\<close>

theorem exit_zero_iff_all_killed:
  "exit_of (mutate_main (\<lambda>tree s. (tree, answer tree s)) tree True False substring) = Inr 0 \<longleftrightarrow>
     list_all (\<lambda>m. case tree (mut_file m) of
         None \<Rightarrow> False
       | Some bytes \<Rightarrow>
           contains (universal_newlines bytes) (mut_find m) \<and>
           (case answer (tree(mut_file m \<mapsto> replace_first (mut_find m) (mut_replace m) (universal_newlines bytes)))
               (mut_expect_failing m) of
              Inl _ \<Rightarrow> False
            | Inr returncode \<Rightarrow> returncode \<noteq> 0)) (selected substring)"
proof -
  have "is_killed answer tree m = (case tree (mut_file m) of
         None \<Rightarrow> False
       | Some bytes \<Rightarrow>
           contains (universal_newlines bytes) (mut_find m) \<and>
           (case answer (tree(mut_file m \<mapsto> replace_first (mut_find m) (mut_replace m) (universal_newlines bytes)))
               (mut_expect_failing m) of
              Inl _ \<Rightarrow> False
            | Inr returncode \<Rightarrow> returncode \<noteq> 0))" for m
    by (simp add: is_killed_def apply_mutation_def Let_def split: option.splits)
  then show ?thesis
    unfolding exit_zero by presburger
qed

text \<open>
  A test that does not exist kills its mutation.  pytest answers a \<open>-k\<close> that selects nothing with exit code 5; if it
  does so for every test named here, the command reports every mutation it can apply as killed and exits with 0.
\<close>

theorem missing_tests_pass:
  assumes "\<And>tree s. answer tree s = Inr 5"
    and "list_all (\<lambda>m. case apply_mutation tree m of Inl _ \<Rightarrow> False | Inr (_, applied) \<Rightarrow> applied) (selected substring)"
  shows "exit_of (mutate_main (\<lambda>tree s. (tree, answer tree s)) tree True False substring) = Inr 0"
proof -
  have "is_killed answer tree = (\<lambda>m. case apply_mutation tree m of Inl _ \<Rightarrow> False | Inr (_, applied) \<Rightarrow> applied)"
    by (auto simp: is_killed_def assms(1) fun_eq_iff split: sum.splits)
  then show ?thesis
    using assms(2) by (simp add: exit_zero)
qed

theorem missing_tests_pass_witness:
  "exit_of (mutate_main (\<lambda>tree s. (tree, Inr 5))
      [''services/connector-registry/app/security/redaction.py'' \<mapsto> concat (map mut_find MUTATIONS_I7)] True False ''i7'') = Inr 0"
proof (rule missing_tests_pass)
  show "list_all (\<lambda>m. case apply_mutation
      [''services/connector-registry/app/security/redaction.py'' \<mapsto> concat (map mut_find MUTATIONS_I7)] m of
      Inl _ \<Rightarrow> False | Inr (_, applied) \<Rightarrow> applied) (selected ''i7'')"
    by code_simp
qed simp

text \<open>
  A selection that matches nothing succeeds.  The filter is compared with the lower-case invariant, so \<open>-k I12\<close> selects
  no mutation, and neither does \<open>-k tenant\<close>, the example of the script's own documentation: no test is run, and the command exits
  with 0.
\<close>

theorem documented_subset_runs_nothing:
  "mutate_main suite tree True False ''tenant'' = (tree, [''running 0 mutations'', [], [], ''killed 0/0''], Inr 0) \<and>
   mutate_main suite tree True False ''I12'' = (tree, [''running 0 mutations'', [], [], ''killed 0/0''], Inr 0)"
proof -
  have "selected ''tenant'' = []" and "selected ''I12'' = []"
    by code_simp+
  moreover have "dec_str 0 = ''0''"
    by code_simp
  ultimately show ?thesis
    by (simp add: mutate_main_def start_tally_def summary_def)
qed

section \<open>No mutation is a no-op\<close>

lemma replace_first_changes:
  "contains s pattern \<Longrightarrow> pattern \<noteq> replacement \<Longrightarrow> replace_first pattern replacement s \<noteq> s"
  by (induction s) (auto simp: prefix_def)

lemma replace_first_set: "set (replace_first pattern replacement s) \<subseteq> set replacement \<union> set s"
  by (induction s) (auto dest: in_set_dropD)

definition changes_text :: "mutation \<Rightarrow> bool" where
  "changes_text m \<longleftrightarrow> mut_find m \<noteq> mut_replace m \<and> CHR 0x0D \<notin> set (mut_replace m)"

lemma mutations_change_text: "list_all changes_text MUTATIONS"
  by code_simp

text \<open>
  No mutation is a no-op.  Each of the 25 mutations, whenever it reports that it was applied, has changed the file it
  names and no other.
\<close>

theorem applied_mutation_changes_the_source:
  assumes "m \<in> set MUTATIONS" and "apply_mutation tree m = Inr (mutated, True)"
  shows "mutated (mut_file m) \<noteq> tree (mut_file m) \<and> mutated(mut_file m := tree (mut_file m)) = tree"
proof -
  have m: "mut_find m \<noteq> mut_replace m" "CHR 0x0D \<notin> set (mut_replace m)"
    using mutations_change_text assms(1) by (auto simp: list_all_iff changes_text_def)
  obtain bytes where bytes: "tree (mut_file m) = Some bytes" "contains (universal_newlines bytes) (mut_find m)"
      "mutated = tree(mut_file m \<mapsto> replace_first (mut_find m) (mut_replace m) (universal_newlines bytes))"
    using assms(2) by (auto simp: apply_mutation_def Let_def split: option.splits if_splits)
  have "replace_first (mut_find m) (mut_replace m) (universal_newlines bytes) \<noteq> bytes"
  proof (cases "CHR 0x0D \<in> set bytes")
    case True
    then show ?thesis
      using replace_first_set [of "mut_find m" "mut_replace m" "universal_newlines bytes"] m(2)
        universal_newlines_no_CR [of bytes] by auto
  next
    case False
    then show ?thesis
      using replace_first_changes [OF bytes(2) m(1)] by (simp add: universal_newlines_id)
  qed
  then show ?thesis
    using bytes by auto
qed

theorem applied_mutation_changes_the_source_witness:
  "(\<lambda>tree. case apply_mutation tree (hd MUTATIONS_I7) of Inl _ \<Rightarrow> False
      | Inr (mutated, _) \<Rightarrow> mutated (mut_file (hd MUTATIONS_I7)) \<noteq> tree (mut_file (hd MUTATIONS_I7)))
    [mut_file (hd MUTATIONS_I7) \<mapsto> mut_find (hd MUTATIONS_I7)]"
proof -
  let ?m = "hd MUTATIONS_I7" and ?tree = "[mut_file (hd MUTATIONS_I7) \<mapsto> mut_find (hd MUTATIONS_I7)]"
  have "?m \<in> set MUTATIONS"
    by (simp add: MUTATIONS_def MUTATIONS_I7_def)
  moreover have "case apply_mutation ?tree ?m of Inl _ \<Rightarrow> False | Inr (_, applied) \<Rightarrow> applied"
    by code_simp
  ultimately show ?thesis
    using applied_mutation_changes_the_source [of ?m ?tree] by (auto split: sum.splits prod.splits)
qed

end
