(* ===== verification/AlertMetrics.thy ===== *)
theory AlertMetrics
  imports Regex NetText
begin

text \<open>
  \<open>scripts/check_alert_metrics.py\<close>: no alert rule may name a metric that no code emits.  The patterns of the script leave no
  choice to a backtracking engine, so each is the function that matches it at a position; \<open>finditer\<close> and \<open>sub_all\<close> take them
  along the text.  Text is code points below 256.  \<open>alert_main\<close> returns the exit code and the lines of standard output.
\<close>

section \<open>The tables\<close>

definition BUILTIN :: "string list" where
  "BUILTIN = [''up'', ''vector'', ''time'', ''scrape_duration_seconds'']"

definition DERIVED_SUFFIXES :: "string list" where
  "DERIVED_SUFFIXES = [''_total'', ''_bucket'', ''_sum'', ''_count'', ''_created'', ''_info'']"

definition PROMQL_FUNCTIONS :: "string list" where
  "PROMQL_FUNCTIONS = [''abs'', ''absent'', ''absent_over_time'', ''avg'', ''avg_over_time'', ''bottomk'', ''ceil'',
     ''changes'', ''clamp'', ''clamp_max'', ''clamp_min'', ''count'', ''count_over_time'',
     ''count_values'', ''day_of_month'', ''day_of_week'', ''days_in_month'', ''delta'', ''deriv'',
     ''exp'', ''floor'', ''group'', ''histogram_quantile'', ''hour'', ''idelta'', ''increase'', ''irate'',
     ''label_join'', ''label_replace'', ''last_over_time'', ''ln'', ''log2'', ''log10'', ''max'',
     ''max_over_time'', ''min'', ''min_over_time'', ''minute'', ''month'', ''predict_linear'',
     ''present_over_time'', ''quantile'', ''quantile_over_time'', ''rate'', ''resets'', ''round'',
     ''scalar'', ''sgn'', ''sort'', ''sort_desc'', ''sqrt'', ''stddev'', ''stddev_over_time'', ''stdvar'',
     ''sum'', ''sum_over_time'', ''time'', ''timestamp'', ''topk'', ''vector'', ''year'']"

definition PROMQL_KEYWORDS :: "string list" where
  "PROMQL_KEYWORDS = [''and'', ''or'', ''unless'', ''by'', ''without'', ''on'', ''ignoring'', ''group_left'',
     ''group_right'', ''offset'', ''bool'', ''start'', ''end'', ''inf'', ''nan''] @ PROMQL_FUNCTIONS"

section \<open>Patterns\<close>

definition ident_start :: "char \<Rightarrow> bool" where
  "ident_start c \<longleftrightarrow> 65 \<le> code c \<and> code c \<le> 90 \<or> 97 \<le> code c \<and> code c \<le> 122 \<or> code c = 95"

definition ident_char :: "char \<Rightarrow> bool" where
  "ident_char c \<longleftrightarrow> ident_start c \<or> 48 \<le> code c \<and> code c \<le> 57"

definition is_quote :: "char \<Rightarrow> bool" where
  "is_quote c \<longleftrightarrow> c = CHR 0x22 \<or> c = CHR 0x27"

text \<open>A pattern is given whether the character before the position is a word character, and the text from there; it returns
  what it captures with the length of the match.\<close>

fun finditer :: "(bool \<Rightarrow> string \<Rightarrow> (string \<times> nat) option) \<Rightarrow> bool \<Rightarrow> string \<Rightarrow> string list" where
  "finditer m prev [] = []"
| "finditer m prev (c # s) =
     (case m prev (c # s) of
        None \<Rightarrow> finditer m (re_word c) s
      | Some (captured, n) \<Rightarrow> captured # finditer m (re_word (last (take n (c # s)))) (drop (n - 1) s))"

fun sub_all :: "(bool \<Rightarrow> string \<Rightarrow> nat option) \<Rightarrow> bool \<Rightarrow> string \<Rightarrow> string" where
  "sub_all m prev [] = []"
| "sub_all m prev (c # s) =
     (case m prev (c # s) of
        None \<Rightarrow> c # sub_all m (re_word c) s
      | Some n \<Rightarrow> CHR '' '' # sub_all m (re_word (last (take n (c # s)))) (drop (n - 1) s))"

text \<open>\<open>(?:Counter|Gauge|Histogram|Summary)\(\s*["']([a-zA-Z_:][a-zA-Z0-9_:]*)["']\<close>\<close>

definition match_declaration :: "bool \<Rightarrow> string \<Rightarrow> (string \<times> nat) option" where
  "match_declaration prev s =
     (case find (\<lambda>kw. prefix kw s) [''Counter('', ''Gauge('', ''Histogram('', ''Summary(''] of
        None \<Rightarrow> None
      | Some kw \<Rightarrow>
          (case dropWhile re_space (drop (length kw) s) of
             [] \<Rightarrow> None
           | q # r \<Rightarrow>
               let base = takeWhile (\<lambda>c. ident_char c \<or> c = CHR '':'') r
               in if is_quote q \<and> base \<noteq> [] \<and> (ident_start (hd base) \<or> hd base = CHR '':'')
                  then (case drop (length base) r of
                          [] \<Rightarrow> None
                        | q' # r' \<Rightarrow> if is_quote q' then Some (base, length s - length r') else None)
                  else None))"

definition boundary :: "string \<Rightarrow> bool" where
  "boundary s = (case s of [] \<Rightarrow> True | c # _ \<Rightarrow> \<not> re_word c)"

text \<open>\<open>\b([A-Za-z_][A-Za-z0-9_]*(?::[A-Za-z0-9_]+)*)\b\<close>\<close>

function ident_tail :: "string \<Rightarrow> string" where
  "ident_tail s =
     (if s \<noteq> [] \<and> hd s = CHR '':'' \<and> takeWhile ident_char (tl s) \<noteq> [] \<and> boundary (dropWhile ident_char (tl s))
      then CHR '':'' # takeWhile ident_char (tl s) @ ident_tail (dropWhile ident_char (tl s))
      else [])"
  by auto
termination
proof (relation "measure length", simp)
  fix s :: string
  assume "s \<noteq> [] \<and> hd s = CHR '':'' \<and> takeWhile ident_char (tl s) \<noteq> [] \<and> boundary (dropWhile ident_char (tl s))"
  then show "(dropWhile ident_char (tl s), s) \<in> measure length"
    using length_dropWhile_le [of ident_char "tl s"] by (cases s) auto
qed

definition match_identifier :: "bool \<Rightarrow> string \<Rightarrow> (string \<times> nat) option" where
  "match_identifier prev s =
     (let first = takeWhile ident_char s; rest = dropWhile ident_char s
      in if \<not> prev \<and> s \<noteq> [] \<and> ident_start (hd s) \<and> boundary rest
         then Some (first @ ident_tail rest, length (first @ ident_tail rest)) else None)"

text \<open>\<open>\{[^}]*\}\<close>, \<open>(["']).*?\1\<close> and the grouping clauses.\<close>

definition up_to :: "char \<Rightarrow> string \<Rightarrow> string \<Rightarrow> nat option" where
  "up_to close s r =
     (case dropWhile (\<lambda>c. c \<noteq> close) r of [] \<Rightarrow> None | _ # after \<Rightarrow> Some (length s - length after))"

definition match_label :: "bool \<Rightarrow> string \<Rightarrow> nat option" where
  "match_label prev s =
     (case s of [] \<Rightarrow> None | c # r \<Rightarrow> if c = CHR 0x7B then up_to (CHR 0x7D) s r else None)"

definition match_quoted :: "bool \<Rightarrow> string \<Rightarrow> nat option" where
  "match_quoted prev s = (case s of [] \<Rightarrow> None | c # r \<Rightarrow> if is_quote c then up_to c s r else None)"

definition GROUPING_WORDS :: "string list" where
  "GROUPING_WORDS = [''by'', ''without'', ''on'', ''ignoring'', ''group_left'', ''group_right'']"

definition match_grouping :: "bool \<Rightarrow> string \<Rightarrow> nat option" where
  "match_grouping prev s =
     (if prev then None
      else case find (\<lambda>kw. prefix kw s) GROUPING_WORDS of
             None \<Rightarrow> None
           | Some kw \<Rightarrow>
               (case dropWhile re_space (drop (length kw) s) of
                  [] \<Rightarrow> None
                | c # r \<Rightarrow> if c = CHR ''('' then up_to (CHR '')'') s r else None))"

section \<open>Declared metrics\<close>

definition removesuffix :: "string \<Rightarrow> string \<Rightarrow> string" where
  "removesuffix s p = (if endswith s p then take (length s - length p) s else s)"

definition names_of :: "string \<Rightarrow> string list" where
  "names_of base =
     base # map (\<lambda>suffix. base @ suffix) DERIVED_SUFFIXES
     @ (if endswith base ''_total'' then [removesuffix base ''_total''] else [])"

text \<open>A source that is missing is reported on standard error and skipped.\<close>

definition declared_metrics :: "string option list \<Rightarrow> string list" where
  "declared_metrics sources =
     remdups (concat (map (\<lambda>source. case source of
         None \<Rightarrow> []
       | Some text \<Rightarrow> concat (map names_of (finditer match_declaration False (universal_newlines text)))) sources))"

section \<open>Referenced metrics\<close>

definition strip_non_metric_syntax :: "string \<Rightarrow> string" where
  "strip_non_metric_syntax expression =
     sub_all match_grouping False (sub_all match_quoted False (sub_all match_label False expression))"

definition strip_ws :: "string \<Rightarrow> string" where
  "strip_ws s = rev (dropWhile re_space (rev (dropWhile re_space s)))"

definition line_break :: "char \<Rightarrow> bool" where
  "line_break c \<longleftrightarrow> code c \<in> {10, 11, 12, 28, 29, 30, 133}"

function splitlines :: "string \<Rightarrow> string list" where
  "splitlines s =
     (if s = [] then []
      else takeWhile (\<lambda>c. \<not> line_break c) s # splitlines (tl (dropWhile (\<lambda>c. \<not> line_break c) s)))"
  by auto
termination
proof (relation "measure length", simp)
  fix s :: string
  assume "s \<noteq> []"
  then show "(tl (dropWhile (\<lambda>c. \<not> line_break c) s), s) \<in> measure length"
    using length_dropWhile_le [of "\<lambda>c. \<not> line_break c" s] length_greater_0_conv [of s]
    unfolding in_measure length_tl by arith
qed

declare ident_tail.simps [simp del] splitlines.simps [simp del]

record scan =
  in_expr :: bool
  expr_indent :: nat
  found :: "(string \<times> nat) list"

definition expr_body :: "string \<Rightarrow> string" where
  "expr_body stripped =
     (let body = strip_ws (dropWhile (\<lambda>c. c \<in> set ''|>-'') (drop (length ''expr:'') stripped))
      in if 2 \<le> length body \<and> hd body = last body \<and> is_quote (hd body) then butlast (tl body) else body)"

definition tokens :: "string \<Rightarrow> string list" where
  "tokens body =
     filter (\<lambda>token. token \<notin> set PROMQL_KEYWORDS \<and> token \<notin> set BUILTIN)
       (finditer match_identifier False (strip_non_metric_syntax body))"

definition setdefault :: "nat \<Rightarrow> string \<Rightarrow> (string \<times> nat) list \<Rightarrow> (string \<times> nat) list" where
  "setdefault number token d = (if token \<in> set (map fst d) then d else d @ [(token, number)])"

definition scan_line :: "nat \<times> string \<Rightarrow> scan \<Rightarrow> scan" where
  "scan_line numbered st =
     (case numbered of (number, raw) \<Rightarrow>
        let stripped = strip_ws raw;
            indent = length raw - length (dropWhile re_space raw);
            collect = \<lambda>body st. st\<lparr>found := fold (setdefault number) (tokens body) (found st)\<rparr>
        in if startswith stripped ''expr:''
           then collect (expr_body stripped) (st\<lparr>in_expr := True, expr_indent := indent\<rparr>)
           else if in_expr st \<and> stripped \<noteq> [] \<and> indent \<le> expr_indent st then st\<lparr>in_expr := False\<rparr>
           else if in_expr st then collect stripped st
           else st)"

definition referenced_metrics :: "string \<Rightarrow> (string \<times> nat) list" where
  "referenced_metrics rules =
     found (fold scan_line (enumerate 1 (splitlines (universal_newlines rules)))
              \<lparr>in_expr = False, expr_indent = 0, found = []\<rparr>)"

section \<open>The command\<close>

definition unknown_metrics :: "string option list \<Rightarrow> string \<Rightarrow> (string \<times> nat) list" where
  "unknown_metrics sources rules =
     filter (\<lambda>(token, _). token \<notin> set (declared_metrics sources) \<and> token \<notin> set BUILTIN) (referenced_metrics rules)"

definition alert_main :: "string option list \<Rightarrow> string option \<Rightarrow> int \<times> string list" where
  "alert_main sources rules_file =
     (case rules_file of
        None \<Rightarrow> (1, [])
      | Some rules \<Rightarrow>
          let head = [''declared metric names: '' @ dec_str (int (length (declared_metrics sources))),
                      ''metrics referenced by alert rules: '' @ dec_str (int (length (referenced_metrics rules)))];
              unknown = unknown_metrics sources rules
          in if unknown \<noteq> []
             then (1, head @ [[], ''Alert rules reference metrics that no code path emits:'', []]
                    @ map (\<lambda>(token, number). ''  prometheus-alerts.yml:'' @ dec_str (int number) @ '': '' @ token)
                        (sort_key snd unknown)
                    @ [[], ''An alert on a metric that is never emitted cannot fire. Either ''
                       @ ''correct the name or add the instrumentation.''])
             else (0, head @ [[], ''Every alert rule references a metric the code emits.'']))"

section \<open>What the check accepts\<close>

lemma tokens_not_builtin: "token \<in> set (tokens body) \<Longrightarrow> token \<notin> set BUILTIN"
  by (simp add: tokens_def)

lemma found_setdefault: "set (map fst (fold (setdefault number) ts d)) = set (map fst d) \<union> set ts"
  by (induction ts arbitrary: d) (auto simp: setdefault_def)

lemma found_scan_line:
  "token \<in> set (map fst (found (scan_line l st))) \<Longrightarrow> token \<in> set (map fst (found st)) \<or> token \<notin> set BUILTIN"
  using tokens_not_builtin by (cases l) (auto simp: scan_line_def Let_def found_setdefault simp del: set_map split: if_splits)

lemma found_not_builtin:
  "token \<in> set (map fst (found (fold scan_line ls \<lparr>in_expr = False, expr_indent = 0, found = []\<rparr>))) \<Longrightarrow>
     token \<notin> set BUILTIN"
proof -
  have "token \<in> set (map fst (found (fold scan_line ls st))) \<Longrightarrow> token \<in> set (map fst (found st)) \<or> token \<notin> set BUILTIN" for st
  proof (induction ls arbitrary: st)
    case (Cons l ls)
    then show ?case
      using Cons.IH [of "scan_line l st"] found_scan_line [of token l st] by auto
  qed simp
  then show "token \<in> set (map fst (found (fold scan_line ls \<lparr>in_expr = False, expr_indent = 0, found = []\<rparr>))) \<Longrightarrow>
     token \<notin> set BUILTIN"
    by fastforce
qed

lemma exit_zero_iff: "fst (alert_main sources (Some rules)) = 0 \<longleftrightarrow> unknown_metrics sources rules = []"
  by (simp add: alert_main_def Let_def)

lemma exit_is_0_or_1: "fst (alert_main sources (Some rules)) = 0 \<or> fst (alert_main sources (Some rules)) = 1"
  by (simp add: alert_main_def Let_def)

lemma names_of_iff:
  "token \<in> set (names_of base) \<longleftrightarrow>
     token = base \<or> (\<exists>suffix \<in> set DERIVED_SUFFIXES. token = base @ suffix) \<or> base = token @ ''_total''"
  by (auto simp: names_of_def removesuffix_def endswith_append)

lemma declared_iff:
  "token \<in> set (declared_metrics sources) \<longleftrightarrow>
     (\<exists>text base. Some text \<in> set sources \<and> base \<in> set (finditer match_declaration False (universal_newlines text)) \<and>
        token \<in> set (names_of base))"
  by (force simp: declared_metrics_def split: option.splits)

text \<open>
  What exit code 0 says: every name the rules are read to reference is declared, is a declared name with one of the
  derived suffixes, or is a declared name without its \<open>_total\<close>.
\<close>

theorem passes_iff_all_declared:
  "fst (alert_main sources (Some rules)) = 0 \<longleftrightarrow>
     list_all (\<lambda>(token, _). \<exists>text base. Some text \<in> set sources \<and>
         base \<in> set (finditer match_declaration False (universal_newlines text)) \<and>
         (token = base \<or> (\<exists>suffix \<in> set DERIVED_SUFFIXES. token = base @ suffix) \<or> base = token @ ''_total''))
       (referenced_metrics rules)"
proof -
  have "\<forall>(token, _) \<in> set (referenced_metrics rules). token \<notin> set BUILTIN"
    using found_not_builtin unfolding referenced_metrics_def by fastforce
  then have all: "unknown_metrics sources rules = [] \<longleftrightarrow>
      list_all (\<lambda>(token, _). token \<in> set (declared_metrics sources)) (referenced_metrics rules)"
    by (fastforce simp: unknown_metrics_def filter_empty_conv list_all_iff)
  show ?thesis
    unfolding exit_zero_iff all declared_iff names_of_iff ..
qed

lemma no_expr_finds_nothing:
  assumes "list_all (\<lambda>(_, raw). \<not> startswith (strip_ws raw) ''expr:'') ls" and "\<not> in_expr st"
  shows "fold scan_line ls st = st"
  using assms
proof (induction ls arbitrary: st)
  case (Cons l ls)
  have "scan_line l st = st"
    using Cons.prems by (cases l) (simp add: scan_line_def Let_def)
  then show ?case
    using Cons by simp
qed simp

text \<open>
  A rule that is not read passes.  The scanner starts on a line whose text begins with \<open>expr:\<close>; a rules file without such
  a line, as one that writes each rule with \<open>expr\<close> as the first key of its list item, is accepted whatever it references.
\<close>

theorem unread_rules_pass:
  assumes "list_all (\<lambda>raw. \<not> startswith (strip_ws raw) ''expr:'') (splitlines (universal_newlines rules))"
  shows "fst (alert_main sources (Some rules)) = 0"
proof -
  let ?ls = "splitlines (universal_newlines rules)"
  have "list_all (\<lambda>(_, raw). \<not> startswith (strip_ws raw) ''expr:'') (enumerate 1 ?ls)"
    using assms by (auto simp: list_all_iff in_set_enumerate_eq)
  then have "referenced_metrics rules = []"
    by (simp add: referenced_metrics_def no_expr_finds_nothing)
  then show ?thesis
    by (simp add: exit_zero_iff unknown_metrics_def)
qed

theorem unread_rules_pass_witness:
  "fst (alert_main [] (Some (''rules:'' @ CHR 0x0A # ''  - expr: no_such_metric > 0''))) = 0"
  by (rule unread_rules_pass) code_simp

text \<open>The same rule is refused as soon as another key comes first in its item.\<close>

theorem reordered_rule_is_refused:
  "fst (alert_main [] (Some (''rules:'' @ CHR 0x0A # ''  - alert: Pending'' @ CHR 0x0A # ''    expr: no_such_metric > 0''))) = 1"
  by code_simp

text \<open>Every derived suffix is accepted for every kind of metric, so a rule over a series no client library emits passes.\<close>

theorem gauge_total_passes:
  "fst (alert_main [Some (''PENDING = Gauge('' @ CHR 0x22 # ''favl_outbox_pending'' @ CHR 0x22 # '')'')]
      (Some ''expr: favl_outbox_pending_total > 100'')) = 0"
  by code_simp

section \<open>What the check refuses\<close>

definition plain_name :: "string \<Rightarrow> bool" where
  "plain_name token \<longleftrightarrow> token \<noteq> [] \<and> ident_start (hd token) \<and> list_all ident_char token"

definition ends_name :: "string \<Rightarrow> bool" where
  "ends_name rest \<longleftrightarrow> (case rest of [] \<Rightarrow> True | c # _ \<Rightarrow> \<not> re_word c \<and> c \<noteq> CHR '':'')"

lemma ident_char_word: "ident_char c \<Longrightarrow> re_word c"
  by (auto simp: ident_char_def ident_start_def re_word_def)

lemma ident_char_code: "ident_char c \<longleftrightarrow> code c \<in> {48..57} \<union> {65..90} \<union> {97..122} \<union> {95}"
  by (auto simp: ident_char_def ident_start_def)

lemma not_ident: "\<not> ident_char (CHR 0x7B)" "\<not> ident_char (CHR 0x22)" "\<not> ident_char (CHR 0x27)" "\<not> ident_char (CHR ''('')"
  by code_simp+

lemma not_ident_space: "re_space c \<Longrightarrow> \<not> ident_char c"
  by (auto simp: re_space_def ident_char_def ident_start_def)

lemma sub_all_name:
  assumes "list_all ident_char token" and "\<And>c r. ident_char c \<Longrightarrow> m True (c # r) = None"
  shows "sub_all m True (token @ rest) = token @ sub_all m True rest"
  using assms(1) by (induction token) (auto simp: assms(2) ident_char_word)

lemma sub_all_first:
  assumes "plain_name token" and "\<And>c r. ident_char c \<Longrightarrow> m True (c # r) = None" and "m False (token @ rest) = None"
  shows "sub_all m False (token @ rest) = token @ sub_all m True rest"
proof -
  obtain c ts where token: "token = c # ts"
    using assms(1) by (auto simp: plain_name_def neq_Nil_conv)
  then have "ident_char c" and "list_all ident_char ts"
    using assms(1) by (auto simp: plain_name_def)
  then show ?thesis
    using assms(3) sub_all_name [of ts m rest] assms(2) by (simp add: token ident_char_word)
qed

lemma ends_name_sub_all: "ends_name rest \<Longrightarrow> ends_name (sub_all m prev rest)"
proof (cases rest)
  case (Cons c r)
  have "\<not> re_word (CHR '' '')"
    by code_simp
  then show "ends_name rest \<Longrightarrow> ?thesis"
    using Cons by (auto simp: ends_name_def split: option.splits)
qed simp

lemma grouping_words_ident: "list_all (list_all ident_char) GROUPING_WORDS"
  by code_simp

lemma grouping_words_keywords: "set GROUPING_WORDS \<subseteq> set PROMQL_KEYWORDS"
  by code_simp

lemma no_grouping_at_name:
  assumes "plain_name token" and "token \<notin> set GROUPING_WORDS" and "ends_name rest"
  shows "match_grouping False (token @ rest) = None"
proof (cases "find (\<lambda>kw. prefix kw (token @ rest)) GROUPING_WORDS")
  case (Some kw)
  then have kw: "kw \<in> set GROUPING_WORDS" "prefix kw (token @ rest)"
    by (auto simp: find_Some_iff)
  then have ident: "list_all ident_char kw"
    using grouping_words_ident by (simp add: list_all_iff)
  obtain c x where token: "token = kw @ c # x"
  proof (cases "prefix kw token")
    case True
    then obtain y where "token = kw @ y"
      by (auto simp: prefix_def)
    moreover have "y \<noteq> []"
      using calculation kw(1) assms(2) by auto
    ultimately show ?thesis
      using that by (auto simp: neq_Nil_conv)
  next
    case False
    then obtain y where "kw = token @ y" "y \<noteq> []" "prefix y rest"
      using kw(2) by (auto simp: prefix_append)
    then obtain d z w where "y = d # z" "rest = d # w"
      by (cases y; cases rest) auto
    then have "re_word d" and "\<not> re_word d"
      using ident \<open>kw = token @ y\<close> assms(3) ident_char_word by (auto simp: ends_name_def)
    then show ?thesis by simp
  qed
  then have "ident_char c"
    using assms(1) by (auto simp: plain_name_def)
  then have "\<not> re_space c" and "c \<noteq> CHR ''(''"
    using not_ident_space not_ident by auto
  then show ?thesis
    using Some token by (simp add: match_grouping_def)
qed (simp add: match_grouping_def)

lemma strip_keeps_first_name:
  assumes "plain_name token" and "token \<notin> set GROUPING_WORDS" and "ends_name rest"
  shows "\<exists>rest'. strip_non_metric_syntax (token @ rest) = token @ rest' \<and> ends_name rest'"
proof -
  have first: "ident_char (hd token)" "token \<noteq> []"
    using assms(1) by (auto simp: plain_name_def list_all_iff)
  have label: "ident_char c \<Longrightarrow> match_label prev (c # r) = None"
    and quoted: "ident_char c \<Longrightarrow> match_quoted prev (c # r) = None" for prev c r
    using not_ident by (auto simp: match_label_def match_quoted_def is_quote_def)
  have "match_label False (token @ r) = None" "match_quoted False (token @ r) = None" for r
    using label [of "hd token" False "tl token @ r"] quoted [of "hd token" False "tl token @ r"] first
    by (cases token; simp)+
  then have "strip_non_metric_syntax (token @ rest) =
      token @ sub_all match_grouping True (sub_all match_quoted True (sub_all match_label True rest))"
    unfolding strip_non_metric_syntax_def
    by (simp add: sub_all_first [OF assms(1)] label quoted match_grouping_def
        no_grouping_at_name [OF assms(1,2), unfolded match_grouping_def, simplified]
        ends_name_sub_all assms(3))
  then show ?thesis
    using ends_name_sub_all assms(3) by blast
qed

lemma first_name_is_token:
  assumes "plain_name token" and "token \<notin> set PROMQL_KEYWORDS" and "token \<notin> set BUILTIN" and "ends_name rest"
  shows "token \<in> set (tokens (token @ rest))"
proof -
  obtain rest' where stripped: "strip_non_metric_syntax (token @ rest) = token @ rest'" "ends_name rest'"
    using strip_keeps_first_name assms grouping_words_keywords by blast
  have start: "token \<noteq> []" "ident_start (hd token)" "list_all ident_char token"
    using assms(1) by (auto simp: plain_name_def)
  have "takeWhile ident_char (token @ rest') = token" and "dropWhile ident_char (token @ rest') = rest'"
    using start(3) stripped(2) ident_char_word
    by (auto simp: takeWhile_append dropWhile_append list_all_iff ends_name_def split: list.splits)
  moreover have "ident_tail rest' = []" and "boundary rest'"
    using stripped(2) by (auto simp: ident_tail.simps [of rest'] boundary_def ends_name_def split: list.splits)
  ultimately have "match_identifier False (token @ rest') = Some (token, length token)"
    using start by (simp add: match_identifier_def)
  then have "token \<in> set (finditer match_identifier False (token @ rest'))"
    using start(1) by (cases token) auto
  then show ?thesis
    using assms(2,3) stripped by (simp add: tokens_def)
qed

lemma last_strip_ws: "strip_ws s \<noteq> [] \<Longrightarrow> \<not> re_space (last (strip_ws s))"
  using hd_dropWhile [of re_space "rev (dropWhile re_space s)"] by (simp add: strip_ws_def last_rev)

lemma dropWhile_last: "\<not> p (last s) \<Longrightarrow> dropWhile p (rev s) = rev s"
  by (cases s rule: rev_cases) auto

lemma expr_body_name:
  assumes "strip_ws raw = ''expr: '' @ token @ rest" and "plain_name token"
  shows "expr_body (strip_ws raw) = token @ rest"
proof -
  obtain c ts where token: "token = c # ts" "ident_char c"
    using assms(2) by (auto simp: plain_name_def neq_Nil_conv)
  have "\<not> re_space (last (token @ rest))"
    using last_strip_ws [of raw] assms(1) token by (auto split: if_splits)
  moreover have "\<not> re_space c" and "re_space (CHR '' '')" and "\<not> is_quote c"
    using token(2) not_ident_space not_ident by (auto simp: is_quote_def) code_simp
  moreover have "dropWhile re_space (rev (token @ rest)) = rev (token @ rest)"
    using calculation(1) by (rule dropWhile_last)
  ultimately have "strip_ws ('' '' @ token @ rest) = token @ rest"
    by (simp add: strip_ws_def token)
  then show ?thesis
    using \<open>\<not> is_quote c\<close> by (simp add: expr_body_def assms(1) token)
qed

lemma found_grows: "set (map fst (found st)) \<subseteq> set (map fst (found (fold scan_line ls st)))"
proof (induction ls arbitrary: st)
  case (Cons l ls)
  have "set (map fst (found st)) \<subseteq> set (map fst (found (scan_line l st)))"
    by (cases l) (auto simp: scan_line_def Let_def found_setdefault simp del: set_map)
  then show ?case
    using Cons.IH [of "scan_line l st"] by auto
qed simp

lemma expr_line_is_read:
  assumes "raw \<in> set (splitlines (universal_newlines rules))" and "startswith (strip_ws raw) ''expr:''"
    and "token \<in> set (tokens (expr_body (strip_ws raw)))"
  shows "token \<in> set (map fst (referenced_metrics rules))"
proof -
  obtain number where "(number, raw) \<in> set (enumerate 1 (splitlines (universal_newlines rules)))"
    using assms(1) map_snd_enumerate [of 1 "splitlines (universal_newlines rules)"] by (metis in_set_zip imageE list.set_map prod.collapse)
  then obtain before after where ls: "enumerate 1 (splitlines (universal_newlines rules)) = before @ (number, raw) # after"
    by (meson split_list)
  have "token \<in> set (map fst (found (scan_line (number, raw) st)))" for st
    using assms(2,3) by (simp add: scan_line_def Let_def found_setdefault del: set_map)
  then show ?thesis
    unfolding referenced_metrics_def ls fold_append fold.simps comp_apply using found_grows by blast
qed

text \<open>
  A misspelt metric fails the build.  If on any line of the rules an expression begins with a name that is neither a
  keyword of the query language, nor provided by Prometheus, nor declared in any spelling, the command exits with 1.
\<close>

theorem unknown_metric_fails:
  assumes "raw \<in> set (splitlines (universal_newlines rules))" and "strip_ws raw = ''expr: '' @ token @ rest"
    and "plain_name token" and "ends_name rest" and "token \<notin> set PROMQL_KEYWORDS" and "token \<notin> set BUILTIN"
    and "token \<notin> set (declared_metrics sources)"
  shows "fst (alert_main sources (Some rules)) = 1"
proof -
  have "token \<in> set (tokens (expr_body (strip_ws raw)))"
    unfolding expr_body_name [OF assms(2,3)] by (rule first_name_is_token) (fact assms)+
  then have "token \<in> set (map fst (referenced_metrics rules))"
    using expr_line_is_read assms(1,2) by (simp add: startswith_append)
  then have "unknown_metrics sources rules \<noteq> []"
    using assms(6,7) by (force simp: unknown_metrics_def filter_empty_conv)
  then show ?thesis
    using exit_zero_iff exit_is_0_or_1 by blast
qed

theorem unknown_metric_fails_witness:
  "fst (alert_main [Some (''PENDING = Gauge('' @ CHR 0x22 # ''favl_outbox_pending'' @ CHR 0x22 # '')'')]
      (Some (''rules:'' @ CHR 0x0A # ''    expr: favl_outbox_pnding > 100''))) = 1"
proof (rule unknown_metric_fails)
  show "''    expr: favl_outbox_pnding > 100''
      \<in> set (splitlines (universal_newlines (''rules:'' @ CHR 0x0A # ''    expr: favl_outbox_pnding > 100'')))"
    by code_simp
  show "strip_ws ''    expr: favl_outbox_pnding > 100'' = ''expr: '' @ ''favl_outbox_pnding'' @ '' > 100''"
    by code_simp
qed code_simp+

end
