(* ===== verification/ImagePins.thy ===== *)
theory ImagePins
  imports Regex NetText
begin

text \<open>
  \<open>scripts/check_image_pins.py\<close>: every image is referenced with a digest.  Each pattern of the script begins at the start of a
  line and leaves a backtracking engine no choice, so it is the function that matches it at a position, given whether a
  line begins there; \<open>finditer\<close> returns what it captures with the position.  A file is its decoded text.
\<close>

section \<open>Patterns\<close>

definition upper_char :: "char \<Rightarrow> char" where
  "upper_char c = (if 97 \<le> code c \<and> code c \<le> 122 then char_of (code c - 32) else c)"

text \<open>\<open>\s*\<close> and \<open>\s+\<close> before the rest of the text.\<close>

definition skip_spaces :: "string \<Rightarrow> string" where
  "skip_spaces = dropWhile re_space"

definition some_spaces :: "string \<Rightarrow> string option" where
  "some_spaces s = (if s \<noteq> [] \<and> re_space (hd s) then Some (skip_spaces s) else None)"

text \<open>\<open>(\S+)\<close>, and a keyword in any case.\<close>

definition word :: "string \<Rightarrow> (string \<times> string) option" where
  "word s = (let w = takeWhile (\<lambda>c. \<not> re_space c) s in if w = [] then None else Some (w, drop (length w) s))"

definition keyword :: "string \<Rightarrow> string \<Rightarrow> string option" where
  "keyword kw s = (if map upper_char (take (length kw) s) = kw then Some (drop (length kw) s) else None)"

text \<open>\<open>^\s*image:\s*(\S+)\<close>, \<open>^\s*FROM\s+(\S+)\<close> and \<open>^\s*FROM\s+\S+\s+AS\s+(\S+)\<close>.\<close>

definition match_image :: "string \<Rightarrow> (string \<times> string) option" where
  "match_image s =
     (let r = skip_spaces s
      in if prefix ''image:'' r then word (skip_spaces (drop (length ''image:'') r)) else None)"

definition match_from :: "string \<Rightarrow> (string \<times> string) option" where
  "match_from s = Option.bind (keyword ''FROM'' (skip_spaces s)) (\<lambda>r. Option.bind (some_spaces r) word)"

definition match_stage :: "string \<Rightarrow> (string \<times> string) option" where
  "match_stage s =
     Option.bind (match_from s) (\<lambda>(_, r).
       Option.bind (some_spaces r) (\<lambda>r. Option.bind (keyword ''AS'' r) (\<lambda>r. Option.bind (some_spaces r) word)))"

definition newline :: "char \<Rightarrow> bool" where
  "newline c \<longleftrightarrow> c = CHR 0x0A"

fun finditer :: "(string \<Rightarrow> (string \<times> string) option) \<Rightarrow> bool \<Rightarrow> nat \<Rightarrow> string \<Rightarrow> (string \<times> nat) list" where
  "finditer m line_start pos [] = []"
| "finditer m line_start pos (c # s) =
     (case (if line_start then m (c # s) else None) of
        None \<Rightarrow> finditer m (newline c) (pos + 1) s
      | Some (captured, rest) \<Rightarrow>
          let n = length (c # s) - length rest
          in (captured, pos) # finditer m (newline (last (take n (c # s)))) (pos + n) (drop (n - 1) s))"

section \<open>The check\<close>

definition stage_names :: "string \<Rightarrow> string list" where
  "stage_names content = map fst (finditer match_stage True 0 content)"

definition location :: "string \<Rightarrow> string \<Rightarrow> nat \<Rightarrow> string" where
  "location path content start = path @ '':'' @ dec_str (int (length (filter newline (take start content))) + 1)"

definition pinned :: "string \<Rightarrow> bool" where
  "pinned ref \<longleftrightarrow> contains ref ''@sha256:''"

definition unpinned :: "string option \<Rightarrow> (string \<times> string) list \<Rightarrow> (string \<times> string) list" where
  "unpinned compose dockerfiles =
     (case compose of
        None \<Rightarrow> []
      | Some content \<Rightarrow>
          map (\<lambda>(ref, start). (location ''deploy/docker-compose.yml'' content start, ref))
            (filter (\<lambda>(ref, _). \<not> pinned ref) (finditer match_image True 0 content)))
     @ concat (map (\<lambda>(path, content).
          map (\<lambda>(ref, start). (location path content start, ref))
            (filter (\<lambda>(ref, _). \<not> (ref \<in> set (stage_names content) \<or> pinned ref)) (finditer match_from True 0 content)))
        dockerfiles)"

definition pins_main :: "string option \<Rightarrow> (string \<times> string) list \<Rightarrow> int \<times> string list" where
  "pins_main compose dockerfiles =
     (let problems = unpinned compose dockerfiles
      in if problems \<noteq> []
         then (1, [''Container images referenced without a digest:'', []]
                @ map (\<lambda>(loc, ref). ''  '' @ loc @ '': '' @ ref) problems
                @ [[], ''Pin with tag@sha256:... so the running stack is the stack that ''
                   @ ''was tested. Refresh with scripts/update_image_digests.sh.''])
         else (0, [''All container images are pinned by digest.'']))"

section \<open>What it accepts\<close>

lemma pins_pass:
  "fst (pins_main compose dockerfiles) = 0 \<longleftrightarrow>
     (case compose of None \<Rightarrow> True | Some content \<Rightarrow> list_all (\<lambda>(ref, _). pinned ref) (finditer match_image True 0 content)) \<and>
     list_all (\<lambda>(_, content). list_all (\<lambda>(ref, _). pinned ref \<or> ref \<in> set (stage_names content)) (finditer match_from True 0 content))
       dockerfiles"
proof -
  have "concat (map f xs) = [] \<longleftrightarrow> list_all (\<lambda>x. f x = []) xs" for f :: "'a \<Rightarrow> 'b list" and xs
    by (induction xs) auto
  then show ?thesis
    by (cases compose)
      (auto simp: pins_main_def unpinned_def Let_def filter_empty_conv list_all_iff case_prod_unfold)
qed

text \<open>
  Exit code 0 says that every image the compose file names has a digest, and every base image of a Dockerfile has one or
  is the name of a stage of that file.
\<close>

theorem pins_pass_iff:
  "fst (pins_main compose dockerfiles) = 0 \<longleftrightarrow>
     (case compose of None \<Rightarrow> True | Some content \<Rightarrow> list_all (\<lambda>(ref, _). pinned ref) (finditer match_image True 0 content)) \<and>
     list_all (\<lambda>(_, content). list_all (\<lambda>(ref, _). pinned ref \<or> ref \<in> set (stage_names content)) (finditer match_from True 0 content))
       dockerfiles"
  by (rule pins_pass)

lemma takeWhile_no_space: "list_all (\<lambda>c. \<not> re_space c) w \<Longrightarrow> takeWhile (\<lambda>c. \<not> re_space c) (w @ CHR '' '' # s) = w"
  by (induction w) (auto, code_simp)

lemma takeWhile_all: "\<forall>c \<in> set w. \<not> re_space c \<Longrightarrow> takeWhile (\<lambda>c. \<not> re_space c) w = w"
  by (induction w) auto

lemma finditer_inside_line: "list_all (\<lambda>c. \<not> newline c) s \<Longrightarrow> finditer m False pos s = []"
  by (induction s arbitrary: pos) auto

lemma finditer_one_line:
  assumes "m s = Some (captured, rest)" and "s \<noteq> []" and "list_all (\<lambda>c. \<not> newline c) s" and "length rest < length s"
  shows "finditer m True pos s = [(captured, pos)]"
proof -
  obtain c s' where s: "s = c # s'"
    using assms(2) by (cases s) auto
  let ?n = "length s - length rest"
  have "take ?n s \<noteq> []"
    using assms(2,4) by simp
  then have "\<not> newline (last (take ?n s))"
    using last_in_set [of "take ?n s"] assms(3) in_set_takeD by (fastforce simp: list_all_iff)
  moreover have "list_all (\<lambda>c. \<not> newline c) (drop (?n - 1) s')"
    using assms(3) by (auto simp: list_all_iff s dest: in_set_dropD)
  ultimately show ?thesis
    using assms(1) by (simp add: s Let_def finditer_inside_line)
qed

lemma no_newline_in_word: "list_all (\<lambda>c. \<not> re_space c) w \<Longrightarrow> list_all (\<lambda>c. \<not> newline c) w"
proof -
  have "re_space (CHR 0x0A)"
    by code_simp
  then show "list_all (\<lambda>c. \<not> re_space c) w \<Longrightarrow> list_all (\<lambda>c. \<not> newline c) w"
    by (auto simp: list_all_iff newline_def)
qed

lemma space: "re_space (CHR '' '')" "\<not> re_space (CHR ''F'')" "\<not> re_space (CHR ''A'')"
  "upper_char (CHR ''F'') = CHR ''F''" "upper_char (CHR ''R'') = CHR ''R''" "upper_char (CHR ''O'') = CHR ''O''" "upper_char (CHR ''M'') = CHR ''M''" "upper_char (CHR ''A'') = CHR ''A''" "upper_char (CHR ''S'') = CHR ''S''"
  by code_simp+

text \<open>
  A stage named after its own base image hides it.  For every image reference, with or without a digest, the
  one-line Dockerfile that gives its stage the name of the image passes: stage names are collected from the whole file,
  the line that introduces them included.
\<close>

theorem self_named_stage_passes:
  assumes "img \<noteq> []" and "list_all (\<lambda>c. \<not> re_space c) img"
  shows "fst (pins_main None [(path, ''FROM '' @ img @ '' AS '' @ img)]) = 0"
proof -
  obtain c w where img: "img = c # w" "\<not> re_space c"
    using assms by (cases img) auto
  have base: "match_from (''FROM '' @ img @ '' AS '' @ img) = Some (img, '' AS '' @ img)"
    using img takeWhile_no_space [OF assms(2), of "''AS '' @ img"]
    by (simp add: match_from_def keyword_def skip_spaces_def some_spaces_def word_def Let_def space)
  have w: "takeWhile (\<lambda>c. \<not> re_space c) w = w"
    using img assms(2) by (simp add: takeWhile_all list_all_iff)
  have stage: "match_stage (''FROM '' @ img @ '' AS '' @ img) = Some (img, [])"
    unfolding match_stage_def base using img
    by (simp add: w keyword_def skip_spaces_def some_spaces_def word_def Let_def space)
  have line: "list_all (\<lambda>c. \<not> newline c) (''FROM '' @ img @ '' AS '' @ img)"
    using no_newline_in_word [OF assms(2)] by (simp add: newline_def)
  have "stage_names (''FROM '' @ img @ '' AS '' @ img) = [img]"
    unfolding stage_names_def by (subst finditer_one_line [where m = match_stage, OF stage _ line]) simp_all
  moreover have "finditer match_from True 0 (''FROM '' @ img @ '' AS '' @ img) = [(img, 0)]"
    by (rule finditer_one_line [where m = match_from, OF base _ line]) simp_all
  ultimately show ?thesis
    by (simp add: pins_pass)
qed

theorem self_named_stage_passes_witness:
  "fst (pins_main None [(''services/orchestrator/Dockerfile'', ''FROM python:3.12-slim AS python:3.12-slim'')]) = 0"
  using self_named_stage_passes [of "''python:3.12-slim''"] by (simp, code_simp)

text \<open>A reference without a digest and without a stage of its name is refused, with the line it stands on.\<close>

theorem tag_is_refused:
  "pins_main (Some (''  image: nats:2'' @ CHR 0x0A # ''  image: redis@sha256:00'')) [(''Dockerfile'', ''from alpine as base'')] =
     (1, [''Container images referenced without a digest:'', [],
          ''  deploy/docker-compose.yml:1: nats:2'', ''  Dockerfile:1: alpine'', [],
          ''Pin with tag@sha256:... so the running stack is the stack that ''
          @ ''was tested. Refresh with scripts/update_image_digests.sh.''])"
  by code_simp

end
