(* ===== verification/MigrationRun.thy ===== *)
theory MigrationRun
  imports Rollback ServiceLife
begin

text \<open>
  \<open>migrations/env.py\<close> of both services: what one \<open>alembic\<close> command does to a database, and what the service that starts on
  it reports.  \<open>plan\<close> is alembic's: the revisions a command runs from the recorded version, each with its operations.  What
  it is taken to do for \<open>upgrade head\<close> is \<open>plans_upgrade\<close>.  Online mode only; offline mode writes SQL to a file.
\<close>

section \<open>The environment\<close>

record deployed =
  dp_version :: "string option"
  dp_schema :: schema
  dp_data :: data

datatype migrate_error = Missing_variable string | Unreachable | Refused sql_error

type_synonym plan = "string option \<Rightarrow> (string option \<times> ddl list) list"

text \<open>
  \<open>context.begin_transaction()\<close> encloses the whole run, and PostgreSQL's DDL is transactional: the run commits as a whole, the
  recorded version included, or not at all.
\<close>

fun run_steps :: "time \<Rightarrow> (string option \<times> ddl list) list \<Rightarrow> deployed \<Rightarrow> sql_error + deployed" where
  "run_steps now [] db = Inr db"
| "run_steps now ((version, ops) # steps) db =
     (case run_ops now ops (dp_schema db, dp_data db) of
        Inl e \<Rightarrow> Inl e
      | Inr (s, d) \<Rightarrow> run_steps now steps \<lparr>dp_version = version, dp_schema = s, dp_data = d\<rparr>)"

definition do_run_migrations :: "time \<Rightarrow> plan \<Rightarrow> deployed \<Rightarrow> migrate_error option \<times> deployed" where
  "do_run_migrations now plan db =
     (case run_steps now (plan (dp_version db)) db of
        Inl e \<Rightarrow> (Some (Refused e), db)
      | Inr db' \<Rightarrow> (None, db'))"

definition run_migrations_online :: "bool \<Rightarrow> time \<Rightarrow> plan \<Rightarrow> deployed \<Rightarrow> migrate_error option \<times> deployed" where
  "run_migrations_online connects now plan db =
     (if connects then do_run_migrations now plan db else (Some Unreachable, db))"

definition migrate :: "(string \<Rightarrow> string option) \<Rightarrow> bool \<Rightarrow> time \<Rightarrow> plan \<Rightarrow> deployed \<Rightarrow> migrate_error option \<times> deployed" where
  "migrate getenv connects now plan db =
     (case getenv ''DATABASE_URL'' of
        None \<Rightarrow> (Some (Missing_variable ''DATABASE_URL''), db)
      | Some _ \<Rightarrow> run_migrations_online connects now plan db)"

section \<open>Commands\<close>

text \<open>The version recorded after the first \<open>k\<close> revisions of a chain, and the steps alembic runs from there.\<close>

definition version_at :: "migration list \<Rightarrow> nat \<Rightarrow> string option" where
  "version_at ms k = (case k of 0 \<Rightarrow> None | Suc j \<Rightarrow> Some (mg_revision (ms ! j)))"

definition upgrade_step :: "migration \<Rightarrow> string option \<times> ddl list" where
  "upgrade_step m = (Some (mg_revision m), mg_upgrade m)"

definition downgrade_step :: "migration \<Rightarrow> string option \<times> ddl list" where
  "downgrade_step m = (mg_down_revision m, mg_downgrade m)"

definition plans_upgrade :: "plan \<Rightarrow> migration list \<Rightarrow> bool" where
  "plans_upgrade plan ms \<longleftrightarrow> (\<forall>k \<le> length ms. plan (version_at ms k) = map upgrade_step (drop k ms))"

text \<open>A plan that follows the links of the revisions satisfies it.\<close>

definition upgrade_head :: "migration list \<Rightarrow> plan" where
  "upgrade_head ms version = map upgrade_step (dropWhile (\<lambda>m. mg_down_revision m \<noteq> version) ms)"

lemma upgrade_head_plans: "plans_upgrade (upgrade_head registry_migrations) registry_migrations"
proof -
  have "upgrade_head registry_migrations (version_at registry_migrations k) = map upgrade_step (drop k registry_migrations)"
    if "k \<in> {0, 1, 2, 3, 4, 5, 6, 7, 8}" for k
    using that by (auto simp: upgrade_head_def version_at_def registry_migrations_def revision_def numeral_eq_Suc)
  moreover have "k \<in> {0, 1, 2, 3, 4, 5, 6, 7, 8}" if "k \<le> length registry_migrations" for k
    using that by (simp add: registry_migrations_def) arith
  ultimately show ?thesis
    by (simp add: plans_upgrade_def)
qed

section \<open>Runs\<close>

lemma run_steps_upgrade:
  "run_ops now (concat (map mg_upgrade ms)) (s, d) = Inr (s', d') \<Longrightarrow>
     run_steps now (map upgrade_step ms) \<lparr>dp_version = v, dp_schema = s, dp_data = d\<rparr> =
       Inr \<lparr>dp_version = (if ms = [] then v else Some (mg_revision (last ms))), dp_schema = s', dp_data = d'\<rparr>"
proof (induction ms arbitrary: v s d)
  case (Cons m ms)
  then show ?case
    by (auto simp: upgrade_step_def run_ops_append split: sum.splits)
qed simp

lemma upgrade_run:
  assumes "chain_of ms ss" and "k \<le> length ms" and "data_ok (ss ! k) d" and "plans_upgrade plan ms"
    and "getenv ''DATABASE_URL'' \<noteq> None"
  shows "\<exists>d'. migrate getenv True now plan \<lparr>dp_version = version_at ms k, dp_schema = ss ! k, dp_data = d\<rparr> =
      (None, \<lparr>dp_version = version_at ms (length ms), dp_schema = ss ! length ms, dp_data = d'\<rparr>) \<and> data_ok (ss ! length ms) d'"
proof -
  obtain d' where run: "run_ops now (concat (map mg_upgrade (drop k ms))) (ss ! k, d) = Inr (ss ! length ms, d')"
    and ok: "data_ok (ss ! length ms) d'"
    using upgrade_chain [OF assms(1-3)] by blast
  have version: "(if drop k ms = [] then version_at ms k else Some (mg_revision (last (drop k ms)))) = version_at ms (length ms)"
    using assms(2) by (cases "k = length ms") (auto simp: version_at_def last_drop last_conv_nth split: nat.splits)
  have "plan (version_at ms k) = map upgrade_step (drop k ms)"
    using assms(2,4) by (simp add: plans_upgrade_def)
  then show ?thesis
    using run_steps_upgrade [OF run, of "version_at ms k"] assms(5) ok unfolding version
    by (auto simp: migrate_def run_migrations_online_def do_run_migrations_def)
qed

definition current :: "string \<Rightarrow> deployed \<Rightarrow> probe \<Rightarrow> bool" where
  "current expected db pb =
     (jget ''migrations_current'' (readiness expected None (pb\<lparr>pb_head := Some (dp_version db)\<rparr>)) = Some (JBool True))"

lemma current_iff: "current expected db pb \<longleftrightarrow> dp_version db = Some expected"
  by (simp add: current_def readiness_def jget_def Let_def)

text \<open>
  The service that starts after its migrations is current.  From any revision of the registry, whatever rows it
  holds, \<open>alembic upgrade head\<close> succeeds, the rows satisfy the constraints of the last revision, and the version recorded is
  the one the service compares with, so that its readiness reports the migrations as current.
\<close>

theorem migrated_registry_is_current:
  assumes "plans_upgrade plan registry_migrations"
    and "getenv ''DATABASE_URL'' \<noteq> None" and "getenv ''EXPECTED_MIGRATION'' = None"
    and "k \<le> 8" and "data_ok (registry_schemas ! k) d"
  shows "\<exists>db. migrate getenv True now plan
      \<lparr>dp_version = version_at registry_migrations k, dp_schema = registry_schemas ! k, dp_data = d\<rparr> = (None, db) \<and>
    dp_schema db = registry_schemas ! 8 \<and> data_ok (registry_schemas ! 8) (dp_data db) \<and>
    current (REGISTRY_EXPECTED_MIGRATION getenv) db pb"
proof -
  have "chain_of registry_migrations registry_schemas" and n: "length registry_migrations = 8"
    by (simp_all add: chain_of_def registry_migrations_def)
  moreover have "version_at registry_migrations 8 = Some (REGISTRY_EXPECTED_MIGRATION getenv)"
    by (simp add: version_at_def registry_migrations_def revision_def REGISTRY_EXPECTED_MIGRATION_def assms(3) numeral_eq_Suc)
  ultimately show ?thesis
    using upgrade_run [of registry_migrations registry_schemas k d plan getenv now] assms by (auto simp: current_iff)
qed

theorem migrated_registry_is_current_witness:
  "\<exists>db. migrate [''DATABASE_URL'' \<mapsto> ''postgresql://registry''] True 0 (upgrade_head registry_migrations)
      \<lparr>dp_version = version_at registry_migrations 3, dp_schema = registry_schemas ! 3,
       dp_data = connectors_data [old_row ''c1'' True, old_row ''c2'' False]\<rparr> = (None, db) \<and>
    dp_version db = Some ''0008''"
proof -
  have "REGISTRY_EXPECTED_MIGRATION [''DATABASE_URL'' \<mapsto> ''postgresql://registry''] = ''0008''"
    by (simp add: REGISTRY_EXPECTED_MIGRATION_def)
  then show ?thesis
    using migrated_registry_is_current [OF upgrade_head_plans, of "[''DATABASE_URL'' \<mapsto> ''postgresql://registry'']" 3, OF _ _ _ witness_3]
    by (force simp: current_iff)
qed

text \<open>The orchestrator's likewise.\<close>

theorem migrated_orchestrator_is_current:
  assumes "plans_upgrade plan orchestrator_migrations"
    and "getenv ''DATABASE_URL'' \<noteq> None" and "getenv ''EXPECTED_MIGRATION'' = None"
    and "k \<le> 5" and "data_ok (orchestrator_schemas ! k) d"
  shows "\<exists>db. migrate getenv True now plan
      \<lparr>dp_version = version_at orchestrator_migrations k, dp_schema = orchestrator_schemas ! k, dp_data = d\<rparr> = (None, db) \<and>
    dp_schema db = orchestrator_schemas ! 5 \<and> data_ok (orchestrator_schemas ! 5) (dp_data db) \<and>
    current (ORCHESTRATOR_EXPECTED_MIGRATION getenv) db pb"
proof -
  have "chain_of orchestrator_migrations orchestrator_schemas" and n: "length orchestrator_migrations = 5"
    by (simp_all add: chain_of_def orchestrator_migrations_def)
  moreover have "version_at orchestrator_migrations 5 = Some (ORCHESTRATOR_EXPECTED_MIGRATION getenv)"
    by (simp add: version_at_def orchestrator_migrations_def revision_def ORCHESTRATOR_EXPECTED_MIGRATION_def assms(3) numeral_eq_Suc)
  ultimately show ?thesis
    using upgrade_run [of orchestrator_migrations orchestrator_schemas k d plan getenv now] assms by (auto simp: current_iff)
qed

section \<open>A rollback that is refused\<close>

text \<open>
  A rollback that is refused leaves nothing behind.  Rolling the registry back from its last revision to 0006 in one
  command fails as soon as two connectors of any tenants share a name, after the downgrade of 0008 has parked the revoked
  connectors and dropped the audit table; the database is then as it was, audit trail included, and the service on
  it still current.
\<close>

theorem refused_rollback_changes_nothing:
  assumes "data_ok (registry_schemas ! 8) d" and "\<not> distinct (map (cell ''name'') (d ''connectors''))"
    and "plan (Some ''0008'') = map downgrade_step [registry_migrations ! 7, registry_migrations ! 6]"
    and "getenv ''DATABASE_URL'' \<noteq> None" and "getenv ''EXPECTED_MIGRATION'' = None"
    and "db = \<lparr>dp_version = Some ''0008'', dp_schema = registry_schemas ! 8, dp_data = d\<rparr>"
  shows "migrate getenv True now plan db = (Some (Refused (Constraint_violation ''uq_connectors_name'')), db) \<and>
    current (REGISTRY_EXPECTED_MIGRATION getenv) (snd (migrate getenv True now plan db)) pb"
proof -
  have name: "''name'' \<in> cl_name ` set (tb_columns connectors_7)"
    by (simp add: schema_eval)
  obtain d7 where run8: "run_ops now registry_0008_downgrade (registry_schemas ! 8, d) = Inr (registry_schemas ! 7, d7)"
    and ok7: "data_ok (registry_schemas ! 7) d7"
    and names: "map (cell ''name'') (d7 ''connectors'') = map (cell ''name'') (d ''connectors'')"
    using rollback_0008_parks [OF assms(1), of now] name by fastforce
  have run7: "run_ops now registry_0007_downgrade (registry_schemas ! 7, d7) = Inl (Constraint_violation ''uq_connectors_name'')"
    using rollback_0007_iff [OF ok7, of now] assms(2) names by simp
  have "map downgrade_step [registry_migrations ! 7, registry_migrations ! 6] =
      [(Some ''0007'', registry_0008_downgrade), (Some ''0006'', registry_0007_downgrade)]"
    by (simp add: downgrade_step_def registry_migrations_def revision_def numeral_eq_Suc)
  then have "migrate getenv True now plan db = (Some (Refused (Constraint_violation ''uq_connectors_name'')), db)"
    using assms(3,4,6) run8 run7 by (auto simp: migrate_def run_migrations_online_def do_run_migrations_def)
  then show ?thesis
    by (simp add: current_iff assms(5,6) REGISTRY_EXPECTED_MIGRATION_def)
qed

lemma witness_8_shared:
  "data_ok (registry_schemas ! 8)
     (connectors_data [tenant_row ''c1'' ''t1'' ''revoked'' @ fresh_0008, tenant_row ''c2'' ''t2'' ''enabled'' @ fresh_0008])"
  by (simp add: data_ok_def registry_schemas_def tables_def connectors_data_def table_ok_def row_ok_def tenant_row_def cell_def
      not_null_ok_def schema_eval STATES_def fresh_0008_def)
    (simp add: connectors_8_def connectors_7_def connectors_6_def connectors_4_def connectors_3_def connectors_1_def
      version_column_def lifecycle_columns_def cell_def not_null_ok_def list_all_iff)

theorem refused_rollback_changes_nothing_witness:
  "fst (migrate [''DATABASE_URL'' \<mapsto> ''postgresql://registry''] True 0
      (\<lambda>_. map downgrade_step [registry_migrations ! 7, registry_migrations ! 6])
      \<lparr>dp_version = Some ''0008'', dp_schema = registry_schemas ! 8,
       dp_data = connectors_data [tenant_row ''c1'' ''t1'' ''revoked'' @ fresh_0008, tenant_row ''c2'' ''t2'' ''enabled'' @ fresh_0008]\<rparr>) =
    Some (Refused (Constraint_violation ''uq_connectors_name''))"
  using refused_rollback_changes_nothing [OF witness_8_shared,
      of "\<lambda>_. map downgrade_step [registry_migrations ! 7, registry_migrations ! 6]" "[''DATABASE_URL'' \<mapsto> ''postgresql://registry'']"]
  by (simp add: connectors_data_def tenant_row_def cell_def)

end
