(* ===== verification/OrchestratorApi.thy ===== *)
theory OrchestratorApi
  imports AgentContract ServiceLife
begin

text \<open>
  The orchestrator as its callers meet it: the identity its routes depend on (\<open>orchestrator/app/identity.py\<close>, the same file
  as the registry's), the dispatch of its routes, and the middleware of \<open>orchestrator/app/main.py\<close> that names a request.  A request is
  answered by \<open>serve\<close>, with the calls it made to the registry.
\<close>

section \<open>Identity\<close>

definition agent_userinfo_identity :: "identity_env \<Rightarrow> string option \<Rightarrow> caller_identity option" where
  "agent_userinfo_identity env x_userinfo = identity_from_userinfo env x_userinfo"

definition agent_caller :: "identity_env \<Rightarrow> string option \<Rightarrow> int \<times> json + caller_identity" where
  "agent_caller env x_userinfo =
     (case agent_userinfo_identity env x_userinfo of
        Some ident \<Rightarrow> Inr ident
      | None \<Rightarrow>
          if ie_allow_anonymous env
          then Inr \<lparr>ci_actor_id = ''anonymous'', ci_tenant_id = ie_default_tenant env, ci_verified = False\<rparr>
          else Inl (401, JObj [(''error_code'', JStr ''IDENTITY_UNVERIFIED''),
            (''message'', JStr ''no verified caller identity; requests must arrive through the gateway, which injects claims from the validated token'')]))"

definition agent_tenant :: "identity_env \<Rightarrow> string option \<Rightarrow> int \<times> json + string" where
  "agent_tenant env x_userinfo = map_sum id ci_tenant_id (agent_caller env x_userinfo)"

lemma agent_caller_current: "agent_caller env x_userinfo = current_identity env x_userinfo"
  by (simp add: agent_caller_def agent_userinfo_identity_def current_identity_def)

section \<open>Routes\<close>

datatype agent_request =
    List_agents
  | Get_agent uuid
  | Create_agent agent_create
  | Delete_agent uuid
  | Invoke_agent uuid jobj

record 's edge =
  ed_identity :: identity_env
  ed_settings :: orchestrator_settings
  ed_client :: "'s registry_client"
  ed_python :: python

text \<open>A success is the status its route declares with the body; \<open>others\<close> is what other requests commit meanwhile.\<close>

definition with_tenant :: "identity_env \<Rightarrow> string option \<Rightarrow> 'a \<Rightarrow> (string \<Rightarrow> 'a \<times> (api_error + 'b)) \<Rightarrow> 'a \<times> (api_error + 'b)" where
  "with_tenant env x_userinfo db handler =
     (case agent_tenant env x_userinfo of
        Inl (http_status, detail) \<Rightarrow> (db, Inl (HTTPException http_status detail))
      | Inr tenant_id \<Rightarrow> handler tenant_id)"

definition route_agents ::
  "'s edge \<Rightarrow> agent_db \<Rightarrow> (agent_db \<Rightarrow> agent_db) \<Rightarrow> world \<Rightarrow> string option \<Rightarrow> agent_request \<Rightarrow> 's \<Rightarrow>
   registry_call list \<times> 's \<times> agent_db \<times> (api_error + (int \<times> json))" where
  "route_agents ed db others w x_userinfo req st =
     (case req of
        Invoke_agent agent_id payload \<Rightarrow>
          (case agent_caller (ed_identity ed) x_userinfo of
             Inl (http_status, detail) \<Rightarrow> ([], st, db, Inl (HTTPException http_status detail))
           | Inr caller \<Rightarrow>
               (case invoke_agent (ed_client ed) (ed_settings ed) db others w caller agent_id payload st of
                  (calls, st', db', reply) \<Rightarrow> (calls, st', db', map_sum id (\<lambda>result. (200, JObj result)) reply)))
      | _ \<Rightarrow>
          (case with_tenant (ed_identity ed) x_userinfo db (\<lambda>tenant_id. case req of
               List_agents \<Rightarrow> (db, Inr (200, JList (map JObj (list_agents (ed_python ed) db tenant_id))))
             | Get_agent agent_id \<Rightarrow> (db, map_sum id (\<lambda>view. (200, JObj view)) (get_agent (ed_python ed) db agent_id tenant_id))
             | Create_agent p \<Rightarrow>
                 map_prod id (map_sum id (\<lambda>view. (201, JObj view))) (create_agent (ed_python ed) db w tenant_id p)
             | Delete_agent agent_id \<Rightarrow>
                 map_prod id (map_sum id (\<lambda>_. (204, JNull))) (delete_agent db (others db) w agent_id tenant_id)
             | Invoke_agent _ _ \<Rightarrow> (db, Inl (Unhandled []))) of
             (db', reply) \<Rightarrow> ([], st, db', reply)))"

section \<open>The middleware\<close>

record response =
  rs_status :: int
  rs_body :: json
  rs_headers :: "(string \<times> string) list"

text \<open>
  What reaches \<open>request_context\<close>: FastAPI's own exceptions are answers there already, any other passes the middleware
  by, and its 500 is made outside of it.
\<close>

definition handled :: "api_error + (int \<times> json) \<Rightarrow> raised + (int \<times> response_headers)" where
  "handled reply =
     (case reply of
        Inr (http_status, _) \<Rightarrow> Inr (http_status, [])
      | Inl (Unhandled ty) \<Rightarrow> Inl (Raised ty [])
      | Inl e \<Rightarrow> Inr (fst (error_reply e), []))"

definition answer :: "response_headers \<Rightarrow> uuid \<Rightarrow> api_error + (int \<times> json) \<Rightarrow> response" where
  "answer request_headers fresh reply =
     (case request_context request_headers fresh (handled reply) of
        Inl _ \<Rightarrow> \<lparr>rs_status = 500, rs_body = JStr ''Internal Server Error'', rs_headers = []\<rparr>
      | Inr (http_status, hs) \<Rightarrow>
          \<lparr>rs_status = http_status, rs_body = (case reply of Inr (_, body) \<Rightarrow> body | Inl e \<Rightarrow> snd (error_reply e)),
           rs_headers = hs\<rparr>)"

definition serve ::
  "'s edge \<Rightarrow> agent_db \<Rightarrow> (agent_db \<Rightarrow> agent_db) \<Rightarrow> world \<Rightarrow> response_headers \<Rightarrow> uuid \<Rightarrow> string option \<Rightarrow> agent_request \<Rightarrow> 's \<Rightarrow>
   registry_call list \<times> 's \<times> agent_db \<times> response" where
  "serve ed db others w headers fresh x_userinfo req st =
     (case route_agents ed db others w x_userinfo req st of
        (calls, st', db', reply) \<Rightarrow> (calls, st', db', answer headers fresh reply))"

section \<open>What the edge promises\<close>

lemma answer_header:
  "rs_status (answer headers fresh reply) = 500 \<or>
     map_of (rs_headers (answer headers fresh reply)) ''x-request-id'' =
       Some (case map_of headers ''x-request-id'' of None \<Rightarrow> fresh | Some v \<Rightarrow> v)"
  by (simp add: answer_def request_context_def handled_def Let_def split: sum.split api_error.split prod.split)

lemma header_names:
  "str_lower ''X-Tenant-ID'' = ''x-tenant-id''" "str_lower ''X-Internal-Service-Token'' = ''x-internal-service-token''"
  by code_simp+

lemma fan_out_calls:
  "fan_out client cfg i t payload ids st = (calls, st', r) \<Longrightarrow>
     calls = map (connector_call cfg i t payload) (take (length calls) ids)"
proof (induction ids arbitrary: st st' calls r)
  case (Cons cid ids)
  obtain st1 a where a: "client st (connector_call cfg i t payload cid) = (st1, a)"
    by (cases "client st (connector_call cfg i t payload cid)")
  obtain calls1 st2 r1 where rest: "fan_out client cfg i t payload ids st1 = (calls1, st2, r1)"
    by (cases "fan_out client cfg i t payload ids st1")
  show ?case
    using Cons.prems a rest Cons.IH [OF rest] by (auto simp: Let_def split: sum.splits)
qed simp

lemma invoke_agent_calls:
  assumes "invoke_agent client cfg db others w caller i payload st = (calls, st', db', out)" and "call \<in> set calls"
  shows "\<exists>agent cid. tenant_agent db i (ci_tenant_id caller) = Inr agent \<and> cid \<in> set (ag_connector_ids agent) \<and>
    call = connector_call cfg i (ci_tenant_id caller) payload cid"
proof -
  obtain agent where agent: "tenant_agent db i (ci_tenant_id caller) = Inr agent"
    using assms by (cases "tenant_agent db i (ci_tenant_id caller)") (auto simp: invoke_agent_def)
  obtain calls1 st1 r where fan: "fan_out client cfg i (ci_tenant_id caller) payload (ag_connector_ids agent) st = (calls1, st1, r)"
    by (cases "fan_out client cfg i (ci_tenant_id caller) payload (ag_connector_ids agent) st")
  have "calls = [] \<or> calls = calls1"
    using assms(1) agent fan by (auto simp: invoke_agent_def Let_def split: if_splits sum.splits)
  then have "call \<in> set (map (connector_call cfg i (ci_tenant_id caller) payload) (take (length calls1) (ag_connector_ids agent)))"
    using assms(2) fan_out_calls [OF fan] by auto
  then show ?thesis
    using agent by (auto dest: in_set_takeD)
qed

lemma serve_calls:
  assumes "serve ed db others w headers fresh x_userinfo req st = (calls, st', db', resp)" and "call \<in> set calls"
  obtains caller agent_id payload agent cid where "req = Invoke_agent agent_id payload"
    and "agent_caller (ed_identity ed) x_userinfo = Inr caller"
    and "tenant_agent db agent_id (ci_tenant_id caller) = Inr agent" and "cid \<in> set (ag_connector_ids agent)"
    and "call = connector_call (ed_settings ed) agent_id (ci_tenant_id caller) payload cid"
proof -
  have routed: "fst (route_agents ed db others w x_userinfo req st) = calls"
    using assms(1) by (auto simp: serve_def split: prod.splits)
  then obtain agent_id payload caller where req: "req = Invoke_agent agent_id payload"
    and caller: "agent_caller (ed_identity ed) x_userinfo = Inr caller"
    using assms(2) by (cases req) (auto simp: route_agents_def split: prod.splits sum.splits)
  obtain calls1 st1 db1 out where inv:
    "invoke_agent (ed_client ed) (ed_settings ed) db others w caller agent_id payload st = (calls1, st1, db1, out)"
    by (cases "invoke_agent (ed_client ed) (ed_settings ed) db others w caller agent_id payload st")
  then have "calls1 = calls"
    using routed req caller by (simp add: route_agents_def)
  then show thesis
    using invoke_agent_calls [OF inv, of call] assms(2) that [OF req caller] by blast
qed

text \<open>
  No identity, no effect.  A request without a caller identity is answered 401 on every route of the orchestrator, makes no
  call to the registry and leaves the database as it is.
\<close>

theorem unidentified_request_has_no_effect:
  assumes "ie_allow_anonymous (ed_identity ed) = False" and "identity_from_userinfo (ed_identity ed) x_userinfo = None"
  shows "\<exists>resp. serve ed db others w headers fresh x_userinfo req st = ([], st, db, resp) \<and> rs_status resp = 401"
proof -
  have "\<exists>detail. agent_caller (ed_identity ed) x_userinfo = Inl (401, detail)"
    unfolding agent_caller_current using assms by (simp add: current_identity_def)
  then show ?thesis
    by (cases req) (auto simp: serve_def route_agents_def with_tenant_def agent_tenant_def answer_def request_context_def handled_def Let_def)
qed

text \<open>
  C36. Every call speaks for the verified caller.  Outside development, whatever request is served, each call it makes to the
  registry goes to a connector of an agent of the tenant named by the claims of the request, and carries that
  tenant and, where one is configured, the token of the mesh.
\<close>

theorem calls_speak_for_the_caller:
  assumes "serve ed db others w headers fresh x_userinfo req st = (calls, st', db', resp)"
    and "call \<in> set calls" and "ie_allow_anonymous (ed_identity ed) = False"
  shows "\<exists>ident agent cid. identity_from_userinfo (ed_identity ed) x_userinfo = Some ident \<and>
    agent \<in> set (gd_agents db) \<and> ag_tenant_id agent = ci_tenant_id ident \<and> cid \<in> set (ag_connector_ids agent) \<and>
    rc_url call = os_registry_url (ed_settings ed) @ ''/internal/connectors/'' @ cid @ ''/invoke'' \<and>
    rc_headers call = internal_call_headers (ed_settings ed) (ci_tenant_id ident) \<and>
    jget ''agent_id'' (rc_json call) = Some (JStr (ag_id agent))"
proof -
  from assms(1,2) obtain caller agent_id payload agent cid where
    caller: "agent_caller (ed_identity ed) x_userinfo = Inr caller"
    and agent: "tenant_agent db agent_id (ci_tenant_id caller) = Inr agent" and cid: "cid \<in> set (ag_connector_ids agent)"
    and call: "call = connector_call (ed_settings ed) agent_id (ci_tenant_id caller) payload cid"
    by (rule serve_calls)
  have "identity_from_userinfo (ed_identity ed) x_userinfo = Some caller"
    using caller assms(3) by (auto simp: agent_caller_current current_identity_def split: option.splits)
  moreover have "agent \<in> set (gd_agents db)" "ag_id agent = agent_id" "ag_tenant_id agent = ci_tenant_id caller"
    using agent find_row_Some [of ag_id agent_id "gd_agents db" agent] by (auto simp: tenant_agent_Inr)
  ultimately show ?thesis
    using cid call by (intro exI [of _ caller] exI [of _ agent] exI [of _ cid]) (simp add: connector_call_def jget_def)
qed

text \<open>
  The request id names the answer only.  Every answer but a crash carries the caller's request id or a fresh one; but the
  calls to the registry, the state of the client and the database are the same whatever the id is: it is neither forwarded
  nor recorded.
\<close>

theorem request_id_is_not_propagated:
  "case serve ed db others w headers fresh x_userinfo req st of (calls, st', db', resp) \<Rightarrow>
     (rs_status resp = 500 \<or>
       map_of (rs_headers resp) ''x-request-id'' = Some (case map_of headers ''x-request-id'' of None \<Rightarrow> fresh | Some v \<Rightarrow> v)) \<and>
     (case serve ed db others w headers' fresh' x_userinfo req st of (calls', st'', db'', _) \<Rightarrow>
        calls' = calls \<and> st'' = st' \<and> db'' = db') \<and>
     list_all (\<lambda>call. ''x-request-id'' \<notin> set (map (str_lower \<circ> fst) (rc_headers call))) calls"
proof -
  obtain calls st' db' reply where r: "route_agents ed db others w x_userinfo req st = (calls, st', db', reply)"
    by (cases "route_agents ed db others w x_userinfo req st")
  let ?resp = "answer headers fresh reply"
  have served: "serve ed db others w headers fresh x_userinfo req st = (calls, st', db', ?resp)"
    by (simp add: serve_def r)
  note answer_header [of headers fresh reply]
  moreover have "''x-request-id'' \<notin> set (map (str_lower \<circ> fst) (rc_headers call))" if "call \<in> set calls" for call
    by (rule serve_calls [OF served that]) (auto simp: connector_call_def internal_call_headers_def header_names split: if_splits)
  ultimately show ?thesis
    by (simp add: serve_def r list_all_iff del: set_map)
qed

section \<open>Examples\<close>

definition claims_env :: identity_env where
  "claims_env =
     \<lparr>ie_loads = (\<lambda>_. Some (JObj [(''sub'', JStr ''u1''), (''tenant'', JStr ''t1'')])),
      ie_str = (\<lambda>v. case v of JStr s \<Rightarrow> s | _ \<Rightarrow> []), ie_default_tenant = ''default'',
      ie_tenant_claim = ''tenant'', ie_allow_anonymous = False\<rparr>"

definition accepting_edge :: "unit edge" where
  "accepting_edge =
     \<lparr>ed_identity = claims_env, ed_settings = example_cfg,
      ed_client = (\<lambda>st call. (st, Inr \<lparr>rr_status_code = 200, rr_json = Some JNull\<rparr>)), ed_python = example_python\<rparr>"

definition one_agent :: agent_db where
  "one_agent = \<lparr>gd_agents = [example_agent], gd_outbox = []\<rparr>"

lemma claims_identity:
  "identity_from_userinfo claims_env (Some ''e30'') = Some \<lparr>ci_actor_id = ''u1'', ci_tenant_id = ''t1'', ci_verified = True\<rparr>"
  by (simp add: identity_from_userinfo_def claims_env_def decode_userinfo_def first_claim_def jget_def
      Let_def split: option.split)

lemma one_agent_row: "tenant_agent one_agent ''r'' ''t1'' = Inr example_agent"
  by (simp add: tenant_agent_Inr one_agent_def find_row_def)

lemma example_fan_out:
  "fan_out (ed_client accepting_edge) example_cfg ''r'' ''t1'' [] [''c1''] () =
     ([connector_call example_cfg ''r'' ''t1'' [] ''c1''], (),
      Inr [[(''connector_id'', JStr ''c1''), (''status'', JStr ''completed''), (''output'', JNull)]])"
  by (simp add: accepting_edge_def connector_outcome_def)

lemma example_serve:
  "fst (serve accepting_edge one_agent id example_world [] ''f1'' (Some ''e30'') (Invoke_agent ''r'' []) ()) =
     [connector_call example_cfg ''r'' ''t1'' [] ''c1'']"
proof -
  have caller: "agent_caller (ed_identity accepting_edge) (Some ''e30'') = Inr \<lparr>ci_actor_id = ''u1'', ci_tenant_id = ''t1'', ci_verified = True\<rparr>"
    by (simp add: agent_caller_def agent_userinfo_identity_def accepting_edge_def claims_identity)
  have settings: "ed_settings accepting_edge = example_cfg"
    by (simp add: accepting_edge_def)
  show ?thesis
    by (simp add: serve_def route_agents_def caller invoke_agent_def one_agent_row settings example_fan_out Let_def
        del: fan_out.simps)
qed

theorem calls_speak_for_the_caller_witness:
  "case serve accepting_edge one_agent id example_world [] ''f1'' (Some ''e30'') (Invoke_agent ''r'' []) () of
     (calls, _) \<Rightarrow> map rc_headers calls = [[(''X-Tenant-ID'', ''t1''), (''X-Internal-Service-Token'', ''token'')]]"
proof -
  obtain calls st' db' resp where served:
    "serve accepting_edge one_agent id example_world [] ''f1'' (Some ''e30'') (Invoke_agent ''r'' []) () = (calls, st', db', resp)"
    by (cases "serve accepting_edge one_agent id example_world [] ''f1'' (Some ''e30'') (Invoke_agent ''r'' []) ()")
  then have calls: "calls = [connector_call example_cfg ''r'' ''t1'' [] ''c1'']"
    using example_serve by simp
  have "ed_identity accepting_edge = claims_env" "ed_settings accepting_edge = example_cfg" "\<not> ie_allow_anonymous claims_env"
    by (simp_all add: accepting_edge_def claims_env_def)
  then have "rc_headers (hd calls) = internal_call_headers example_cfg ''t1''"
    using calls_speak_for_the_caller [OF served, of "hd calls"] calls by (auto simp: claims_identity)
  then show ?thesis
    by (simp add: served calls internal_call_headers_def)
qed

theorem unidentified_request_has_no_effect_witness:
  "case serve accepting_edge one_agent id example_world [] ''f1'' None (Delete_agent ''r'') () of
     (calls, _, db, resp) \<Rightarrow> calls = [] \<and> db = one_agent \<and> rs_status resp = 401"
proof -
  have "\<not> ie_allow_anonymous (ed_identity accepting_edge)" "identity_from_userinfo (ed_identity accepting_edge) None = None"
    by (simp_all add: accepting_edge_def claims_env_def identity_from_userinfo_def)
  with unidentified_request_has_no_effect [of accepting_edge None one_agent id example_world "[]" "''f1''" "Delete_agent ''r''" "()"]
  show ?thesis by auto
qed

end
