(* ===== verification/Spec2Isabelle.thy ===== *)
theory Spec2Isabelle
  imports Prelude Lifecycle Timing Envelope Consumer Publisher Delivery EventLog Connectors
    Redaction Secrets NetText Ssrf Policy Outbound AdapterBase InternalAdapter HttpAdapter
    WebhookAdapter Adapters Invocations Identity RegistryApi RegistryContract Orchestrator
    AgentContract RegistrySystem TenantIsolation Schema Migrations MigrationSafety Rollback
    Metrics ServiceLife ServiceContract BrokerOutage TestProvider Regex DormantObligations
    MutationRunner AlertMetrics ImagePins MigrationRun OrchestratorApi
begin

text \<open>
  Verification of an agentic gateway: the connector registry and the orchestrator, two FastAPI
  services under \<open>services/\<close>, and \<open>packages/favl-outbox\<close>, the transactional outbox both use.

  The program.  A tenant registers connectors (HTTP, webhook, internal) with the registry; a connector
  moves through a ten-state lifecycle, and only an enabled one may be invoked.  An invocation is
  accepted under an idempotency key, executed by the adapter of the connector's kind through a guarded
  HTTP request, and settled.  Every change commits its row, its audit entry and its event together; a
  publisher drains the events to JetStream, and consumers order them by the version of their
  aggregate.  The orchestrator keeps agents and fans an agent's invocation out to the registry over
  the mesh.

  Theories, in the order the code is layered.

  \<^item> \<open>Prelude\<close>: strings, JSON values, tables as lists of rows.
  \<^item> \<open>Timing\<close> (\<open>timing.py\<close>, \<open>config.py\<close>), \<open>Envelope\<close> (\<open>models.py\<close>, \<open>repository.py\<close>, \<open>envelope.py\<close>),
    \<open>Publisher\<close> (\<open>publisher.py\<close>, \<open>jetstream.py\<close>), \<open>Consumer\<close> (\<open>consumer.py\<close>): the outbox package.
    \<open>Delivery\<close> is the outbox as a system of steps: messages at least once, events never altered, a
    healthy broker drains the backlog, and the span of retries stays within the window the start-up
    gate checks.
  \<^item> \<open>EventLog\<close>: the locale \<open>versioned_aggregate\<close>, the contract between a table of versioned rows and
    its outbox; it proves once that the events of an aggregate are numbered 1, 2, 3 and that a
    consumer applies all of them.
  \<^item> \<open>Lifecycle\<close> (\<open>lifecycle.py\<close>), \<open>Connectors\<close> (\<open>models.py\<close>, \<open>transitions.py\<close>): the state machine, the
    registry's tables and the one function that takes a lifecycle edge.
  \<^item> \<open>NetText\<close>, \<open>Ssrf\<close>, \<open>Policy\<close>, \<open>Outbound\<close>, \<open>Secrets\<close>, \<open>Redaction\<close> (\<open>security/\<close>): which addresses
    and hosts may be reached, pinned requests on every redirect hop, secret ownership, and what of a
    configuration is published.  \<open>NetText\<close> is the part of Python's \<open>ipaddress\<close> and \<open>urllib.parse\<close> the
    guard calls.
  \<^item> \<open>AdapterBase\<close>, \<open>InternalAdapter\<close>, \<open>HttpAdapter\<close>, \<open>WebhookAdapter\<close> (\<open>adapters/\<close>), \<open>Adapters\<close>: the
    contract (locale \<open>connector_adapter\<close>, interpreted for the three adapters), each adapter's methods, and the
    registry of kinds.
  \<^item> \<open>Invocations\<close> (\<open>invocations.py\<close>): acceptance with its race, execution with its deadline, settling.
  \<^item> \<open>Identity\<close> (\<open>identity.py\<close>), \<open>RegistryApi\<close> (\<open>main.py\<close>, \<open>schemas.py\<close>, \<open>outbox.py\<close>): every route of the
    registry.  \<open>RegistryContract\<close> states what the routes promise: tenancy, authorisation, replay,
    creation, validation, deletion, readiness.
  \<^item> \<open>RegistrySystem\<close>: the registry as a system of atomic commits, adapter calls, publisher batches and
    crashes.  It interprets \<open>versioned_aggregate\<close> for connectors and for invocations, and proves that
    a key calls its adapter at most once, that audit rows are consistent, that retirement is final,
    that the rows of every reachable state are well formed, and that the invocation handler refines
    the steps.
  \<^item> \<open>TenantIsolation\<close>: a tenant's view of the registry's database.  What a route answers is a function
    of the caller's view, and what a route writes leaves every other view as it is.
  \<^item> \<open>Orchestrator\<close> (\<open>orchestrator/app/main.py\<close>, \<open>models.py\<close>, \<open>schemas.py\<close>) and \<open>AgentContract\<close>: agents
    and their fan-out; the registry is put behind the orchestrator's client, and tenancy is followed
    through the hop.  \<open>OrchestratorApi\<close> (\<open>orchestrator/app/identity.py\<close>) is its edge: no identity, no effect; every
    call to the registry speaks for the verified caller; the request id names the answer only.
  \<^item> \<open>Schema\<close>: relational tables with typed columns, keys, checks and triggers, and the DDL and SQL the
    migrations run.  \<open>Migrations\<close> (\<open>migrations/versions/\<close>, \<open>models.py\<close>): every revision of both services
    and the tables their models declare.  \<open>MigrationSafety\<close> proves that upgrades never fail and keep every
    constraint; \<open>Rollback\<close> says what each downgrade does to the data, that the audit table is append-only,
    and that models and migrations agree.  \<open>MigrationRun\<close> (\<open>migrations/env.py\<close>) is a command as one transaction: after
    \<open>upgrade head\<close> the service reports its migrations as current, and a refused rollback leaves nothing behind.
  \<^item> \<open>Metrics\<close> (\<open>metrics.py\<close>), \<open>ServiceLife\<close> (\<open>app/outbox.py\<close>, \<open>db.py\<close>, the lifespan of \<open>main.py\<close>, the task of
    \<open>publisher.py\<close>): a replica as a process, from the gate at import to shutdown.  \<open>ServiceContract\<close> proves
    that a started service is one the gate admits, that its steps refine the outbox, that its loop survives
    every failure, and that its metrics balance.  \<open>BrokerOutage\<close> shows what a broker that is down at start-up
    does, that the last error outlives the recovery, and that the gate leaves the batch out of account.
  \<^item> \<open>TestProvider\<close> (\<open>deploy/testprovider/provider.py\<close>): the provider of the development profile; the webhook adapter's
    deliveries are accepted by it, and its redirect to the metadata service is refused by the guard.
  \<^item> \<open>Regex\<close> (the patterns of \<open>re\<close> as languages, decided by derivatives), \<open>DormantObligations\<close>, \<open>MutationRunner\<close>,
    \<open>AlertMetrics\<close>, \<open>ImagePins\<close> (\<open>scripts/\<close>): the checks the build runs.  For each, what exit code 0 says, and an
    input that passes although it should not.

  State and effects.  A service's database is a record of tables.  A handler returns the database its
  commits leave and its reply or exception; an exception before a commit changes nothing.  Row locks
  make read, check and write one step.  Where the code holds no lock, the operation takes both
  databases: \<open>accept\<close> the one its query reads and the one its flush meets, \<open>execute\<close> and
  \<open>invoke_agent\<close> what others commit during a call, \<open>delete_agent\<close> the one it read.  What a database
  column refuses (a value too long, a NUL) is modelled where the value comes from outside
  unchecked: rows and results of invocations, new connectors, agents and their results.

  Parameters.  Code outside the repository is an argument: the HTTP client, the DNS resolver, the URL
  join, the JSON parser and printer, HMAC, \<open>uuid5\<close>, the environment, clocks, jitter and UUID draws.
  Fresh UUIDs are a premise of the steps of the systems.

  Bounds.  No definition uses fuel: the redirect loop terminates by the redirects left, the others by
  their data.  Timestamps and durations are exact rationals, so rounding of floats is not modelled.

  Not modelled: log lines; engine and session factories; the parsing of command lines; the console and the
  configuration of gateway, cluster and monitoring.  Routing and the coercion of a request to its schema
  belong to FastAPI and pydantic; the constraints and validators the schemas declare are modelled.
\<close>

end
